(* ===== verification/Prelude.thy ===== *)
theory Prelude
  imports Complex_Main "HOL-Library.Word" "HOL-Library.AList"
begin

text \<open>
  Shared material of the development: the collections of simplification rules the
  components fill, byte strings, unsigned machine integers as the network code handles
  them, and association lists in the role of \<^verbatim>\<open>std::unordered_map\<close>.

  A \<^verbatim>\<open>std::string\<close> and a \<^verbatim>\<open>std::vector<char>\<close> are both sequences of bytes, so both are
  \<^typ>\<open>string\<close> here.  Texts of the source that are not ASCII are given by their UTF-8
  bytes (constant \<open>utf8\<close>).
\<close>

named_theorems wire_simps \<open>evaluation rules of the packet codec\<close>
named_theorems sess_simps \<open>rules of the session table operations\<close>
named_theorems io_simps \<open>rules of the effect combinators of request handlers\<close>
named_theorems pres \<open>preservation rules for the effect combinators and operations\<close>

type_synonym uint16 = "16 word"
type_synonym uint32 = "32 word"

section \<open>Byte strings\<close>

definition utf8 :: "nat list \<Rightarrow> string" where
  "utf8 bs = map char_of bs"

lemma length_utf8 [simp]: "length (utf8 bs) = length bs"
  by (simp add: utf8_def)

lemma of_char_less_256 [simp]: "(of_char c :: nat) < 256"
  by (cases c) (simp add: of_char_def)

section \<open>Bytes of machine integers\<close>

definition byte_of :: "nat \<Rightarrow> 'a::len word \<Rightarrow> char" where
  "byte_of i w = char_of (unat w div 256 ^ i)"

lemma char_nat_eqI: "(of_char c :: nat) = of_char d \<Longrightarrow> c = d"
  by (metis char_of_char)

lemma of_char_byte_of: "(of_char (byte_of i w) :: nat) = unat w div 256 ^ i mod 256"
  by (simp add: byte_of_def of_char_of)

section \<open>Decimal text: \<^verbatim>\<open>std::to_string\<close> and \<^verbatim>\<open>std::stoi\<close>\<close>

definition digit_char :: "nat \<Rightarrow> char" where
  "digit_char d = char_of (48 + d)"

fun show_nat :: "nat \<Rightarrow> string" where
  "show_nat n = (if n < 10 then [digit_char n] else show_nat (n div 10) @ [digit_char (n mod 10)])"

declare show_nat.simps [simp del]

definition to_string :: "int \<Rightarrow> string" where
  "to_string i = (if i < 0 then CHR ''-'' # show_nat (nat (- i)) else show_nat (nat i))"

definition is_digit :: "char \<Rightarrow> bool" where
  "is_digit c \<longleftrightarrow> 48 \<le> (of_char c :: nat) \<and> (of_char c :: nat) \<le> 57"

definition digit_val :: "char \<Rightarrow> nat" where
  "digit_val c = of_char c - 48"

definition digits_val :: "string \<Rightarrow> nat" where
  "digits_val ds = foldl (\<lambda>n c. 10 * n + digit_val c) 0 ds"

definition is_space :: "char \<Rightarrow> bool" where
  "is_space c \<longleftrightarrow> (of_char c :: nat) \<in> {9, 10, 11, 12, 13, 32}"

text \<open>
  \<^verbatim>\<open>std::stoi\<close>: leading white space, an optional sign, then digits; anything may follow.  No digit
  is \<^verbatim>\<open>std::invalid_argument\<close>, a value outside \<^verbatim>\<open>int\<close> is \<^verbatim>\<open>std::out_of_range\<close>; both are \<open>None\<close>.
\<close>

definition stoi :: "string \<Rightarrow> int option" where
  "stoi str =
     (let t = dropWhile is_space str;
          neg = (t \<noteq> [] \<and> hd t = CHR ''-'');
          u = (if t \<noteq> [] \<and> (hd t = CHR ''-'' \<or> hd t = CHR ''+'') then tl t else t);
          ds = takeWhile is_digit u;
          v = (if neg then - int (digits_val ds) else int (digits_val ds))
      in if ds = [] then None
         else if v < - (2 ^ 31) \<or> 2 ^ 31 \<le> v then None
         else Some v)"

lemma of_char_digit_char: "d < 10 \<Longrightarrow> (of_char (digit_char d) :: nat) = 48 + d"
  by (simp add: digit_char_def of_char_of)

lemma is_digit_digit_char [simp]: "d < 10 \<Longrightarrow> is_digit (digit_char d)"
  by (simp add: is_digit_def of_char_digit_char)

lemma digit_val_digit_char [simp]: "d < 10 \<Longrightarrow> digit_val (digit_char d) = d"
  by (simp add: digit_val_def of_char_digit_char)

lemma show_nat_digits: "list_all is_digit (show_nat n) \<and> show_nat n \<noteq> [] \<and> digits_val (show_nat n) = n"
proof (induction n rule: show_nat.induct)
  case (1 n)
  show ?case
  proof (cases "n < 10")
    case True
    then show ?thesis by (simp add: show_nat.simps [of n] digits_val_def)
  next
    case False
    with 1 show ?thesis by (simp add: show_nat.simps [of n] digits_val_def)
  qed
qed

lemma digit_not_space: "is_digit c \<Longrightarrow> \<not> is_space c \<and> c \<noteq> CHR ''-'' \<and> c \<noteq> CHR ''+''"
  by (auto simp: is_digit_def is_space_def)

lemma show_nat_Cons:
  obtains c cs where "show_nat n = c # cs" "is_digit c" "takeWhile is_digit cs = cs"
    "digits_val (c # cs) = n"
proof -
  have all: "list_all is_digit (show_nat n)" and ne: "show_nat n \<noteq> []"
    and val: "digits_val (show_nat n) = n"
    using show_nat_digits [of n] by auto
  then obtain c cs where c: "show_nat n = c # cs" "is_digit c" "list_all is_digit cs"
    by (cases "show_nat n") auto
  moreover have "takeWhile is_digit cs = cs" using c(3) by (simp add: list_all_iff)
  ultimately show thesis using that val by simp
qed

lemma stoi_to_string:
  assumes "- (2 ^ 31) \<le> i" "i < 2 ^ 31"
  shows "stoi (to_string i) = Some i"
proof (cases "i < 0")
  case True
  obtain c cs where c: "show_nat (nat (- i)) = c # cs" "is_digit c" "takeWhile is_digit cs = cs"
    "digits_val (c # cs) = nat (- i)" by (rule show_nat_Cons)
  have "\<not> is_space (CHR ''-'')" by (simp add: is_space_def)
  then show ?thesis using True c assms
    by (simp add: stoi_def to_string_def Let_def del: takeWhile_eq_all_conv)
next
  case False
  obtain c cs where c: "show_nat (nat i) = c # cs" "is_digit c" "takeWhile is_digit cs = cs"
    "digits_val (c # cs) = nat i" by (rule show_nat_Cons)
  then show ?thesis using False assms digit_not_space [OF c(2)]
    by (simp add: stoi_def to_string_def Let_def del: takeWhile_eq_all_conv)
qed

section \<open>Lists\<close>

lemma take_append_exact: "length xs = n \<Longrightarrow> take n (xs @ ys) = xs"
  by simp

lemma drop_append_exact: "length xs = n \<Longrightarrow> drop n (xs @ ys) = ys"
  by simp

lemma length_ge_8E:
  assumes "8 \<le> length xs"
  obtains a b c d e f g h ys where "xs = a # b # c # d # e # f # g # h # ys"
  using assms by (auto simp: numeral_eq_Suc Suc_le_length_iff)

section \<open>Association lists\<close>

lemma map_of_update [simp]: "map_of (AList.update k v al) = (map_of al)(k \<mapsto> v)"
  by (simp add: update_conv')

lemma map_of_delete [simp]: "map_of (AList.delete k al) = (map_of al)(k := None)"
  by (simp add: delete_conv')

lemma distinct_keys_update: "distinct (map fst al) \<Longrightarrow> distinct (map fst (AList.update k v al))"
  by (rule distinct_update)

lemma distinct_keys_delete: "distinct (map fst al) \<Longrightarrow> distinct (map fst (AList.delete k al))"
  by (rule distinct_delete)

end
