(* ===== verification/Protocol.thy ===== *)
theory Protocol
  imports Prelude
begin

text \<open>
  The wire protocol of \<^verbatim>\<open>include/Global_protocol.h\<close>: the command numbers (an
  \<^verbatim>\<open>enum class CmdID : uint16_t\<close>, any 16-bit value can be cast to it, so it is a 16-bit
  word with named constants), the packed 8-byte \<^verbatim>\<open>PacketHeader\<close>, and the byte order
  conversions \<^verbatim>\<open>htons\<close>, \<^verbatim>\<open>ntohs\<close>, \<^verbatim>\<open>htonl\<close>, \<^verbatim>\<open>ntohl\<close> of a little-endian host (the one the
  source's comments name).  The lemmas show that the conversions are involutions, that a
  header survives the copy to and from memory, and that the network form is big-endian.
\<close>

section \<open>Command numbers\<close>

type_synonym CmdID = uint16

abbreviation REQ_HEARTBEAT :: CmdID where "REQ_HEARTBEAT \<equiv> 1000"
abbreviation RES_HEARTBEAT :: CmdID where "RES_HEARTBEAT \<equiv> 1001"
abbreviation REQ_LOGIN :: CmdID where "REQ_LOGIN \<equiv> 1010"
abbreviation RES_LOGIN :: CmdID where "RES_LOGIN \<equiv> 1011"
abbreviation REQ_SIGNUP :: CmdID where "REQ_SIGNUP \<equiv> 1020"
abbreviation RES_SIGNUP :: CmdID where "RES_SIGNUP \<equiv> 1021"
abbreviation REQ_LOGOUT :: CmdID where "REQ_LOGOUT \<equiv> 1030"
abbreviation RES_LOGOUT :: CmdID where "RES_LOGOUT \<equiv> 1031"
abbreviation REQ_AUTH_CHECK :: CmdID where "REQ_AUTH_CHECK \<equiv> 1040"
abbreviation RES_AUTH_CHECK :: CmdID where "RES_AUTH_CHECK \<equiv> 1041"
abbreviation REQ_PHONE_CHECK :: CmdID where "REQ_PHONE_CHECK \<equiv> 1042"
abbreviation RES_PHONE_CHECK :: CmdID where "RES_PHONE_CHECK \<equiv> 1043"
abbreviation REQ_PROFILE_UPDATE :: CmdID where "REQ_PROFILE_UPDATE \<equiv> 1050"
abbreviation RES_PROFILE_UPDATE :: CmdID where "RES_PROFILE_UPDATE \<equiv> 1051"
abbreviation REQ_CATEGORY :: CmdID where "REQ_CATEGORY \<equiv> 1060"
abbreviation RES_CATEGORY :: CmdID where "RES_CATEGORY \<equiv> 1061"
abbreviation REQ_WITHDRAW :: CmdID where "REQ_WITHDRAW \<equiv> 1070"
abbreviation RES_WITHDRAW :: CmdID where "RES_WITHDRAW \<equiv> 1071"
abbreviation REQ_BUISNESS_NUM_CHECK :: CmdID where "REQ_BUISNESS_NUM_CHECK \<equiv> 2006"
abbreviation RES_BUISNESS_NUM_CHECK :: CmdID where "RES_BUISNESS_NUM_CHECK \<equiv> 2007"
abbreviation REQ_STORE_LIST :: CmdID where "REQ_STORE_LIST \<equiv> 2000"
abbreviation RES_STORE_LIST :: CmdID where "RES_STORE_LIST \<equiv> 2001"
abbreviation REQ_STORE_DETAIL :: CmdID where "REQ_STORE_DETAIL \<equiv> 2002"
abbreviation RES_STORE_DETAIL :: CmdID where "RES_STORE_DETAIL \<equiv> 2003"
abbreviation REQ_MENU_LIST :: CmdID where "REQ_MENU_LIST \<equiv> 2010"
abbreviation RES_MENU_LIST :: CmdID where "RES_MENU_LIST \<equiv> 2011"
abbreviation REQ_MENU_OPTION :: CmdID where "REQ_MENU_OPTION \<equiv> 2012"
abbreviation RES_MENU_OPTION :: CmdID where "RES_MENU_OPTION \<equiv> 2013"
abbreviation REQ_REVIEW_LIST :: CmdID where "REQ_REVIEW_LIST \<equiv> 2014"
abbreviation RES_REVIEW_LIST :: CmdID where "RES_REVIEW_LIST \<equiv> 2015"
abbreviation REQ_MENU_REVIEW_LIST :: CmdID where "REQ_MENU_REVIEW_LIST \<equiv> 2016"
abbreviation RES_MENU_REVIEW_LIST :: CmdID where "RES_MENU_REVIEW_LIST \<equiv> 2017"
abbreviation REQ_ORDER_CREATE :: CmdID where "REQ_ORDER_CREATE \<equiv> 2020"
abbreviation RES_ORDER_CREATE :: CmdID where "RES_ORDER_CREATE \<equiv> 2021"
abbreviation REQ_PAYMENT_PROCESS :: CmdID where "REQ_PAYMENT_PROCESS \<equiv> 2024"
abbreviation RES_PAYMENT_PROCESS :: CmdID where "RES_PAYMENT_PROCESS \<equiv> 2025"
abbreviation REQ_CHECKOUT_INFO :: CmdID where "REQ_CHECKOUT_INFO \<equiv> 2026"
abbreviation RES_CHECKOUT_INFO :: CmdID where "RES_CHECKOUT_INFO \<equiv> 2027"
abbreviation REQ_REVIEW_WRITE :: CmdID where "REQ_REVIEW_WRITE \<equiv> 2030"
abbreviation RES_REVIEW_WRITE :: CmdID where "RES_REVIEW_WRITE \<equiv> 2031"
abbreviation REQ_FAVORITE_ADD :: CmdID where "REQ_FAVORITE_ADD \<equiv> 2040"
abbreviation RES_FAVORITE_ADD :: CmdID where "RES_FAVORITE_ADD \<equiv> 2041"
abbreviation REQ_FAVORITE_DELETE :: CmdID where "REQ_FAVORITE_DELETE \<equiv> 2042"
abbreviation RES_FAVORITE_DELETE :: CmdID where "RES_FAVORITE_DELETE \<equiv> 2043"
abbreviation REQ_FAVORITE_LIST :: CmdID where "REQ_FAVORITE_LIST \<equiv> 2044"
abbreviation RES_FAVORITE_LIST :: CmdID where "RES_FAVORITE_LIST \<equiv> 2045"
abbreviation REQ_ORDER_LIST :: CmdID where "REQ_ORDER_LIST \<equiv> 2050"
abbreviation RES_ORDER_LIST :: CmdID where "RES_ORDER_LIST \<equiv> 2051"
abbreviation REQ_ORDER_CANCEL :: CmdID where "REQ_ORDER_CANCEL \<equiv> 2052"
abbreviation RES_ORDER_CANCEL :: CmdID where "RES_ORDER_CANCEL \<equiv> 2053"
abbreviation REQ_ADDRESS_SAVE :: CmdID where "REQ_ADDRESS_SAVE \<equiv> 2070"
abbreviation RES_ADDRESS_SAVE :: CmdID where "RES_ADDRESS_SAVE \<equiv> 2071"
abbreviation REQ_ADDRESS_LIST :: CmdID where "REQ_ADDRESS_LIST \<equiv> 2072"
abbreviation RES_ADDRESS_LIST :: CmdID where "RES_ADDRESS_LIST \<equiv> 2073"
abbreviation REQ_ADDRESS_DELETE :: CmdID where "REQ_ADDRESS_DELETE \<equiv> 2074"
abbreviation RES_ADDRESS_DELETE :: CmdID where "RES_ADDRESS_DELETE \<equiv> 2075"
abbreviation REQ_ADDRESS_UPDATE :: CmdID where "REQ_ADDRESS_UPDATE \<equiv> 2076"
abbreviation RES_ADDRESS_UPDATE :: CmdID where "RES_ADDRESS_UPDATE \<equiv> 2077"
abbreviation REQ_ADDRESS_DEFAULT :: CmdID where "REQ_ADDRESS_DEFAULT \<equiv> 2078"
abbreviation RES_ADDRESS_DEFAULT :: CmdID where "RES_ADDRESS_DEFAULT \<equiv> 2079"
abbreviation REQ_ORDER_HISTORY :: CmdID where "REQ_ORDER_HISTORY \<equiv> 2080"
abbreviation RES_ORDER_HISTORY :: CmdID where "RES_ORDER_HISTORY \<equiv> 2081"
abbreviation REQ_ORDER_HISTORY_SEARCH :: CmdID where "REQ_ORDER_HISTORY_SEARCH \<equiv> 2082"
abbreviation RES_ORDER_HISTORY_SEARCH :: CmdID where "RES_ORDER_HISTORY_SEARCH \<equiv> 2083"
abbreviation REQ_ORDER_REORDER :: CmdID where "REQ_ORDER_REORDER \<equiv> 2084"
abbreviation RES_ORDER_REORDER :: CmdID where "RES_ORDER_REORDER \<equiv> 2085"
abbreviation REQ_ORDER_DETAIL :: CmdID where "REQ_ORDER_DETAIL \<equiv> 2086"
abbreviation RES_ORDER_DETAIL :: CmdID where "RES_ORDER_DETAIL \<equiv> 2087"
abbreviation REQ_ORDER_DELETE :: CmdID where "REQ_ORDER_DELETE \<equiv> 2088"
abbreviation RES_ORDER_DELETE :: CmdID where "RES_ORDER_DELETE \<equiv> 2089"
abbreviation REQ_CHAT_CONNECT :: CmdID where "REQ_CHAT_CONNECT \<equiv> 2090"
abbreviation RES_CHAT_CONNECT :: CmdID where "RES_CHAT_CONNECT \<equiv> 2091"
abbreviation REQ_CHAT_SEND :: CmdID where "REQ_CHAT_SEND \<equiv> 2092"
abbreviation RES_CHAT_SEND :: CmdID where "RES_CHAT_SEND \<equiv> 2093"
abbreviation REQ_GRADE_UPDATE :: CmdID where "REQ_GRADE_UPDATE \<equiv> 2094"
abbreviation RES_GRADE_UPDATE :: CmdID where "RES_GRADE_UPDATE \<equiv> 2095"
abbreviation REQ_GRADE_NOW :: CmdID where "REQ_GRADE_NOW \<equiv> 2096"
abbreviation RES_GRADE_NOW :: CmdID where "RES_GRADE_NOW \<equiv> 2097"
abbreviation REQ_CHAT_CLOSE :: CmdID where "REQ_CHAT_CLOSE \<equiv> 2098"
abbreviation REQ_MY_INFO :: CmdID where "REQ_MY_INFO \<equiv> 2100"
abbreviation RES_MY_INFO :: CmdID where "RES_MY_INFO \<equiv> 2101"
abbreviation REQ_STORE_INFO_UPDATE :: CmdID where "REQ_STORE_INFO_UPDATE \<equiv> 2102"
abbreviation RES_STORE_INFO_UPDATE :: CmdID where "RES_STORE_INFO_UPDATE \<equiv> 2103"
abbreviation REQ_RESEARCH_WIDGET :: CmdID where "REQ_RESEARCH_WIDGET \<equiv> 2108"
abbreviation RES_RESEARCH_WIDGET :: CmdID where "RES_RESEARCH_WIDGET \<equiv> 2109"
abbreviation REQ_RESEARCH_DELETE :: CmdID where "REQ_RESEARCH_DELETE \<equiv> 2110"
abbreviation RES_RESEARCH_DELETE :: CmdID where "RES_RESEARCH_DELETE \<equiv> 2111"
abbreviation REQ_RESEARCH_ADD :: CmdID where "REQ_RESEARCH_ADD \<equiv> 2112"
abbreviation RES_RESEARCH_ADD :: CmdID where "RES_RESEARCH_ADD \<equiv> 2113"
abbreviation REQ_RESEARCH_DEL_ALL :: CmdID where "REQ_RESEARCH_DEL_ALL \<equiv> 2114"
abbreviation RES_RESEARCH_DEL_ALL :: CmdID where "RES_RESEARCH_DEL_ALL \<equiv> 2115"
abbreviation REQ_SEARCH_STORE :: CmdID where "REQ_SEARCH_STORE \<equiv> 2116"
abbreviation RES_SEARCH_STORE :: CmdID where "RES_SEARCH_STORE \<equiv> 2117"
abbreviation REQ_ORDER_ACCEPT :: CmdID where "REQ_ORDER_ACCEPT \<equiv> 3000"
abbreviation RES_ORDER_ACCEPT :: CmdID where "RES_ORDER_ACCEPT \<equiv> 3001"
abbreviation REQ_ORDER_REJECT :: CmdID where "REQ_ORDER_REJECT \<equiv> 3010"
abbreviation RES_ORDER_REJECT :: CmdID where "RES_ORDER_REJECT \<equiv> 3011"
abbreviation REQ_COOK_TIME_SET :: CmdID where "REQ_COOK_TIME_SET \<equiv> 3020"
abbreviation RES_COOK_TIME_SET :: CmdID where "RES_COOK_TIME_SET \<equiv> 3021"
abbreviation REQ_CHANGE_ORDER_STATE :: CmdID where "REQ_CHANGE_ORDER_STATE \<equiv> 3022"
abbreviation RES_CHANGE_ORDER_STATE :: CmdID where "RES_CHANGE_ORDER_STATE \<equiv> 3023"
abbreviation REQ_STORE_STATUS_SET :: CmdID where "REQ_STORE_STATUS_SET \<equiv> 3030"
abbreviation RES_STORE_STATUS_SET :: CmdID where "RES_STORE_STATUS_SET \<equiv> 3031"
abbreviation REQ_DELIVERY_POLICY_SET :: CmdID where "REQ_DELIVERY_POLICY_SET \<equiv> 3040"
abbreviation RES_DELIVERY_POLICY_SET :: CmdID where "RES_DELIVERY_POLICY_SET \<equiv> 3041"
abbreviation REQ_MENU_SOLD_OUT :: CmdID where "REQ_MENU_SOLD_OUT \<equiv> 3050"
abbreviation RES_MENU_SOLD_OUT :: CmdID where "RES_MENU_SOLD_OUT \<equiv> 3051"
abbreviation REQ_MENU_EDIT :: CmdID where "REQ_MENU_EDIT \<equiv> 3060"
abbreviation RES_MENU_EDIT :: CmdID where "RES_MENU_EDIT \<equiv> 3061"
abbreviation REQ_REVIEW_REPLY :: CmdID where "REQ_REVIEW_REPLY \<equiv> 3070"
abbreviation RES_REVIEW_REPLY :: CmdID where "RES_REVIEW_REPLY \<equiv> 3071"
abbreviation REQ_SALES_STAT :: CmdID where "REQ_SALES_STAT \<equiv> 3090"
abbreviation RES_SALES_STAT :: CmdID where "RES_SALES_STAT \<equiv> 3091"
abbreviation REQ_SETTLEMENT_INFO :: CmdID where "REQ_SETTLEMENT_INFO \<equiv> 3100"
abbreviation RES_SETTLEMENT_INFO :: CmdID where "RES_SETTLEMENT_INFO \<equiv> 3101"
abbreviation REQ_COUPON_MANAGE :: CmdID where "REQ_COUPON_MANAGE \<equiv> 3110"
abbreviation RES_COUPON_MANAGE :: CmdID where "RES_COUPON_MANAGE \<equiv> 3111"
abbreviation REQ_BLACKLIST_REQUEST :: CmdID where "REQ_BLACKLIST_REQUEST \<equiv> 3120"
abbreviation RES_BLACKLIST_REQUEST :: CmdID where "RES_BLACKLIST_REQUEST \<equiv> 3121"
abbreviation REQ_DELIVERY_ACCEPT :: CmdID where "REQ_DELIVERY_ACCEPT \<equiv> 4000"
abbreviation RES_DELIVERY_ACCEPT :: CmdID where "RES_DELIVERY_ACCEPT \<equiv> 4001"
abbreviation REQ_PICKUP :: CmdID where "REQ_PICKUP \<equiv> 4002"
abbreviation RES_PICKUP :: CmdID where "RES_PICKUP \<equiv> 4003"
abbreviation REQ_DELIVERY_COMPLETE :: CmdID where "REQ_DELIVERY_COMPLETE \<equiv> 4010"
abbreviation RES_DELIVERY_COMPLETE :: CmdID where "RES_DELIVERY_COMPLETE \<equiv> 4011"
abbreviation REQ_RIDER_ORDER_LIST :: CmdID where "REQ_RIDER_ORDER_LIST \<equiv> 4020"
abbreviation RES_RIDER_ORDER_LIST :: CmdID where "RES_RIDER_ORDER_LIST \<equiv> 4021"
abbreviation RES_REQUEST_OK :: CmdID where "RES_REQUEST_OK \<equiv> 5000"
abbreviation RES_REQUEST_NO :: CmdID where "RES_REQUEST_NO \<equiv> 5001"
abbreviation NOTIFY_CHAT_EXIT :: CmdID where "NOTIFY_CHAT_EXIT \<equiv> 5002"
abbreviation REQ_REFUND :: CmdID where "REQ_REFUND \<equiv> 5010"
abbreviation REQ_CANCEL :: CmdID where "REQ_CANCEL \<equiv> 5011"
abbreviation RES_REFUND :: CmdID where "RES_REFUND \<equiv> 5012"
abbreviation RES_CANCEL :: CmdID where "RES_CANCEL \<equiv> 5013"
abbreviation REQ_ADMIN_ORDER_LIST :: CmdID where "REQ_ADMIN_ORDER_LIST \<equiv> 5020"
abbreviation RES_ADMIN_ORDER_LIST :: CmdID where "RES_ADMIN_ORDER_LIST \<equiv> 5021"
abbreviation REQ_RIDER_COUNT :: CmdID where "REQ_RIDER_COUNT \<equiv> 5030"
abbreviation RES_RIDER_COUNT :: CmdID where "RES_RIDER_COUNT \<equiv> 5031"
abbreviation REQ_UNABLE_DELIVERY :: CmdID where "REQ_UNABLE_DELIVERY \<equiv> 5040"
abbreviation REQ_SURCHARGE :: CmdID where "REQ_SURCHARGE \<equiv> 5041"
abbreviation RES_REVIEW_DELETE_OK :: CmdID where "RES_REVIEW_DELETE_OK \<equiv> 5050"
abbreviation RES_REVIEW_DELETE_NO :: CmdID where "RES_REVIEW_DELETE_NO \<equiv> 5051"
abbreviation REQ_ADMIN_INIT :: CmdID where "REQ_ADMIN_INIT \<equiv> 5090"
abbreviation RES_ADMIN_INIT :: CmdID where "RES_ADMIN_INIT \<equiv> 5091"
abbreviation NOTIFY_NEW_ORDER :: CmdID where "NOTIFY_NEW_ORDER \<equiv> 9000"
abbreviation NOTIFY_ORDER_STATE :: CmdID where "NOTIFY_ORDER_STATE \<equiv> 9010"
abbreviation NOTIFY_DELIVERY_CALL :: CmdID where "NOTIFY_DELIVERY_CALL \<equiv> 9020"
abbreviation NOTIFY_NEW_CHAT_REQUEST :: CmdID where "NOTIFY_NEW_CHAT_REQUEST \<equiv> 9030"
abbreviation NOTIFY_CHAT_ROOM_OPENED :: CmdID where "NOTIFY_CHAT_ROOM_OPENED \<equiv> 9031"
abbreviation NOTIFY_MSG_TO_USER :: CmdID where "NOTIFY_MSG_TO_USER \<equiv> 9032"
abbreviation NOTIFY_MSG_TO_ADMIN :: CmdID where "NOTIFY_MSG_TO_ADMIN \<equiv> 9033"
abbreviation NOTIFY_ADMIN_CHAT_REQ :: CmdID where "NOTIFY_ADMIN_CHAT_REQ \<equiv> 9040"

definition cmd_ids :: "CmdID list" where
  "cmd_ids = [
    REQ_HEARTBEAT, RES_HEARTBEAT, REQ_LOGIN, RES_LOGIN, REQ_SIGNUP, RES_SIGNUP, REQ_LOGOUT,
     RES_LOGOUT, REQ_AUTH_CHECK, RES_AUTH_CHECK, REQ_PHONE_CHECK, RES_PHONE_CHECK,
     REQ_PROFILE_UPDATE, RES_PROFILE_UPDATE, REQ_CATEGORY, RES_CATEGORY, REQ_WITHDRAW,
     RES_WITHDRAW, REQ_BUISNESS_NUM_CHECK, RES_BUISNESS_NUM_CHECK, REQ_STORE_LIST,
     RES_STORE_LIST, REQ_STORE_DETAIL, RES_STORE_DETAIL, REQ_MENU_LIST, RES_MENU_LIST,
     REQ_MENU_OPTION, RES_MENU_OPTION, REQ_REVIEW_LIST, RES_REVIEW_LIST, REQ_MENU_REVIEW_LIST,
     RES_MENU_REVIEW_LIST, REQ_ORDER_CREATE, RES_ORDER_CREATE, REQ_PAYMENT_PROCESS,
     RES_PAYMENT_PROCESS, REQ_CHECKOUT_INFO, RES_CHECKOUT_INFO, REQ_REVIEW_WRITE,
     RES_REVIEW_WRITE, REQ_FAVORITE_ADD, RES_FAVORITE_ADD, REQ_FAVORITE_DELETE,
     RES_FAVORITE_DELETE, REQ_FAVORITE_LIST, RES_FAVORITE_LIST, REQ_ORDER_LIST, RES_ORDER_LIST,
     REQ_ORDER_CANCEL, RES_ORDER_CANCEL, REQ_ADDRESS_SAVE, RES_ADDRESS_SAVE, REQ_ADDRESS_LIST,
     RES_ADDRESS_LIST, REQ_ADDRESS_DELETE, RES_ADDRESS_DELETE, REQ_ADDRESS_UPDATE,
     RES_ADDRESS_UPDATE, REQ_ADDRESS_DEFAULT, RES_ADDRESS_DEFAULT, REQ_ORDER_HISTORY,
     RES_ORDER_HISTORY, REQ_ORDER_HISTORY_SEARCH, RES_ORDER_HISTORY_SEARCH, REQ_ORDER_REORDER,
     RES_ORDER_REORDER, REQ_ORDER_DETAIL, RES_ORDER_DETAIL, REQ_ORDER_DELETE, RES_ORDER_DELETE,
     REQ_CHAT_CONNECT, RES_CHAT_CONNECT, REQ_CHAT_SEND, RES_CHAT_SEND, REQ_GRADE_UPDATE,
     RES_GRADE_UPDATE, REQ_GRADE_NOW, RES_GRADE_NOW, REQ_CHAT_CLOSE, REQ_MY_INFO, RES_MY_INFO,
     REQ_STORE_INFO_UPDATE, RES_STORE_INFO_UPDATE, REQ_RESEARCH_WIDGET, RES_RESEARCH_WIDGET,
     REQ_RESEARCH_DELETE, RES_RESEARCH_DELETE, REQ_RESEARCH_ADD, RES_RESEARCH_ADD,
     REQ_RESEARCH_DEL_ALL, RES_RESEARCH_DEL_ALL, REQ_SEARCH_STORE, RES_SEARCH_STORE,
     REQ_ORDER_ACCEPT, RES_ORDER_ACCEPT, REQ_ORDER_REJECT, RES_ORDER_REJECT, REQ_COOK_TIME_SET,
     RES_COOK_TIME_SET, REQ_CHANGE_ORDER_STATE, RES_CHANGE_ORDER_STATE, REQ_STORE_STATUS_SET,
     RES_STORE_STATUS_SET, REQ_DELIVERY_POLICY_SET, RES_DELIVERY_POLICY_SET, REQ_MENU_SOLD_OUT,
     RES_MENU_SOLD_OUT, REQ_MENU_EDIT, RES_MENU_EDIT, REQ_REVIEW_REPLY, RES_REVIEW_REPLY,
     REQ_SALES_STAT, RES_SALES_STAT, REQ_SETTLEMENT_INFO, RES_SETTLEMENT_INFO,
     REQ_COUPON_MANAGE, RES_COUPON_MANAGE, REQ_BLACKLIST_REQUEST, RES_BLACKLIST_REQUEST,
     REQ_DELIVERY_ACCEPT, RES_DELIVERY_ACCEPT, REQ_PICKUP, RES_PICKUP, REQ_DELIVERY_COMPLETE,
     RES_DELIVERY_COMPLETE, REQ_RIDER_ORDER_LIST, RES_RIDER_ORDER_LIST, RES_REQUEST_OK,
     RES_REQUEST_NO, NOTIFY_CHAT_EXIT, REQ_REFUND, REQ_CANCEL, RES_REFUND, RES_CANCEL,
     REQ_ADMIN_ORDER_LIST, RES_ADMIN_ORDER_LIST, REQ_RIDER_COUNT, RES_RIDER_COUNT,
     REQ_UNABLE_DELIVERY, REQ_SURCHARGE, RES_REVIEW_DELETE_OK, RES_REVIEW_DELETE_NO,
     REQ_ADMIN_INIT, RES_ADMIN_INIT, NOTIFY_NEW_ORDER, NOTIFY_ORDER_STATE, NOTIFY_DELIVERY_CALL,
     NOTIFY_NEW_CHAT_REQUEST, NOTIFY_CHAT_ROOM_OPENED, NOTIFY_MSG_TO_USER, NOTIFY_MSG_TO_ADMIN,
     NOTIFY_ADMIN_CHAT_REQ]"

datatype SignupResult = SIGNUP_SUCCESS | DUPLICATE_ID | DUPLICATE_PHONE | SIGNUP_SERVER_ERROR

datatype LoginResult = LOGIN_SUCCESS | ID_PASS_WRONG | LOGIN_SERVER_ERROR

section \<open>Integers in memory and on the wire\<close>

fun le_val :: "string \<Rightarrow> nat" where
  "le_val [] = 0"
| "le_val (c # cs) = of_char c + 256 * le_val cs"

definition load_le :: "string \<Rightarrow> 'a::len word" where
  "load_le cs = of_nat (le_val cs)"

definition store_le :: "nat \<Rightarrow> 'a::len word \<Rightarrow> string" where
  "store_le n w = map (\<lambda>i. byte_of i w) [0..<n]"

definition bswap :: "nat \<Rightarrow> 'a::len word \<Rightarrow> 'a word" where
  "bswap n w = load_le (rev (store_le n w))"

definition htons :: "uint16 \<Rightarrow> uint16" where "htons w = bswap 2 w"
definition ntohs :: "uint16 \<Rightarrow> uint16" where "ntohs w = bswap 2 w"
definition htonl :: "uint32 \<Rightarrow> uint32" where "htonl w = bswap 4 w"
definition ntohl :: "uint32 \<Rightarrow> uint32" where "ntohl w = bswap 4 w"

record PacketHeader =
  signature :: uint16
  cmdId :: CmdID
  bodySize :: uint32

definition header_size :: nat where
  "header_size = 8"

definition header_bytes :: "PacketHeader \<Rightarrow> string" where
  "header_bytes h = store_le 2 (signature h) @ store_le 2 (cmdId h) @ store_le 4 (bodySize h)"

definition header_of_bytes :: "string \<Rightarrow> PacketHeader" where
  "header_of_bytes bs =
     \<lparr>signature = load_le (take 2 bs),
      cmdId = load_le (take 2 (drop 2 bs)),
      bodySize = load_le (take 4 (drop 4 bs))\<rparr>"

abbreviation SIGNATURE :: uint16 where
  "SIGNATURE \<equiv> 0x4543"

section \<open>Lemmas on the codec\<close>

lemma le_val_less: "le_val cs < 256 ^ length cs"
proof (induction cs)
  case (Cons c cs)
  then have "le_val cs + 1 \<le> 256 ^ length cs" by simp
  then have "256 * le_val cs + 256 \<le> 256 ^ length (c # cs)" by simp
  then show ?case using of_char_less_256 [of c] by (simp del: of_char_less_256)
qed simp

lemma le_val_digit_0: "char_of (le_val (c # cs)) = c"
proof -
  have "(of_char (char_of (le_val (c # cs)) :: char) :: nat) = of_char c"
    by (simp add: of_char_of)
  then show ?thesis by (rule char_nat_eqI)
qed

lemma le_val_div: "le_val (c # cs) div 256 = le_val cs"
  using of_char_less_256 [of c] by simp

lemma le_val_digits: "map (\<lambda>i. char_of (le_val cs div 256 ^ i)) [0..<length cs] = cs"
proof (induction cs)
  case (Cons c cs)
  have "map (\<lambda>i. char_of (le_val (c # cs) div 256 ^ i)) [0..<length (c # cs)]
      = char_of (le_val (c # cs)) # map (\<lambda>i. char_of (le_val (c # cs) div 256 ^ Suc i)) [0..<length cs]"
    by (simp add: upt_conv_Cons map_Suc_upt [symmetric] comp_def del: upt_Suc le_val.simps)
  also have "\<dots> = c # map (\<lambda>i. char_of (le_val cs div 256 ^ i)) [0..<length cs]"
    by (simp add: le_val_digit_0 le_val_div div_mult2_eq del: le_val.simps)
  finally show ?case using Cons.IH by simp
qed simp

lemma length_store_le [simp]: "length (store_le n w) = n"
  by (simp add: store_le_def)

lemma unat_load_le:
  assumes "8 * length cs \<le> LENGTH('a::len)"
  shows "unat (load_le cs :: 'a word) = le_val cs"
proof -
  have "le_val cs < 2 ^ (8 * length cs)"
    using le_val_less [of cs] by (simp add: power_mult)
  also have "\<dots> \<le> 2 ^ LENGTH('a)" using assms by simp
  finally show ?thesis by (simp add: load_le_def unat_of_nat)
qed

lemma store_load_le:
  assumes "8 * length cs \<le> LENGTH('a::len)" "n = length cs"
  shows "store_le n (load_le cs :: 'a word) = cs"
  using assms le_val_digits [of cs] by (simp add: store_le_def byte_of_def unat_load_le)

lemma le_val_store_le: "le_val (store_le n w) = unat w mod 256 ^ n"
proof (induction n)
  case (Suc n)
  have app: "le_val (xs @ [c]) = le_val xs + 256 ^ length xs * of_char c" for xs c
    by (induction xs) (simp_all add: algebra_simps)
  have "le_val (store_le (Suc n) w) = le_val (store_le n w) + 256 ^ n * (unat w div 256 ^ n mod 256)"
    by (simp add: store_le_def app of_char_byte_of)
  also have "\<dots> = unat w mod 256 ^ Suc n"
    using Suc.IH by (simp add: mod_mult2_eq mult.commute [of 256] add.commute)
  finally show ?case .
qed (simp add: store_le_def)

lemma load_store_le:
  fixes w :: "'a::len word"
  assumes "LENGTH('a) \<le> 8 * n"
  shows "load_le (store_le n w) = w"
proof -
  have "unat w < 2 ^ LENGTH('a)" by (rule unsigned_less)
  also have "\<dots> \<le> 2 ^ (8 * n)" using assms by simp
  finally have "unat w mod 256 ^ n = unat w" by (simp add: power_mult)
  then show ?thesis by (simp add: load_le_def le_val_store_le)
qed

lemma bswap_bswap:
  fixes w :: "'a::len word"
  assumes "LENGTH('a) = 8 * n"
  shows "bswap n (bswap n w) = w"
  using assms by (simp add: bswap_def store_load_le load_store_le)

lemma ntohs_htons [wire_simps, simp]: "ntohs (htons w) = w"
  by (simp add: ntohs_def htons_def bswap_bswap)

lemma ntohl_htonl [wire_simps, simp]: "ntohl (htonl w) = w"
  by (simp add: ntohl_def htonl_def bswap_bswap)

lemma length_header_bytes [simp]: "length (header_bytes h) = 8"
  by (simp add: header_bytes_def)

lemma header_of_header_bytes [wire_simps]: "header_of_bytes (header_bytes h @ rest) = h"
  by (simp add: header_of_bytes_def header_bytes_def load_store_le)

lemma header_of_bytes_prefix:
  assumes "8 \<le> length b"
  shows "header_of_bytes (b @ c) = header_of_bytes b"
proof -
  have "take 4 (drop 4 (b @ c)) = take 4 (drop 4 b)" and "take 2 (drop 2 (b @ c)) = take 2 (drop 2 b)"
    and "take 2 (b @ c) = take 2 b"
    using assms by simp_all
  then show ?thesis by (simp only: header_of_bytes_def)
qed

lemma store_htons: "store_le 2 (htons w) = rev (store_le 2 w)"
  by (simp add: htons_def bswap_def store_load_le)

lemma store_htonl: "store_le 4 (htonl w) = rev (store_le 4 w)"
  by (simp add: htonl_def bswap_def store_load_le)

end
