(* ===== verification/ClientSession.thy ===== *)
theory ClientSession
  imports Protocol
begin

text \<open>
  One connected client: \<^verbatim>\<open>server/src/session/ClientSession.h\<close> and \<^verbatim>\<open>ClientSession.cpp\<close>.
  The record holds the fields of the class (the two mutexes are left out: every operation
  below is the body of one critical section).  \<^verbatim>\<open>sendPacket\<close> is split in the bytes it
  builds (\<open>make_packet\<close>) and the loop that hands them to \<^verbatim>\<open>write(2)\<close> (\<open>send_loop\<close>); the
  answers of the operating system are a parameter.
\<close>

record ClientSession =
  clientFd :: int
  readBuffer :: string
  isAuth :: bool
  sess_userId :: string
  sess_role :: int

definition new_ClientSession :: "int \<Rightarrow> ClientSession" where
  "new_ClientSession fd =
     \<lparr>clientFd = fd, readBuffer = [], isAuth = False, sess_userId = '''', sess_role = 0\<rparr>"

definition appendToReadBuffer :: "string \<Rightarrow> ClientSession \<Rightarrow> ClientSession" where
  "appendToReadBuffer d s = s\<lparr>readBuffer := readBuffer s @ d\<rparr>"

definition removeReadData :: "nat \<Rightarrow> ClientSession \<Rightarrow> ClientSession" where
  "removeReadData len s =
     (if len \<le> length (readBuffer s) then s\<lparr>readBuffer := drop len (readBuffer s)\<rparr> else s)"

definition authenticate :: "string \<Rightarrow> int \<Rightarrow> ClientSession \<Rightarrow> ClientSession" where
  "authenticate uid userRole s = s\<lparr>sess_userId := uid, sess_role := userRole, isAuth := True\<rparr>"

definition setRole :: "int \<Rightarrow> ClientSession \<Rightarrow> ClientSession" where
  "setRole r s = s\<lparr>sess_role := r\<rparr>"

definition clearAuth :: "ClientSession \<Rightarrow> ClientSession" where
  "clearAuth s = s\<lparr>isAuth := False, sess_userId := '''', sess_role := 0\<rparr>"

text \<open>The bytes of one packet: header in network order, then the JSON text.\<close>

definition make_packet :: "CmdID \<Rightarrow> string \<Rightarrow> string" where
  "make_packet cmd jsonBody =
     header_bytes \<lparr>signature = htons SIGNATURE, cmdId = htons cmd,
                   bodySize = htonl (of_nat (length jsonBody))\<rparr> @ jsonBody"

text \<open>The operating system's answer to one \<^verbatim>\<open>write\<close>: it took some bytes, or \<^verbatim>\<open>EAGAIN\<close>, or an error.\<close>

datatype write_result = Wrote nat | WouldBlock | WriteError

function send_loop :: "(nat \<Rightarrow> write_result) \<Rightarrow> nat \<Rightarrow> string \<Rightarrow> string" where
  "send_loop krn i buf =
     (if buf = [] then []
      else (case krn i of
          Wrote k \<Rightarrow> (if 0 < k then take k buf @ send_loop krn (Suc i) (drop k buf) else [])
        | WouldBlock \<Rightarrow> []
        | WriteError \<Rightarrow> []))"
  by pat_completeness auto
termination
  by (relation "measure (\<lambda>(krn, i, buf). length buf)") auto

declare send_loop.simps [simp del]

section \<open>Lemmas\<close>

lemma length_make_packet [simp]: "length (make_packet cmd body) = 8 + length body"
  by (simp add: make_packet_def)

lemma send_loop_prefix: "\<exists>rest. buf = send_loop krn i buf @ rest"
proof (induction krn i buf rule: send_loop.induct)
  case (1 krn i buf)
  show ?case
  proof (cases "\<exists>k. buf \<noteq> [] \<and> krn i = Wrote k \<and> 0 < k")
    case True
    then obtain k where k: "buf \<noteq> []" "krn i = Wrote k" "0 < k" by blast
    from "1.IH" [OF k] obtain rest where
      "drop k buf = send_loop krn (Suc i) (drop k buf) @ rest" by blast
    then have "buf = (take k buf @ send_loop krn (Suc i) (drop k buf)) @ rest"
      by (metis append_assoc append_take_drop_id)
    then show ?thesis using k by (subst send_loop.simps) auto
  next
    case False
    then have "send_loop krn i buf = []"
      by (subst send_loop.simps) (auto split: write_result.splits)
    then show ?thesis by simp
  qed
qed

lemma send_loop_complete:
  assumes "\<And>j. i \<le> j \<Longrightarrow> \<exists>k>0. krn j = Wrote k"
  shows "send_loop krn i buf = buf"
  using assms
proof (induction krn i buf rule: send_loop.induct)
  case (1 krn i buf)
  show ?case
  proof (cases "buf = []")
    case True
    then show ?thesis by (simp add: send_loop.simps)
  next
    case False
    from "1.prems" [of i] obtain k where k: "krn i = Wrote k" "0 < k" by auto
    have "send_loop krn (Suc i) (drop k buf) = drop k buf"
      using "1.IH" [OF False k] "1.prems" by simp
    then show ?thesis using False k by (subst send_loop.simps) simp
  qed
qed

end
