(* ===== verification/PacketFramer.thy ===== *)
theory PacketFramer
  imports ClientSession
begin

text \<open>
  The stream parser of \<^verbatim>\<open>server/src/network/PacketFramer.cpp\<close>.  \<open>processBuffer\<close> is the
  \<^verbatim>\<open>while\<close> loop over the session's read buffer: it returns the packets handed to
  \<^verbatim>\<open>Dispatcher::dispatch\<close>, in order, and how the loop ended.  The sum
  \<^verbatim>\<open>sizeof(PacketHeader) + header.bodySize\<close> is stored in a \<^verbatim>\<open>uint32_t\<close>, so it wraps; when the
  wrapped sum lets a packet through whose body is not in the buffer, the \<^verbatim>\<open>std::string\<close>
  constructor reads past the end of the vector, which is the outcome \<open>Overread\<close>.  If the sum
  wraps to 0 and the body is there (a buffer of 4 GiB), the iteration removes nothing and the
  loop dispatches the same packet for ever: outcome \<open>Looping\<close>.

  The locale \<open>packet_stream\<close> states what a client of a stream parser relies on; it is
  interpreted on \<open>processBuffer\<close> and the packets of \<open>make_packet\<close>, and gives that the packets
  delivered do not depend on how TCP cuts the stream into reads.
\<close>

datatype frame_end = Waiting string | Flushed | Overread | Looping

definition ntoh_header :: "PacketHeader \<Rightarrow> PacketHeader" where
  "ntoh_header h =
     \<lparr>signature = ntohs (signature h), cmdId = ntohs (cmdId h), bodySize = ntohl (bodySize h)\<rparr>"

definition read_header :: "string \<Rightarrow> PacketHeader" where
  "read_header buf = ntoh_header (header_of_bytes buf)"

definition totalPacketSize :: "PacketHeader \<Rightarrow> uint32" where
  "totalPacketSize h = of_nat header_size + bodySize h"

function processBuffer :: "string \<Rightarrow> (PacketHeader \<times> string) list \<times> frame_end" where
  "processBuffer buf =
     (if length buf < header_size then ([], Waiting buf)
      else let h = read_header buf in
        if signature h \<noteq> SIGNATURE then ([], Flushed)
        else if length buf < unat (totalPacketSize h) then ([], Waiting buf)
        else if length buf < header_size + unat (bodySize h) then ([], Overread)
        else let jsonBody = take (unat (bodySize h)) (drop header_size buf) in
          if totalPacketSize h = 0 then ([(h, jsonBody)], Looping)
          else let r = processBuffer (drop (unat (totalPacketSize h)) buf)
               in ((h, jsonBody) # fst r, snd r))"
  by pat_completeness auto
termination
proof (relation "measure length", goal_cases)
  case (2 buf h jsonBody)
  then have "0 < unat (totalPacketSize h)" and "0 < length buf"
    by (auto simp: header_size_def unat_gt_0)
  then show ?case by simp
qed simp

declare processBuffer.simps [simp del]

text \<open>
  \<^verbatim>\<open>onReceiveData\<close>: append the bytes read from the socket, run the loop, and leave in the
  session what the loop left in the buffer.  After an overread the process is not defined
  any more; the model keeps the session as it was.
\<close>

definition onReceiveData ::
  "ClientSession \<Rightarrow> string \<Rightarrow> ClientSession \<times> (PacketHeader \<times> string) list \<times> frame_end" where
  "onReceiveData s buffer =
     (let s' = appendToReadBuffer buffer s;
          r = processBuffer (readBuffer s')
      in (case snd r of
            Waiting rest \<Rightarrow> (removeReadData (length (readBuffer s') - length rest) s', fst r, snd r)
          | Flushed \<Rightarrow> (removeReadData (length (readBuffer s')) s', fst r, snd r)
          | Overread \<Rightarrow> (s', fst r, snd r)
          | Looping \<Rightarrow> (s', fst r, snd r)))"

text \<open>The reads of one connection, one after another (\<^verbatim>\<open>ItsServer::readFromClient\<close> calls it per read).\<close>

fun receive_all ::
  "ClientSession \<Rightarrow> string list \<Rightarrow> ClientSession \<times> (PacketHeader \<times> string) list \<times> frame_end" where
  "receive_all s [] = (s, [], Waiting (readBuffer s))"
| "receive_all s (chunk # chunks) =
     (case onReceiveData s chunk of
        (s', ps, Overread) \<Rightarrow> (s', ps, Overread)
      | (s', ps, Looping) \<Rightarrow> (s', ps, Looping)
      | (s', ps, _) \<Rightarrow> (case receive_all s' chunks of (s'', qs, e) \<Rightarrow> (s'', ps @ qs, e)))"

section \<open>The contract of a stream parser\<close>

locale packet_stream =
  fixes enc :: "'p \<Rightarrow> string"
    and ok :: "'p \<Rightarrow> bool"
    and process :: "string \<Rightarrow> 'p list \<times> frame_end"
  assumes process_nil: "process [] = ([], Waiting [])"
    and process_packet: "ok p \<Longrightarrow> process (enc p @ rest) = (p # fst (process rest), snd (process rest))"
    and process_partial: "ok p \<Longrightarrow> enc p = b @ c \<Longrightarrow> c \<noteq> [] \<Longrightarrow> process b = ([], Waiting b)"
begin

abbreviation stream :: "'p list \<Rightarrow> string" where
  "stream ps \<equiv> concat (map enc ps)"

lemma process_stream:
  "list_all ok ps \<Longrightarrow> process (stream ps @ rest) = (ps @ fst (process rest), snd (process rest))"
  by (induction ps) (simp_all add: process_packet)

lemma process_whole: "list_all ok ps \<Longrightarrow> process (stream ps) = (ps, Waiting [])"
  using process_stream [of ps "[]"] by (simp add: process_nil)

lemma process_prefix:
  assumes "list_all ok ps" "stream ps = b @ c"
  shows "\<exists>qs rs r. ps = qs @ rs \<and> process b = (qs, Waiting r) \<and> b = stream qs @ r \<and> stream rs = r @ c
           \<and> process r = ([], Waiting r)"
  using assms
proof (induction ps arbitrary: b)
  case Nil
  then show ?case by (auto simp: process_nil)
next
  case (Cons p ps)
  then have ok: "ok p" and oks: "list_all ok ps" and eq: "enc p @ stream ps = b @ c" by simp_all
  then consider (inside) us where "enc p = b @ us" "us @ stream ps = c" "us \<noteq> []"
    | (past) us where "b = enc p @ us" "stream ps = us @ c"
    unfolding append_eq_append_conv2 by fastforce
  then show ?case
  proof cases
    case inside
    then have "process b = ([], Waiting b)" using process_partial [OF ok] by simp
    then show ?thesis using eq by (intro exI [of _ "[]"] exI [of _ "p # ps"] exI [of _ b]) simp
  next
    case past
    from Cons.IH [OF oks past(2)] obtain qs rs r where
      q: "ps = qs @ rs" "process us = (qs, Waiting r)" "us = stream qs @ r" "stream rs = r @ c"
        "process r = ([], Waiting r)"
      by blast
    have "process b = (p # qs, Waiting r)" using process_packet [OF ok, of us] past q(2) by simp
    then show ?thesis using past q
      by (intro exI [of _ "p # qs"] exI [of _ rs] exI [of _ r]) simp
  qed
qed

lemma incomplete_is_nil:
  assumes "list_all ok ps" "process (stream ps) = ([], Waiting r)"
  shows "ps = [] \<and> r = []"
  using assms process_whole [OF assms(1)] by auto

end

section \<open>The loop meets the contract\<close>

definition packet_enc :: "PacketHeader \<times> string \<Rightarrow> string" where
  "packet_enc p = make_packet (cmdId (fst p)) (snd p)"

definition packet_ok :: "PacketHeader \<times> string \<Rightarrow> bool" where
  "packet_ok p \<longleftrightarrow> signature (fst p) = SIGNATURE \<and> bodySize (fst p) = of_nat (length (snd p))
     \<and> 8 + length (snd p) < 2 ^ 32"

lemma read_header_packet:
  "packet_ok p \<Longrightarrow> read_header (packet_enc p @ rest) = fst p"
  by (cases "fst p") (simp add: read_header_def packet_enc_def make_packet_def
    header_of_header_bytes ntoh_header_def packet_ok_def)

lemma read_header_append: "8 \<le> length b \<Longrightarrow> read_header (b @ c) = read_header b"
  by (simp add: read_header_def header_of_bytes_prefix)

lemma packet_ok_sizes:
  assumes "packet_ok p"
  shows "unat (bodySize (fst p)) = length (snd p)"
    and "unat (totalPacketSize (fst p)) = 8 + length (snd p)"
    and "totalPacketSize (fst p) \<noteq> 0"
proof -
  have less: "8 + length (snd p) < 2 ^ 32" and size: "bodySize (fst p) = of_nat (length (snd p))"
    using assms by (simp_all add: packet_ok_def)
  show "unat (bodySize (fst p)) = length (snd p)" using less size by (simp add: unat_of_nat)
  have "totalPacketSize (fst p) = of_nat (8 + length (snd p))"
    by (simp add: totalPacketSize_def header_size_def size)
  then show total: "unat (totalPacketSize (fst p)) = 8 + length (snd p)"
    using less by (simp add: unat_of_nat del: of_nat_add)
  show "totalPacketSize (fst p) \<noteq> 0" using total by auto
qed

lemma processBuffer_short: "length b < 8 \<Longrightarrow> processBuffer b = ([], Waiting b)"
  by (simp add: processBuffer.simps header_size_def)

lemma processBuffer_packet:
  assumes "packet_ok p"
  shows "processBuffer (packet_enc p @ rest) = (p # fst (processBuffer rest), snd (processBuffer rest))"
proof -
  have len: "length (packet_enc p) = 8 + length (snd p)" by (simp add: packet_enc_def)
  have body: "take (length (snd p)) (drop 8 (packet_enc p @ rest)) = snd p"
    by (simp add: packet_enc_def make_packet_def)
  have rest: "drop (8 + length (snd p)) (packet_enc p @ rest) = rest" using len by simp
  have sig: "signature (fst p) = SIGNATURE" using assms by (simp add: packet_ok_def)
  show ?thesis
    by (subst processBuffer.simps)
      (simp add: read_header_packet [OF assms] packet_ok_sizes [OF assms] len body rest sig
        header_size_def Let_def del: drop_append take_append)
qed

lemma processBuffer_partial:
  assumes "packet_ok p" "packet_enc p = b @ c" "c \<noteq> []"
  shows "processBuffer b = ([], Waiting b)"
proof (cases "length b < 8")
  case False
  have "length b < 8 + length (snd p)"
    using arg_cong [OF assms(2), of length] assms(3) by (simp add: packet_enc_def)
  moreover have "read_header b = fst p"
    using read_header_append [of b c] read_header_packet [OF assms(1), of "[]"] assms(2) False by simp
  ultimately show ?thesis using False assms(1) packet_ok_sizes [OF assms(1)]
    by (subst processBuffer.simps) (simp add: packet_ok_def header_size_def)
qed (rule processBuffer_short)

interpretation framer: packet_stream packet_enc packet_ok processBuffer
  by unfold_locales (auto simp: processBuffer_short processBuffer_packet intro: processBuffer_partial)

section \<open>Reads of a connection\<close>

lemma onReceiveData_waiting:
  assumes "processBuffer (readBuffer s @ chunk) = (ps, Waiting r)"
    and "readBuffer s @ chunk = done @ r"
  shows "onReceiveData s chunk = (s\<lparr>readBuffer := r\<rparr>, ps, Waiting r)"
  using assms by (simp add: onReceiveData_def appendToReadBuffer_def removeReadData_def)

lemma receive_all_stream:
  assumes "list_all packet_ok ps" "readBuffer s @ concat chunks = framer.stream ps"
    and "processBuffer (readBuffer s) = ([], Waiting (readBuffer s))"
  shows "receive_all s chunks = (s\<lparr>readBuffer := []\<rparr>, ps, Waiting [])"
  using assms
proof (induction chunks arbitrary: s ps)
  case Nil
  then have "ps = [] \<and> readBuffer s = []"
    using framer.incomplete_is_nil [OF Nil.prems(1), of "readBuffer s"] by simp
  then show ?case by simp
next
  case (Cons chunk chunks)
  from Cons.prems have "framer.stream ps = (readBuffer s @ chunk) @ concat chunks" by simp
  from framer.process_prefix [OF Cons.prems(1) this] obtain qs rs r where
    q: "ps = qs @ rs" "processBuffer (readBuffer s @ chunk) = (qs, Waiting r)"
      "readBuffer s @ chunk = framer.stream qs @ r" "framer.stream rs = r @ concat chunks"
      "processBuffer r = ([], Waiting r)"
    by blast
  have "receive_all (s\<lparr>readBuffer := r\<rparr>) chunks = (s\<lparr>readBuffer := []\<rparr>, rs, Waiting [])"
    using Cons.IH [of rs "s\<lparr>readBuffer := r\<rparr>"] Cons.prems(1) q by simp
  then show ?case using q(1) onReceiveData_waiting [OF q(2,3)] by simp
qed

end
