(* ===== verification/Registry.thy ===== *)
theory Registry
  imports Prelude
begin

text \<open>
  The contract of the keyed tables of the server (\<^verbatim>\<open>sessionMap\<close>, \<^verbatim>\<open>userMap\<close> of
  \<^verbatim>\<open>SessionManager\<close> and \<^verbatim>\<open>rooms\<close> of \<^verbatim>\<open>ChatRoomManager\<close>) as their clients use it: what a
  lookup returns after an insertion and after a removal.  The lemmas inside the locale are
  about whole sequences of operations; the session and chat theories interpret it.
\<close>

datatype ('k, 'v) registry_op = Add 'k 'v | Drop 'k

fun op_key :: "('k, 'v) registry_op \<Rightarrow> 'k" where
  "op_key (Add k v) = k"
| "op_key (Drop k) = k"

locale registry =
  fixes find :: "'s \<Rightarrow> 'k \<Rightarrow> 'v option"
    and add :: "'k \<Rightarrow> 'v \<Rightarrow> 's \<Rightarrow> 's"
    and drop_key :: "'k \<Rightarrow> 's \<Rightarrow> 's"
  assumes find_add: "find (add k v s) k' = (if k' = k then Some v else find s k')"
    and find_drop: "find (drop_key k s) k' = (if k' = k then None else find s k')"
begin

primrec apply_op :: "('k, 'v) registry_op \<Rightarrow> 's \<Rightarrow> 's" where
  "apply_op (Add k v) = add k v"
| "apply_op (Drop k) = drop_key k"

lemma find_apply_op_other: "op_key x \<noteq> k \<Longrightarrow> find (apply_op x s) k = find s k"
  by (cases x) (auto simp: find_add find_drop)

lemma find_run_other:
  "k \<notin> op_key ` set xs \<Longrightarrow> find (fold apply_op xs s) k = find s k"
  by (induction xs arbitrary: s) (auto simp: find_apply_op_other)

lemma find_last_add:
  assumes "k \<notin> op_key ` set xs"
  shows "find (fold apply_op xs (add k v s)) k = Some v"
  using find_run_other [OF assms] by (simp add: find_add)

lemma find_last_drop:
  assumes "k \<notin> op_key ` set xs"
  shows "find (fold apply_op xs (drop_key k s)) k = None"
  using find_run_other [OF assms] by (simp add: find_drop)

end

end
