(* ===== verification/SessionManager.thy ===== *)
theory SessionManager
  imports ClientSession Registry
begin

text \<open>
  The session table of \<^verbatim>\<open>server/src/session/SessionManager.h\<close> and \<^verbatim>\<open>SessionManager.cpp\<close>.
  Sessions are shared objects (\<^verbatim>\<open>std::shared_ptr\<close>), reached from two maps and from running
  handlers, so they live in a heap indexed by object numbers; the two
  \<^verbatim>\<open>std::unordered_map\<close>s are association lists, whose order stands for the maps' iteration
  order (statements about broadcasts are therefore about sets of receivers).  Every
  operation is the body of one critical section of \<^verbatim>\<open>sessionMutex\<close>, hence atomic.
\<close>

type_synonym sess_ref = nat

record SessionManager =
  heap :: "sess_ref \<Rightarrow> ClientSession"
  next_ref :: sess_ref
  sessionMap :: "(int \<times> sess_ref) list"
  userMap :: "(string \<times> sess_ref) list"

definition init_SessionManager :: SessionManager where
  "init_SessionManager =
     \<lparr>heap = (\<lambda>_. new_ClientSession 0), next_ref = 0, sessionMap = [], userMap = []\<rparr>"

definition upd_session :: "sess_ref \<Rightarrow> (ClientSession \<Rightarrow> ClientSession) \<Rightarrow> SessionManager \<Rightarrow> SessionManager" where
  "upd_session r f m = m\<lparr>heap := (heap m)(r := f (heap m r))\<rparr>"

definition createSession :: "int \<Rightarrow> SessionManager \<Rightarrow> SessionManager" where
  "createSession fd m =
     m\<lparr>heap := (heap m)(next_ref m := new_ClientSession fd),
       next_ref := Suc (next_ref m),
       sessionMap := AList.update fd (next_ref m) (sessionMap m)\<rparr>"

definition getSession :: "SessionManager \<Rightarrow> int \<Rightarrow> sess_ref option" where
  "getSession m fd = map_of (sessionMap m) fd"

definition removeSession :: "int \<Rightarrow> SessionManager \<Rightarrow> SessionManager" where
  "removeSession fd m =
     (case map_of (sessionMap m) fd of
        None \<Rightarrow> m
      | Some r \<Rightarrow>
          (let uid = sess_userId (heap m r);
               m' = (if uid \<noteq> [] then m\<lparr>userMap := AList.delete uid (userMap m)\<rparr> else m)
           in m'\<lparr>sessionMap := AList.delete fd (sessionMap m')\<rparr>))"

definition getSessionByUserId :: "SessionManager \<Rightarrow> string \<Rightarrow> sess_ref option" where
  "getSessionByUserId m uid = map_of (userMap m) uid"

definition registerUser :: "string \<Rightarrow> int \<Rightarrow> sess_ref \<Rightarrow> SessionManager \<Rightarrow> SessionManager" where
  "registerUser uid r_role r m =
     (let m' = upd_session r (authenticate uid r_role) m
      in m'\<lparr>userMap := AList.update uid r (userMap m')\<rparr>)"

text \<open>The receivers of \<^verbatim>\<open>broadcastToRole\<close>, in iteration order.\<close>

definition broadcast_targets :: "SessionManager \<Rightarrow> int \<Rightarrow> sess_ref list" where
  "broadcast_targets m targetRole =
     filter (\<lambda>r. sess_role (heap m r) = targetRole) (map snd (userMap m))"

definition removeUser :: "string \<Rightarrow> SessionManager \<Rightarrow> SessionManager" where
  "removeUser uid m = m\<lparr>userMap := AList.delete uid (userMap m)\<rparr>"

definition ADMIN_ROLE :: int where
  "ADMIN_ROLE = 3"

definition getAvailableAdminSession :: "SessionManager \<Rightarrow> sess_ref option" where
  "getAvailableAdminSession m =
     (case filter (\<lambda>p. sess_role (heap m (snd p)) = ADMIN_ROLE) (userMap m) of
        [] \<Rightarrow> None
      | p # _ \<Rightarrow> Some (snd p))"

text \<open>Logging out (\<^verbatim>\<open>UserHandler::handleLogout\<close>) combines the two removals.\<close>

definition logout_session :: "sess_ref \<Rightarrow> SessionManager \<Rightarrow> SessionManager" where
  "logout_session r m =
     (let uid = sess_userId (heap m r)
      in if uid \<noteq> [] then upd_session r clearAuth (removeUser uid m) else m)"

section \<open>Operations as steps\<close>

datatype sm_op =
    Create int
  | Remove int
  | Login string int sess_ref
  | Logout sess_ref
  | Receive sess_ref string

fun sm_apply :: "sm_op \<Rightarrow> SessionManager \<Rightarrow> SessionManager" where
  "sm_apply (Create fd) m = createSession fd m"
| "sm_apply (Remove fd) m = removeSession fd m"
| "sm_apply (Login uid r_role r) m = (if r < next_ref m then registerUser uid r_role r m else m)"
| "sm_apply (Logout r) m = logout_session r m"
| "sm_apply (Receive r d) m = upd_session r (appendToReadBuffer d) m"

inductive sm_reachable :: "SessionManager \<Rightarrow> bool" where
  sm_init: "sm_reachable init_SessionManager"
| sm_step: "sm_reachable m \<Longrightarrow> sm_reachable (sm_apply x m)"

section \<open>Invariant\<close>

definition sm_inv :: "SessionManager \<Rightarrow> bool" where
  "sm_inv m \<longleftrightarrow>
     distinct (map fst (sessionMap m)) \<and> distinct (map fst (userMap m)) \<and>
     (\<forall>fd r. map_of (sessionMap m) fd = Some r \<longrightarrow> r < next_ref m \<and> clientFd (heap m r) = fd) \<and>
     (\<forall>u r. map_of (userMap m) u = Some r \<longrightarrow> r < next_ref m)"

lemmas sm_op_defs = createSession_def removeSession_def registerUser_def removeUser_def
  logout_session_def upd_session_def

lemmas session_op_defs = new_ClientSession_def appendToReadBuffer_def removeReadData_def
  authenticate_def setRole_def clearAuth_def

lemma sm_inv_init: "sm_inv init_SessionManager"
  by (simp add: sm_inv_def init_SessionManager_def)

lemma sm_inv_createSession: "sm_inv m \<Longrightarrow> sm_inv (createSession fd m)"
  by (fastforce simp: sm_inv_def createSession_def new_ClientSession_def less_Suc_eq
    intro: distinct_keys_update split: if_splits)

lemma sm_inv_upd_session:
  assumes "sm_inv m" "\<And>s. clientFd (f s) = clientFd s"
  shows "sm_inv (upd_session r f m)"
  using assms by (simp add: sm_inv_def upd_session_def)

lemma sm_inv_removeUser: "sm_inv m \<Longrightarrow> sm_inv (removeUser uid m)"
  by (auto simp: sm_inv_def removeUser_def intro: distinct_keys_delete split: if_splits)

lemma sm_inv_registerUser: "sm_inv m \<Longrightarrow> r < next_ref m \<Longrightarrow> sm_inv (registerUser uid r_role r m)"
  by (auto simp: sm_inv_def registerUser_def upd_session_def authenticate_def
    intro: distinct_keys_update split: if_splits)

lemma sm_inv_removeSession: "sm_inv m \<Longrightarrow> sm_inv (removeSession fd m)"
  by (auto simp: sm_inv_def removeSession_def Let_def intro: distinct_keys_delete
    split: if_splits option.splits)

lemma sm_inv_logout: "sm_inv m \<Longrightarrow> sm_inv (logout_session r m)"
  by (simp add: logout_session_def Let_def sm_inv_removeUser sm_inv_upd_session clearAuth_def)

lemma sm_inv_apply: "sm_inv m \<Longrightarrow> sm_inv (sm_apply x m)"
  by (cases x) (simp_all add: sm_inv_createSession sm_inv_removeSession sm_inv_registerUser
    sm_inv_logout sm_inv_upd_session appendToReadBuffer_def)

lemma sm_reachable_inv: "sm_reachable m \<Longrightarrow> sm_inv m"
  by (induction rule: sm_reachable.induct) (simp_all add: sm_inv_init sm_inv_apply)

section \<open>Lookups\<close>

lemma getSession_createSession [sess_simps]:
  "getSession (createSession fd m) fd' = (if fd' = fd then Some (next_ref m) else getSession m fd')"
  by (simp add: getSession_def createSession_def)

lemma getSession_removeSession [sess_simps]:
  "getSession (removeSession fd m) fd' = (if fd' = fd then None else getSession m fd')"
  by (auto simp: getSession_def removeSession_def Let_def split: option.splits)

lemma getSessionByUserId_registerUser [sess_simps]:
  "getSessionByUserId (registerUser uid r_role r m) u
     = (if u = uid then Some r else getSessionByUserId m u)"
  by (simp add: getSessionByUserId_def registerUser_def Let_def upd_session_def)

lemma getSessionByUserId_removeUser [sess_simps]:
  "getSessionByUserId (removeUser uid m) u = (if u = uid then None else getSessionByUserId m u)"
  by (simp add: getSessionByUserId_def removeUser_def)

lemma getSessionByUserId_createSession [sess_simps]:
  "getSessionByUserId (createSession fd m) u = getSessionByUserId m u"
  by (simp add: getSessionByUserId_def createSession_def)

lemma getSessionByUserId_removeSession [sess_simps]:
  "getSessionByUserId (removeSession fd m) u =
     (case getSession m fd of
        Some r \<Rightarrow> if u \<noteq> [] \<and> u = sess_userId (heap m r) then None else getSessionByUserId m u
      | None \<Rightarrow> getSessionByUserId m u)"
  by (auto simp: getSessionByUserId_def getSession_def removeSession_def Let_def split: option.splits)

interpretation users: registry getSessionByUserId "\<lambda>uid r. registerUser uid r_role r" removeUser
  for r_role :: int
  by unfold_locales (simp_all add: sess_simps)

lemma set_broadcast_targets:
  assumes "sm_inv m"
  shows "r \<in> set (broadcast_targets m ro)
     \<longleftrightarrow> (\<exists>u. getSessionByUserId m u = Some r \<and> sess_role (heap m r) = ro)"
  using assms by (force simp: broadcast_targets_def getSessionByUserId_def sm_inv_def)

end
