(* ===== verification/ChatRoomManager.thy ===== *)
theory ChatRoomManager
  imports Registry
begin

text \<open>
  The table of open one-to-one chats, \<^verbatim>\<open>server/src/session/ChatRoomManager.h\<close> and
  \<^verbatim>\<open>ChatRoomManager.cpp\<close>.  Each operation is one critical section of \<^verbatim>\<open>roomMutex\<close>.  The
  invariant \<open>crm_inv\<close> says that every room is stored under its own number and that the counter
  is ahead of every number ever issued, so \<^verbatim>\<open>createRoom\<close> never overwrites a room.  The counter is an
  \<^verbatim>\<open>int\<close> in the source; the model leaves out that it overflows after 2147483647 rooms.
\<close>

record ChatRoom =
  cr_roomId :: int
  cr_customerId :: string
  cr_adminId :: string
  cr_orderId :: nat

record ChatRoomManager =
  rooms :: "(int \<times> ChatRoom) list"
  nextRoomId :: int

definition init_ChatRoomManager :: ChatRoomManager where
  "init_ChatRoomManager = \<lparr>rooms = [], nextRoomId = 1\<rparr>"

definition put_room :: "int \<Rightarrow> ChatRoom \<Rightarrow> ChatRoomManager \<Rightarrow> ChatRoomManager" where
  "put_room rid room m = m\<lparr>rooms := AList.update rid room (rooms m)\<rparr>"

definition createRoom :: "string \<Rightarrow> string \<Rightarrow> nat \<Rightarrow> ChatRoomManager \<Rightarrow> int \<times> ChatRoomManager" where
  "createRoom customerId adminId orderId m =
     (let rid = nextRoomId m;
          m' = m\<lparr>nextRoomId := nextRoomId m + 1\<rparr>;
          newRoom = \<lparr>cr_roomId = rid, cr_customerId = customerId, cr_adminId = adminId,
                     cr_orderId = orderId\<rparr>
      in (rid, put_room rid newRoom m'))"

definition getRoom :: "ChatRoomManager \<Rightarrow> int \<Rightarrow> ChatRoom option" where
  "getRoom m rid = map_of (rooms m) rid"

definition getAllRooms :: "ChatRoomManager \<Rightarrow> ChatRoom list" where
  "getAllRooms m = map snd (rooms m)"

definition removeRoom :: "int \<Rightarrow> ChatRoomManager \<Rightarrow> ChatRoomManager" where
  "removeRoom rid m = m\<lparr>rooms := AList.delete rid (rooms m)\<rparr>"

definition crm_inv :: "ChatRoomManager \<Rightarrow> bool" where
  "crm_inv m \<longleftrightarrow> distinct (map fst (rooms m)) \<and> 1 \<le> nextRoomId m \<and>
     (\<forall>rid room. map_of (rooms m) rid = Some room \<longrightarrow>
        cr_roomId room = rid \<and> 1 \<le> rid \<and> rid < nextRoomId m)"

inductive crm_reachable :: "ChatRoomManager \<Rightarrow> bool" where
  crm_init: "crm_reachable init_ChatRoomManager"
| crm_create: "crm_reachable m \<Longrightarrow> crm_reachable (snd (createRoom c a oid m))"
| crm_remove: "crm_reachable m \<Longrightarrow> crm_reachable (removeRoom rid m)"

section \<open>Lemmas\<close>

lemma getRoom_put_room: "getRoom (put_room rid room m) i = (if i = rid then Some room else getRoom m i)"
  by (simp add: getRoom_def put_room_def)

lemma getRoom_removeRoom: "getRoom (removeRoom rid m) i = (if i = rid then None else getRoom m i)"
  by (simp add: getRoom_def removeRoom_def)

interpretation room_table: registry getRoom put_room removeRoom
  by unfold_locales (simp_all add: getRoom_put_room getRoom_removeRoom)

lemma crm_inv_init: "crm_inv init_ChatRoomManager"
  by (simp add: crm_inv_def init_ChatRoomManager_def)

lemma crm_inv_createRoom: "crm_inv m \<Longrightarrow> crm_inv (snd (createRoom c a oid m))"
  by (auto simp: crm_inv_def createRoom_def put_room_def Let_def intro: distinct_keys_update
    split: if_splits) fastforce

lemma crm_inv_removeRoom: "crm_inv m \<Longrightarrow> crm_inv (removeRoom rid m)"
  by (auto simp: crm_inv_def removeRoom_def intro: distinct_keys_delete split: if_splits)

lemma crm_reachable_inv: "crm_reachable m \<Longrightarrow> crm_inv m"
  by (induction rule: crm_reachable.induct)
    (simp_all add: crm_inv_init crm_inv_createRoom crm_inv_removeRoom)

lemma createRoom_fresh:
  assumes "crm_inv m"
  shows "getRoom m (fst (createRoom c a oid m)) = None"
  using assms by (cases "getRoom m (nextRoomId m)") (force simp: crm_inv_def getRoom_def createRoom_def Let_def)+

lemma getRoom_createRoom:
  "getRoom (snd (createRoom c a oid m)) rid =
     (if rid = nextRoomId m
      then Some \<lparr>cr_roomId = rid, cr_customerId = c, cr_adminId = a, cr_orderId = oid\<rparr>
      else getRoom m rid)"
  by (simp add: createRoom_def Let_def getRoom_def put_room_def)

end
