(* ===== verification/Fifo.thy ===== *)
theory Fifo
  imports Prelude
begin

text \<open>
  First-in first-out queues: the contract, and \<^verbatim>\<open>server/src/thread/SafeQueue.h\<close>.  The server has
  three of them: \<^verbatim>\<open>SafeQueue\<close>, the task queue of \<^verbatim>\<open>ThreadPool\<close> and the connection queue of
  \<^verbatim>\<open>DBManager\<close>.  Each critical section (guarded by the queue's mutex) is one operation; a
  blocking pop on an empty queue has no result, so it is \<open>None\<close>.
\<close>

locale fifo =
  fixes contents :: "'q \<Rightarrow> 'a list"
    and push :: "'a \<Rightarrow> 'q \<Rightarrow> 'q"
    and pop :: "'q \<Rightarrow> ('a \<times> 'q) option"
  assumes contents_push: "contents (push x q) = contents q @ [x]"
    and pop_empty: "contents q = [] \<Longrightarrow> pop q = None"
    and pop_front: "contents q = x # xs \<Longrightarrow> \<exists>q'. pop q = Some (x, q') \<and> contents q' = xs"
begin

fun pops :: "nat \<Rightarrow> 'q \<Rightarrow> 'a list \<times> 'q" where
  "pops 0 q = ([], q)"
| "pops (Suc n) q =
     (case pop q of None \<Rightarrow> ([], q) | Some (x, q') \<Rightarrow> (case pops n q' of (xs, q'') \<Rightarrow> (x # xs, q'')))"

lemma contents_push_all: "contents (fold push xs q) = contents q @ xs"
  by (induction xs arbitrary: q) (simp_all add: contents_push)

lemma pops_take: "fst (pops n q) = take n (contents q) \<and> contents (snd (pops n q)) = drop n (contents q)"
proof (induction n arbitrary: q)
  case (Suc n)
  show ?case
  proof (cases "contents q")
    case Nil
    then show ?thesis by (simp add: pop_empty)
  next
    case (Cons x xs)
    with pop_front obtain q' where "pop q = Some (x, q')" "contents q' = xs" by blast
    then show ?thesis using Suc.IH [of q'] Cons by (auto split: prod.splits)
  qed
qed simp

lemma drain:
  assumes "contents q = []"
  shows "fst (pops (length xs) (fold push xs q)) = xs"
  using pops_take [of "length xs"] assms by (simp add: contents_push_all)

end

section \<open>\<^verbatim>\<open>SafeQueue\<close>\<close>

record 'a SafeQueue =
  m_queue :: "'a list"

definition sq_push :: "'a \<Rightarrow> 'a SafeQueue \<Rightarrow> 'a SafeQueue" where
  "sq_push value q = q\<lparr>m_queue := m_queue q @ [value]\<rparr>"

definition wait_and_pop :: "'a SafeQueue \<Rightarrow> ('a \<times> 'a SafeQueue) option" where
  "wait_and_pop q = (case m_queue q of [] \<Rightarrow> None | x # xs \<Rightarrow> Some (x, q\<lparr>m_queue := xs\<rparr>))"

definition try_pop :: "'a SafeQueue \<Rightarrow> 'a option \<times> 'a SafeQueue" where
  "try_pop q = (case m_queue q of [] \<Rightarrow> (None, q) | x # xs \<Rightarrow> (Some x, q\<lparr>m_queue := xs\<rparr>))"

definition sq_empty :: "'a SafeQueue \<Rightarrow> bool" where
  "sq_empty q \<longleftrightarrow> m_queue q = []"

interpretation safe_queue: fifo m_queue sq_push wait_and_pop
  by unfold_locales (auto simp: sq_push_def wait_and_pop_def)

lemma try_pop_wait_and_pop:
  "try_pop q = (case wait_and_pop q of None \<Rightarrow> (None, q) | Some (x, q') \<Rightarrow> (Some x, q'))"
  by (simp add: try_pop_def wait_and_pop_def split: list.splits)

end
