(* ===== verification/ThreadPool.thy ===== *)
theory ThreadPool
  imports Fifo
begin

text \<open>
  The worker pool of \<^verbatim>\<open>server/src/thread/ThreadPool.h\<close> and \<^verbatim>\<open>ThreadPool.cpp\<close> as a transition
  system: the state is the task queue, the stop flag and what each worker is doing, with two
  history lists (tasks enqueued, tasks taken, in order).  A worker that waits on the condition
  variable is \<open>Idle\<close>; it moves when \<^verbatim>\<open>stop || !tasks.empty()\<close> holds.  The destructor sets
  \<^verbatim>\<open>stop\<close> and joins the workers; nobody may call \<^verbatim>\<open>enqueue\<close> on an object that is being
  destroyed, so \<open>tp_enqueue\<close> requires \<open>\<not> stop\<close>.
\<close>

datatype 'a worker = Idle | Running 'a | Exited

record 'a ThreadPool =
  tasks :: "'a list"
  stop :: bool
  workers :: "'a worker list"
  enqueued :: "'a list"
  started :: "'a list"

definition new_ThreadPool :: "nat \<Rightarrow> 'a ThreadPool" where
  "new_ThreadPool threads =
     \<lparr>tasks = [], stop = False, workers = replicate threads Idle, enqueued = [], started = []\<rparr>"

definition enqueue :: "'a \<Rightarrow> 'a ThreadPool \<Rightarrow> 'a ThreadPool" where
  "enqueue t p = p\<lparr>tasks := tasks p @ [t], enqueued := enqueued p @ [t]\<rparr>"

definition pop_task :: "'a ThreadPool \<Rightarrow> ('a \<times> 'a ThreadPool) option" where
  "pop_task p = (case tasks p of [] \<Rightarrow> None
     | t # ts \<Rightarrow> Some (t, p\<lparr>tasks := ts, started := started p @ [t]\<rparr>))"

definition set_worker :: "nat \<Rightarrow> 'a worker \<Rightarrow> 'a ThreadPool \<Rightarrow> 'a ThreadPool" where
  "set_worker i s p = p\<lparr>workers := (workers p)[i := s]\<rparr>"

inductive tp_work :: "'a ThreadPool \<Rightarrow> 'a ThreadPool \<Rightarrow> bool" where
  tp_take: "i < length (workers p) \<Longrightarrow> workers p ! i = Idle \<Longrightarrow> pop_task p = Some (t, p') \<Longrightarrow>
     tp_work p (set_worker i (Running t) p')"
| tp_finish: "i < length (workers p) \<Longrightarrow> workers p ! i = Running t \<Longrightarrow>
     tp_work p (set_worker i Idle p)"
| tp_exit: "i < length (workers p) \<Longrightarrow> workers p ! i = Idle \<Longrightarrow> stop p \<Longrightarrow> tasks p = [] \<Longrightarrow>
     tp_work p (set_worker i Exited p)"

inductive tp_step :: "'a ThreadPool \<Rightarrow> 'a ThreadPool \<Rightarrow> bool" where
  tp_worker: "tp_work p p' \<Longrightarrow> tp_step p p'"
| tp_enqueue: "\<not> stop p \<Longrightarrow> tp_step p (enqueue t p)"
| tp_stop: "tp_step p (p\<lparr>stop := True\<rparr>)"

inductive tp_reachable :: "nat \<Rightarrow> 'a ThreadPool \<Rightarrow> bool" for n where
  tp_init: "tp_reachable n (new_ThreadPool n)"
| tp_next: "tp_reachable n p \<Longrightarrow> tp_step p p' \<Longrightarrow> tp_reachable n p'"

inductive_cases tp_workE: "tp_work p p'"

interpretation task_queue: fifo tasks enqueue pop_task
  by unfold_locales (auto simp: enqueue_def pop_task_def)

section \<open>Invariant\<close>

definition tp_inv :: "nat \<Rightarrow> 'a ThreadPool \<Rightarrow> bool" where
  "tp_inv n p \<longleftrightarrow> length (workers p) = n \<and> enqueued p = started p @ tasks p \<and>
     (Exited \<in> set (workers p) \<longrightarrow> stop p \<and> tasks p = [])"

lemma tp_inv_work: "tp_work p p' \<Longrightarrow> tp_inv n p \<Longrightarrow> tp_inv n p'"
  by (induction rule: tp_work.induct)
    (auto simp: tp_inv_def set_worker_def pop_task_def split: list.splits
      dest!: set_update_subset_insert [THEN subsetD])

lemma tp_inv_step: "tp_step p p' \<Longrightarrow> tp_inv n p \<Longrightarrow> tp_inv n p'"
  by (induction rule: tp_step.induct) (auto simp: tp_inv_work, auto simp: tp_inv_def enqueue_def)

lemma tp_reachable_inv: "tp_reachable n p \<Longrightarrow> tp_inv n p"
proof (induction rule: tp_reachable.induct)
  case tp_init
  show ?case by (auto simp: tp_inv_def new_ThreadPool_def)
qed (rule tp_inv_step)

section \<open>Shutdown\<close>

fun worker_load :: "'a worker \<Rightarrow> nat" where
  "worker_load Idle = 1"
| "worker_load (Running _) = 2"
| "worker_load Exited = 0"

definition tp_load :: "'a ThreadPool \<Rightarrow> nat" where
  "tp_load p = 3 * length (tasks p) + sum_list (map worker_load (workers p))"

lemma sum_list_map_update:
  fixes f :: "'a \<Rightarrow> nat"
  assumes "i < length xs"
  shows "sum_list (map f (xs[i := y])) + f (xs ! i) = sum_list (map f xs) + f y"
  using assms
proof (induction xs arbitrary: i)
  case (Cons x xs)
  then show ?case by (cases i) auto
qed simp

lemma tp_load_decreases: "tp_work p p' \<Longrightarrow> tp_load p' < tp_load p"
proof (induction rule: tp_work.induct)
  case (tp_take i p t p')
  then have "tasks p = t # tasks p'" "workers p' = workers p"
    by (auto simp: pop_task_def split: list.splits)
  then show ?case using tp_take sum_list_map_update [of i "workers p" worker_load "Running t"]
    by (simp add: tp_load_def set_worker_def)
next
  case (tp_finish i p t)
  then show ?case using sum_list_map_update [of i "workers p" worker_load Idle]
    by (simp add: tp_load_def set_worker_def)
next
  case (tp_exit i p)
  then show ?case using sum_list_map_update [of i "workers p" worker_load Exited]
    by (simp add: tp_load_def set_worker_def)
qed

lemma tp_work_terminates: "wfP (\<lambda>p' p. tp_work p p')"
  by (rule wfp_if_convertible_to_nat [of _ tp_load]) (rule tp_load_decreases)

lemma tp_stop_progress:
  assumes "stop p" "w \<in> set (workers p)" "w \<noteq> Exited"
  shows "\<exists>p'. tp_work p p'"
proof -
  from assms(2) obtain i where i: "i < length (workers p)" "workers p ! i = w"
    by (auto simp: in_set_conv_nth)
  show ?thesis
  proof (cases w)
    case Idle
    show ?thesis
    proof (cases "tasks p")
      case Nil
      then show ?thesis using i Idle assms(1) by (blast intro: tp_exit)
    next
      case (Cons t ts)
      then have "\<exists>p'. pop_task p = Some (t, p')" by (simp add: pop_task_def)
      then show ?thesis using i Idle by (blast intro: tp_take)
    qed
  next
    case (Running t)
    then show ?thesis using i by (auto intro: tp_finish)
  qed (use assms in simp)
qed

end
