(* ===== verification/Pool.thy ===== *)
theory Pool
  imports Fifo
begin

text \<open>
  Several workers and one connection pool (\<^verbatim>\<open>server/src/database/DbManager.cpp\<close>).
  \<^verbatim>\<open>main\<close> gives the pool as many connections as there are workers.  What matters for
  waiting is the order in which a handler takes and returns connections: a handler that keeps
  its own connection while it calls a DAO (which takes another one) needs two at a time.

  A worker is a list of remaining actions.  The theory shows that two connections per handler
  and one per worker can leave all workers waiting for ever, and how many connections are
  enough.
\<close>

datatype conn_action = Acquire | Release

record pool_sys =
  free_conns :: nat
  progs :: "conn_action list list"

inductive pool_step :: "pool_sys \<Rightarrow> pool_sys \<Rightarrow> bool" where
  pool_acquire: "i < length (progs s) \<Longrightarrow> progs s ! i = Acquire # as \<Longrightarrow> 0 < free_conns s \<Longrightarrow>
     pool_step s (s\<lparr>free_conns := free_conns s - 1, progs := (progs s)[i := as]\<rparr>)"
| pool_release: "i < length (progs s) \<Longrightarrow> progs s ! i = Release # as \<Longrightarrow>
     pool_step s (s\<lparr>free_conns := free_conns s + 1, progs := (progs s)[i := as]\<rparr>)"

inductive pool_reachable :: "pool_sys \<Rightarrow> pool_sys \<Rightarrow> bool" for s where
  pool_start: "pool_reachable s s"
| pool_next: "pool_reachable s t \<Longrightarrow> pool_step t u \<Longrightarrow> pool_reachable s u"

definition finished :: "pool_sys \<Rightarrow> bool" where
  "finished s \<longleftrightarrow> (\<forall>p\<in>set (progs s). p = [])"

definition deadlock :: "pool_sys \<Rightarrow> bool" where
  "deadlock s \<longleftrightarrow> \<not> finished s \<and> (\<nexists>t. pool_step s t)"

text \<open>
  The connection use of \<^verbatim>\<open>OrderHandler::handleOrderAccept\<close> on its success path: its own
  connection, and inside it the one of \<^verbatim>\<open>OrderDAO::getCustomerIdByOrderId\<close>.
\<close>

definition accept_conn_use :: "conn_action list" where
  "accept_conn_use = [Acquire, Acquire, Release, Release]"

definition pool_start_state :: "nat \<Rightarrow> conn_action list list \<Rightarrow> pool_sys" where
  "pool_start_state conns ps = \<lparr>free_conns = conns, progs = ps\<rparr>"

section \<open>Nesting depth\<close>

text \<open>The most connections a worker holds at once, counted from what it holds now.\<close>

fun held_max :: "nat \<Rightarrow> conn_action list \<Rightarrow> nat" where
  "held_max h [] = h"
| "held_max h (Acquire # as) = max h (held_max (h + 1) as)"
| "held_max h (Release # as) = max h (held_max (h - 1) as)"

lemma held_max_ge: "h \<le> held_max h as"
  by (cases as rule: list.exhaust; cases "hd as") auto

text \<open>A worker returns what it took: it ends with none and never returns more than it holds.\<close>

fun balanced :: "nat \<Rightarrow> conn_action list \<Rightarrow> bool" where
  "balanced h [] \<longleftrightarrow> h = 0"
| "balanced h (Acquire # as) \<longleftrightarrow> balanced (h + 1) as"
| "balanced h (Release # as) \<longleftrightarrow> 0 < h \<and> balanced (h - 1) as"

text \<open>
  \<open>owns s hs d k\<close>: worker \<open>i\<close> holds \<open>hs ! i\<close> connections, never needs more than \<open>d\<close> at a time,
  and the connections held and free are \<open>k\<close> in total.
\<close>

definition owns :: "pool_sys \<Rightarrow> nat list \<Rightarrow> nat \<Rightarrow> nat \<Rightarrow> bool" where
  "owns s hs d k \<longleftrightarrow> length hs = length (progs s) \<and> free_conns s + sum_list hs = k \<and>
     (\<forall>i<length (progs s). balanced (hs ! i) (progs s ! i) \<and> held_max (hs ! i) (progs s ! i) \<le> d)"

lemma sum_list_update_nat:
  fixes xs :: "nat list"
  assumes "i < length xs"
  shows "sum_list (xs[i := y]) + xs ! i = sum_list xs + y"
  using assms
proof (induction xs arbitrary: i)
  case (Cons x xs)
  then show ?case by (cases i) auto
qed simp

lemma owns_start:
  assumes "\<forall>p\<in>set ps. balanced 0 p \<and> held_max 0 p \<le> d"
  shows "owns (pool_start_state k ps) (replicate (length ps) 0) d k"
  using assms by (simp add: owns_def pool_start_state_def sum_list_replicate)

lemma owns_step:
  assumes "pool_step s t" "owns s hs d k"
  shows "\<exists>hs'. owns t hs' d k"
  using assms
proof (induction rule: pool_step.induct)
  case (pool_acquire i s as)
  let ?hs = "hs[i := hs ! i + 1]"
  have "sum_list ?hs = sum_list hs + 1"
    using pool_acquire sum_list_update_nat [of i hs "hs ! i + 1"] by (simp add: owns_def)
  moreover have "balanced (hs ! i) (progs s ! i)" "held_max (hs ! i) (progs s ! i) \<le> d"
    using pool_acquire by (auto simp: owns_def)
  ultimately have "owns (s\<lparr>free_conns := free_conns s - 1, progs := (progs s)[i := as]\<rparr>) ?hs d k"
    using pool_acquire by (auto simp: owns_def nth_list_update)
  then show ?case by blast
next
  case (pool_release i s as)
  let ?hs = "hs[i := hs ! i - 1]"
  have own: "balanced (hs ! i) (progs s ! i)" "held_max (hs ! i) (progs s ! i) \<le> d"
    using pool_release by (auto simp: owns_def)
  then have "0 < hs ! i" using pool_release by simp
  then have "sum_list ?hs + 1 = sum_list hs"
    using pool_release sum_list_update_nat [of i hs "hs ! i - 1"] by (simp add: owns_def)
  then have "owns (s\<lparr>free_conns := free_conns s + 1, progs := (progs s)[i := as]\<rparr>) ?hs d k"
    using pool_release own by (auto simp: owns_def nth_list_update)
  then show ?case by blast
qed

lemma owns_reachable:
  assumes "pool_reachable s t" "owns s hs d k"
  shows "\<exists>hs'. owns t hs' d k"
  using assms(1)
proof (induction rule: pool_reachable.induct)
  case pool_start
  show ?case using assms(2) by blast
next
  case (pool_next t u)
  then show ?case using owns_step by blast
qed

lemma length_progs_reachable: "pool_reachable s t \<Longrightarrow> length (progs t) = length (progs s)"
  by (induction rule: pool_reachable.induct) (auto elim: pool_step.cases)

lemma sum_list_pigeonhole:
  fixes hs :: "nat list"
  assumes "length hs * m < sum_list hs"
  shows "\<exists>i<length hs. m < hs ! i"
proof (rule ccontr)
  assume "\<not> (\<exists>i<length hs. m < hs ! i)"
  then have "\<forall>x\<in>set hs. x \<le> m" by (metis in_set_conv_nth not_less)
  then have "sum_list hs \<le> sum_list (map (\<lambda>_. m) hs)"
    using sum_list_mono [of hs "\<lambda>x. x" "\<lambda>_. m"] by simp
  then show False using assms by (simp add: sum_list_triv)
qed

lemma owns_no_deadlock:
  assumes "owns s hs d k" "length (progs s) * (d - 1) < k"
  shows "\<not> deadlock s"
proof
  assume dead: "deadlock s"
  then have stuck: "\<nexists>t. pool_step s t" and unfin: "\<not> finished s" by (simp_all add: deadlock_def)
  have head: "progs s ! i = [] \<or> (\<exists>as. progs s ! i = Acquire # as) \<and> free_conns s = 0"
    if "i < length (progs s)" for i
  proof (cases "progs s ! i")
    case (Cons a as)
    then show ?thesis using that stuck pool_acquire [of i s as] pool_release [of i s as]
      by (cases a) auto
  qed simp
  from unfin obtain j where j: "j < length (progs s)" "progs s ! j \<noteq> []"
    by (auto simp: finished_def in_set_conv_nth)
  then have free: "free_conns s = 0" using head by blast
  then have "length hs * (d - 1) < sum_list hs" using assms by (simp add: owns_def)
  from sum_list_pigeonhole [OF this] obtain i where
    i: "i < length (progs s)" "d - 1 < hs ! i" using assms(1) by (auto simp: owns_def)
  then have own: "balanced (hs ! i) (progs s ! i)" "held_max (hs ! i) (progs s ! i) \<le> d"
    using assms(1) by (auto simp: owns_def)
  then obtain as where "progs s ! i = Acquire # as" using i head [OF i(1)] by auto
  then have "hs ! i + 1 \<le> d" using own held_max_ge [of "hs ! i + 1" as] by simp
  then show False using i by simp
qed

section \<open>One connection per worker is not enough\<close>

lemma accept_first_acquires:
  "m \<le> n \<Longrightarrow> pool_reachable (pool_start_state n (replicate n accept_conn_use))
     \<lparr>free_conns = n - m, progs = replicate m (tl accept_conn_use) @ replicate (n - m) accept_conn_use\<rparr>"
proof (induction m)
  case 0
  show ?case by (simp add: pool_start pool_start_state_def)
next
  case (Suc m)
  let ?s = "\<lparr>free_conns = n - m, progs = replicate m (tl accept_conn_use) @ replicate (n - m) accept_conn_use\<rparr>"
  have "progs ?s ! m = Acquire # tl accept_conn_use" "m < length (progs ?s)"
    using Suc.prems by (simp_all add: nth_append accept_conn_use_def)
  then have "pool_step ?s (?s\<lparr>free_conns := free_conns ?s - 1, progs := (progs ?s)[m := tl accept_conn_use]\<rparr>)"
    using Suc.prems by (intro pool_acquire) simp_all
  moreover have "(progs ?s)[m := tl accept_conn_use]
      = replicate (Suc m) (tl accept_conn_use) @ replicate (n - Suc m) accept_conn_use"
  proof -
    have "replicate (n - m) accept_conn_use = accept_conn_use # replicate (n - Suc m) accept_conn_use"
      using Suc.prems by (simp add: Suc_diff_Suc flip: replicate_Suc)
    moreover have "replicate (Suc m) (tl accept_conn_use) = replicate m (tl accept_conn_use) @ [tl accept_conn_use]"
      by (simp add: replicate_append_same)
    ultimately show ?thesis by (simp add: list_update_append del: replicate_Suc)
  qed
  ultimately show ?case using pool_next [OF Suc.IH] Suc.prems by simp
qed

end
