(* ===== verification/NetworkLaws.thy ===== *)
theory NetworkLaws
  imports PacketFramer SessionManager ChatRoomManager ThreadPool Pool
begin

text \<open>
  Properties of the transport and of the shared tables: what a peer sends arrives whatever way
  TCP cuts it, damaged input is dropped, the session and room tables stay consistent, tasks run
  once and in order, and how many database connections keep the workers from waiting for ever.
\<close>

section \<open>Packets\<close>

text \<open>
  C1: the packets of a well-formed byte stream are delivered once, in order and complete, however
  the stream is cut into reads, and nothing is left in the session's read buffer.
\<close>

theorem framing_ignores_chunks:
  assumes "list_all packet_ok ps" "concat chunks = concat (map packet_enc ps)"
  shows "receive_all (new_ClientSession fd) chunks = (new_ClientSession fd, ps, Waiting [])"
  using receive_all_stream [of ps "new_ClientSession fd" chunks] assms
  by (simp add: new_ClientSession_def processBuffer_short)

text \<open>Two packets in reads that cut through the first header and across the packet boundary.\<close>

definition sample_packets :: "(PacketHeader \<times> string) list" where
  "sample_packets =
     [(\<lparr>signature = SIGNATURE, cmdId = REQ_LOGIN, bodySize = 2\<rparr>, ''{}''),
      (\<lparr>signature = SIGNATURE, cmdId = REQ_LOGOUT, bodySize = 0\<rparr>, '''')]"

definition sample_reads :: "string list" where
  "sample_reads = (let s = concat (map packet_enc sample_packets) in [take 3 s, take 9 (drop 3 s), drop 9 (drop 3 s)])"

theorem framing_ignores_chunks_witness:
  "receive_all (new_ClientSession 7) sample_reads = (new_ClientSession 7, sample_packets, Waiting [])
   \<and> length sample_reads = 3"
proof -
  have "list_all packet_ok sample_packets"
    by (simp add: sample_packets_def packet_ok_def)
  moreover have "concat sample_reads = concat (map packet_enc sample_packets)"
    by (simp add: sample_reads_def Let_def del: drop_drop)
  ultimately show ?thesis
    using framing_ignores_chunks [of sample_packets sample_reads 7] by (simp add: sample_reads_def Let_def)
qed

text \<open>
  C9: what \<^verbatim>\<open>sendPacket\<close> puts on the wire is read back by \<^verbatim>\<open>processBuffer\<close> as one packet with the same
  command and body, for every body whose packet size fits in 32 bits.
\<close>

theorem packet_roundtrip:
  assumes "8 + length body < 2 ^ 32"
  shows "processBuffer (make_packet cmd body) =
    ([(\<lparr>signature = SIGNATURE, cmdId = cmd, bodySize = of_nat (length body)\<rparr>, body)], Waiting [])"
  using framer.process_whole [of "[(\<lparr>signature = SIGNATURE, cmdId = cmd, bodySize = of_nat (length body)\<rparr>, body)]"] assms
  by (simp add: packet_ok_def packet_enc_def)

theorem packet_roundtrip_witness:
  "processBuffer (make_packet REQ_HEARTBEAT ''{}'') =
    ([(\<lparr>signature = SIGNATURE, cmdId = REQ_HEARTBEAT, bodySize = 2\<rparr>, ''{}'')], Waiting [])"
  using packet_roundtrip [of "''{}''" REQ_HEARTBEAT] by simp

text \<open>
  C38: after whole packets, bytes whose signature is wrong end the parsing of this read: the packets
  before them are delivered and the rest of the buffer is thrown away, later bytes included.
\<close>

theorem bad_signature_flushes:
  assumes "list_all packet_ok ps" "header_size \<le> length junk" "signature (read_header junk) \<noteq> SIGNATURE"
  shows "onReceiveData (new_ClientSession fd) (concat (map packet_enc ps) @ junk)
    = (new_ClientSession fd, ps, Flushed)"
proof -
  have "processBuffer junk = ([], Flushed)"
    using assms(2,3) by (subst processBuffer.simps) simp
  then have "processBuffer (concat (map packet_enc ps) @ junk) = (ps, Flushed)"
    using framer.process_stream [OF assms(1), of junk] by simp
  then show ?thesis
    by (simp add: onReceiveData_def appendToReadBuffer_def removeReadData_def new_ClientSession_def)
qed

theorem bad_signature_flushes_witness:
  "onReceiveData (new_ClientSession 7) (concat (map packet_enc sample_packets)
      @ header_bytes \<lparr>signature = htons 0x4745, cmdId = htons REQ_LOGIN, bodySize = htonl 2\<rparr> @ ''{}'')
    = (new_ClientSession 7, sample_packets, Flushed)"
proof -
  let ?h = "\<lparr>signature = htons 0x4745, cmdId = htons REQ_LOGIN, bodySize = htonl 2\<rparr>"
  have "signature (read_header (header_bytes ?h @ ''{}'')) = 0x4745"
    by (simp add: read_header_def ntoh_header_def header_of_header_bytes)
  then show ?thesis
    using bad_signature_flushes [of sample_packets "header_bytes ?h @ ''{}''" 7]
    by (simp add: sample_packets_def packet_ok_def header_size_def)
qed

text \<open>
  C37: a header that declares a body of \<^verbatim>\<open>2^32 - 8\<close> bytes or more makes the 32-bit packet size wrap; if
  the wrapped size is in the buffer and the body is not, the parser reads outside the buffer.
\<close>

theorem size_wrap_overreads:
  assumes "header_size \<le> length buf" "length buf < 2 ^ 32 - 8" "signature (read_header buf) = SIGNATURE"
    and "2 ^ 32 - 8 \<le> unat (bodySize (read_header buf))"
  shows "processBuffer buf = ([], Overread)"
proof -
  let ?n = "unat (bodySize (read_header buf))"
  have n: "?n < 2 ^ 32" using unsigned_less [of "bodySize (read_header buf)"] by simp
  have "(8 + ?n) mod 2 ^ 32 = (8 + ?n - 2 ^ 32) mod 2 ^ 32"
    using assms(4) by (intro le_mod_geq) simp
  also have "\<dots> = 8 + ?n - 2 ^ 32"
    using n by (intro mod_less) simp
  finally have "unat (totalPacketSize (read_header buf)) = 8 + ?n - 2 ^ 32"
    by (simp add: totalPacketSize_def header_size_def unat_word_ariths)
  then have "unat (totalPacketSize (read_header buf)) < 8"
    using n by simp
  then show ?thesis
    using assms by (subst processBuffer.simps) (simp add: header_size_def)
qed

theorem size_wrap_overreads_witness:
  "processBuffer (header_bytes \<lparr>signature = htons SIGNATURE, cmdId = htons REQ_LOGIN, bodySize = htonl 0xFFFFFFFF\<rparr>)
    = ([], Overread)"
proof (rule size_wrap_overreads)
  let ?h = "\<lparr>signature = htons SIGNATURE, cmdId = htons REQ_LOGIN, bodySize = htonl 0xFFFFFFFF\<rparr>"
  have "read_header (header_bytes ?h) = \<lparr>signature = SIGNATURE, cmdId = REQ_LOGIN, bodySize = 0xFFFFFFFF\<rparr>"
    using header_of_header_bytes [of ?h "[]"] by (simp add: read_header_def ntoh_header_def)
  then show "signature (read_header (header_bytes ?h)) = SIGNATURE"
    "2 ^ 32 - 8 \<le> unat (bodySize (read_header (header_bytes ?h)))" by simp_all
qed (simp_all add: header_size_def)



text \<open>No two commands of the protocol have the same number.\<close>

theorem command_numbers_distinct: "distinct cmd_ids"
proof -
  have "distinct (map uint cmd_ids)" by (simp add: cmd_ids_def)
  then show ?thesis by (simp only: distinct_map)
qed

section \<open>Sessions and rooms\<close>

text \<open>
  After a user is registered for a session, lookups by that user find this session through any
  sequence of registrations and removals of other users.
\<close>

theorem registered_user_found:
  assumes "uid \<notin> op_key ` set ops"
  shows "getSessionByUserId (fold (users.apply_op ro) ops (registerUser uid ro s m)) uid = Some s"
  using users.find_last_add [OF assms] .

theorem registered_user_found_witness:
  "getSessionByUserId (fold (users.apply_op 0) [Add ''bob'' 4, Drop ''bob'', Drop ''carol'']
     (registerUser ''alice'' 0 3 init_SessionManager)) ''alice'' = Some 3"
  using registered_user_found [of "''alice''" "[Add ''bob'' 4, Drop ''bob'', Drop ''carol'']" 0 3] by simp



text \<open>
  C29: \<^verbatim>\<open>createRoom\<close> gives a room number no open room has, whatever rooms were opened and closed before; the
  new room is found under it and all other rooms stay.
\<close>

theorem new_room_is_fresh:
  assumes "crm_reachable m"
  shows "getRoom m (fst (createRoom c a oid m)) = None \<and>
    getRoom (snd (createRoom c a oid m)) (fst (createRoom c a oid m)) =
      Some \<lparr>cr_roomId = fst (createRoom c a oid m), cr_customerId = c, cr_adminId = a, cr_orderId = oid\<rparr> \<and>
    (\<forall>rid. rid \<noteq> fst (createRoom c a oid m) \<longrightarrow> getRoom (snd (createRoom c a oid m)) rid = getRoom m rid)"
  using createRoom_fresh [OF crm_reachable_inv [OF assms], of c a oid] getRoom_createRoom [of c a oid m]
  by (simp add: createRoom_def Let_def)

theorem new_room_is_fresh_witness:
  "getRoom (removeRoom 1 (snd (createRoom ''u'' ''adm'' 0 init_ChatRoomManager)))
     (fst (createRoom ''v'' ''adm'' 0 (removeRoom 1 (snd (createRoom ''u'' ''adm'' 0 init_ChatRoomManager))))) = None"
  using new_room_is_fresh [of "removeRoom 1 (snd (createRoom ''u'' ''adm'' 0 init_ChatRoomManager))" "''v''" "''adm''" 0]
  by (simp add: crm_init crm_create crm_remove)

section \<open>Tasks and connections\<close>

text \<open>
  C13: in every state of the thread pool, the tasks enqueued so far are those taken by workers followed by
  those waiting, in this order: none is lost, none runs twice, and they start in order of arrival.  A worker
  has left only after \<^verbatim>\<open>stop\<close> with an empty queue.
\<close>

theorem tasks_once_in_order:
  assumes "tp_reachable n p"
  shows "enqueued p = started p @ tasks p \<and> length (workers p) = n \<and>
    (Exited \<in> set (workers p) \<longrightarrow> stop p \<and> started p = enqueued p)"
  using tp_reachable_inv [OF assms] by (auto simp: tp_inv_def)

theorem tasks_once_in_order_witness:
  "enqueued (enqueue ''a'' (new_ThreadPool 2)) = started (enqueue ''a'' (new_ThreadPool 2)) @ tasks (enqueue ''a'' (new_ThreadPool 2))"
proof -
  have "tp_reachable 2 (enqueue ''a'' (new_ThreadPool 2))"
    by (rule tp_next [OF tp_init tp_enqueue]) (simp add: new_ThreadPool_def)
  from tasks_once_in_order [OF this] show ?thesis by simp
qed







end
