(* ===== verification/Binary64.thy ===== *)
theory Binary64
  imports Prelude
begin

text \<open>
  Floating-point numbers of type \<^verbatim>\<open>double\<close>, as the rational numbers they stand for (finite values; the two zeros are one
  number here), and the conversion of decimal text by \<^verbatim>\<open>std::strtod\<close>, which the JSON lexer calls: the value of the text, rounded
  to the nearest double, ties to even.
\<close>

fun log2_nat :: "nat \<Rightarrow> nat" where
  "log2_nat n = (if n < 2 then 0 else Suc (log2_nat (n div 2)))"

declare log2_nat.simps [simp del]

text \<open>The exponent \<open>e\<close> with \<open>2 powi e \<le> q < 2 powi (e + 1)\<close>, for a positive \<open>q\<close>.\<close>

definition log2_rat :: "rat \<Rightarrow> int" where
  "log2_rat q =
     (case quotient_of q of (n, d) \<Rightarrow>
        let e = int (log2_nat (nat n)) - int (log2_nat (nat d))
        in if 2 powi e \<le> q then e else e - 1)"

definition round_half_even :: "rat \<Rightarrow> int" where
  "round_half_even x =
     (let f = \<lfloor>x\<rfloor>; d = x - of_int f
      in if d < 1 / 2 then f else if 1 / 2 < d then f + 1 else if even f then f else f + 1)"

text \<open>Rounding to 53 significant bits with exponents from \<open>- 1074\<close>; \<open>None\<close> is an infinite result.\<close>

definition round_positive :: "rat \<Rightarrow> rat option" where
  "round_positive q =
     (let e = max (log2_rat q - 52) (- 1074);
          r = of_int (round_half_even (q / 2 powi e)) * 2 powi e
      in if 2 powi 1024 \<le> r then None else Some r)"

definition round_binary64 :: "rat \<Rightarrow> rat option" where
  "round_binary64 q =
     (if q = 0 then Some 0
      else if 0 < q then round_positive q
      else map_option uminus (round_positive (- q)))"

text \<open>The value of a text \<^verbatim>\<open>-?digits(.digits)?([eE][+-]?digits)?\<close>.\<close>

definition unsigned_decimal :: "string \<Rightarrow> rat" where
  "unsigned_decimal u =
     (let ip = takeWhile is_digit u; r1 = dropWhile is_digit u;
          fp = (case r1 of c # r \<Rightarrow> if c = CHR ''.'' then takeWhile is_digit r else [] | [] \<Rightarrow> []);
          r2 = (case r1 of c # r \<Rightarrow> if c = CHR ''.'' then dropWhile is_digit r else r1 | [] \<Rightarrow> []);
          ex = (case r2 of
                  _ # ds \<Rightarrow>
                    if ds \<noteq> [] \<and> hd ds = CHR ''-'' then - int (digits_val (tl ds))
                    else if ds \<noteq> [] \<and> hd ds = CHR ''+'' then int (digits_val (tl ds))
                    else int (digits_val ds)
                | [] \<Rightarrow> 0)
      in of_nat (digits_val (ip @ fp)) * 10 powi (ex - int (length fp)))"

definition strtod :: "string \<Rightarrow> rat option" where
  "strtod s =
     (if s \<noteq> [] \<and> hd s = CHR ''-'' then round_binary64 (- unsigned_decimal (tl s))
      else round_binary64 (unsigned_decimal s))"

end
