(* ===== verification/Json.thy ===== *)
theory Json
  imports Binary64
begin

text \<open>
  JSON values and the accessors of nlohmann's library that the handlers and DTOs use
  (\<^verbatim>\<open>at\<close>, \<^verbatim>\<open>value\<close>, \<^verbatim>\<open>get<int>\<close>, \<^verbatim>\<open>get<std::string>\<close>, and the two \<^verbatim>\<open>NLOHMANN_DEFINE_TYPE_INTRUSIVE\<close>
  macro forms of \<^verbatim>\<open>include/json.hpp\<close>), each with the exception it throws.  Parsing a text
  and dumping a value are in theories JsonParser and JsonDump.

  An integer of a JSON text is read into an \<^verbatim>\<open>int\<close> by a narrowing cast, which keeps the low
  32 bits (\<open>to_int32\<close>).
\<close>

datatype json =
    JNull
  | JBool bool
  | JInt int
  | JFloat rat
  | JStr string
  | JArr "json list"
  | JObj "(string \<times> json) list"

datatype exn =
    SQLException nat
  | JsonException nat
  | RuntimeError string
  | StdException string
  | Blocked

definition to_int32 :: "int \<Rightarrow> int" where
  "to_int32 x = signed_take_bit 31 x"

definition trunc_rat :: "rat \<Rightarrow> int" where
  "trunc_rat x = (if 0 \<le> x then \<lfloor>x\<rfloor> else \<lceil>x\<rceil>)"

fun ebind :: "exn + 'a \<Rightarrow> ('a \<Rightarrow> exn + 'b) \<Rightarrow> exn + 'b" where
  "ebind (Inl e) f = Inl e"
| "ebind (Inr x) f = f x"

fun emap :: "('a \<Rightarrow> exn + 'b) \<Rightarrow> 'a list \<Rightarrow> exn + 'b list" where
  "emap f [] = Inr []"
| "emap f (x # xs) = ebind (f x) (\<lambda>y. ebind (emap f xs) (\<lambda>ys. Inr (y # ys)))"

fun get_string :: "json \<Rightarrow> exn + string" where
  "get_string (JStr s) = Inr s"
| "get_string _ = Inl (JsonException 302)"

fun get_int :: "json \<Rightarrow> exn + int" where
  "get_int (JInt i) = Inr (to_int32 i)"
| "get_int (JFloat x) = Inr (to_int32 (trunc_rat x))"
| "get_int (JBool b) = Inr (if b then 1 else 0)"
| "get_int _ = Inl (JsonException 302)"

fun get_bool :: "json \<Rightarrow> exn + bool" where
  "get_bool (JBool b) = Inr b"
| "get_bool _ = Inl (JsonException 302)"

text \<open>\<^verbatim>\<open>static_cast<double>\<close> of an integer rounds; 64 bits never overflow.\<close>

definition double_of_int :: "int \<Rightarrow> rat" where
  "double_of_int i = (case round_binary64 (of_int i) of Some x \<Rightarrow> x | None \<Rightarrow> 0)"

fun get_double :: "json \<Rightarrow> exn + rat" where
  "get_double (JInt i) = Inr (double_of_int i)"
| "get_double (JFloat x) = Inr x"
| "get_double _ = Inl (JsonException 302)"

fun get_json :: "json \<Rightarrow> exn + json" where
  "get_json j = Inr j"

definition get_vector :: "(json \<Rightarrow> exn + 'a) \<Rightarrow> json \<Rightarrow> exn + 'a list" where
  "get_vector f j = (case j of JArr xs \<Rightarrow> emap f xs | _ \<Rightarrow> Inl (JsonException 302))"

text \<open>\<^verbatim>\<open>j.at(key).get_to(x)\<close>\<close>

definition j_at :: "(json \<Rightarrow> exn + 'a) \<Rightarrow> json \<Rightarrow> string \<Rightarrow> exn + 'a" where
  "j_at f j k =
     (case j of
        JObj kvs \<Rightarrow> (case map_of kvs k of Some v \<Rightarrow> f v | None \<Rightarrow> Inl (JsonException 403))
      | _ \<Rightarrow> Inl (JsonException 304))"

text \<open>\<^verbatim>\<open>j.value(key, default)\<close>\<close>

definition j_value :: "(json \<Rightarrow> exn + 'a) \<Rightarrow> json \<Rightarrow> string \<Rightarrow> 'a \<Rightarrow> exn + 'a" where
  "j_value f j k d =
     (case j of
        JObj kvs \<Rightarrow> (case map_of kvs k of Some v \<Rightarrow> f v | None \<Rightarrow> Inr d)
      | _ \<Rightarrow> Inl (JsonException 306))"

text \<open>One field of \<^verbatim>\<open>NLOHMANN_DEFINE_TYPE_INTRUSIVE_WITH_DEFAULT\<close>\<close>

definition j_default :: "(json \<Rightarrow> exn + 'a) \<Rightarrow> json \<Rightarrow> string \<Rightarrow> 'a \<Rightarrow> exn + 'a" where
  "j_default f j k d = (if j = JNull then Inr d else j_value f j k d)"

lemma ebind_Inr_iff: "ebind x f = Inr y \<longleftrightarrow> (\<exists>v. x = Inr v \<and> f v = Inr y)"
  by (cases x) auto

lemma to_int32_id: "- (2 ^ 31) \<le> x \<Longrightarrow> x < 2 ^ 31 \<Longrightarrow> to_int32 x = x"
  by (simp add: to_int32_def signed_take_bit_int_eq_self_iff)

lemma to_int32_range: "- (2 ^ 31) \<le> to_int32 x \<and> to_int32 x < 2 ^ 31"
  using signed_take_bit_int_greater_eq_minus_exp [of 31 x] signed_take_bit_int_less_exp [of 31 x]
  by (simp add: to_int32_def)

lemma j_at_obj [simp]: "j_at f (JObj kvs) k = (case map_of kvs k of Some v \<Rightarrow> f v | None \<Rightarrow> Inl (JsonException 403))"
  by (simp add: j_at_def)

lemma j_value_obj [simp]: "j_value f (JObj kvs) k d = (case map_of kvs k of Some v \<Rightarrow> f v | None \<Rightarrow> Inr d)"
  by (simp add: j_value_def)

lemma j_default_obj [simp]: "j_default f (JObj kvs) k d = j_value f (JObj kvs) k d"
  by (simp add: j_default_def)

section \<open>Decoding never waits\<close>

named_theorems decode_rules

lemma ebind_not_blocked [decode_rules]:
  "x \<noteq> Inl Blocked \<Longrightarrow> (\<And>v. f v \<noteq> Inl Blocked) \<Longrightarrow> ebind x f \<noteq> Inl Blocked"
  by (cases x) auto

lemma Inr_not_blocked [decode_rules]: "Inr x \<noteq> Inl Blocked"
  by simp

lemma get_not_blocked [decode_rules]: "get_string j \<noteq> Inl Blocked" "get_int j \<noteq> Inl Blocked"
    "get_bool j \<noteq> Inl Blocked" "get_double j \<noteq> Inl Blocked"
  by (cases j; simp)+

lemma fields_not_blocked [decode_rules]:
  assumes "\<And>v. f v \<noteq> Inl Blocked"
  shows "j_at f j k \<noteq> Inl Blocked" "j_value f j k d \<noteq> Inl Blocked" "j_default f j k d \<noteq> Inl Blocked"
  using assms by (auto simp: j_at_def j_value_def j_default_def split: json.splits option.splits)

end
