(* ===== verification/JsonLexer.thy ===== *)
theory JsonLexer
  imports Json Binary64
begin

text \<open>
  The lexer of \<^verbatim>\<open>include/json.hpp\<close> (class \<^verbatim>\<open>lexer\<close>) on a byte string.  The state is the input that is left; \<^verbatim>\<open>get\<close> takes its
  first byte, and \<^verbatim>\<open>unget\<close> is a byte that is not taken.  After an error no more input is read, so an error has no rest.
  Positions and the texts of error messages are left out.  The program parses with the default arguments, so comments are
  errors, and in the C locale, so the decimal point is a dot.
\<close>

datatype token_type =
    literal_true
  | literal_false
  | literal_null
  | value_string string
  | value_unsigned int
  | value_integer int
  | value_float "rat option"
  | begin_array
  | begin_object
  | end_array
  | end_object
  | name_separator
  | value_separator
  | parse_error
  | end_of_input

section \<open>Strings\<close>

text \<open>The four hexadecimal digits after \<^verbatim>\<open>\u\<close>.\<close>

definition hex_digit :: "char \<Rightarrow> nat option" where
  "hex_digit ch =
     (let b = of_char ch
      in if 48 \<le> b \<and> b \<le> 57 then Some (b - 48)
         else if 65 \<le> b \<and> b \<le> 70 then Some (b - 55)
         else if 97 \<le> b \<and> b \<le> 102 then Some (b - 87)
         else None)"

fun codepoint_loop :: "nat list \<Rightarrow> nat \<Rightarrow> string \<Rightarrow> (nat \<times> string) option" where
  "codepoint_loop [] codepoint cs = Some (codepoint, cs)"
| "codepoint_loop (factor # fs) codepoint [] = None"
| "codepoint_loop (factor # fs) codepoint (ch # cs) =
     (case hex_digit ch of
        None \<Rightarrow> None
      | Some d \<Rightarrow> codepoint_loop fs (codepoint + push_bit factor d) cs)"

definition get_codepoint :: "string \<Rightarrow> (nat \<times> string) option" where
  "get_codepoint cs = codepoint_loop [12, 8, 4, 0] 0 cs"

text \<open>The bytes of a code point.\<close>

definition utf8_encode :: "nat \<Rightarrow> string" where
  "utf8_encode cp = map char_of
     (if cp < 0x80 then [cp]
      else if cp \<le> 0x7FF then [or 0xC0 (drop_bit 6 cp), or 0x80 (and cp 0x3F)]
      else if cp \<le> 0xFFFF then
        [or 0xE0 (drop_bit 12 cp), or 0x80 (and (drop_bit 6 cp) 0x3F), or 0x80 (and cp 0x3F)]
      else
        [or 0xF0 (drop_bit 18 cp), or 0x80 (and (drop_bit 12 cp) 0x3F),
         or 0x80 (and (drop_bit 6 cp) 0x3F), or 0x80 (and cp 0x3F)])"

text \<open>The input after \<^verbatim>\<open>\u\<close>: one code point, or a high and a low surrogate.\<close>

definition scan_unicode :: "string \<Rightarrow> (string \<times> string) option" where
  "scan_unicode cs =
     (case get_codepoint cs of
        None \<Rightarrow> None
      | Some (cp1, r1) \<Rightarrow>
          if 0xD800 \<le> cp1 \<and> cp1 \<le> 0xDBFF then
            (case r1 of
               c1 # c2 # r2 \<Rightarrow>
                 if c1 = CHR 0x5C \<and> c2 = CHR ''u'' then
                   (case get_codepoint r2 of
                      None \<Rightarrow> None
                    | Some (cp2, r3) \<Rightarrow>
                        if 0xDC00 \<le> cp2 \<and> cp2 \<le> 0xDFFF
                        then Some (utf8_encode (push_bit 10 cp1 + cp2 - 0x35FDC00), r3)
                        else None)
                 else None
             | _ \<Rightarrow> None)
          else if 0xDC00 \<le> cp1 \<and> cp1 \<le> 0xDFFF then None
          else Some (utf8_encode cp1, r1))"

definition scan_escape :: "string \<Rightarrow> (string \<times> string) option" where
  "scan_escape cs =
     (case cs of
        [] \<Rightarrow> None
      | ch # r \<Rightarrow>
          if ch = CHR 0x22 then Some ([CHR 0x22], r)
          else if ch = CHR 0x5C then Some ([CHR 0x5C], r)
          else if ch = CHR ''/'' then Some ([CHR ''/''], r)
          else if ch = CHR ''b'' then Some ([CHR 0x08], r)
          else if ch = CHR ''f'' then Some ([CHR 0x0C], r)
          else if ch = CHR ''n'' then Some ([CHR 0x0A], r)
          else if ch = CHR ''r'' then Some ([CHR 0x0D], r)
          else if ch = CHR ''t'' then Some ([CHR 0x09], r)
          else if ch = CHR ''u'' then scan_unicode r
          else None)"

text \<open>The ranges of the bytes after a first byte; \<open>None\<close> for a byte that starts no character.\<close>

definition byte_ranges :: "nat \<Rightarrow> (nat \<times> nat) list option" where
  "byte_ranges b =
     (if b \<le> 0x7F then Some []
      else if 0xC2 \<le> b \<and> b \<le> 0xDF then Some [(0x80, 0xBF)]
      else if b = 0xE0 then Some [(0xA0, 0xBF), (0x80, 0xBF)]
      else if 0xE1 \<le> b \<and> b \<le> 0xEF \<and> b \<noteq> 0xED then Some [(0x80, 0xBF), (0x80, 0xBF)]
      else if b = 0xED then Some [(0x80, 0x9F), (0x80, 0xBF)]
      else if b = 0xF0 then Some [(0x90, 0xBF), (0x80, 0xBF), (0x80, 0xBF)]
      else if 0xF1 \<le> b \<and> b \<le> 0xF3 then Some [(0x80, 0xBF), (0x80, 0xBF), (0x80, 0xBF)]
      else if b = 0xF4 then Some [(0x80, 0x8F), (0x80, 0xBF), (0x80, 0xBF)]
      else None)"

fun next_byte_in_range :: "(nat \<times> nat) list \<Rightarrow> string \<Rightarrow> (string \<times> string) option" where
  "next_byte_in_range [] cs = Some ([], cs)"
| "next_byte_in_range ((lo, hi) # rs) [] = None"
| "next_byte_in_range ((lo, hi) # rs) (ch # cs) =
     (if lo \<le> of_char ch \<and> of_char ch \<le> hi
      then map_option (\<lambda>(bs, r). (ch # bs, r)) (next_byte_in_range rs cs)
      else None)"

text \<open>The part of a string literal up to its next character: its bytes, and the rest of the input.\<close>

definition scan_char :: "char \<Rightarrow> string \<Rightarrow> (string \<times> string) option" where
  "scan_char ch cs =
     (if ch = CHR 0x5C then scan_escape cs
      else if (of_char ch :: nat) \<le> 0x1F then None
      else (case byte_ranges (of_char ch) of
              None \<Rightarrow> None
            | Some rs \<Rightarrow> map_option (\<lambda>(bs, r). (ch # bs, r)) (next_byte_in_range rs cs)))"

lemma codepoint_loop_length: "codepoint_loop fs c cs = Some (x, r) \<Longrightarrow> length r \<le> length cs"
  by (induction fs c cs rule: codepoint_loop.induct) (auto split: option.splits)

lemma get_codepoint_length: "get_codepoint cs = Some (x, r) \<Longrightarrow> length r \<le> length cs"
  by (simp add: get_codepoint_def codepoint_loop_length)

lemma scan_unicode_length: "scan_unicode cs = Some (bs, r) \<Longrightarrow> length r \<le> length cs"
  by (auto simp: scan_unicode_def split: option.splits if_splits list.splits dest!: get_codepoint_length)

lemma scan_escape_length: "scan_escape cs = Some (bs, r) \<Longrightarrow> length r \<le> length cs"
  by (auto simp: scan_escape_def split: list.splits if_splits dest!: scan_unicode_length)

lemma next_byte_in_range_split: "next_byte_in_range rs cs = Some (bs, r) \<Longrightarrow> cs = bs @ r"
  by (induction rs cs arbitrary: bs rule: next_byte_in_range.induct) (auto split: if_splits)

lemma scan_char_length: "scan_char ch cs = Some (bs, r) \<Longrightarrow> length r \<le> length cs"
  by (auto simp: scan_char_def split: if_splits option.splits dest!: scan_escape_length next_byte_in_range_split)

function scan_string :: "string \<Rightarrow> string \<Rightarrow> (string \<times> string) option" where
  "scan_string buf [] = None"
| "scan_string buf (ch # cs) =
     (if ch = CHR 0x22 then Some (buf, cs)
      else (case scan_char ch cs of
              None \<Rightarrow> None
            | Some (bs, r) \<Rightarrow> scan_string (buf @ bs) r))"
  by pat_completeness auto

termination scan_string
  by (relation "measure (length \<circ> snd)") (auto simp: less_Suc_eq_le dest!: scan_char_length)

lemma scan_string_length: "scan_string buf cs = Some (s, r) \<Longrightarrow> length r < length cs"
proof (induction buf cs rule: scan_string.induct)
  case (2 buf ch cs)
  show ?case
  proof (cases "ch = CHR 0x22")
    case False
    with 2(2) obtain bs r' where "scan_char ch cs = Some (bs, r')" "scan_string (buf @ bs) r' = Some (s, r)"
      by (auto split: option.splits)
    then show ?thesis using 2(1) [OF False, of "(bs, r')"] scan_char_length [of ch cs bs r'] by fastforce
  qed (use 2 in auto)
qed auto

section \<open>Numbers\<close>

text \<open>The states of \<^verbatim>\<open>scan_number\<close>; the result is the text of the number and the rest of the input.\<close>

fun scan_number_any2 :: "string \<Rightarrow> string \<Rightarrow> string \<times> string" where
  "scan_number_any2 buf [] = (buf, [])"
| "scan_number_any2 buf (ch # cs) =
     (if is_digit ch then scan_number_any2 (buf @ [ch]) cs else (buf, ch # cs))"

fun scan_number_sign :: "string \<Rightarrow> string \<Rightarrow> (string \<times> string) option" where
  "scan_number_sign buf [] = None"
| "scan_number_sign buf (ch # cs) =
     (if is_digit ch then Some (scan_number_any2 (buf @ [ch]) cs) else None)"

fun scan_number_exponent :: "string \<Rightarrow> string \<Rightarrow> (string \<times> string) option" where
  "scan_number_exponent buf [] = None"
| "scan_number_exponent buf (ch # cs) =
     (if ch = CHR ''+'' \<or> ch = CHR ''-'' then scan_number_sign (buf @ [ch]) cs
      else if is_digit ch then Some (scan_number_any2 (buf @ [ch]) cs)
      else None)"

fun scan_number_decimal2 :: "string \<Rightarrow> string \<Rightarrow> (string \<times> string) option" where
  "scan_number_decimal2 buf [] = Some (buf, [])"
| "scan_number_decimal2 buf (ch # cs) =
     (if is_digit ch then scan_number_decimal2 (buf @ [ch]) cs
      else if ch = CHR ''e'' \<or> ch = CHR ''E'' then scan_number_exponent (buf @ [ch]) cs
      else Some (buf, ch # cs))"

fun scan_number_decimal1 :: "string \<Rightarrow> string \<Rightarrow> (string \<times> string) option" where
  "scan_number_decimal1 buf [] = None"
| "scan_number_decimal1 buf (ch # cs) =
     (if is_digit ch then scan_number_decimal2 (buf @ [ch]) cs else None)"

text \<open>\<^verbatim>\<open>std::strtoull\<close> and \<^verbatim>\<open>std::strtoll\<close> on the text of an integer; \<open>None\<close> is \<^verbatim>\<open>ERANGE\<close>.\<close>

definition strtoull :: "string \<Rightarrow> int option" where
  "strtoull s = (let v = int (digits_val s) in if v < 2 ^ 64 then Some v else None)"

definition strtoll :: "string \<Rightarrow> int option" where
  "strtoll s =
     (let v = (if s \<noteq> [] \<and> hd s = CHR ''-'' then - int (digits_val (tl s)) else int (digits_val s))
      in if - (2 ^ 63) \<le> v \<and> v < 2 ^ 63 then Some v else None)"

datatype number_type = NumUnsigned | NumInteger | NumFloat

fun scan_number_done :: "number_type \<Rightarrow> string \<Rightarrow> token_type" where
  "scan_number_done NumUnsigned buf =
     (case strtoull buf of Some x \<Rightarrow> value_unsigned x | None \<Rightarrow> value_float (strtod buf))"
| "scan_number_done NumInteger buf =
     (case strtoll buf of Some x \<Rightarrow> value_integer x | None \<Rightarrow> value_float (strtod buf))"
| "scan_number_done NumFloat buf = value_float (strtod buf)"

definition finish_float :: "(string \<times> string) option \<Rightarrow> (token_type \<times> string) option" where
  "finish_float = map_option (\<lambda>(buf, r). (scan_number_done NumFloat buf, r))"

fun scan_number_zero :: "number_type \<Rightarrow> string \<Rightarrow> string \<Rightarrow> (token_type \<times> string) option" where
  "scan_number_zero ty buf [] = Some (scan_number_done ty buf, [])"
| "scan_number_zero ty buf (ch # cs) =
     (if ch = CHR ''.'' then finish_float (scan_number_decimal1 (buf @ [ch]) cs)
      else if ch = CHR ''e'' \<or> ch = CHR ''E'' then finish_float (scan_number_exponent (buf @ [ch]) cs)
      else Some (scan_number_done ty buf, ch # cs))"

fun scan_number_any1 :: "number_type \<Rightarrow> string \<Rightarrow> string \<Rightarrow> (token_type \<times> string) option" where
  "scan_number_any1 ty buf [] = Some (scan_number_done ty buf, [])"
| "scan_number_any1 ty buf (ch # cs) =
     (if is_digit ch then scan_number_any1 ty (buf @ [ch]) cs
      else if ch = CHR ''.'' then finish_float (scan_number_decimal1 (buf @ [ch]) cs)
      else if ch = CHR ''e'' \<or> ch = CHR ''E'' then finish_float (scan_number_exponent (buf @ [ch]) cs)
      else Some (scan_number_done ty buf, ch # cs))"

fun scan_number_minus :: "string \<Rightarrow> string \<Rightarrow> (token_type \<times> string) option" where
  "scan_number_minus buf [] = None"
| "scan_number_minus buf (ch # cs) =
     (if ch = CHR ''0'' then scan_number_zero NumInteger (buf @ [ch]) cs
      else if is_digit ch then scan_number_any1 NumInteger (buf @ [ch]) cs
      else None)"

definition scan_number :: "char \<Rightarrow> string \<Rightarrow> (token_type \<times> string) option" where
  "scan_number ch cs =
     (if ch = CHR ''-'' then scan_number_minus [ch] cs
      else if ch = CHR ''0'' then scan_number_zero NumUnsigned [ch] cs
      else scan_number_any1 NumUnsigned [ch] cs)"

lemma scan_number_lengths:
  "length (snd (scan_number_any2 buf cs)) \<le> length cs"
  "scan_number_sign buf cs = Some (b, r) \<Longrightarrow> length r \<le> length cs"
  "scan_number_exponent buf cs = Some (b, r) \<Longrightarrow> length r \<le> length cs"
  "scan_number_decimal2 buf cs = Some (b, r) \<Longrightarrow> length r \<le> length cs"
  "scan_number_decimal1 buf cs = Some (b, r) \<Longrightarrow> length r \<le> length cs"
proof -
  show any2: "length (snd (scan_number_any2 buf cs)) \<le> length cs" for buf cs
    by (induction buf cs rule: scan_number_any2.induct) auto
  show sign: "length r \<le> length cs" if "scan_number_sign buf cs = Some (b, r)" for buf cs b r
    using that any2 by (cases cs) (auto split: if_splits, metis le_SucI snd_conv)
  show ex: "length r \<le> length cs" if "scan_number_exponent buf cs = Some (b, r)" for buf cs b r
    using that any2 by (cases cs) (auto split: if_splits dest!: sign, metis le_SucI snd_conv)
  show d2: "length r \<le> length cs" if "scan_number_decimal2 buf cs = Some (b, r)" for buf cs b r
    using that by (induction buf cs rule: scan_number_decimal2.induct) (auto split: if_splits dest!: ex)
  show "length r \<le> length cs" if "scan_number_decimal1 buf cs = Some (b, r)" for buf cs b r
    using that by (cases cs) (auto split: if_splits dest!: d2)
qed

lemma ifE: "(if b then x else y) = z \<Longrightarrow> (b \<Longrightarrow> x = z \<Longrightarrow> P) \<Longrightarrow> (\<not> b \<Longrightarrow> y = z \<Longrightarrow> P) \<Longrightarrow> P"
  by (cases b) auto

lemma scan_number_length: "scan_number ch cs = Some (t, r) \<Longrightarrow> length r \<le> length cs"
proof -
  have zero: "scan_number_zero ty buf cs = Some (t, r) \<Longrightarrow> length r \<le> length cs" for ty buf cs t r
    by (cases cs) (auto simp: finish_float_def split: if_splits dest!: scan_number_lengths(2-))
  have any1: "scan_number_any1 ty buf cs = Some (t, r) \<Longrightarrow> length r \<le> length cs" for ty buf cs t r
    by (induction ty buf cs rule: scan_number_any1.induct)
      (auto simp: finish_float_def split: if_splits dest!: scan_number_lengths(2-))
  have minus: "scan_number_minus buf cs = Some (t, r) \<Longrightarrow> length r \<le> length cs" for buf
    by (cases cs) (auto elim!: ifE dest!: zero any1 simp del: scan_number_zero.simps scan_number_any1.simps)
  show "scan_number ch cs = Some (t, r) \<Longrightarrow> length r \<le> length cs"
    unfolding scan_number_def by (elim ifE) (auto dest: zero any1 minus)
qed

section \<open>Tokens\<close>

fun scan_literal :: "string \<Rightarrow> token_type \<Rightarrow> string \<Rightarrow> token_type \<times> string" where
  "scan_literal [] t cs = (t, cs)"
| "scan_literal (l # ls) t [] = (parse_error, [])"
| "scan_literal (l # ls) t (ch # cs) = (if ch = l then scan_literal ls t cs else (parse_error, []))"

definition is_ws :: "char \<Rightarrow> bool" where
  "is_ws ch \<longleftrightarrow> (of_char ch :: nat) \<in> {0x20, 0x09, 0x0A, 0x0D}"

definition skip_whitespace :: "string \<Rightarrow> string" where
  "skip_whitespace cs = dropWhile is_ws cs"

definition or_error :: "(token_type \<times> string) option \<Rightarrow> token_type \<times> string" where
  "or_error r = (case r of Some x \<Rightarrow> x | None \<Rightarrow> (parse_error, []))"

fun scan_token :: "string \<Rightarrow> token_type \<times> string" where
  "scan_token [] = (end_of_input, [])"
| "scan_token (ch # cs) =
     (if ch = CHR ''['' then (begin_array, cs)
      else if ch = CHR '']'' then (end_array, cs)
      else if ch = CHR ''{'' then (begin_object, cs)
      else if ch = CHR ''}'' then (end_object, cs)
      else if ch = CHR '':'' then (name_separator, cs)
      else if ch = CHR '','' then (value_separator, cs)
      else if ch = CHR ''t'' then scan_literal ''rue'' literal_true cs
      else if ch = CHR ''f'' then scan_literal ''alse'' literal_false cs
      else if ch = CHR ''n'' then scan_literal ''ull'' literal_null cs
      else if ch = CHR 0x22 then or_error (map_option (\<lambda>(s, r). (value_string s, r)) (scan_string [] cs))
      else if ch = CHR ''-'' \<or> is_digit ch then or_error (scan_number ch cs)
      else if ch = CHR 0x00 then (end_of_input, cs)
      else (parse_error, []))"

definition scan :: "string \<Rightarrow> token_type \<times> string" where
  "scan cs = scan_token (skip_whitespace cs)"

text \<open>The first call also skips a byte order mark.\<close>

definition skip_bom :: "string \<Rightarrow> string option" where
  "skip_bom cs =
     (case cs of
        ch # r \<Rightarrow>
          if ch = CHR 0xEF then
            (case r of c2 # c3 # r' \<Rightarrow> if c2 = CHR 0xBB \<and> c3 = CHR 0xBF then Some r' else None | _ \<Rightarrow> None)
          else Some cs
      | [] \<Rightarrow> Some [])"

definition first_scan :: "string \<Rightarrow> token_type \<times> string" where
  "first_scan cs = (case skip_bom cs of None \<Rightarrow> (parse_error, []) | Some r \<Rightarrow> scan r)"

lemma scan_literal_length: "length (snd (scan_literal ls t cs)) \<le> length cs"
  by (induction ls t cs rule: scan_literal.induct) auto

lemma scan_token_length: "scan_token cs = (t, r) \<Longrightarrow> length r \<le> length cs \<and> (t \<noteq> end_of_input \<longrightarrow> length r < length cs)"
proof (cases cs)
  case (Cons ch cs')
  assume st: "scan_token cs = (t, r)"
  have lit: "scan_literal ls t' cs' = (t, r) \<Longrightarrow> length r \<le> length cs'" for ls t'
    using scan_literal_length [of ls t' cs'] by simp
  have str: "or_error (map_option (\<lambda>(s, r). (value_string s, r)) (scan_string [] cs')) = (t, r) \<Longrightarrow> length r \<le> length cs'"
    by (auto simp: or_error_def dest!: scan_string_length split: option.splits)
  have num: "or_error (scan_number ch cs') = (t, r) \<Longrightarrow> length r \<le> length cs'"
    by (auto simp: or_error_def dest!: scan_number_length split: option.splits)
  have "length r \<le> length cs'"
    using st unfolding Cons scan_token.simps
    by (elim ifE) (simp_all add: lit str num)
  then show ?thesis by (simp add: Cons)
qed auto

lemma scan_length: "scan cs = (t, r) \<Longrightarrow> length r \<le> length cs \<and> (t \<noteq> end_of_input \<longrightarrow> length r < length cs)"
  using scan_token_length [of "skip_whitespace cs" t r] length_dropWhile_le [of is_ws cs]
  by (auto simp: scan_def skip_whitespace_def)

end
