(* ===== verification/JsonObject.thy ===== *)
theory JsonObject
  imports Json "HOL-Library.Char_ord" "HOL-Library.List_Lexorder"
begin

text \<open>
  Objects of the JSON library are \<^verbatim>\<open>std::map\<close>s, which keep their keys in the order of \<^verbatim>\<open>std::string\<close>, by unsigned bytes.  A
  value \<open>JObj kvs\<close> of the model lists the members in the order in which the program adds them and stands for the map
  \<open>map_of kvs\<close>; \<open>std_map\<close> is the list in the order in which the library iterates.
\<close>

fun map_put :: "string \<Rightarrow> 'a \<Rightarrow> (string \<times> 'a) list \<Rightarrow> (string \<times> 'a) list" where
  "map_put k v [] = [(k, v)]"
| "map_put k v ((k', v') # kvs) =
     (if k < k' then (k, v) # (k', v') # kvs
      else if k = k' then (k, v) # kvs
      else (k', v') # map_put k v kvs)"

definition std_map :: "(string \<times> 'a) list \<Rightarrow> (string \<times> 'a) list" where
  "std_map kvs = foldr (\<lambda>(k, v). map_put k v) kvs []"

abbreviation key_sorted :: "(string \<times> 'a) list \<Rightarrow> bool" where
  "key_sorted kvs \<equiv> sorted_wrt (<) (map fst kvs)"

lemma map_of_map_put [simp]: "map_of (map_put k v kvs) = (map_of kvs)(k \<mapsto> v)"
  by (induction k v kvs rule: map_put.induct) (auto simp: fun_eq_iff)

lemma map_of_std_map [simp]: "map_of (std_map kvs) = map_of kvs"
  by (induction kvs) (auto simp: std_map_def)

lemma keys_map_put: "fst ` set (map_put k v kvs) = insert k (fst ` set kvs)"
  by (induction k v kvs rule: map_put.induct) auto

lemma set_map_put: "set (map_put k v kvs) \<subseteq> insert (k, v) (set kvs)"
  by (induction k v kvs rule: map_put.induct) auto

lemma key_sorted_map_put: "key_sorted kvs \<Longrightarrow> key_sorted (map_put k v kvs)"
proof (induction k v kvs rule: map_put.induct)
  case (2 k v k' v' kvs)
  then show ?case
    using keys_map_put [of k v kvs] by (auto simp: not_less le_less dest: order.strict_trans)
qed simp

lemma key_sorted_std_map: "key_sorted (std_map kvs)"
  by (induction kvs) (auto simp: std_map_def key_sorted_map_put)

lemma set_std_map: "set (std_map kvs) \<subseteq> set kvs"
proof (induction kvs)
  case (Cons kv kvs)
  then show ?case using set_map_put [of "fst kv" "snd kv" "std_map kvs"]
    by (cases kv) (auto simp: std_map_def)
qed (simp add: std_map_def)

lemma map_put_snoc: "key_sorted (kvs @ [(k, v)]) \<Longrightarrow> map_put k v kvs = kvs @ [(k, v)]"
  by (induction kvs) (auto simp: sorted_wrt_append dest: order.asym)

lemma map_put_first: "key_sorted ((k, v) # kvs) \<Longrightarrow> map_put k v kvs = (k, v) # kvs"
  by (cases kvs) auto

lemma std_map_sorted [simp]: "key_sorted kvs \<Longrightarrow> std_map kvs = kvs"
proof (induction kvs)
  case (Cons kv kvs)
  then show ?case using map_put_first [of "fst kv" "snd kv" kvs] by (cases kv) (auto simp: std_map_def)
qed (simp add: std_map_def)

lemma std_map_Nil [simp]: "std_map [] = []"
  by (simp add: std_map_def)

lemma std_map_Nil_iff [simp]: "std_map kvs = [] \<longleftrightarrow> kvs = []"
proof (cases kvs)
  case (Cons kv kvs')
  then have "fst kv \<in> fst ` set (std_map kvs)"
    using keys_map_put [of "fst kv" "snd kv" "std_map kvs'"] by (cases kv) (auto simp: std_map_def)
  then show ?thesis using Cons by auto
qed simp

lemma std_map_map: "std_map (map (\<lambda>(k, v). (k, f v)) kvs) = map (\<lambda>(k, v). (k, f v)) (std_map kvs)"
proof -
  have put: "map_put k (f v) (map (\<lambda>(k, v). (k, f v)) xs) = map (\<lambda>(k, v). (k, f v)) (map_put k v xs)" for k v xs
    by (induction k v xs rule: map_put.induct) auto
  show ?thesis by (induction kvs) (auto simp: std_map_def put)
qed

section \<open>Values with their members in order\<close>

text \<open>The form of a value in which every object lists its members as the library keeps them.\<close>

fun canon :: "json \<Rightarrow> json" where
  "canon (JArr xs) = JArr (map canon xs)"
| "canon (JObj kvs) = JObj (std_map (map (\<lambda>(k, v). (k, canon v)) kvs))"
| "canon j = j"

text \<open>Values with their objects in this form.\<close>

fun is_canon :: "json \<Rightarrow> bool" where
  "is_canon (JArr xs) = (\<forall>x \<in> set xs. is_canon x)"
| "is_canon (JObj kvs) = (key_sorted kvs \<and> (\<forall>kv \<in> set kvs. is_canon (snd kv)))"
| "is_canon _ = True"

lemma is_canon_canon: "is_canon (canon j)"
proof (induction j rule: canon.induct)
  case (2 kvs)
  then show ?case
    using set_std_map [of "map (\<lambda>(k, v). (k, canon v)) kvs"] by (auto simp: key_sorted_std_map)
qed auto

lemma canon_id: "is_canon j \<Longrightarrow> canon j = j"
proof (induction j rule: canon.induct)
  case (1 xs)
  then show ?case by (auto intro: map_idI)
next
  case (2 kvs)
  then have "map (\<lambda>(k, v). (k, canon v)) kvs = kvs" by (fastforce intro: map_idI)
  with 2(2) show ?case by simp
qed auto

lemma map_of_canon: "map_of (std_map (map (\<lambda>(k, v). (k, canon v)) kvs)) k = map_option canon (map_of kvs k)"
  by (induction kvs) (auto simp: map_of_map)

end
