(* ===== verification/Grisu.thy ===== *)
theory Grisu
  imports Binary64 "HOL-Library.Signed_Division"
begin

unbundle bit_operations_syntax

text \<open>
  The conversion of a \<^verbatim>\<open>double\<close> to decimal text in \<^verbatim>\<open>include/json.hpp\<close> (namespace \<^verbatim>\<open>dtoa_impl\<close>, the Grisu2 algorithm, and
  \<^verbatim>\<open>to_chars\<close>), on 64-bit words.  A buffer is the list of its digits.  The loop over the digits of the fraction has a bound of
  \<open>digit_bound\<close> rounds.
\<close>

type_synonym uint64 = "64 word"

record diyfp =
  df :: uint64
  de :: int

section \<open>Floating-point numbers with 64 bits\<close>

definition sub_diyfp :: "diyfp \<Rightarrow> diyfp \<Rightarrow> diyfp" where
  "sub_diyfp x y = \<lparr>df = df x - df y, de = de x\<rparr>"

definition mul_diyfp :: "diyfp \<Rightarrow> diyfp \<Rightarrow> diyfp" where
  "mul_diyfp x y =
     (let u_lo = df x AND 0xFFFFFFFF; u_hi = drop_bit 32 (df x);
          v_lo = df y AND 0xFFFFFFFF; v_hi = drop_bit 32 (df y);
          p0 = u_lo * v_lo; p1 = u_lo * v_hi; p2 = u_hi * v_lo; p3 = u_hi * v_hi;
          p0_hi = drop_bit 32 p0;
          p1_lo = p1 AND 0xFFFFFFFF; p1_hi = drop_bit 32 p1;
          p2_lo = p2 AND 0xFFFFFFFF; p2_hi = drop_bit 32 p2;
          Q = p0_hi + p1_lo + p2_lo + push_bit 31 1;
          h = p3 + p2_hi + p1_hi + drop_bit 32 Q
      in \<lparr>df = h, de = de x + de y + 64\<rparr>)"

text \<open>The code assumes that the significand is not 0, for which its loop would not end.\<close>

function normalize_diyfp :: "diyfp \<Rightarrow> diyfp" where
  "normalize_diyfp x =
     (if df x \<noteq> 0 \<and> drop_bit 63 (df x) = 0
      then normalize_diyfp \<lparr>df = push_bit 1 (df x), de = de x - 1\<rparr>
      else x)"
  by pat_completeness auto

lemma drop_bit_63_eq_0: "drop_bit 63 (x :: uint64) = 0 \<longleftrightarrow> unat x < 2 ^ 63"
proof -
  have "drop_bit 63 x = 0 \<longleftrightarrow> unat (drop_bit 63 x) = 0" by (simp add: unat_eq_0)
  also have "\<dots> \<longleftrightarrow> unat x < 2 ^ 63" unfolding unat_drop_bit_eq by (simp add: drop_bit_eq_div div_eq_0_iff)
  finally show ?thesis .
qed

lemma unat_push_bit_1: "unat (x :: uint64) < 2 ^ 63 \<Longrightarrow> unat (push_bit 1 x) = 2 * unat x"
  by (simp add: push_bit_eq_mult unat_word_ariths mult.commute)

termination normalize_diyfp
proof (relation "measure (\<lambda>x. 2 ^ 64 - unat (df x))")
  fix x :: diyfp
  assume x: "df x \<noteq> 0 \<and> drop_bit 63 (df x) = 0"
  have "unat (df x) < 2 ^ 63" using x by (simp add: drop_bit_63_eq_0)
  moreover have "0 < unat (df x)" using x by (simp add: unat_gt_0)
  ultimately show "(\<lparr>df = push_bit 1 (df x), de = de x - 1\<rparr>, x) \<in> measure (\<lambda>x. 2 ^ 64 - unat (df x))"
    by (simp only: in_measure diyfp.select_convs unat_push_bit_1) simp
qed simp

declare normalize_diyfp.simps [simp del]

definition normalize_to :: "diyfp \<Rightarrow> int \<Rightarrow> diyfp" where
  "normalize_to x target_exponent =
     (let delta = de x - target_exponent in \<lparr>df = push_bit (nat delta) (df x), de = target_exponent\<rparr>)"

section \<open>The number and its boundaries\<close>

text \<open>The bits of a positive \<^verbatim>\<open>double\<close>.\<close>

definition binary64_bits :: "rat \<Rightarrow> uint64" where
  "binary64_bits v =
     (let e = max (log2_rat v - 52) (- 1074); m = \<lfloor>v / 2 powi e\<rfloor>
      in if m < 2 ^ 52 then of_int m else of_int ((e + 1075) * 2 ^ 52 + (m - 2 ^ 52)))"

record boundaries =
  bw :: diyfp
  bminus :: diyfp
  bplus :: diyfp

definition compute_boundaries :: "rat \<Rightarrow> boundaries" where
  "compute_boundaries val =
     (let kBias = 1075; kMinExp = 1 - kBias; kHiddenBit = push_bit 52 1;
          bits = binary64_bits val;
          E = drop_bit 52 bits; F = bits AND (kHiddenBit - 1);
          v = (if E = 0 then \<lparr>df = F, de = kMinExp\<rparr> else \<lparr>df = F + kHiddenBit, de = uint E - kBias\<rparr>);
          lower_boundary_is_closer = (F = 0 \<and> E > 1);
          m_plus = \<lparr>df = 2 * df v + 1, de = de v - 1\<rparr>;
          m_minus = (if lower_boundary_is_closer then \<lparr>df = 4 * df v - 1, de = de v - 2\<rparr>
                     else \<lparr>df = 2 * df v - 1, de = de v - 1\<rparr>);
          w_plus = normalize_diyfp m_plus;
          w_minus = normalize_to m_minus (de w_plus)
      in \<lparr>bw = normalize_diyfp v, bminus = w_minus, bplus = w_plus\<rparr>)"

section \<open>Powers of ten\<close>

definition kAlpha :: int where
  "kAlpha = - 60"

definition kCachedPowers :: "(uint64 \<times> int \<times> int) list" where
  "kCachedPowers =
     [(0xAB70FE17C79AC6CA, - 1060, - 300), (0xFF77B1FCBEBCDC4F, - 1034, - 292), (0xBE5691EF416BD60C, - 1007, - 284),
      (0x8DD01FAD907FFC3C, - 980, - 276), (0xD3515C2831559A83, - 954, - 268), (0x9D71AC8FADA6C9B5, - 927, - 260),
      (0xEA9C227723EE8BCB, - 901, - 252), (0xAECC49914078536D, - 874, - 244), (0x823C12795DB6CE57, - 847, - 236),
      (0xC21094364DFB5637, - 821, - 228), (0x9096EA6F3848984F, - 794, - 220), (0xD77485CB25823AC7, - 768, - 212),
      (0xA086CFCD97BF97F4, - 741, - 204), (0xEF340A98172AACE5, - 715, - 196), (0xB23867FB2A35B28E, - 688, - 188),
      (0x84C8D4DFD2C63F3B, - 661, - 180), (0xC5DD44271AD3CDBA, - 635, - 172), (0x936B9FCEBB25C996, - 608, - 164),
      (0xDBAC6C247D62A584, - 582, - 156), (0xA3AB66580D5FDAF6, - 555, - 148), (0xF3E2F893DEC3F126, - 529, - 140),
      (0xB5B5ADA8AAFF80B8, - 502, - 132), (0x87625F056C7C4A8B, - 475, - 124), (0xC9BCFF6034C13053, - 449, - 116),
      (0x964E858C91BA2655, - 422, - 108), (0xDFF9772470297EBD, - 396, - 100), (0xA6DFBD9FB8E5B88F, - 369, - 92),
      (0xF8A95FCF88747D94, - 343, - 84), (0xB94470938FA89BCF, - 316, - 76), (0x8A08F0F8BF0F156B, - 289, - 68),
      (0xCDB02555653131B6, - 263, - 60), (0x993FE2C6D07B7FAC, - 236, - 52), (0xE45C10C42A2B3B06, - 210, - 44),
      (0xAA242499697392D3, - 183, - 36), (0xFD87B5F28300CA0E, - 157, - 28), (0xBCE5086492111AEB, - 130, - 20),
      (0x8CBCCC096F5088CC, - 103, - 12), (0xD1B71758E219652C, - 77, - 4), (0x9C40000000000000, - 50, 4),
      (0xE8D4A51000000000, - 24, 12), (0xAD78EBC5AC620000, 3, 20), (0x813F3978F8940984, 30, 28),
      (0xC097CE7BC90715B3, 56, 36), (0x8F7E32CE7BEA5C70, 83, 44), (0xD5D238A4ABE98068, 109, 52),
      (0x9F4F2726179A2245, 136, 60), (0xED63A231D4C4FB27, 162, 68), (0xB0DE65388CC8ADA8, 189, 76),
      (0x83C7088E1AAB65DB, 216, 84), (0xC45D1DF942711D9A, 242, 92), (0x924D692CA61BE758, 269, 100),
      (0xDA01EE641A708DEA, 295, 108), (0xA26DA3999AEF774A, 322, 116), (0xF209787BB47D6B85, 348, 124),
      (0xB454E4A179DD1877, 375, 132), (0x865B86925B9BC5C2, 402, 140), (0xC83553C5C8965D3D, 428, 148),
      (0x952AB45CFA97A0B3, 455, 156), (0xDE469FBD99A05FE3, 481, 164), (0xA59BC234DB398C25, 508, 172),
      (0xF6C69A72A3989F5C, 534, 180), (0xB7DCBF5354E9BECE, 561, 188), (0x88FCF317F22241E2, 588, 196),
      (0xCC20CE9BD35C78A5, 614, 204), (0x98165AF37B2153DF, 641, 212), (0xE2A0B5DC971F303A, 667, 220),
      (0xA8D9D1535CE3B396, 694, 228), (0xFB9B7CD9A4A7443C, 720, 236), (0xBB764C4CA7A44410, 747, 244),
      (0x8BAB8EEFB6409C1A, 774, 252), (0xD01FEF10A657842C, 800, 260), (0x9B10A4E5E9913129, 827, 268),
      (0xE7109BFBA19C0C9D, 853, 276), (0xAC2820D9623BF429, 880, 284), (0x80444B5E7AA7CF85, 907, 292),
      (0xBF21E44003ACDD2D, 933, 300), (0x8E679C2F5E44FF8F, 960, 308), (0xD433179D9C8CB841, 986, 316),
      (0x9E19DB92B4E31BA9, 1013, 324)]"

definition get_cached_power_for_binary_exponent :: "int \<Rightarrow> uint64 \<times> int \<times> int" where
  "get_cached_power_for_binary_exponent e =
     (let f = kAlpha - e - 1;
          k = (f * 78913) sdiv 2 ^ 18 + (if f > 0 then 1 else 0);
          index = (300 + k + (8 - 1)) sdiv 8
      in kCachedPowers ! nat index)"

definition find_largest_pow10 :: "nat \<Rightarrow> nat \<times> nat" where
  "find_largest_pow10 n =
     (if n \<ge> 1000000000 then (10, 1000000000)
      else if n \<ge> 100000000 then (9, 100000000)
      else if n \<ge> 10000000 then (8, 10000000)
      else if n \<ge> 1000000 then (7, 1000000)
      else if n \<ge> 100000 then (6, 100000)
      else if n \<ge> 10000 then (5, 10000)
      else if n \<ge> 1000 then (4, 1000)
      else if n \<ge> 100 then (3, 100)
      else if n \<ge> 10 then (2, 10)
      else (1, 1))"

section \<open>Digits\<close>

text \<open>The loop of \<^verbatim>\<open>grisu2_round\<close>, on the last digit of the buffer; the code asserts that it does not count below 0.\<close>

fun round_digit :: "uint64 \<Rightarrow> uint64 \<Rightarrow> uint64 \<Rightarrow> nat \<Rightarrow> uint64 \<Rightarrow> nat" where
  "round_digit gap delta ten_k 0 rest = 0"
| "round_digit gap delta ten_k (Suc d) rest =
     (if rest < gap \<and> delta - rest \<ge> ten_k \<and> (rest + ten_k < gap \<or> gap - rest > rest + ten_k - gap)
      then round_digit gap delta ten_k d (rest + ten_k)
      else Suc d)"

definition grisu2_round :: "nat list \<Rightarrow> uint64 \<Rightarrow> uint64 \<Rightarrow> uint64 \<Rightarrow> uint64 \<Rightarrow> nat list" where
  "grisu2_round buf gap delta rest ten_k = butlast buf @ [round_digit gap delta ten_k (last buf) rest]"

text \<open>
  The digits of the integral part; \<open>sh\<close> is \<^verbatim>\<open>-one.e\<close>.  The result is the finished number, or the buffer when the fraction has
  to be used too.
\<close>

fun integral_digits :: "nat \<Rightarrow> uint64 \<Rightarrow> uint64 \<Rightarrow> uint64 \<Rightarrow> nat \<Rightarrow> nat \<Rightarrow> nat \<Rightarrow> nat list \<Rightarrow> (nat list \<times> nat) option \<times> nat list" where
  "integral_digits sh delta gap p2 0 p1 pow10 buf = (None, buf)"
| "integral_digits sh delta gap p2 (Suc n) p1 pow10 buf =
     (let d = p1 div pow10; r = p1 mod pow10; buf' = buf @ [d];
          rest = push_bit sh (of_nat r) + p2
      in if rest \<le> delta then (Some (grisu2_round buf' gap delta rest (push_bit sh (of_nat pow10)), n), buf')
         else integral_digits sh delta gap p2 n r (pow10 div 10) buf')"

fun fraction_digits :: "nat \<Rightarrow> nat \<Rightarrow> uint64 \<Rightarrow> uint64 \<Rightarrow> uint64 \<Rightarrow> nat \<Rightarrow> nat list \<Rightarrow> nat list \<times> nat" where
  "fraction_digits 0 sh delta gap p2 m buf = (buf, m)"
| "fraction_digits (Suc k) sh delta gap p2 m buf =
     (let one = push_bit sh 1; p2' = p2 * 10; d = drop_bit sh p2'; r = p2' AND (one - 1);
          buf' = buf @ [unat d]; delta' = delta * 10; gap' = gap * 10
      in if r \<le> delta' then (grisu2_round buf' gap' delta' r one, Suc m)
         else fraction_digits k sh delta' gap' r (Suc m) buf')"

definition digit_bound :: nat where
  "digit_bound = 20"

definition grisu2_digit_gen :: "int \<Rightarrow> diyfp \<Rightarrow> diyfp \<Rightarrow> diyfp \<Rightarrow> nat list \<times> int" where
  "grisu2_digit_gen decimal_exponent M_minus w M_plus =
     (let delta = df (sub_diyfp M_plus M_minus); gap = df (sub_diyfp M_plus w);
          sh = nat (- de M_plus); one = push_bit sh 1;
          p1 = unat (drop_bit sh (df M_plus)) mod 2 ^ 32; p2 = df M_plus AND (one - 1)
      in case find_largest_pow10 p1 of (k, pow10) \<Rightarrow>
           (case integral_digits sh delta gap p2 k p1 pow10 [] of
              (Some (ds, n), _) \<Rightarrow> (ds, decimal_exponent + int n)
            | (None, buf) \<Rightarrow>
                (case fraction_digits digit_bound sh delta gap p2 0 buf of
                   (ds, m) \<Rightarrow> (ds, decimal_exponent - int m))))"

definition grisu2_diyfp :: "diyfp \<Rightarrow> diyfp \<Rightarrow> diyfp \<Rightarrow> nat list \<times> int" where
  "grisu2_diyfp m_minus v m_plus =
     (case get_cached_power_for_binary_exponent (de m_plus) of (cf, ce, ck) \<Rightarrow>
        let c_minus_k = \<lparr>df = cf, de = ce\<rparr>;
            w = mul_diyfp v c_minus_k;
            w_minus = mul_diyfp m_minus c_minus_k;
            w_plus = mul_diyfp m_plus c_minus_k;
            M_minus = \<lparr>df = df w_minus + 1, de = de w_minus\<rparr>;
            M_plus = \<lparr>df = df w_plus - 1, de = de w_plus\<rparr>
        in grisu2_digit_gen (- ck) M_minus w M_plus)"

definition grisu2 :: "rat \<Rightarrow> nat list \<times> int" where
  "grisu2 val = (let w = compute_boundaries val in grisu2_diyfp (bminus w) (bw w) (bplus w))"

section \<open>Text\<close>

definition append_exponent :: "int \<Rightarrow> string" where
  "append_exponent e =
     (let k = nat \<bar>e\<bar>; sign = (if e < 0 then CHR ''-'' else CHR ''+'')
      in sign #
         (if k < 10 then [CHR ''0'', digit_char k]
          else if k < 100 then [digit_char (k div 10), digit_char (k mod 10)]
          else [digit_char (k div 100), digit_char (k mod 100 div 10), digit_char (k mod 100 mod 10)]))"

definition format_buffer :: "nat list \<Rightarrow> int \<Rightarrow> int \<Rightarrow> int \<Rightarrow> string" where
  "format_buffer ds decimal_exponent min_exp max_exp =
     (let buf = map digit_char ds; k = int (length ds); n = k + decimal_exponent
      in if k \<le> n \<and> n \<le> max_exp then buf @ replicate (nat (n - k)) (CHR ''0'') @ ''.0''
         else if 0 < n \<and> n \<le> max_exp then take (nat n) buf @ ''.'' @ drop (nat n) buf
         else if min_exp < n \<and> n \<le> 0 then ''0.'' @ replicate (nat (- n)) (CHR ''0'') @ buf
         else if k = 1 then buf @ ''e'' @ append_exponent (n - 1)
         else take 1 buf @ ''.'' @ drop 1 buf @ ''e'' @ append_exponent (n - 1))"

definition to_chars :: "rat \<Rightarrow> string" where
  "to_chars val =
     (let text = (\<lambda>x. if x = 0 then ''0.0'' else (case grisu2 x of (ds, ex) \<Rightarrow> format_buffer ds ex (- 4) 15))
      in if val < 0 then CHR ''-'' # text (- val) else text val)"

end
