(* ===== verification/JsonDump.thy ===== *)
theory JsonDump
  imports JsonObject Grisu
begin

unbundle bit_operations_syntax

text \<open>
  The serializer of \<^verbatim>\<open>include/json.hpp\<close> (class \<^verbatim>\<open>serializer\<close>) as the program calls it: \<^verbatim>\<open>dump()\<close> and, for the log, \<^verbatim>\<open>dump(4)\<close>, with
  \<^verbatim>\<open>ensure_ascii\<close> false and the error handler \<^verbatim>\<open>strict\<close>, which throws \<^verbatim>\<open>type_error.316\<close> for a text that is not UTF-8.
\<close>

section \<open>Strings\<close>

definition utf8d :: "nat list" where
  "utf8d =
     [0, 0, 0, 0, 0, 0, 0, 0, 0, 0, 0, 0, 0, 0, 0, 0, 0, 0, 0, 0, 0, 0, 0, 0, 0, 0, 0, 0, 0, 0, 0, 0,
      0, 0, 0, 0, 0, 0, 0, 0, 0, 0, 0, 0, 0, 0, 0, 0, 0, 0, 0, 0, 0, 0, 0, 0, 0, 0, 0, 0, 0, 0, 0, 0,
      0, 0, 0, 0, 0, 0, 0, 0, 0, 0, 0, 0, 0, 0, 0, 0, 0, 0, 0, 0, 0, 0, 0, 0, 0, 0, 0, 0, 0, 0, 0, 0,
      0, 0, 0, 0, 0, 0, 0, 0, 0, 0, 0, 0, 0, 0, 0, 0, 0, 0, 0, 0, 0, 0, 0, 0, 0, 0, 0, 0, 0, 0, 0, 0,
      1, 1, 1, 1, 1, 1, 1, 1, 1, 1, 1, 1, 1, 1, 1, 1, 9, 9, 9, 9, 9, 9, 9, 9, 9, 9, 9, 9, 9, 9, 9, 9,
      7, 7, 7, 7, 7, 7, 7, 7, 7, 7, 7, 7, 7, 7, 7, 7, 7, 7, 7, 7, 7, 7, 7, 7, 7, 7, 7, 7, 7, 7, 7, 7,
      8, 8, 2, 2, 2, 2, 2, 2, 2, 2, 2, 2, 2, 2, 2, 2, 2, 2, 2, 2, 2, 2, 2, 2, 2, 2, 2, 2, 2, 2, 2, 2,
      10, 3, 3, 3, 3, 3, 3, 3, 3, 3, 3, 3, 3, 4, 3, 3, 11, 6, 6, 6, 5, 8, 8, 8, 8, 8, 8, 8, 8, 8, 8, 8,
      0, 1, 2, 3, 5, 8, 7, 1, 1, 1, 4, 6, 1, 1, 1, 1, 1, 1, 1, 1, 1, 1, 1, 1, 1, 1, 1, 1, 1, 1, 1, 1,
      1, 0, 1, 1, 1, 1, 1, 0, 1, 0, 1, 1, 1, 1, 1, 1, 1, 2, 1, 1, 1, 1, 1, 2, 1, 2, 1, 1, 1, 1, 1, 1,
      1, 1, 1, 1, 1, 1, 1, 2, 1, 1, 1, 1, 1, 1, 1, 1, 1, 2, 1, 1, 1, 1, 1, 1, 1, 2, 1, 1, 1, 1, 1, 1,
      1, 1, 1, 1, 1, 1, 1, 3, 1, 3, 1, 1, 1, 1, 1, 1, 1, 3, 1, 1, 1, 1, 1, 3, 1, 3, 1, 1, 1, 1, 1, 1,
      1, 3, 1, 1, 1, 1, 1, 1, 1, 1, 1, 1, 1, 1, 1, 1]"

text \<open>One byte: the new state of the automaton (0 accepts, 1 rejects) and the code point so far (at most 21 bits).\<close>

definition decode :: "nat \<Rightarrow> nat \<Rightarrow> nat \<Rightarrow> nat \<times> nat" where
  "decode state codep byte =
     (let type = utf8d ! byte;
          codep' = (if state \<noteq> 0 then (byte AND 0x3F) OR push_bit 6 codep else drop_bit type 0xFF AND byte)
      in (utf8d ! (256 + state * 16 + type), codep'))"

definition hex_char :: "nat \<Rightarrow> char" where
  "hex_char d = (if d < 10 then char_of (48 + d) else char_of (87 + d))"

text \<open>\<^verbatim>\<open>snprintf("\\u%04x")\<close>\<close>

definition unicode_escape :: "nat \<Rightarrow> string" where
  "unicode_escape cp =
     [CHR 0x5C, CHR ''u'', hex_char (cp div 4096 mod 16), hex_char (cp div 256 mod 16),
      hex_char (cp div 16 mod 16), hex_char (cp mod 16)]"

text \<open>What is written to the buffer for the last byte of a character.\<close>

definition escape_codepoint :: "nat \<Rightarrow> char \<Rightarrow> string" where
  "escape_codepoint cp ch =
     (if cp = 0x08 then [CHR 0x5C, CHR ''b'']
      else if cp = 0x09 then [CHR 0x5C, CHR ''t'']
      else if cp = 0x0A then [CHR 0x5C, CHR ''n'']
      else if cp = 0x0C then [CHR 0x5C, CHR ''f'']
      else if cp = 0x0D then [CHR 0x5C, CHR ''r'']
      else if cp = 0x22 then [CHR 0x5C, CHR 0x22]
      else if cp = 0x5C then [CHR 0x5C, CHR 0x5C]
      else if cp \<le> 0x1F then unicode_escape cp
      else [ch])"

text \<open>
  The loop of \<^verbatim>\<open>dump_escaped\<close>.  \<open>buf\<close> is the used part of \<^verbatim>\<open>string_buffer\<close>, which has 512 bytes, \<open>out\<close> what was written to the output.
  The second result is the number of bytes of the buffer that were touched at most; \<^verbatim>\<open>snprintf\<close> also writes a 0.
\<close>

definition buffer_size :: nat where
  "buffer_size = 512"

fun dump_loop :: "nat \<Rightarrow> nat \<Rightarrow> string \<Rightarrow> string \<Rightarrow> nat \<Rightarrow> string \<Rightarrow> string option \<times> nat" where
  "dump_loop state cp buf out used [] = (if state = 0 then Some (out @ buf) else None, used)"
| "dump_loop state cp buf out used (ch # cs) =
     (case decode state cp (of_char ch) of (state', cp') \<Rightarrow>
        if state' = 0 then
          (let buf' = buf @ escape_codepoint cp' ch;
               used' = max used (length buf' + (if length (escape_codepoint cp' ch) = 6 then 1 else 0))
           in if buffer_size - length buf' < 13 then dump_loop 0 cp' [] (out @ buf') used' cs
              else dump_loop 0 cp' buf' out used' cs)
        else if state' = 1 then (None, used)
        else dump_loop state' cp' (buf @ [ch]) out (max used (length buf + 1)) cs)"

definition dump_escaped :: "string \<Rightarrow> string option" where
  "dump_escaped s = fst (dump_loop 0 0 [] [] 0 s)"

definition buffer_used :: "string \<Rightarrow> nat" where
  "buffer_used s = snd (dump_loop 0 0 [] [] 0 s)"

section \<open>Integers\<close>

text \<open>\<^verbatim>\<open>count_digits\<close>\<close>

fun count_digits :: "nat \<Rightarrow> nat \<Rightarrow> nat" where
  "count_digits x n_digits =
     (if x < 10 then n_digits
      else if x < 100 then n_digits + 1
      else if x < 1000 then n_digits + 2
      else if x < 10000 then n_digits + 3
      else count_digits (x div 10000) (n_digits + 4))"

declare count_digits.simps [simp del]

definition digits_to_99 :: "nat \<Rightarrow> string" where
  "digits_to_99 i = [digit_char (i div 10), digit_char (i mod 10)]"

text \<open>The number buffer is filled from its end, two digits at a time.\<close>

fun fill_digits :: "nat \<Rightarrow> string \<Rightarrow> string" where
  "fill_digits abs_value acc =
     (if abs_value \<ge> 100 then fill_digits (abs_value div 100) (digits_to_99 (abs_value mod 100) @ acc)
      else if abs_value \<ge> 10 then digits_to_99 abs_value @ acc
      else digit_char abs_value # acc)"

declare fill_digits.simps [simp del]

text \<open>A JSON integer is an \<^verbatim>\<open>int64_t\<close> or a \<^verbatim>\<open>uint64_t\<close>; \<^verbatim>\<open>remove_sign\<close> adds one before it negates and after.\<close>

definition remove_sign :: "int \<Rightarrow> nat" where
  "remove_sign x = nat (- (x + 1)) + 1"

definition dump_integer :: "int \<Rightarrow> string" where
  "dump_integer x =
     (if x = 0 then ''0''
      else if x < 0 then CHR ''-'' # fill_digits (remove_sign x) []
      else fill_digits (nat x) [])"

section \<open>Values\<close>

definition quoted :: "string \<Rightarrow> string option" where
  "quoted s = map_option (\<lambda>t. CHR 0x22 # t @ [CHR 0x22]) (dump_escaped s)"

fun join :: "string \<Rightarrow> string list \<Rightarrow> string" where
  "join sep [] = []"
| "join sep [x] = x"
| "join sep (x # y # xs) = x @ sep @ join sep (y # xs)"

fun all_some :: "'a option list \<Rightarrow> 'a list option" where
  "all_some [] = Some []"
| "all_some (x # xs) = (case x of None \<Rightarrow> None | Some v \<Rightarrow> map_option (\<lambda>vs. v # vs) (all_some xs))"

definition newline :: char where
  "newline = CHR 0x0A"

definition indent :: "nat \<Rightarrow> string" where
  "indent n = replicate n (CHR 0x20)"

text \<open>\<^verbatim>\<open>serializer::dump\<close>; the members of an object come in the order of the map.\<close>

fun dump_value :: "bool \<Rightarrow> nat \<Rightarrow> nat \<Rightarrow> json \<Rightarrow> string option" where
  "dump_value pretty step cur (JObj kvs) =
     (if kvs = [] then Some ''{}''
      else if pretty then
        map_option (\<lambda>ms. ''{'' @ [newline] @ join (CHR '','' # [newline]) ms @ [newline] @ indent cur @ ''}'')
          (all_some (map (\<lambda>(k, t).
             (case quoted k of
                None \<Rightarrow> None
              | Some q \<Rightarrow> map_option (\<lambda>v. indent (cur + step) @ q @ '': '' @ v) t))
             (std_map (map (\<lambda>(k, v). (k, dump_value pretty step (cur + step) v)) kvs))))
      else
        map_option (\<lambda>ms. ''{'' @ join '','' ms @ ''}'')
          (all_some (map (\<lambda>(k, t).
             (case quoted k of None \<Rightarrow> None | Some q \<Rightarrow> map_option (\<lambda>v. q @ '':'' @ v) t))
             (std_map (map (\<lambda>(k, v). (k, dump_value pretty step cur v)) kvs)))))"
| "dump_value pretty step cur (JArr xs) =
     (if xs = [] then Some ''[]''
      else if pretty then
        map_option (\<lambda>ms. ''['' @ [newline] @ join (CHR '','' # [newline]) ms @ [newline] @ indent cur @ '']'')
          (all_some (map (\<lambda>x. map_option (\<lambda>v. indent (cur + step) @ v) (dump_value pretty step (cur + step) x)) xs))
      else
        map_option (\<lambda>ms. ''['' @ join '','' ms @ '']'')
          (all_some (map (\<lambda>x. dump_value pretty step cur x) xs)))"
| "dump_value pretty step cur (JStr s) = quoted s"
| "dump_value pretty step cur (JBool b) = Some (if b then ''true'' else ''false'')"
| "dump_value pretty step cur (JInt i) = Some (dump_integer i)"
| "dump_value pretty step cur (JFloat x) = Some (to_chars x)"
| "dump_value pretty step cur JNull = Some ''null''"

text \<open>\<^verbatim>\<open>json::dump(indent)\<close>\<close>

definition json_dump_indent :: "nat \<Rightarrow> json \<Rightarrow> exn + string" where
  "json_dump_indent n j = (case dump_value True n 0 j of None \<Rightarrow> Inl (JsonException 316) | Some s \<Rightarrow> Inr s)"

text \<open>\<^verbatim>\<open>json::dump()\<close>\<close>

definition json_dump :: "json \<Rightarrow> exn + string" where
  "json_dump j = (case dump_value False 0 0 j of None \<Rightarrow> Inl (JsonException 316) | Some s \<Rightarrow> Inr s)"

end
