(* ===== verification/Utf8.thy ===== *)
theory Utf8
  imports JsonLexer JsonDump
begin

unbundle bit_operations_syntax

text \<open>
  Strings in both directions: the automaton with which the serializer checks UTF-8 accepts what the byte ranges of the lexer
  accept, the buffer of the serializer is never overrun, and a string that was escaped is scanned back.
\<close>

text \<open>Texts in UTF-8, by the ranges of the lexer.\<close>

function utf8_ok :: "string \<Rightarrow> bool" where
  "utf8_ok [] = True"
| "utf8_ok (ch # cs) =
     (case byte_ranges (of_char ch) of
        None \<Rightarrow> False
      | Some rs \<Rightarrow> (case next_byte_in_range rs cs of None \<Rightarrow> False | Some (bs, r) \<Rightarrow> utf8_ok r))"
  by pat_completeness auto

termination utf8_ok
  by (relation "measure length") (auto simp: less_Suc_eq_le dest!: next_byte_in_range_split)

section \<open>The automaton\<close>

text \<open>The class of a byte, and the bytes that a state still expects.\<close>

definition byte_class :: "nat \<Rightarrow> nat" where
  "byte_class b =
     (if b \<le> 0x7F then 0 else if b \<le> 0x8F then 1 else if b \<le> 0x9F then 9 else if b \<le> 0xBF then 7
      else if b \<le> 0xC1 then 8 else if b \<le> 0xDF then 2 else if b = 0xE0 then 10 else if b = 0xED then 4
      else if b \<le> 0xEF then 3 else if b = 0xF0 then 11 else if b \<le> 0xF3 then 6 else if b = 0xF4 then 5 else 8)"

definition expected :: "nat \<Rightarrow> (nat \<times> nat) list" where
  "expected state =
     (if state = 2 then [(0x80, 0xBF)]
      else if state = 3 then [(0x80, 0xBF), (0x80, 0xBF)]
      else if state = 4 then [(0xA0, 0xBF), (0x80, 0xBF)]
      else if state = 5 then [(0x80, 0x9F), (0x80, 0xBF)]
      else if state = 6 then [(0x90, 0xBF), (0x80, 0xBF), (0x80, 0xBF)]
      else if state = 7 then [(0x80, 0xBF), (0x80, 0xBF), (0x80, 0xBF)]
      else if state = 8 then [(0x80, 0x8F), (0x80, 0xBF), (0x80, 0xBF)]
      else [])"

definition live :: "nat list" where
  "live = [2, 3, 4, 5, 6, 7, 8]"

lemma table_classes: "map byte_class [0..<256] = take 256 utf8d"
  by code_simp

lemma utf8d_class: "b < 256 \<Longrightarrow> utf8d ! b = byte_class b"
proof -
  assume b: "b < 256"
  have "take 256 utf8d ! b = map byte_class [0..<256] ! b" by (simp only: table_classes)
  then show "utf8d ! b = byte_class b" using b by simp
qed

text \<open>The transitions, per class.\<close>

definition class_in :: "nat \<Rightarrow> nat \<times> nat \<Rightarrow> bool" where
  "class_in c r \<longleftrightarrow>
     c = 1 \<and> fst r = 0x80 \<or> c = 9 \<and> fst r \<le> 0x90 \<and> snd r \<ge> 0x9F \<or> c = 7 \<and> snd r = 0xBF"

lemma table_live:
  "\<forall>s \<in> set live. \<forall>c \<in> set [0..<12].
     (let s' = utf8d ! (256 + s * 16 + c) in
      if class_in c (hd (expected s)) then expected s' = tl (expected s) \<and> (s' = 0 \<or> s' \<in> set live) \<and> (s' = 0 \<longleftrightarrow> s = 2)
      else s' = 1)"
  by code_simp

lemma table_start:
  "\<forall>c \<in> set [0..<12]. utf8d ! (256 + c) =
     (if c = 0 then 0 else if c = 2 then 2 else if c = 3 then 3 else if c = 4 then 5 else if c = 5 then 8
      else if c = 6 then 7 else if c = 10 then 4 else if c = 11 then 6 else 1)"
  by code_simp

lemma byte_class_less: "byte_class b < 12"
  by (simp add: byte_class_def)

lemma class_in_range:
  "s \<in> set live \<Longrightarrow> class_in (byte_class b) (hd (expected s)) \<longleftrightarrow> fst (hd (expected s)) \<le> b \<and> b \<le> snd (hd (expected s))"
  by (auto simp: live_def class_in_def byte_class_def expected_def)

lemma decode_live:
  assumes "s \<in> set live" "b < 256"
  shows "if fst (hd (expected s)) \<le> b \<and> b \<le> snd (hd (expected s))
    then expected (fst (decode s cp b)) = tl (expected s) \<and> (fst (decode s cp b) = 0 \<longleftrightarrow> s = 2) \<and>
      (s \<noteq> 2 \<longrightarrow> fst (decode s cp b) \<in> set live)
    else fst (decode s cp b) = 1"
proof -
  have "byte_class b \<in> set [0..<12]" using byte_class_less [of b] by simp
  from bspec [OF bspec [OF table_live assms(1)] this] show ?thesis
    unfolding decode_def Let_def fst_conv utf8d_class [OF assms(2)] class_in_range [OF assms(1), symmetric]
    by (metis (full_types))
qed

lemma decode_start:
  assumes "b < 256"
  shows "fst (decode 0 cp b) = 0 \<and> byte_ranges b = Some [] \<and> snd (decode 0 cp b) = b
    \<or> fst (decode 0 cp b) = 1 \<and> byte_ranges b = None
    \<or> fst (decode 0 cp b) \<in> set live \<and> byte_ranges b = Some (expected (fst (decode 0 cp b)))"
proof -
  have "byte_class b \<in> set [0..<12]" using byte_class_less [of b] by simp
  then have st: "fst (decode 0 cp b) = (let c = byte_class b in
     (if c = 0 then 0 else if c = 2 then 2 else if c = 3 then 3 else if c = 4 then 5 else if c = 5 then 8
      else if c = 6 then 7 else if c = 10 then 4 else if c = 11 then 6 else 1))"
    using bspec [OF table_start, of "byte_class b"] utf8d_class [OF assms] by (simp add: decode_def Let_def)
  show ?thesis
  proof (cases "b \<le> 0x7F")
    case True
    have "255 AND b = take_bit 8 b" by (simp add: take_bit_eq_mask mask_eq_exp_minus_1 and.commute)
    also have "\<dots> = b" using assms by (simp add: take_bit_nat_eq_self_iff)
    finally have "snd (decode 0 cp b) = b"
      using True utf8d_class [OF assms] by (simp add: decode_def Let_def byte_class_def)
    then show ?thesis using True st by (simp add: byte_class_def byte_ranges_def Let_def)
  next
    case False
    then show ?thesis using st assms by (auto simp: byte_class_def byte_ranges_def Let_def live_def expected_def)
  qed
qed


text \<open>Code points of more than one byte are at least \<open>0x80\<close>, so their bytes are copied.\<close>

definition cp_ok :: "nat \<Rightarrow> nat \<Rightarrow> bool" where
  "cp_ok s cp \<longleftrightarrow> (s = 2 \<longrightarrow> 2 \<le> cp) \<and> (s \<in> {3, 5, 7, 8} \<longrightarrow> 1 \<le> cp)"

lemma or_ge: "(a :: nat) \<le> a OR b" "b \<le> a OR b"
proof -
  show le: "a \<le> a OR b" for a b :: nat
    using or_greater_eq [of "int b" "int a"] by (simp flip: of_nat_or_eq)
  show "b \<le> a OR b" using le [of b a] by (simp add: or.commute)
qed

lemma cp_ok_start: "\<forall>b \<in> set [0xC2..<0xF5]. cp_ok (fst (decode 0 0 b)) (snd (decode 0 0 b))"
  by code_simp

lemma low_bits:
  "\<forall>b \<in> set [0xA0..<0xC0]. 32 \<le> b AND 0x3F" "\<forall>b \<in> set [0x90..<0xC0]. 16 \<le> b AND 0x3F"
  by code_simp+

lemma upt_ball: "\<forall>b \<in> set [m..<n]. P b \<Longrightarrow> m \<le> b \<Longrightarrow> b < n \<Longrightarrow> P b"
  by auto

lemma decode_0: "decode 0 cp b = decode 0 0 b"
  by (simp add: decode_def)

lemma cp_ok_live:
  assumes "s \<in> set live" "cp_ok s cp" "fst (hd (expected s)) \<le> b" "b \<le> snd (hd (expected s))" "b < 256"
  shows "if s = 2 then 0x80 \<le> snd (decode s cp b) else cp_ok (fst (decode s cp b)) (snd (decode s cp b))"
proof -
  have s0: "s \<noteq> 0" using assms(1) by (auto simp: live_def)
  have ge: "64 * cp \<le> snd (decode s cp b)" "b AND 0x3F \<le> snd (decode s cp b)"
    using or_ge [where a = "b AND 0x3F" and b = "64 * cp"] s0
    by (auto simp: decode_def Let_def push_bit_eq_mult mult.commute)
  have ex: "expected (fst (decode s cp b)) = tl (expected s)"
    using decode_live [OF assms(1, 5), of cp] assms(3,4) by auto
  have lo: "s = 4 \<Longrightarrow> 32 \<le> b AND 0x3F" "s = 6 \<Longrightarrow> 16 \<le> b AND 0x3F"
    using upt_ball [OF low_bits(1), of b] upt_ball [OF low_bits(2), of b] assms(3,4) by (simp_all add: expected_def)
  show ?thesis
  proof (cases "s = 2")
    case False
    have "fst (decode s cp b) \<in> {2, 3}"
      using ex assms(1) False by (auto simp: live_def expected_def split: if_splits)
    moreover have "2 \<le> snd (decode s cp b)"
      using ge lo assms(1,2) False by (auto simp: live_def cp_ok_def)
    ultimately show ?thesis using False by (auto simp: cp_ok_def)
  qed (use assms(2) ge in \<open>auto simp: cp_ok_def\<close>)
qed

section \<open>Escaping without the buffer\<close>

fun dfa :: "nat \<Rightarrow> nat \<Rightarrow> string \<Rightarrow> string option" where
  "dfa state cp [] = (if state = 0 then Some [] else None)"
| "dfa state cp (ch # cs) =
     (case decode state cp (of_char ch) of (state', cp') \<Rightarrow>
        if state' = 0 then map_option (\<lambda>t. escape_codepoint cp' ch @ t) (dfa 0 cp' cs)
        else if state' = 1 then None
        else map_option (\<lambda>t. ch # t) (dfa state' cp' cs))"

lemma dump_loop_dfa: "fst (dump_loop state cp buf out used cs) = map_option (\<lambda>t. out @ buf @ t) (dfa state cp cs)"
proof (induction cs arbitrary: state cp buf out used)
  case (Cons ch cs)
  obtain s' cp' where d: "decode state cp (of_char ch) = (s', cp')" by (cases "decode state cp (of_char ch)")
  show ?case by (simp add: d Cons Let_def option.map_comp comp_def)
qed auto

lemma dump_escaped_dfa: "dump_escaped s = dfa 0 0 s"
  by (simp add: dump_escaped_def dump_loop_dfa option.map_ident)

lemma dfa_0: "dfa 0 cp cs = dfa 0 0 cs"
  by (cases cs) (simp_all add: decode_0 [of cp])

lemma map_option_Cons_append [simp]: "map_option ((#) c) (map_option ((@) xs) y) = map_option ((@) (c # xs)) y"
  by (cases y) auto

lemma escape_copy: "0x80 \<le> cp \<Longrightarrow> escape_codepoint cp ch = [ch]"
  by (simp add: escape_codepoint_def)

text \<open>In the middle of a character, the automaton reads the bytes it expects.\<close>

lemma dfa_live:
  assumes "s \<in> set live" "cp_ok s cp"
  shows "dfa s cp cs = (case next_byte_in_range (expected s) cs of
      None \<Rightarrow> None
    | Some (bs, r) \<Rightarrow> map_option (\<lambda>t. bs @ t) (dfa 0 0 r))"
  using assms
proof (induction cs arbitrary: s cp)
  case Nil
  then show ?case by (auto simp: live_def expected_def)
next
  case (Cons ch cs)
  let ?b = "of_char ch :: nat"
  obtain lo hi where e: "expected s = (lo, hi) # tl (expected s)"
    using Cons.prems(1) by (cases "expected s") (auto simp: live_def expected_def)
  then have h: "hd (expected s) = (lo, hi)" by (metis list.sel(1))
  obtain s' cp' where d: "decode s cp ?b = (s', cp')" by (cases "decode s cp ?b")
  show ?case
  proof (cases "lo \<le> ?b \<and> ?b \<le> hi")
    case True
    then have step: "expected s' = tl (expected s)" "s' = 0 \<longleftrightarrow> s = 2" "s \<noteq> 2 \<longrightarrow> s' \<in> set live"
      and cp: "if s = 2 then 0x80 \<le> cp' else cp_ok s' cp'"
      using decode_live [OF Cons.prems(1), of ?b cp] cp_ok_live [OF Cons.prems, of ?b] d
      by (auto simp: h)
    have next_b: "next_byte_in_range (expected s) (ch # cs) = map_option (\<lambda>(bs, r). (ch # bs, r)) (next_byte_in_range (expected s') cs)"
      using True by (subst e) (simp add: step(1))
    show ?thesis
    proof (cases "s = 2")
      case True
      then have "s' = 0" "expected s' = []" using step(2) by (simp_all add: expected_def)
      then show ?thesis
        unfolding next_b using \<open>s = 2\<close> cp d by (simp add: escape_copy dfa_0 [of cp'])
    next
      case False
      then have "s' \<noteq> 0" "s' \<noteq> 1" "s' \<in> set live" "cp_ok s' cp'" using step cp by (auto simp: live_def)
      then show ?thesis
        using d Cons.IH [of s' cp'] by (simp add: next_b split: option.splits prod.splits)
    qed
  next
    case False
    then have "s' = 1" using decode_live [OF Cons.prems(1), of ?b cp] d by (auto simp: h)
    moreover have "next_byte_in_range (expected s) (ch # cs) = None" using False by (subst e) auto
    ultimately show ?thesis using d by simp
  qed
qed

text \<open>One character: an ASCII character may be escaped, the bytes of others are copied.\<close>

lemma byte_ranges_multi: "byte_ranges b = Some rs \<Longrightarrow> rs \<noteq> [] \<Longrightarrow> 0xC2 \<le> b \<and> b < 0xF5"
  unfolding byte_ranges_def by (elim ifE) auto

lemma dfa_char:
  "dfa 0 0 (ch # cs) =
     (case byte_ranges (of_char ch) of
        None \<Rightarrow> None
      | Some rs \<Rightarrow> (case next_byte_in_range rs cs of
          None \<Rightarrow> None
        | Some (bs, r) \<Rightarrow> map_option (\<lambda>t. (if rs = [] then escape_codepoint (of_char ch) ch else ch # bs) @ t) (dfa 0 0 r)))"
proof -
  let ?b = "of_char ch :: nat"
  obtain s' cp' where d: "decode 0 0 ?b = (s', cp')" by (cases "decode 0 0 ?b")
  consider "s' = 0" "byte_ranges ?b = Some []" "cp' = ?b" | "s' = 1" "byte_ranges ?b = None"
    | "s' \<in> set live" "byte_ranges ?b = Some (expected s')"
    using decode_start [of ?b 0] d by auto
  then show ?thesis
  proof cases
    case 3
    then have "expected s' \<noteq> []" "s' \<noteq> 0" "s' \<noteq> 1" by (auto simp: live_def expected_def)
    moreover have "0xC2 \<le> ?b \<and> ?b < 0xF5" using 3(2) \<open>expected s' \<noteq> []\<close> by (rule byte_ranges_multi)
    then have "cp_ok s' cp'" using upt_ball [OF cp_ok_start, of ?b] d by simp
    ultimately show ?thesis
      using d 3 by (cases "next_byte_in_range (expected s') cs") (auto simp: dfa_live)
  qed (simp_all add: d dfa_0 [of ?b])
qed

lemma dump_escaped_iff: "dump_escaped s \<noteq> None \<longleftrightarrow> utf8_ok s"
proof -
  have "dfa 0 0 s \<noteq> None \<longleftrightarrow> utf8_ok s"
    by (induction s rule: utf8_ok.induct) (simp_all add: dfa_char del: dfa.simps(2) split: option.splits)
  then show ?thesis by (simp add: dump_escaped_dfa)
qed

section \<open>The buffer\<close>

lemma escape_length: "length (escape_codepoint cp ch) \<le> 6"
  by (simp add: escape_codepoint_def unicode_escape_def)

lemma dump_loop_used:
  assumes "state = 0 \<and> length buf \<le> 499 \<or> state \<in> set live \<and> length buf + length (expected state) \<le> 503" "used \<le> buffer_size"
  shows "snd (dump_loop state cp buf out used cs) \<le> buffer_size"
  using assms
proof (induction cs arbitrary: state cp buf out used)
  case (Cons ch cs)
  let ?b = "of_char ch :: nat"
  obtain s' cp' where d: "decode state cp ?b = (s', cp')" by (cases "decode state cp ?b")
  have len: "length buf \<le> 502" using Cons.prems(1) by (auto simp: live_def expected_def)
  have start: "s' \<in> set live \<and> length (expected s') \<le> 3" if "state = 0" "s' \<noteq> 0" "s' \<noteq> 1"
  proof -
    have "s' \<in> set live" using decode_start [of ?b cp] d that by auto
    then show ?thesis by (auto simp: live_def expected_def)
  qed
  have mid: "s' \<in> set live \<and> length (expected s') + 1 = length (expected state)" if "state \<in> set live" "s' \<noteq> 0" "s' \<noteq> 1"
    using decode_live [OF that(1), of ?b cp] d that by (auto simp: live_def expected_def split: if_splits)
  have "snd (dump_loop s' cp' (buf @ [ch]) out (max used (length buf + 1)) cs) \<le> buffer_size" if "s' \<noteq> 0" "s' \<noteq> 1"
    using Cons.prems start mid that len by (intro Cons.IH) (auto simp: buffer_size_def)
  moreover have "snd (dump_loop 0 cp' buf' out' used' cs) \<le> buffer_size" if "length buf' \<le> 499" "used' \<le> buffer_size" for buf' out' used'
    using that by (intro Cons.IH) auto
  ultimately show ?case
    using Cons.prems(2) escape_length [of cp' ch] len by (simp add: d Let_def buffer_size_def)
qed simp

lemma buffer_used_bound: "buffer_used s \<le> buffer_size"
  by (simp add: buffer_used_def dump_loop_used)

section \<open>Scanning what was escaped\<close>

lemma hex_digit_char: "d < 16 \<Longrightarrow> hex_digit (hex_char d) = Some d"
  by (auto simp: hex_digit_def hex_char_def of_char_of Let_def)

lemma hex_value:
  assumes "cp < 65536"
  shows "cp div 4096 mod 16 * 4096 + cp div 256 mod 16 * 256 + cp div 16 mod 16 * 16 + cp mod 16 = (cp :: nat)"
proof -
  define q1 q2 q3 where q: "q1 = cp div 16" "q2 = q1 div 16" "q3 = q2 div 16"
  have "cp div 256 = q2" "cp div 4096 = q3" unfolding q by (simp_all flip: div_mult2_eq)
  moreover have "q3 < 16" using assms by (simp add: q div_less_iff_less_mult flip: div_mult2_eq)
  moreover have "cp = 16 * q1 + cp mod 16" "q1 = 16 * q2 + q1 mod 16" "q2 = 16 * q3 + q2 mod 16" unfolding q by simp_all
  ultimately show ?thesis by (simp add: q(1) [symmetric])
qed

lemma get_codepoint_escape:
  assumes "cp < 65536"
  shows "get_codepoint (drop 2 (unicode_escape cp) @ r) = Some (cp, r)"
  by (simp add: get_codepoint_def unicode_escape_def hex_digit_char push_bit_eq_mult hex_value [OF assms])

lemma scan_string_copy:
  assumes "byte_ranges (of_char ch) = Some rs" "next_byte_in_range rs cs = Some (bs, r)" "rs \<noteq> []"
  shows "scan_string buf (ch # cs) = scan_string (buf @ ch # bs) r"
proof -
  have "0xC2 \<le> (of_char ch :: nat)" using byte_ranges_multi [OF assms(1,3)] by simp
  then have "ch \<noteq> CHR 0x22" "ch \<noteq> CHR 0x5C" "\<not> (of_char ch :: nat) \<le> 0x1F" by auto
  then show ?thesis using assms by (simp add: scan_char_def)
qed

lemma scan_string_ascii:
  assumes "(of_char ch :: nat) \<le> 0x7F"
  shows "scan_string buf (escape_codepoint (of_char ch) ch @ r) = scan_string (buf @ [ch]) r"
proof -
  let ?b = "of_char ch :: nat"
  have esc: "scan_string buf (CHR 0x5C # cs @ r) = scan_string (buf @ [ch]) r" if "scan_escape (cs @ r) = Some ([ch], r)" for cs
    using that by (simp add: scan_char_def)
  consider "?b \<in> {0x08, 0x09, 0x0A, 0x0C, 0x0D, 0x22, 0x5C}"
    | "?b \<notin> {0x08, 0x09, 0x0A, 0x0C, 0x0D, 0x22, 0x5C}" "?b \<le> 0x1F"
    | "?b \<notin> {0x08, 0x09, 0x0A, 0x0C, 0x0D, 0x22, 0x5C}" "\<not> ?b \<le> 0x1F" by auto
  then show ?thesis
  proof cases
    case 1
    have "ch \<in> {CHR 0x08, CHR 0x09, CHR 0x0A, CHR 0x0C, CHR 0x0D, CHR 0x22, CHR 0x5C}"
      using 1 by (auto intro: char_nat_eqI)
    then show ?thesis
      by (elim insertE emptyE) (simp_all add: escape_codepoint_def scan_char_def scan_escape_def)
  next
    case 2
    have "scan_unicode (drop 2 (unicode_escape ?b) @ r) = Some ([ch], r)"
      using 2(2) by (simp add: scan_unicode_def get_codepoint_escape utf8_encode_def)
    then have "scan_escape (tl (unicode_escape ?b) @ r) = Some ([ch], r)"
      by (simp add: scan_escape_def unicode_escape_def)
    then show ?thesis
      using 2 esc [of "tl (unicode_escape ?b)"] by (simp add: escape_codepoint_def) (simp add: unicode_escape_def)
  next
    case 3
    then have "ch \<noteq> CHR 0x22" "ch \<noteq> CHR 0x5C" by auto
    then show ?thesis using 3 assms by (simp add: escape_codepoint_def scan_char_def byte_ranges_def)
  qed
qed

lemma next_byte_in_range_rest: "next_byte_in_range rs cs = Some (bs, r) \<Longrightarrow> next_byte_in_range rs (bs @ r') = Some (bs, r')"
  by (induction rs cs arbitrary: bs rule: next_byte_in_range.induct) (auto split: if_splits)

lemma scan_dumped_string: "dump_escaped s = Some t \<Longrightarrow> scan_string buf (t @ CHR 0x22 # r) = Some (buf @ s, r)"
proof (induction s arbitrary: t buf rule: utf8_ok.induct)
  case 1
  then show ?case by (simp add: dump_escaped_dfa)
next
  case (2 ch cs)
  obtain rs bs r' t' where rs: "byte_ranges (of_char ch) = Some rs" "next_byte_in_range rs cs = Some (bs, r')"
    and t': "dump_escaped r' = Some t'" "t = (if rs = [] then escape_codepoint (of_char ch) ch else ch # bs) @ t'"
    using 2(2) by (auto simp: dump_escaped_dfa dfa_char simp del: dfa.simps(2) split: option.splits)
  have cs: "cs = bs @ r'" using rs(2) by (rule next_byte_in_range_split)
  note IH = 2(1) [OF rs(1,2) refl t'(1)]
  show ?case
  proof (cases "rs = []")
    case True
    then have "(of_char ch :: nat) \<le> 0x7F" "bs = []" using rs unfolding byte_ranges_def by (auto elim!: ifE)
    then show ?thesis using IH cs t' True scan_string_ascii [of ch buf "t' @ CHR 0x22 # r"] by simp
  next
    case False
    have "next_byte_in_range rs (bs @ t' @ CHR 0x22 # r) = Some (bs, t' @ CHR 0x22 # r)"
      using rs(2) by (rule next_byte_in_range_rest)
    from scan_string_copy [OF rs(1) this False] show ?thesis using IH cs t' False by simp
  qed
qed

section \<open>Scanned strings are UTF-8\<close>

lemma utf8_ok_snoc:
  assumes "utf8_ok s" "byte_ranges (of_char ch) = Some rs" "next_byte_in_range rs bs = Some (bs, [])"
  shows "utf8_ok (s @ ch # bs)"
  using assms(1)
proof (induction s rule: utf8_ok.induct)
  case 1
  then show ?case using assms(2,3) by simp
next
  case (2 c cs)
  then obtain rs' bs' r where n: "byte_ranges (of_char c) = Some rs'" "next_byte_in_range rs' cs = Some (bs', r)" "utf8_ok r"
    by (auto split: option.splits)
  have "next_byte_in_range rs' (bs' @ r @ ch # bs) = Some (bs', r @ ch # bs)"
    using n(2) by (rule next_byte_in_range_rest)
  moreover have "cs = bs' @ r" using n(2) by (rule next_byte_in_range_split)
  ultimately show ?case using n 2(1) [OF n(1,2) refl n(3)] by simp
qed

lemma utf8_ok_ascii: "utf8_ok s \<Longrightarrow> (of_char ch :: nat) \<le> 0x7F \<Longrightarrow> utf8_ok (s @ [ch])"
  using utf8_ok_snoc [of s ch "[]" "[]"] by (simp add: byte_ranges_def)

text \<open>The bytes of a code point that is not a surrogate.\<close>

lemma or_add:
  assumes "a < 2 ^ n"
  shows "(b * 2 ^ n) OR a = b * 2 ^ n + (a :: nat)"
proof -
  have "(b * 2 ^ n) AND a = 0"
  proof (rule bit_eqI)
    fix i
    have "\<not> bit a i" if "n \<le> i"
      using assms that by (metis bit_take_bit_iff not_less take_bit_nat_eq_self)
    then show "bit (b * 2 ^ n AND a) i = bit 0 i"
      by (auto simp: bit_and_iff bit_push_bit_iff_nat simp flip: push_bit_eq_mult)
  qed
  then show ?thesis by (simp add: disjunctive_add_eq_or)
qed

lemma encode_bytes: "or 0x80 (and x 0x3F) = 0x80 + (x mod 64 :: nat)"
proof -
  have "and x 0x3F = take_bit 6 x" by (simp add: take_bit_eq_mask mask_eq_exp_minus_1)
  then have "and x 0x3F = x mod 64" by (simp add: take_bit_eq_mod)
  then show ?thesis using or_add [of "x mod 64" 7 1] by (simp add: order.strict_trans2 [OF mod_less_divisor])
qed

lemma utf8_ok_encode:
  assumes "utf8_ok s" "cp \<le> 0x10FFFF" "\<not> (0xD800 \<le> cp \<and> cp \<le> 0xDFFF)"
  shows "utf8_ok (s @ utf8_encode cp)"
proof -
  have c: "of_char (char_of n) = n" if "n < 256" for n :: nat
    using that by (simp add: of_char_of)
  consider "cp < 0x80" | "0x80 \<le> cp" "cp \<le> 0x7FF" | "0x7FF < cp" "cp \<le> 0xFFFF" | "0xFFFF < cp" by linarith
  then show ?thesis
  proof cases
    case 1
    then show ?thesis using assms(1) by (simp add: utf8_encode_def utf8_ok_ascii c)
  next
    case 2
    define a where "a = cp div 64"
    have a: "2 \<le> a" "a < 32" using 2 by (auto simp: a_def)
    have "or 0xC0 (drop_bit 6 cp) = 0xC0 + a" using or_add [of a 6 3] a by (simp add: drop_bit_eq_div a_def)
    then have "utf8_encode cp = [char_of (0xC0 + a), char_of (0x80 + cp mod 64)]"
      using 2 by (simp add: utf8_encode_def encode_bytes)
    moreover have "0x80 + cp mod 64 \<le> 0xBF" using mod_less_divisor [of 64 cp] by linarith
    ultimately show ?thesis
      using a by (simp, intro utf8_ok_snoc [OF assms(1), of _ "[(0x80, 0xBF)]"]) (auto simp: c byte_ranges_def)
  next
    case 3
    define a b where "a = cp div 4096" and "b = cp div 64 mod 64"
    have a: "a < 16" and b: "b < 64" using 3 by (auto simp: a_def b_def)
    have "cp div 64 div 64 = a" unfolding a_def by (simp flip: div_mult2_eq)
    then have q: "cp div 64 = 64 * a + b" unfolding b_def by (metis mult_div_mod_eq)
    have "64 * (cp div 64) \<le> cp" "cp < 64 * (cp div 64) + 64" by simp_all
    then have E0: "a = 0 \<Longrightarrow> 32 \<le> b" and ED: "a = 13 \<Longrightarrow> b < 32"
      using 3 assms(3) b unfolding q by auto
    have "or 0xE0 (drop_bit 12 cp) = 0xE0 + a" using or_add [of a 5 7] a by (simp add: drop_bit_eq_div a_def)
    then have "utf8_encode cp = [char_of (0xE0 + a), char_of (0x80 + b), char_of (0x80 + cp mod 64)]"
      using 3 by (simp add: utf8_encode_def encode_bytes drop_bit_eq_div b_def)
    moreover have "0x80 + cp mod 64 \<le> 0xBF" using mod_less_divisor [of 64 cp] by linarith
    ultimately show ?thesis
      using a b E0 ED
      by (simp, intro utf8_ok_snoc [OF assms(1), of _ "the (byte_ranges (0xE0 + a))"]) (auto simp: c byte_ranges_def)
  next
    case 4
    define a b where "a = cp div 262144" and "b = cp div 4096 mod 64"
    have a: "a < 5" and b: "b < 64" using assms(2) by (auto simp: a_def b_def)
    have "cp div 4096 div 64 = a" unfolding a_def by (simp flip: div_mult2_eq)
    then have q: "cp div 4096 = 64 * a + b" unfolding b_def by (metis mult_div_mod_eq)
    have "4096 * (cp div 4096) \<le> cp" "cp < 4096 * (cp div 4096) + 4096" by simp_all
    then have F0: "a = 0 \<Longrightarrow> 16 \<le> b" and F4: "a = 4 \<Longrightarrow> b < 16"
      using 4 assms(2) b unfolding q by auto
    have "or 0xF0 (drop_bit 18 cp) = 0xF0 + a" using or_add [of a 4 15] a by (simp add: drop_bit_eq_div a_def)
    then have "utf8_encode cp = [char_of (0xF0 + a), char_of (0x80 + b), char_of (0x80 + cp div 64 mod 64), char_of (0x80 + cp mod 64)]"
      using 4 by (simp add: utf8_encode_def encode_bytes drop_bit_eq_div b_def)
    moreover have "0x80 + cp mod 64 \<le> 0xBF" "0x80 + cp div 64 mod 64 \<le> 0xBF"
      using mod_less_divisor [of 64 cp] mod_less_divisor [of 64 "cp div 64"] by linarith+
    moreover have "a \<le> 3 \<or> a = 4" using a by linarith
    ultimately show ?thesis
      using a b F0 F4
      by (simp, intro utf8_ok_snoc [OF assms(1), of _ "the (byte_ranges (0xF0 + a))"]) (auto simp: c byte_ranges_def)
  qed
qed

lemma hex_digit_less: "hex_digit ch = Some d \<Longrightarrow> d < 16"
  unfolding hex_digit_def Let_def by (elim ifE) auto

lemma get_codepoint_less: "get_codepoint cs = Some (cp, r) \<Longrightarrow> cp < 65536"
proof -
  assume g: "get_codepoint cs = Some (cp, r)"
  then obtain a b c d where "a < 16" "b < 16" "c < 16" "d < 16" "cp = a * 4096 + b * 256 + c * 16 + d"
    unfolding get_codepoint_def
    by (cases cs; cases "tl cs"; cases "tl (tl cs)"; cases "tl (tl (tl cs))")
      (auto simp: push_bit_eq_mult split: option.splits dest!: hex_digit_less)
  then show "cp < 65536" by linarith
qed

lemma scan_unicode_utf8:
  assumes "scan_unicode cs = Some (bs, r)" "utf8_ok s"
  shows "utf8_ok (s @ bs)"
proof -
  obtain cp1 r1 where g: "get_codepoint cs = Some (cp1, r1)"
    using assms(1) by (auto simp: scan_unicode_def split: option.splits)
  have less: "cp1 < 65536" using g by (rule get_codepoint_less)
  show ?thesis
  proof (cases "0xD800 \<le> cp1 \<and> cp1 \<le> 0xDBFF")
    case True
    then obtain cp2 where "0xDC00 \<le> cp2" "cp2 \<le> 0xDFFF" "bs = utf8_encode (push_bit 10 cp1 + cp2 - 0x35FDC00)"
      using assms(1) g by (auto simp: scan_unicode_def split: list.splits if_splits option.splits)
    then show ?thesis
      using True assms(2) by (auto intro!: utf8_ok_encode simp: push_bit_eq_mult)
  next
    case False
    then show ?thesis
      using assms g less by (auto simp: scan_unicode_def split: if_splits intro!: utf8_ok_encode)
  qed
qed


lemma scan_escape_cases:
  "scan_escape (c # cs) = Some (bs, r) \<Longrightarrow> scan_unicode cs = Some (bs, r) \<or> (\<exists>b. bs = [b] \<and> (of_char b :: nat) \<le> 0x7F)"
  unfolding scan_escape_def list.case by (elim ifE) clarsimp+

lemma scan_char_utf8:
  assumes "scan_char ch cs = Some (bs, r)" "utf8_ok s"
  shows "utf8_ok (s @ bs)"
proof (cases "ch = CHR 0x5C")
  case True
  then have "scan_escape cs = Some (bs, r)" using assms(1) by (simp add: scan_char_def)
  then obtain c cs' where "scan_escape (c # cs') = Some (bs, r)" by (cases cs) (auto simp: scan_escape_def)
  then show ?thesis using assms(2) scan_unicode_utf8 utf8_ok_ascii scan_escape_cases by blast
next
  case False
  then obtain rs bs' where "byte_ranges (of_char ch) = Some rs" "next_byte_in_range rs cs = Some (bs', r)" "bs = ch # bs'"
    using assms(1) by (auto simp: scan_char_def split: if_splits option.splits)
  then show ?thesis using next_byte_in_range_rest [of rs cs bs' r "[]"] by (auto intro: utf8_ok_snoc [OF assms(2)])
qed

lemma scan_string_utf8: "scan_string buf cs = Some (s, r) \<Longrightarrow> utf8_ok buf \<Longrightarrow> utf8_ok s"
proof (induction buf cs rule: scan_string.induct)
  case (2 buf ch cs)
  show ?case
  proof (cases "ch = CHR 0x22")
    case False
    with 2(2) obtain bs r' where sc: "scan_char ch cs = Some (bs, r')" "scan_string (buf @ bs) r' = Some (s, r)"
      by (auto split: option.splits)
    from 2(1) [OF False sc(1) refl sc(2)] show ?thesis using scan_char_utf8 [OF sc(1) 2(3)] by simp
  qed (use 2 in auto)
qed auto

declare utf8_ok.simps(2) [simp del]

lemma utf8_ok_ascii_Cons [simp]: "(of_char ch :: nat) \<le> 0x7F \<Longrightarrow> utf8_ok (ch # cs) = utf8_ok cs"
  by (simp add: byte_ranges_def utf8_ok.simps(2))

end
