(* ===== verification/JsonParser.thy ===== *)
theory JsonParser
  imports JsonLexer JsonObject
begin

text \<open>
  The parser of \<^verbatim>\<open>include/json.hpp\<close>: \<^verbatim>\<open>parser::parse\<close> with \<^verbatim>\<open>sax_parse_internal\<close>, and \<^verbatim>\<open>json_sax_dom_parser\<close>, which builds the
  value.  The builder keeps the containers that are open, innermost first, where the code keeps pointers to them; a container
  is put into the one around it when it ends.
\<close>

datatype open_container =
    OpenArray "json list"
  | OpenObject "(string \<times> json) list" string

record dom =
  root :: json
  ref_stack :: "open_container list"

section \<open>Building the value\<close>

definition empty_dom :: dom where
  "empty_dom = \<lparr>root = JNull, ref_stack = []\<rparr>"

fun handle_value :: "json \<Rightarrow> dom \<Rightarrow> dom" where
  "handle_value v \<lparr>root = r, ref_stack = []\<rparr> = \<lparr>root = v, ref_stack = []\<rparr>"
| "handle_value v \<lparr>root = r, ref_stack = OpenArray xs # st\<rparr> = \<lparr>root = r, ref_stack = OpenArray (xs @ [v]) # st\<rparr>"
| "handle_value v \<lparr>root = r, ref_stack = OpenObject kvs k # st\<rparr> = \<lparr>root = r, ref_stack = OpenObject (map_put k v kvs) k # st\<rparr>"

definition start_object :: "dom \<Rightarrow> dom" where
  "start_object d = d\<lparr>ref_stack := OpenObject [] [] # ref_stack d\<rparr>"

fun sax_key :: "string \<Rightarrow> dom \<Rightarrow> dom" where
  "sax_key k \<lparr>root = r, ref_stack = OpenObject kvs k' # st\<rparr> = \<lparr>root = r, ref_stack = OpenObject kvs k # st\<rparr>"
| "sax_key k d = d"

definition start_array :: "dom \<Rightarrow> dom" where
  "start_array d = d\<lparr>ref_stack := OpenArray [] # ref_stack d\<rparr>"

text \<open>\<^verbatim>\<open>end_object\<close> and \<^verbatim>\<open>end_array\<close>\<close>

fun sax_end :: "dom \<Rightarrow> dom" where
  "sax_end \<lparr>root = r, ref_stack = OpenArray xs # st\<rparr> = handle_value (JArr xs) \<lparr>root = r, ref_stack = st\<rparr>"
| "sax_end \<lparr>root = r, ref_stack = OpenObject kvs k # st\<rparr> = handle_value (JObj kvs) \<lparr>root = r, ref_stack = st\<rparr>"
| "sax_end d = d"

section \<open>The loop\<close>

text \<open>
  \<open>parse_value\<close> is the part of the loop that looks at a token, \<open>next_state\<close> the part after a value; \<open>states\<close> holds \<open>True\<close> for an
  array and \<open>False\<close> for an object.  Syntax errors are \<^verbatim>\<open>parse_error.101\<close>, a number too large for a \<^verbatim>\<open>double\<close> is
  \<^verbatim>\<open>out_of_range.406\<close>.
\<close>

abbreviation syntax_error :: "exn + 'a" where
  "syntax_error \<equiv> Inl (JsonException 101)"

function parse_value :: "token_type \<Rightarrow> string \<Rightarrow> bool list \<Rightarrow> dom \<Rightarrow> exn + dom \<times> string"
  and next_state :: "string \<Rightarrow> bool list \<Rightarrow> dom \<Rightarrow> exn + dom \<times> string" where
  "parse_value last_token cs states d =
     (case last_token of
        begin_object \<Rightarrow>
          (case scan cs of (t1, r1) \<Rightarrow>
             (case t1 of
                end_object \<Rightarrow> next_state r1 states (sax_end (start_object d))
              | value_string k \<Rightarrow>
                  (case scan r1 of (t2, r2) \<Rightarrow>
                     if t2 = name_separator then
                       (case scan r2 of (t3, r3) \<Rightarrow> parse_value t3 r3 (False # states) (sax_key k (start_object d)))
                     else syntax_error)
              | _ \<Rightarrow> syntax_error))
      | begin_array \<Rightarrow>
          (case scan cs of (t1, r1) \<Rightarrow>
             if t1 = end_array then next_state r1 states (sax_end (start_array d))
             else parse_value t1 r1 (True # states) (start_array d))
      | value_float x \<Rightarrow>
          (case x of None \<Rightarrow> Inl (JsonException 406) | Some v \<Rightarrow> next_state cs states (handle_value (JFloat v) d))
      | literal_false \<Rightarrow> next_state cs states (handle_value (JBool False) d)
      | literal_null \<Rightarrow> next_state cs states (handle_value JNull d)
      | literal_true \<Rightarrow> next_state cs states (handle_value (JBool True) d)
      | value_integer x \<Rightarrow> next_state cs states (handle_value (JInt x) d)
      | value_string s \<Rightarrow> next_state cs states (handle_value (JStr s) d)
      | value_unsigned x \<Rightarrow> next_state cs states (handle_value (JInt x) d)
      | _ \<Rightarrow> syntax_error)"
| "next_state cs states d =
     (case states of
        [] \<Rightarrow> Inr (d, cs)
      | True # ss \<Rightarrow>
          (case scan cs of (t1, r1) \<Rightarrow>
             if t1 = value_separator then (case scan r1 of (t2, r2) \<Rightarrow> parse_value t2 r2 states d)
             else if t1 = end_array then next_state r1 ss (sax_end d)
             else syntax_error)
      | False # ss \<Rightarrow>
          (case scan cs of (t1, r1) \<Rightarrow>
             if t1 = value_separator then
               (case scan r1 of (t2, r2) \<Rightarrow>
                  (case t2 of
                     value_string k \<Rightarrow>
                       (case scan r2 of (t3, r3) \<Rightarrow>
                          if t3 = name_separator then
                            (case scan r3 of (t4, r4) \<Rightarrow> parse_value t4 r4 states (sax_key k d))
                          else syntax_error)
                   | _ \<Rightarrow> syntax_error))
             else if t1 = end_object then next_state r1 ss (sax_end d)
             else syntax_error))"
  by pat_completeness auto

text \<open>
  Every round takes input: twice what is left, plus one while a token other than the end of the input is being looked at.
\<close>

definition parse_measure :: "token_type \<times> string \<times> bool list \<times> dom + string \<times> bool list \<times> dom \<Rightarrow> nat" where
  "parse_measure x =
     (case x of
        Inl (t, cs, _) \<Rightarrow> 2 * length cs + (if t = end_of_input then 0 else 1)
      | Inr (cs, _) \<Rightarrow> 2 * length cs)"

lemma scan_eq: "(t, r) = scan cs \<Longrightarrow> length r \<le> length cs \<and> (t \<noteq> end_of_input \<longrightarrow> length r < length cs)"
  by (rule scan_length) simp

termination parse_value
  by (relation "measure parse_measure")
    (auto simp: parse_measure_def dest!: scan_eq split: if_splits)

declare parse_value.simps [simp del] next_state.simps [simp del]

text \<open>\<^verbatim>\<open>json::parse(text)\<close>: after the value nothing but the end of the input.\<close>

definition json_parse :: "string \<Rightarrow> exn + json" where
  "json_parse text =
     (case first_scan text of (t, r) \<Rightarrow>
        ebind (parse_value t r [] empty_dom) (\<lambda>(d, r').
        if fst (scan r') = end_of_input then Inr (root d) else syntax_error))"

end
