(* ===== verification/GrisuDigits.thy ===== *)
theory GrisuDigits
  imports Grisu
begin

unbundle bit_operations_syntax

text \<open>
  The steps of Grisu2: the product of two 64-bit significands is the exact product rounded to the nearest, normalising changes no
  value, and the digits that are generated denote a number between the two bounds.
\<close>

section \<open>The product\<close>

lemma unat_drop_bit64: "unat (drop_bit n (x :: uint64)) = unat x div 2 ^ n"
  unfolding unat_drop_bit_eq by (simp add: drop_bit_eq_div)

lemma unat_low32: "unat ((x :: uint64) AND 0xFFFFFFFF) = unat x mod 2 ^ 32"
proof -
  have "x AND 0xFFFFFFFF = take_bit 32 x" by (simp add: take_bit_eq_mask mask_eq_exp_minus_1)
  then have "unat (x AND 0xFFFFFFFF) = take_bit 32 (unat x)" by (simp only: unsigned_take_bit_eq)
  then show ?thesis by (simp only: take_bit_eq_mod)
qed

lemma u64_less: "unat (x :: uint64) < 2 ^ 64"
  using unsigned_less [of x, where ?'a = nat] by simp

lemma unat_add64: "unat x + unat y < 2 ^ 64 \<Longrightarrow> unat (x + y :: uint64) = unat x + unat y"
  by (simp add: unat_word_ariths)

lemma unat_mult64: "unat x * unat y < 2 ^ 64 \<Longrightarrow> unat (x * y :: uint64) = unat x * unat y"
  by (simp add: unat_word_ariths)

lemma product_digits:
  fixes B :: nat
  assumes "ul * vl = B * p0h + p0l" "ul * vh = B * p1h + p1l" "uh * vl = B * p2h + p2l" "p0l < B"
  shows "((uh * B + ul) * (vh * B + vl) + B * H) div (B * B) = uh * vh + p2h + p1h + (p0h + p1l + p2l + H) div B"
proof -
  have "(uh * B + ul) * (vh * B + vl) = B * B * (uh * vh) + B * (ul * vh) + B * (uh * vl) + ul * vl"
    by (simp add: algebra_simps)
  also have "\<dots> + B * H = B * B * (uh * vh + p2h + p1h) + (B * (p0h + p1l + p2l + H) + p0l)"
    unfolding assms(1-3) by (simp add: algebra_simps)
  finally have "((uh * B + ul) * (vh * B + vl) + B * H) div (B * B) = uh * vh + p2h + p1h + (B * (p0h + p1l + p2l + H) + p0l) div (B * B)"
    using assms(4) by simp
  moreover have "(B * (p0h + p1l + p2l + H) + p0l) div B = p0h + p1l + p2l + H" using assms(4) by simp
  ultimately show ?thesis by (simp add: div_mult2_eq)
qed

lemma split_product:
  fixes a b :: nat
  defines "ul \<equiv> a mod 2 ^ 32" and "uh \<equiv> a div 2 ^ 32" and "vl \<equiv> b mod 2 ^ 32" and "vh \<equiv> b div 2 ^ 32"
  shows "uh * vh + uh * vl div 2 ^ 32 + ul * vh div 2 ^ 32 +
      (ul * vl div 2 ^ 32 + ul * vh mod 2 ^ 32 + uh * vl mod 2 ^ 32 + 2 ^ 31) div 2 ^ 32 = (a * b + 2 ^ 63) div 2 ^ 64"
proof -
  have ab: "uh * 2 ^ 32 + ul = a" "vh * 2 ^ 32 + vl = b" by (simp_all only: ul_def uh_def vl_def vh_def div_mult_mod_eq)
  have c: "2 ^ 32 * 2 ^ 31 = (2 ^ 63 :: nat)" "2 ^ 32 * 2 ^ 32 = (2 ^ 64 :: nat)" by simp_all
  have "(a * b + 2 ^ 63) div 2 ^ 64 = uh * vh + uh * vl div 2 ^ 32 + ul * vh div 2 ^ 32 +
      (ul * vl div 2 ^ 32 + ul * vh mod 2 ^ 32 + uh * vl mod 2 ^ 32 + 2 ^ 31) div 2 ^ 32"
    by (rule product_digits [of ul vl "2 ^ 32" _ "ul * vl mod 2 ^ 32" vh _ _ uh _ _ "2 ^ 31", unfolded ab c])
      (simp_all only: mult_div_mod_eq mod_less_divisor zero_less_power zero_less_numeral)
  then show ?thesis by simp
qed

lemma unat_sum4: "unat a + unat b + unat c + unat d < 2 ^ 64 \<Longrightarrow> unat (a + b + c + d :: uint64) = unat a + unat b + unat c + unat d"
  by (simp add: unat_add64)

lemma unat_mul_diyfp: "unat (df (mul_diyfp x y)) = (unat (df x) * unat (df y) + 2 ^ 63) div 2 ^ 64"
proof -
  let ?a = "unat (df x)" and ?b = "unat (df y)"
  have ab: "?a < 2 ^ 64" "?b < 2 ^ 64" by (rule u64_less)+
  let ?ul = "?a mod 2 ^ 32" and ?uh = "?a div 2 ^ 32" and ?vl = "?b mod 2 ^ 32" and ?vh = "?b div 2 ^ 32"
  have half: "?ul < 2 ^ 32" "?vl < 2 ^ 32" "?uh < 2 ^ 32" "?vh < 2 ^ 32" using ab by (simp_all add: div_less_iff_less_mult)
  have prod: "u * v < 2 ^ 64" if "u < 2 ^ 32" "v < 2 ^ 32" for u v :: nat
  proof -
    have "u * v < 2 ^ 32 * 2 ^ 32" using that by (intro mult_strict_mono) auto
    then show ?thesis by simp
  qed
  let ?Q = "?ul * ?vl div 2 ^ 32 + ?ul * ?vh mod 2 ^ 32 + ?uh * ?vl mod 2 ^ 32 + 2 ^ 31"
  let ?h = "?uh * ?vh + ?uh * ?vl div 2 ^ 32 + ?ul * ?vh div 2 ^ 32"
  have "(?a * ?b + 2 ^ 63) div 2 ^ 64 < 2 ^ 64"
  proof -
    have "?a * ?b \<le> (2 ^ 64 - 1) * (2 ^ 64 - 1)" using ab by (intro mult_mono) auto
    then show ?thesis by (simp add: div_less_iff_less_mult)
  qed
  then have sum: "?h + ?Q div 2 ^ 32 < 2 ^ 64" unfolding split_product .
  have "?ul * ?vl div 2 ^ 32 < 2 ^ 32" using prod [OF half(1,2)] by (simp add: div_less_iff_less_mult)
  moreover have "?ul * ?vh mod 2 ^ 32 < 2 ^ 32" "?uh * ?vl mod 2 ^ 32 < 2 ^ 32" by simp_all
  moreover have "a < 2 ^ 32 \<Longrightarrow> b < 2 ^ 32 \<Longrightarrow> c < 2 ^ 32 \<Longrightarrow> a + b + c + 2 ^ 31 < (2 ^ 64 :: nat)" for a b c by simp
  ultimately have Q: "?Q < 2 ^ 64" by blast
  define p0 p1 p2 p3 where "p0 = (df x AND 0xFFFFFFFF) * (df y AND 0xFFFFFFFF)"
    and "p1 = (df x AND 0xFFFFFFFF) * drop_bit 32 (df y)" and "p2 = drop_bit 32 (df x) * (df y AND 0xFFFFFFFF)"
    and "p3 = drop_bit 32 (df x) * drop_bit 32 (df y)"
  have p: "unat p0 = ?ul * ?vl" "unat p1 = ?ul * ?vh" "unat p2 = ?uh * ?vl" "unat p3 = ?uh * ?vh"
    unfolding p0_def p1_def p2_def p3_def using prod [OF half(1,2)] prod [OF half(1,4)] prod [OF half(3,2)] prod [OF half(3,4)]
    by (simp_all only: unat_mult64 unat_low32 unat_drop_bit64)
  define W where "W = drop_bit 32 p0 + (p1 AND 0xFFFFFFFF) + (p2 AND 0xFFFFFFFF) + push_bit 31 1"
  have one: "unat (push_bit 31 1 :: uint64) = 2 ^ 31" by (simp add: push_bit_eq_mult)
  have W: "unat W = ?Q"
    using unat_sum4 [of "drop_bit 32 p0" "p1 AND 0xFFFFFFFF" "p2 AND 0xFFFFFFFF" "push_bit 31 1"] Q
    unfolding W_def unat_low32 unat_drop_bit64 p one by blast
  have "unat (p3 + drop_bit 32 p2 + drop_bit 32 p1 + drop_bit 32 W) = ?h + ?Q div 2 ^ 32"
    using unat_sum4 [of p3 "drop_bit 32 p2" "drop_bit 32 p1" "drop_bit 32 W"] sum unfolding unat_drop_bit64 p W by blast
  then show ?thesis
    unfolding split_product by (simp add: mul_diyfp_def Let_def W_def p0_def p1_def p2_def p3_def)
qed

section \<open>Digits\<close>

definition digits_num :: "nat list \<Rightarrow> nat" where
  "digits_num ds = foldl (\<lambda>n d. 10 * n + d) 0 ds"

definition digits_ok :: "nat list \<Rightarrow> bool" where
  "digits_ok ds \<longleftrightarrow> ds \<noteq> [] \<and> hd ds \<noteq> 0 \<and> (\<forall>d \<in> set ds. d < 10)"

lemma digits_num_snoc [simp]: "digits_num (ds @ [d]) = 10 * digits_num ds + d"
  by (simp add: digits_num_def)

lemma digits_num_Nil [simp]: "digits_num [] = 0"
  by (simp add: digits_num_def)

lemma unat_low_bits: "sh < 64 \<Longrightarrow> unat ((x :: uint64) AND (push_bit sh 1 - 1)) = unat x mod 2 ^ sh"
proof -
  have "x AND (push_bit sh 1 - 1) = take_bit sh x" by (simp add: take_bit_eq_mask mask_eq_exp_minus_1 push_bit_eq_mult)
  then have "unat (x AND (push_bit sh 1 - 1)) = take_bit sh (unat x)" by (simp only: unsigned_take_bit_eq)
  then show ?thesis by (simp only: take_bit_eq_mod)
qed

lemma unat_push_bit64: "n * 2 ^ sh < 2 ^ 64 \<Longrightarrow> unat (push_bit sh (of_nat n) :: uint64) = n * 2 ^ sh"
proof -
  assume a: "n * 2 ^ sh < 2 ^ 64"
  have "push_bit sh (of_nat n) = (of_nat (n * 2 ^ sh) :: uint64)" by (simp add: push_bit_eq_mult)
  then have "unat (push_bit sh (of_nat n) :: uint64) = n * 2 ^ sh mod 2 ^ 64" by (simp only: unat_of_nat) simp
  then show ?thesis using a by (simp only: mod_less)
qed

lemma round_digit_spec:
  assumes "unat rest \<le> unat delta"
  shows "round_digit gap delta ten_k d rest \<le> d \<and>
    unat rest + (d - round_digit gap delta ten_k d rest) * unat ten_k \<le> unat delta"
  using assms
proof (induction d arbitrary: rest)
  case (Suc d)
  show ?case
  proof (cases "rest < gap \<and> delta - rest \<ge> ten_k \<and> (rest + ten_k < gap \<or> gap - rest > rest + ten_k - gap)")
    case True
    have "unat (delta - rest) = unat delta - unat rest" using Suc(2) by (simp add: unat_sub word_le_nat_alt)
    moreover have "unat ten_k \<le> unat (delta - rest)" using True by (simp add: word_le_nat_alt)
    ultimately have le: "unat rest + unat ten_k \<le> unat delta" using Suc(2) by linarith
    then have "unat (rest + ten_k) = unat rest + unat ten_k" using u64_less [of delta] by (intro unat_add64) linarith
    then show ?thesis using Suc(1) [of "rest + ten_k"] le True by (auto simp: Suc_diff_le algebra_simps)
  next
    case False
    then have "round_digit gap delta ten_k (Suc d) rest = Suc d" by (simp only: round_digit.simps if_False)
    then show ?thesis using Suc(2) by simp
  qed
qed simp

lemma round_step:
  assumes "unat rest \<le> unat delta" "unat delta < d * unat ten_k + unat rest" "d < 10" "buf = [] \<or> digits_ok buf"
  shows "\<exists>d' \<rho>. grisu2_round (buf @ [d]) gap delta rest ten_k = buf @ [d'] \<and> digits_ok (buf @ [d']) \<and>
    \<rho> \<le> unat delta \<and> d' * unat ten_k + \<rho> = d * unat ten_k + unat rest"
proof -
  let ?d = "round_digit gap delta ten_k d rest"
  note r = round_digit_spec [OF assms(1), of gap ten_k d]
  have eq: "?d * unat ten_k + (unat rest + (d - ?d) * unat ten_k) = d * unat ten_k + unat rest"
    using r by (simp flip: add_mult_distrib)
  then have "?d \<noteq> 0" using r assms(2) by (cases "?d = 0") auto
  then have "digits_ok (buf @ [?d])" using r assms(3,4) by (auto simp: digits_ok_def hd_append)
  then show ?thesis using eq r by (intro exI [of _ ?d] exI [of _ "unat rest + (d - ?d) * unat ten_k"]) (auto simp: grisu2_round_def)
qed

lemma integral_digits_spec:
  assumes "unat p2 < 2 ^ sh" "p1 * 2 ^ sh + unat p2 < 2 ^ 64" "p1 < 10 ^ n" "0 < n \<Longrightarrow> pow10 = 10 ^ (n - 1)"
    "pow10 * 2 ^ sh < 2 ^ 64" "unat delta < p1 * 2 ^ sh + unat p2" "buf = [] \<and> 0 < n \<and> pow10 \<le> p1 \<or> digits_ok buf"
  shows "case integral_digits sh delta gap p2 n p1 pow10 buf of
      (Some (ds, k), _) \<Rightarrow> digits_ok ds \<and>
        (\<exists>\<rho> \<le> unat delta. digits_num ds * 10 ^ k * 2 ^ sh + \<rho> = (digits_num buf * 10 ^ n + p1) * 2 ^ sh + unat p2)
    | (None, b) \<Rightarrow> digits_ok b \<and> digits_num b = digits_num buf * 10 ^ n + p1 \<and> unat delta < unat p2"
  using assms
proof (induction n arbitrary: p1 pow10 buf)
  case (Suc n)
  let ?d = "p1 div pow10" and ?r = "p1 mod pow10"
  define rest :: uint64 where "rest = push_bit sh (of_nat ?r) + p2"
  have pow: "pow10 = 10 ^ n" using Suc.prems(4) by simp
  have p1: "p1 = ?d * pow10 + ?r" by simp
  have d: "?d < 10" using Suc.prems(3) by (simp add: pow div_less_iff_less_mult)
  have "?r * 2 ^ sh \<le> p1 * 2 ^ sh" by simp
  then have room: "?r * 2 ^ sh + unat p2 < 2 ^ 64" using Suc.prems(2) by linarith
  then have rest: "unat rest = ?r * 2 ^ sh + unat p2" unfolding rest_def by (simp add: unat_add64 unat_push_bit64)
  have ten: "unat (push_bit sh (of_nat pow10) :: uint64) = pow10 * 2 ^ sh" using Suc.prems(5) by (rule unat_push_bit64)
  have sum: "?d * (pow10 * 2 ^ sh) + unat rest = p1 * 2 ^ sh + unat p2"
    using arg_cong [OF p1, of "\<lambda>x. x * 2 ^ sh"] by (simp only: rest distrib_right mult.assoc add.assoc)
  show ?case
  proof (cases "rest \<le> delta")
    case True
    then have le: "unat rest \<le> unat delta" by (simp add: word_le_nat_alt)
    have "unat delta < ?d * unat (push_bit sh (of_nat pow10) :: uint64) + unat rest" using Suc.prems(6) by (simp add: ten sum)
    from round_step [OF le this d, of buf gap] Suc.prems(7) obtain d' \<rho> where r:
      "grisu2_round (buf @ [?d]) gap delta rest (push_bit sh (of_nat pow10)) = buf @ [d']" "digits_ok (buf @ [d'])" "\<rho> \<le> unat delta"
      "d' * (pow10 * 2 ^ sh) + \<rho> = p1 * 2 ^ sh + unat p2"
      by (auto simp: ten sum)
    have "digits_num (buf @ [d']) * 10 ^ n * 2 ^ sh + \<rho> = (digits_num buf * 10 ^ Suc n + p1) * 2 ^ sh + unat p2"
      using r(4) by (simp add: pow algebra_simps)
    then show ?thesis using True r(1-3) by (auto simp: Let_def simp flip: rest_def)
  next
    case False
    then have gt: "unat delta < unat rest" by (simp add: word_le_nat_alt)
    have buf: "digits_ok (buf @ [?d])"
    proof (cases "buf = []")
      case True
      then have "pow10 \<le> p1" using Suc.prems(7) by (auto simp: digits_ok_def)
      then have "?d \<noteq> 0" by (simp add: div_eq_0_iff pow)
      then show ?thesis using True d by (simp add: digits_ok_def)
    qed (use Suc.prems(7) d in \<open>auto simp: digits_ok_def\<close>)
    have small: "pow10 div 10 * 2 ^ sh < 2 ^ 64"
      using Suc.prems(5) by (meson div_le_dividend le_less_trans mult_le_mono1)
    have r: "?r < 10 ^ n" by (simp add: pow)
    have pow': "pow10 div 10 = 10 ^ (n - 1)" if "0 < n" using that by (cases n) (simp_all add: pow)
    have "digits_num (buf @ [d]) * 10 ^ n + r = digits_num buf * 10 ^ Suc n + (d * 10 ^ n + r)" for d r
      by (simp add: algebra_simps)
    then have eq: "digits_num (buf @ [?d]) * 10 ^ n + ?r = digits_num buf * 10 ^ Suc n + p1"
      by (simp only: pow div_mult_mod_eq)
    from Suc.IH [OF Suc.prems(1) room r pow' small gt [unfolded rest] disjI2 [OF buf], unfolded eq] show ?thesis
      using False by (simp only: integral_digits.simps Let_def rest_def if_False)
  qed
qed (auto simp: digits_ok_def)

lemma fraction_digits_spec:
  assumes "sh \<le> 60" "unat p2 < 2 ^ sh" "unat delta < unat p2" "2 ^ sh \<le> unat delta * 10 ^ k" "digits_ok buf"
  shows "\<exists>ds j \<rho>. fraction_digits k sh delta gap p2 m buf = (ds, m + j) \<and> digits_ok ds \<and> \<rho> \<le> unat delta * 10 ^ j \<and>
    digits_num ds * 2 ^ sh + \<rho> = (digits_num buf * 2 ^ sh + unat p2) * 10 ^ j"
  using assms(2-5)
proof (induction k arbitrary: p2 delta gap m buf)
  case (Suc k)
  define q where "q = p2 * 10"
  define r where "r = q AND (push_bit sh 1 - 1)"
  have "(2 :: nat) ^ sh \<le> 2 ^ 60" using assms(1) by (intro power_increasing) auto
  then have small: "unat p2 < 2 ^ 60" "unat delta < 2 ^ 60" using Suc.prems(1,2) by linarith+
  have q: "unat q = unat p2 * 10" "unat (delta * 10) = unat delta * 10"
    unfolding q_def using small unat_mult64 [of p2 10] unat_mult64 [of delta 10] by simp_all
  have one: "unat (push_bit sh 1 :: uint64) = 2 ^ sh"
  proof -
    have "1 * 2 ^ sh < (2 ^ 64 :: nat)" using \<open>2 ^ sh \<le> 2 ^ 60\<close> by simp
    from unat_push_bit64 [OF this] show ?thesis by simp
  qed
  have r: "unat r = unat q mod 2 ^ sh" unfolding r_def by (rule unat_low_bits) (use assms(1) in simp)
  have d: "unat (drop_bit sh q) = unat q div 2 ^ sh" by (rule unat_drop_bit64)
  have sum: "unat (drop_bit sh q) * 2 ^ sh + unat r = unat p2 * 10" unfolding d r by (simp only: div_mult_mod_eq q)
  have d10: "unat (drop_bit sh q) < 10"
    unfolding d q using Suc.prems(1) by (simp add: div_less_iff_less_mult)
  show ?case
  proof (cases "r \<le> delta * 10")
    case True
    then have le: "unat r \<le> unat (delta * 10)" by (simp add: word_le_nat_alt)
    have "unat (delta * 10) < unat (drop_bit sh q) * unat (push_bit sh 1 :: uint64) + unat r"
      using Suc.prems(2) by (simp only: one sum q)
    from round_step [OF le this d10 disjI2 [OF Suc.prems(4)], of "gap * 10"] obtain d' \<rho> where
      "grisu2_round (buf @ [unat (drop_bit sh q)]) (gap * 10) (delta * 10) r (push_bit sh 1) = buf @ [d']" "digits_ok (buf @ [d'])"
      "\<rho> \<le> unat delta * 10" "d' * 2 ^ sh + \<rho> = unat p2 * 10"
      unfolding one sum q by blast
    then show ?thesis using True
      by (intro exI [of _ "buf @ [d']"] exI [of _ 1] exI [of _ \<rho>])
        (auto simp: Let_def algebra_simps simp flip: q_def r_def simp del: push_bit_of_1)
  next
    case False
    then have gt: "unat (delta * 10) < unat r" by (simp add: word_le_nat_alt)
    have less: "unat r < 2 ^ sh" unfolding r by simp
    have fuel: "2 ^ sh \<le> unat (delta * 10) * 10 ^ k" using Suc.prems(3) by (simp add: q algebra_simps)
    have ok: "digits_ok (buf @ [unat (drop_bit sh q)])" using Suc.prems(4) d10 by (auto simp: digits_ok_def)
    from Suc.IH [OF less gt fuel ok, of "gap * 10" "Suc m"] obtain ds j \<rho> where
      IH: "fraction_digits k sh (delta * 10) (gap * 10) r (Suc m) (buf @ [unat (drop_bit sh q)]) = (ds, Suc m + j)" "digits_ok ds"
      "\<rho> \<le> unat delta * 10 * 10 ^ j" "digits_num ds * 2 ^ sh + \<rho> = (digits_num (buf @ [unat (drop_bit sh q)]) * 2 ^ sh + unat r) * 10 ^ j"
      unfolding q by blast
    have "digits_num (buf @ [d]) * 2 ^ sh + r = digits_num buf * 2 ^ sh * 10 + (d * 2 ^ sh + r)" for d r by (simp add: algebra_simps)
    then have "(digits_num (buf @ [unat (drop_bit sh q)]) * 2 ^ sh + unat r) = (digits_num buf * 2 ^ sh + unat p2) * 10"
      by (simp only: sum distrib_right)
    then have "digits_num ds * 2 ^ sh + \<rho> = (digits_num buf * 2 ^ sh + unat p2) * 10 ^ Suc j" using IH(4) by simp
    moreover have "fraction_digits (Suc k) sh delta gap p2 m buf = (ds, m + Suc j)"
      using IH(1) False by (simp add: Let_def flip: q_def r_def del: push_bit_of_1)
    ultimately show ?thesis using IH(2,3) by (intro exI [of _ ds] exI [of _ "Suc j"] exI [of _ \<rho>]) simp
  qed
qed simp

lemma find_largest_pow10_spec:
  assumes "0 < n" "n < 2 ^ 32" "find_largest_pow10 n = (k, p)"
  shows "0 < k" "p = 10 ^ (k - 1)" "p \<le> n" "n < 10 ^ k"
  using assms by (auto simp: find_largest_pow10_def split: if_splits)

lemma integral_part_bounds:
  assumes "32 \<le> sh" "sh \<le> 60" "2 ^ 60 \<le> unat (A :: uint64)"
  shows "0 < unat A div 2 ^ sh" "unat A div 2 ^ sh < 2 ^ 32"
proof -
  have le: "(2 :: nat) ^ sh \<le> 2 ^ 60" "(2 :: nat) ^ 32 \<le> 2 ^ sh" using assms(1,2) by (intro power_increasing; simp)+
  show "0 < unat A div 2 ^ sh" using le(1) assms(3) by (simp add: div_greater_zero_iff)
  have "unat A < 2 ^ 32 * 2 ^ 32" using u64_less [of A] by simp
  also have "\<dots> \<le> 2 ^ 32 * 2 ^ sh" using le(2) by (rule mult_le_mono2)
  finally show "unat A div 2 ^ sh < 2 ^ 32" by (simp add: div_less_iff_less_mult)
qed

lemma digit_gen_exact:
  assumes sh: "de M_plus = - int sh" "32 \<le> sh" "sh \<le> 60"
    and M: "0 < unat (df M_minus)" "unat (df M_minus) < unat (df M_plus)" "2 ^ 60 \<le> unat (df M_plus)"
    and res: "grisu2_digit_gen K M_minus w M_plus = (ds, ex)"
  shows "\<exists>n m \<rho>. digits_ok ds \<and> ex - K = int n - int m \<and> \<rho> \<le> (unat (df M_plus) - unat (df M_minus)) * 10 ^ m \<and>
    digits_num ds * 10 ^ n * 2 ^ sh + \<rho> = unat (df M_plus) * 10 ^ m"
proof -
  let ?A = "unat (df M_plus)" and ?B = "unat (df M_minus)"
  define delta where "delta = df M_plus - df M_minus"
  define p2 where "p2 = df M_plus AND (push_bit sh 1 - 1)"
  define p1 where "p1 = ?A div 2 ^ sh"
  have delta: "unat delta = ?A - ?B" unfolding delta_def using M(2) by (simp add: unat_sub word_le_nat_alt)
  have p2: "unat p2 = ?A mod 2 ^ sh" unfolding p2_def by (rule unat_low_bits) (use sh in simp)
  have A: "p1 * 2 ^ sh + unat p2 = ?A" unfolding p1_def p2 by (rule div_mult_mod_eq)
  have p1: "0 < p1" "p1 < 2 ^ 32" unfolding p1_def using integral_part_bounds [OF sh(2,3) M(3)] by simp_all
  then have word1: "unat (drop_bit sh (df M_plus)) mod 2 ^ 32 = p1" unfolding unat_drop_bit64 p1_def by simp
  obtain k pow10 where kp: "find_largest_pow10 p1 = (k, pow10)" by (cases "find_largest_pow10 p1")
  note spec = find_largest_pow10_spec [OF p1 kp]
  have pow: "pow10 * 2 ^ sh < 2 ^ 64"
    using mult_le_mono1 [OF spec(3), of "2 ^ sh"] A u64_less [of "df M_plus"] by linarith
  have I: "case integral_digits sh delta gap p2 k p1 pow10 [] of
      (Some (ds, n), _) \<Rightarrow> digits_ok ds \<and> (\<exists>\<rho> \<le> unat delta. digits_num ds * 10 ^ n * 2 ^ sh + \<rho> = ?A)
    | (None, b) \<Rightarrow> digits_ok b \<and> digits_num b = p1 \<and> unat delta < unat p2" for gap
    using integral_digits_spec [of p2 sh p1 k pow10 delta "[]" gap] spec pow p2 delta M(1,2) A u64_less [of "df M_plus"]
    by (simp split: option.splits prod.splits) auto
  define gap where "gap = df M_plus - df w"
  have gen: "grisu2_digit_gen K M_minus w M_plus = (case integral_digits sh delta gap p2 k p1 pow10 [] of
      (Some (ds, n), _) \<Rightarrow> (ds, K + int n)
    | (None, buf) \<Rightarrow> (case fraction_digits digit_bound sh delta gap p2 0 buf of (ds, m) \<Rightarrow> (ds, K - int m)))"
    unfolding grisu2_digit_gen_def sub_diyfp_def sh(1) Let_def minus_minus nat_int diyfp.select_convs word1
    unfolding kp prod.case delta_def gap_def p2_def ..
  have "\<exists>n m \<rho>. digits_ok ds \<and> ex - K = int n - int m \<and> \<rho> \<le> unat delta * 10 ^ m \<and> digits_num ds * 10 ^ n * 2 ^ sh + \<rho> = ?A * 10 ^ m"
  proof (cases "integral_digits sh delta gap p2 k p1 pow10 []")
    case (Pair r b)
    show ?thesis
    proof (cases r)
      case None
      have fuel: "2 ^ sh \<le> unat delta * 10 ^ digit_bound"
      proof -
        have "1 \<le> unat delta" using delta M(2) by simp
        moreover have "(2 :: nat) ^ sh \<le> 10 ^ digit_bound"
          using power_increasing [OF sh(3), of "2 :: nat"] by (simp add: digit_bound_def)
        ultimately show ?thesis by (metis mult_le_mono nat_mult_1)
      qed
      have b: "digits_ok b" "digits_num b = p1" "unat delta < unat p2" using I [of gap] Pair None by auto
      have "unat p2 < 2 ^ sh" unfolding p2 by simp
      from fraction_digits_spec [OF sh(3) this b(3) fuel b(1), of gap 0] obtain ds' j \<rho> where
        "fraction_digits digit_bound sh delta gap p2 0 b = (ds', 0 + j)" "digits_ok ds'" "\<rho> \<le> unat delta * 10 ^ j"
        "digits_num ds' * 2 ^ sh + \<rho> = ?A * 10 ^ j" unfolding b(2) A by blast
      then show ?thesis using gen res Pair None by (intro exI [of _ 0] exI [of _ j] exI [of _ \<rho>]) auto
    next
      case (Some r')
      then obtain ds' n where r': "r = Some (ds', n)" by (cases r') auto
      then obtain \<rho> where "digits_ok ds'" "\<rho> \<le> unat delta" "digits_num ds' * 10 ^ n * 2 ^ sh + \<rho> = ?A" using I [of gap] Pair by auto
      then show ?thesis using gen res Pair r' by (intro exI [of _ n] exI [of _ 0] exI [of _ \<rho>]) auto
    qed
  qed
  then show ?thesis unfolding delta .
qed

lemma digit_gen_spec:
  assumes sh: "de M_plus = - int sh" "32 \<le> sh" "sh \<le> 60"
    and M: "0 < unat (df M_minus)" "unat (df M_minus) < unat (df M_plus)" "2 ^ 60 \<le> unat (df M_plus)"
    and res: "grisu2_digit_gen K M_minus w M_plus = (ds, ex)"
  shows "digits_ok ds" "of_nat (unat (df M_minus)) \<le> (of_nat (digits_num ds) * 10 powi (ex - K) * 2 ^ sh :: rat)"
    "(of_nat (digits_num ds) * 10 powi (ex - K) * 2 ^ sh :: rat) \<le> of_nat (unat (df M_plus))"
proof -
  let ?A = "unat (df M_plus)" and ?B = "unat (df M_minus)"
  obtain n m \<rho> where r: "digits_ok ds" "ex - K = int n - int m" "\<rho> \<le> (?A - ?B) * 10 ^ m"
    "digits_num ds * 10 ^ n * 2 ^ sh + \<rho> = ?A * 10 ^ m" using digit_gen_exact [OF assms] by blast
  show "digits_ok ds" by (fact r(1))
  define X :: rat where "X = of_nat (digits_num ds) * 10 powi (ex - K) * 2 ^ sh"
  have eq: "X * 10 ^ m + of_nat \<rho> = of_nat ?A * 10 ^ m"
    using arg_cong [OF r(4), of "of_nat :: nat \<Rightarrow> rat"] by (simp add: X_def r(2) power_int_diff)
  then have "X * 10 ^ m \<le> of_nat ?A * 10 ^ m" by linarith
  then show "X \<le> of_nat ?A" by simp
  have "of_nat \<rho> \<le> (of_nat ((?A - ?B) * 10 ^ m) :: rat)" using r(3) by (simp only: of_nat_le_iff)
  then have "of_nat \<rho> \<le> (of_nat ?A - of_nat ?B) * (10 ^ m :: rat)" using M(2) by (simp add: of_nat_diff)
  then have "of_nat ?B * 10 ^ m \<le> X * 10 ^ m" using eq unfolding left_diff_distrib by linarith
  then show "of_nat ?B \<le> X" by simp
qed

end
