(* ===== verification/GrisuPowers.thy ===== *)
theory GrisuPowers
  imports GrisuDigits
begin

text \<open>
  The table of powers of ten of Grisu2: each entry is the power rounded to 64 bits, and the entry that is chosen for a binary
  exponent brings a product into the range the digit generation needs.  The entries are compared with bounds of the powers
  of 80 bits, each of which follows from the ones before it.
\<close>

section \<open>The entries\<close>

definition near_power :: "uint64 \<times> int \<times> int \<Rightarrow> bool" where
  "near_power c \<longleftrightarrow> (case c of (cf, ce, ck) \<Rightarrow>
     2 ^ 63 \<le> unat cf \<and> \<bar>of_nat (unat cf) * 2 powi ce - 10 powi ck\<bar> \<le> (2 powi ce / 2 :: rat))"

definition entry_check :: "nat \<Rightarrow> nat \<Rightarrow> uint64 \<Rightarrow> bool" where
  "entry_check L U cf \<longleftrightarrow> 2 ^ 63 \<le> unat cf \<and> 2 * (unat cf * 2 ^ 16) \<le> 2 * L + 2 ^ 16 \<and> 2 * U \<le> 2 * (unat cf * 2 ^ 16) + 2 ^ 16"

text \<open>The next power is \<open>10 ^ 8\<close> times as large.\<close>

fun chain_check :: "nat \<Rightarrow> nat \<Rightarrow> int \<Rightarrow> int \<Rightarrow> (uint64 \<times> int \<times> int) list \<Rightarrow> (nat \<times> nat) list \<Rightarrow> bool" where
  "chain_check L U e k ((cf, ce, ck) # cs) ((L', U') # bs) \<longleftrightarrow>
     e \<le> ce \<and> ck = k + 8 \<and> L' * 2 ^ nat (ce - e) \<le> L * 10 ^ 8 \<and> U * 10 ^ 8 \<le> U' * 2 ^ nat (ce - e) \<and>
     entry_check L' U' cf \<and> chain_check L' U' ce ck cs bs"
| "chain_check L U e k cs bs \<longleftrightarrow> cs = []"

text \<open>\<open>L\<close> and \<open>U\<close> bound the power \<open>10 powi k\<close> in units of \<open>2 powi e\<close>.\<close>

definition bounds_power :: "nat \<Rightarrow> nat \<Rightarrow> int \<Rightarrow> int \<Rightarrow> bool" where
  "bounds_power L U e k \<longleftrightarrow> of_nat L * 2 powi e \<le> (10 powi k :: rat) \<and> (10 powi k :: rat) \<le> of_nat U * 2 powi e"

lemma entry_near:
  assumes "bounds_power L U (ce - 16) ck" "entry_check L U cf"
  shows "near_power (cf, ce, ck)"
proof -
  define u :: rat where "u = 2 powi (ce - 16)"
  have u: "0 < u" "2 powi ce = 2 ^ 16 * u" by (simp_all add: u_def power_int_diff)
  have c: "(of_nat (2 * (unat cf * 2 ^ 16)) :: rat) \<le> of_nat (2 * L + 2 ^ 16)" "(of_nat (2 * U) :: rat) \<le> of_nat (2 * (unat cf * 2 ^ 16) + 2 ^ 16)"
    using assms(2) by (simp_all only: entry_check_def of_nat_le_iff)
  have "(2 * (of_nat (unat cf) * 2 ^ 16)) * u \<le> (2 * of_nat L + 2 ^ 16) * u" "(2 * of_nat U) * u \<le> (2 * (of_nat (unat cf) * 2 ^ 16) + 2 ^ 16) * u"
    using c u(1) by (auto intro!: mult_right_mono)
  then have "of_nat (unat cf) * (2 ^ 16 * u) - 10 powi ck \<le> 2 ^ 16 * u / 2" "10 powi ck - of_nat (unat cf) * (2 ^ 16 * u) \<le> 2 ^ 16 * u / 2"
    using assms(1) unfolding bounds_power_def u_def [symmetric] by (simp_all add: algebra_simps)
  then show ?thesis using assms(2) by (simp add: near_power_def u(2) entry_check_def)
qed

lemma bounds_up:
  assumes "bounds_power L U e k" "e \<le> e'" "L' * 2 ^ nat (e' - e) \<le> L * 10 ^ 8" "U * 10 ^ 8 \<le> U' * 2 ^ nat (e' - e)"
  shows "bounds_power L' U' e' (k + 8)"
proof -
  let ?s = "nat (e' - e)"
  have "e' = e + int ?s" using assms(2) by simp
  then have e': "(2 :: rat) powi e' = of_nat (2 ^ ?s) * 2 powi e"
    by (metis power_int_add power_int_of_nat mult.commute of_nat_numeral of_nat_power zero_neq_numeral)
  have k: "(10 :: rat) powi (k + 8) = 10 powi k * of_nat (10 ^ 8)" by (simp add: power_int_add)
  have "(of_nat (L' * 2 ^ ?s) :: rat) \<le> of_nat (L * 10 ^ 8)" "(of_nat (U * 10 ^ 8) :: rat) \<le> of_nat (U' * 2 ^ ?s)"
    using assms(3,4) by (simp_all only: of_nat_le_iff)
  then have "of_nat (L' * 2 ^ ?s) * 2 powi e \<le> of_nat (L * 10 ^ 8) * (2 powi e :: rat)"
      "of_nat (U * 10 ^ 8) * (2 powi e :: rat) \<le> of_nat (U' * 2 ^ ?s) * 2 powi e"
    by (auto intro!: mult_right_mono simp del: of_nat_mult of_nat_power of_nat_numeral)
  moreover have "of_nat (L * 10 ^ 8) * 2 powi e \<le> (10 powi k :: rat) * of_nat (10 ^ 8)"
      "(10 powi k :: rat) * of_nat (10 ^ 8) \<le> of_nat (U * 10 ^ 8) * 2 powi e"
    using assms(1) by (simp_all add: bounds_power_def)
  ultimately show ?thesis unfolding bounds_power_def e' k by (simp only: of_nat_mult mult.assoc) linarith
qed

lemma chain_near: "bounds_power L U (e - 16) k \<Longrightarrow> chain_check L U e k cs bs \<Longrightarrow> c \<in> set cs \<Longrightarrow> near_power c"
proof (induction L U e k cs bs rule: chain_check.induct)
  case (1 L U e k cf ce ck cs L' U' bs)
  have ok: "e - 16 \<le> ce - 16" "ck = k + 8" "L' * 2 ^ nat (ce - 16 - (e - 16)) \<le> L * 10 ^ 8"
      "U * 10 ^ 8 \<le> U' * 2 ^ nat (ce - 16 - (e - 16))" "entry_check L' U' cf" "chain_check L' U' ce ck cs bs"
    using 1(3) by auto
  have b: "bounds_power L' U' (ce - 16) ck" unfolding ok(2) by (rule bounds_up [OF 1(2) ok(1,3,4)])
  then show ?case using 1(1) [OF b ok(6)] 1(4) entry_near [OF b ok(5)] by auto
qed simp_all

text \<open>Bounds of the powers, with 16 more bits than the entries of the table have.\<close>

definition power_bounds :: "(nat \<times> nat) list" where
  "power_bounds =
     [(0xAB70FE17C79AC6CA6DBD, 0xAB70FE17C79AC6CA6DBE),
      (0xFF77B1FCBEBCDC4F25E8, 0xFF77B1FCBEBCDC4F25EA),
      (0xBE5691EF416BD60C23CB, 0xBE5691EF416BD60C23CE),
      (0x8DD01FAD907FFC3BAE3C, 0x8DD01FAD907FFC3BAE3F),
      (0xD3515C2831559A830D57, 0xD3515C2831559A830D5D),
      (0x9D71AC8FADA6C9B56F74, 0x9D71AC8FADA6C9B56F7A),
      (0xEA9C227723EE8BCB4659, 0xEA9C227723EE8BCB4663),
      (0xAECC49914078536D58F7, 0xAECC49914078536D58FF),
      (0x823C12795DB6CE5776C2, 0x823C12795DB6CE5776C9),
      (0xC21094364DFB56369854, 0xC21094364DFB5636985F),
      (0x9096EA6F3848984F3FED, 0x9096EA6F3848984F3FF6),
      (0xD77485CB25823AC77D5D, 0xD77485CB25823AC77D6B),
      (0xA086CFCD97BF97F380E4, 0xA086CFCD97BF97F380EF),
      (0xEF340A98172AACE486F4, 0xEF340A98172AACE48706),
      (0xB23867FB2A35B28DE998, 0xB23867FB2A35B28DE9A7),
      (0x84C8D4DFD2C63F3B29E8, 0x84C8D4DFD2C63F3B29F4),
      (0xC5DD44271AD3CDBA40E8, 0xC5DD44271AD3CDBA40FB),
      (0x936B9FCEBB25C995CAAB, 0x936B9FCEBB25C995CABA),
      (0xDBAC6C247D62A583DF3C, 0xDBAC6C247D62A583DF54),
      (0xA3AB66580D5FDAF5C136, 0xA3AB66580D5FDAF5C149),
      (0xF3E2F893DEC3F1265A7D, 0xF3E2F893DEC3F1265A9A),
      (0xB5B5ADA8AAFF80B80D78, 0xB5B5ADA8AAFF80B80D8E),
      (0x87625F056C7C4A8B113F, 0x87625F056C7C4A8B1151),
      (0xC9BCFF6034C13052FC7D, 0xC9BCFF6034C13052FC99),
      (0x964E858C91BA26553A60, 0x964E858C91BA26553A76),
      (0xDFF9772470297EBD5969, 0xDFF9772470297EBD598B),
      (0xA6DFBD9FB8E5B88ECB41, 0xA6DFBD9FB8E5B88ECB5B),
      (0xF8A95FCF88747D947592, 0xF8A95FCF88747D9475BA),
      (0xB94470938FA89BCEF7FB, 0xB94470938FA89BCEF81A),
      (0x8A08F0F8BF0F156B1B84, 0x8A08F0F8BF0F156B1B9C),
      (0xCDB02555653131B63783, 0xCDB02555653131B637A7),
      (0x993FE2C6D07B7FABE53A, 0x993FE2C6D07B7FABE556),
      (0xE45C10C42A2B3B058CA5, 0xE45C10C42A2B3B058CD0),
      (0xAA242499697392D2DDD6, 0xAA242499697392D2DDF7),
      (0xFD87B5F28300CA0D8BB4, 0xFD87B5F28300CA0D8BE6),
      (0xBCE5086492111AEA88E3, 0xBCE5086492111AEA890A),
      (0x8CBCCC096F5088CBF932, 0x8CBCCC096F5088CBF950),
      (0xD1B71758E219652BD3AF, 0xD1B71758E219652BD3DC),
      (0x9C3FFFFFFFFFFFFFFFF0, 0x9C400000000000000013),
      (0xE8D4A50FFFFFFFFFFFE8, 0xE8D4A51000000000001D),
      (0xAD78EBC5AC61FFFFFFEE, 0xAD78EBC5AC6200000016),
      (0x813F3978F89409843FF2, 0x813F3978F89409844011),
      (0xC097CE7BC90715B34B8A, 0xC097CE7BC90715B34BB9),
      (0x8F7E32CE7BEA5C6FE472, 0x8F7E32CE7BEA5C6FE496),
      (0xD5D238A4ABE98068728C, 0xD5D238A4ABE9806872C3),
      (0x9F4F2726179A224501C5, 0x9F4F2726179A224501EF),
      (0xED63A231D4C4FB274C8C, 0xED63A231D4C4FB274CCB),
      (0xB0DE65388CC8ADA83B11, 0xB0DE65388CC8ADA83B40),
      (0x83C7088E1AAB65DB7917, 0x83C7088E1AAB65DB793B),
      (0xC45D1DF942711D9A3B8E, 0xC45D1DF942711D9A3BC5),
      (0x924D692CA61BE758592A, 0x924D692CA61BE7585954),
      (0xDA01EE641A708DE9E7F3, 0xDA01EE641A708DE9E832),
      (0xA26DA3999AEF7749E3A9, 0xA26DA3999AEF7749E3D9),
      (0xF209787BB47D6B84C047, 0xF209787BB47D6B84C090),
      (0xB454E4A179DD187729A2, 0xB454E4A179DD187729D9),
      (0x865B86925B9BC5C20B77, 0x865B86925B9BC5C20BA1),
      (0xC83553C5C8965D3D6F75, 0xC83553C5C8965D3D6FB5),
      (0x952AB45CFA97A0B2DD7E, 0x952AB45CFA97A0B2DDAF),
      (0xDE469FBD99A05FE36FA9, 0xDE469FBD99A05FE36FF3),
      (0xA59BC234DB398C2543E1, 0xA59BC234DB398C254419),
      (0xF6C69A72A3989F5B8A86, 0xF6C69A72A3989F5B8ADB),
      (0xB7DCBF5354E9BECE0BF4, 0xB7DCBF5354E9BECE0C34),
      (0x88FCF317F22241E24409, 0x88FCF317F22241E2443A),
      (0xCC20CE9BD35C78A531C9, 0xCC20CE9BD35C78A53213),
      (0x98165AF37B2153DEC358, 0x98165AF37B2153DEC390),
      (0xE2A0B5DC971F303A2E1D, 0xE2A0B5DC971F303A2E71),
      (0xA8D9D1535CE3B3967EFA, 0xA8D9D1535CE3B3967F3A),
      (0xFB9B7CD9A4A7443C166B, 0xFB9B7CD9A4A7443C16CB),
      (0xBB764C4CA7A4440F9D4B, 0xBB764C4CA7A4440F9D93),
      (0x8BAB8EEFB6409C1A1AB7, 0x8BAB8EEFB6409C1A1AED),
      (0xD01FEF10A657842C2D05, 0xD01FEF10A657842C2D56),
      (0x9B10A4E5E9913128CA60, 0x9B10A4E5E9913128CA9D),
      (0xE7109BFBA19C0C9D0C99, 0xE7109BFBA19C0C9D0CF5),
      (0xAC2820D9623BF4295442, 0xAC2820D9623BF4295487),
      (0x80444B5E7AA7CF857968, 0x80444B5E7AA7CF85799C),
      (0xBF21E44003ACDD2CE022, 0xBF21E44003ACDD2CE070),
      (0x8E679C2F5E44FF8F56F3, 0x8E679C2F5E44FF8F572E),
      (0xD433179D9C8CB8415F7C, 0xD433179D9C8CB8415FD5),
      (0x9E19DB92B4E31BA96BE8, 0x9E19DB92B4E31BA96C2B)]"

lemma first_bounds: "bounds_power (fst (hd power_bounds)) (snd (hd power_bounds)) (- 1060 - 16) (- 300)"
proof -
  have "fst (hd power_bounds) * 10 ^ 300 \<le> 2 ^ 1076" "2 ^ 1076 \<le> snd (hd power_bounds) * 10 ^ 300"
    unfolding power_bounds_def by simp_all
  then have "(of_nat (fst (hd power_bounds) * 10 ^ 300) :: rat) \<le> of_nat (2 ^ 1076)" "(of_nat (2 ^ 1076) :: rat) \<le> of_nat (snd (hd power_bounds) * 10 ^ 300)"
    by (simp_all only: of_nat_le_iff)
  then have l: "of_nat (fst (hd power_bounds)) * (10 ^ 300 :: rat) \<le> 2 ^ 1076" "(2 ^ 1076 :: rat) \<le> of_nat (snd (hd power_bounds)) * 10 ^ 300"
    by (simp_all only: of_nat_mult of_nat_power of_nat_numeral)
  have p: "(2 :: rat) powi (- 1060 - 16) = 1 / 2 ^ 1076" "(10 :: rat) powi (- 300) = 1 / 10 ^ 300"
    by (simp_all only: power_int_minus_divide power_int_numeral minus_add_distrib [symmetric] diff_conv_add_uminus add_num_simps numeral_plus_numeral)
  have "(0 :: rat) < 2 ^ 1076" "(0 :: rat) < 10 ^ 300" by (simp_all only: zero_less_power zero_less_numeral)
  with l show ?thesis unfolding bounds_power_def p by (simp only: divide_le_eq le_divide_eq if_True mult_1_left mult_1_right times_divide_eq_right times_divide_eq_left)
qed

lemma table_first: "kCachedPowers = (0xAB70FE17C79AC6CA, - 1060, - 300) # tl kCachedPowers" "length kCachedPowers = 79"
    "entry_check (fst (hd power_bounds)) (snd (hd power_bounds)) 0xAB70FE17C79AC6CA"
  unfolding kCachedPowers_def power_bounds_def entry_check_def by simp_all

lemma table_chain: "chain_check (fst (hd power_bounds)) (snd (hd power_bounds)) (- 1060) (- 300) (tl kCachedPowers) (tl power_bounds)"
  unfolding kCachedPowers_def power_bounds_def list.sel fst_conv snd_conv by (simp add: entry_check_def)

lemma cached_powers_near: "c \<in> set kCachedPowers \<Longrightarrow> near_power c"
  using entry_near [OF first_bounds table_first(3)] chain_near [OF first_bounds table_chain, of c] table_first(1)
  by (metis set_ConsD)

section \<open>The choice of an entry\<close>

definition power_index :: "int \<Rightarrow> int" where
  "power_index e =
     (let f = kAlpha - e - 1; k = (f * 78913) sdiv 2 ^ 18 + (if f > 0 then 1 else 0) in (300 + k + (8 - 1)) sdiv 8)"

text \<open>The exponents from \<open>- 1137\<close> to \<open>960\<close>, cut where the index changes.\<close>

definition segments :: "(int \<times> int \<times> nat) list" where
  "segments =
     [(- 1137, - 1111, 78), (- 1110, - 1085, 77), (- 1084, - 1058, 76), (- 1057, - 1032, 75), (- 1031, - 1005, 74),
      (- 1004, - 978, 73), (- 977, - 952, 72), (- 951, - 925, 71), (- 924, - 899, 70), (- 898, - 872, 69),
      (- 871, - 845, 68), (- 844, - 819, 67), (- 818, - 792, 66), (- 791, - 766, 65), (- 765, - 739, 64),
      (- 738, - 713, 63), (- 712, - 686, 62), (- 685, - 659, 61), (- 658, - 633, 60), (- 632, - 606, 59),
      (- 605, - 580, 58), (- 579, - 553, 57), (- 552, - 527, 56), (- 526, - 500, 55), (- 499, - 473, 54),
      (- 472, - 447, 53), (- 446, - 420, 52), (- 419, - 394, 51), (- 393, - 367, 50), (- 366, - 341, 49),
      (- 340, - 314, 48), (- 313, - 287, 47), (- 286, - 261, 46), (- 260, - 234, 45), (- 233, - 208, 44),
      (- 207, - 181, 43), (- 180, - 155, 42), (- 154, - 128, 41), (- 127, - 101, 40), (- 100, - 75, 39),
      (- 74, - 48, 38), (- 47, - 22, 37), (- 21, 5, 36), (6, 32, 35), (33, 58, 34),
      (59, 85, 33), (86, 111, 32), (112, 138, 31), (139, 164, 30), (165, 191, 29),
      (192, 218, 28), (219, 244, 27), (245, 271, 26), (272, 297, 25), (298, 324, 24),
      (325, 350, 23), (351, 377, 22), (378, 404, 21), (405, 430, 20), (431, 457, 19),
      (458, 483, 18), (484, 510, 17), (511, 536, 16), (537, 563, 15), (564, 590, 14),
      (591, 616, 13), (617, 643, 12), (644, 669, 11), (670, 696, 10), (697, 722, 9),
      (723, 749, 8), (750, 776, 7), (777, 802, 6), (803, 829, 5), (830, 855, 4),
      (856, 882, 3), (883, 909, 2), (910, 935, 1), (936, 960, 0)]"


fun covers :: "int \<Rightarrow> (int \<times> int \<times> nat) list \<Rightarrow> int \<Rightarrow> bool" where
  "covers a [] b = (b < a)"
| "covers a ((lo, hi, i) # ss) b = (lo = a \<and> covers (hi + 1) ss b)"

definition segment_ok :: "int \<times> int \<times> nat \<Rightarrow> bool" where
  "segment_ok s \<longleftrightarrow> (case s of (lo, hi, i) \<Rightarrow>
     i < 79 \<and> power_index lo = int i \<and> power_index hi = int i \<and>
     (case kCachedPowers ! i of (cf, ce, ck) \<Rightarrow> - 60 \<le> ce + lo + 64 \<and> ce + hi + 64 \<le> - 32))"

lemma segments_checked: "covers (- 1137) segments 960" "list_all segment_ok segments"
  by code_simp+

lemma covers_ex: "covers a ss b \<Longrightarrow> a \<le> e \<Longrightarrow> e \<le> b \<Longrightarrow> \<exists>lo hi i. (lo, hi, i) \<in> set ss \<and> lo \<le> e \<and> e \<le> hi"
proof (induction a ss b rule: covers.induct)
  case (2 a lo hi i ss b)
  then show ?case by (cases "e \<le> hi") fastforce+
qed simp

lemma sdiv_mono:
  fixes x y d :: int
  assumes "x \<le> y" "0 < d"
  shows "x sdiv d \<le> y sdiv d"
proof -
  have eq: "z sdiv d = (if 0 \<le> z then z div d else - (- z div d))" for z
    using assms(2) by (auto simp: signed_divide_int_def sgn_if)
  have "x div d \<le> y div d" "- y div d \<le> - x div d" using assms by (auto intro: zdiv_mono1)
  moreover have "0 \<le> z \<Longrightarrow> 0 \<le> z div d" for z using assms(2) by (simp add: pos_imp_zdiv_nonneg_iff)
  ultimately show ?thesis unfolding eq using assms(1) by (smt (verit))
qed

lemma power_index_antimono: "e \<le> e' \<Longrightarrow> power_index e' \<le> power_index e"
  unfolding power_index_def Let_def by (intro sdiv_mono add_mono mult_right_mono) auto

lemma cached_power_spec:
  assumes "- 1137 \<le> e" "e \<le> 960"
  shows "\<exists>cf ce ck. get_cached_power_for_binary_exponent e = (cf, ce, ck) \<and> near_power (cf, ce, ck) \<and>
    - 60 \<le> ce + e + 64 \<and> ce + e + 64 \<le> - 32"
proof -
  obtain lo hi i where s: "(lo, hi, i) \<in> set segments" "lo \<le> e" "e \<le> hi"
    using covers_ex [OF segments_checked(1) assms] by blast
  have ok: "segment_ok (lo, hi, i)" using segments_checked(2) s(1) by (auto simp: list_all_iff)
  have i: "power_index e = int i" "i < 79"
    using ok power_index_antimono [OF s(2)] power_index_antimono [OF s(3)] by (auto simp: segment_ok_def)
  obtain cf ce ck where c: "kCachedPowers ! i = (cf, ce, ck)" by (cases "kCachedPowers ! i")
  have "near_power (cf, ce, ck)" using cached_powers_near c i(2) table_first(2) by (metis nth_mem)
  moreover have "get_cached_power_for_binary_exponent e = (cf, ce, ck)"
    using i(1) c unfolding get_cached_power_for_binary_exponent_def power_index_def Let_def by simp
  ultimately show ?thesis using ok c s(2,3) by (auto simp: segment_ok_def)
qed

end
