(* ===== verification/BinaryRounding.thy ===== *)
theory BinaryRounding
  imports Binary64
begin

text \<open>
  Rounding to the nearest \<^verbatim>\<open>double\<close>: a positive double in normal form, the interval of the numbers that are rounded to it, and
  that rounding gives a double.
\<close>

section \<open>The binary exponent\<close>

lemma log2_nat_bounds: "0 < n \<Longrightarrow> 2 ^ log2_nat n \<le> n \<and> n < 2 ^ Suc (log2_nat n)"
proof (induction n rule: log2_nat.induct)
  case (1 n)
  show ?case
  proof (cases "n < 2")
    case True
    then show ?thesis using 1(2) by (simp add: log2_nat.simps)
  next
    case False
    then have IH: "2 ^ log2_nat (n div 2) \<le> n div 2" "n div 2 < 2 ^ Suc (log2_nat (n div 2))" using 1(1) by auto
    have "log2_nat n = Suc (log2_nat (n div 2))" using False by (simp add: log2_nat.simps [of n])
    then show ?thesis using IH by auto
  qed
qed

lemma log2_rat_bounds:
  assumes "0 < q"
  shows "2 powi log2_rat q \<le> q" "q < 2 powi (log2_rat q + 1)"
proof -
  obtain n d where nd: "quotient_of q = (n, d)" by (cases "quotient_of q")
  have q: "q = of_int n / of_int d" and d: "0 < d"
    using nd quotient_of_div quotient_of_denom_pos by auto
  have n: "0 < n" using assms q d by (simp add: zero_less_divide_iff)
  let ?a = "log2_nat (nat n)" and ?b = "log2_nat (nat d)"
  have "2 ^ ?a \<le> nat n" "nat n < 2 ^ Suc ?a" "2 ^ ?b \<le> nat d" "nat d < 2 ^ Suc ?b"
    using log2_nat_bounds [of "nat n"] log2_nat_bounds [of "nat d"] n d by auto
  then have "(of_nat (2 ^ ?a) :: rat) \<le> of_nat (nat n)" "(of_nat (nat n) :: rat) < of_nat (2 ^ Suc ?a)"
      "(of_nat (2 ^ ?b) :: rat) \<le> of_nat (nat d)" "(of_nat (nat d) :: rat) < of_nat (2 ^ Suc ?b)"
    by (simp_all only: of_nat_le_iff of_nat_less_iff)
  then have b: "2 ^ ?a \<le> (of_int n :: rat)" "(of_int n :: rat) < 2 * 2 ^ ?a" "2 ^ ?b \<le> (of_int d :: rat)" "(of_int d :: rat) < 2 * 2 ^ ?b"
    using n d by simp_all
  let ?e = "int ?a - int ?b"
  have p: "2 powi ?e = (2 ^ ?a / 2 ^ ?b :: rat)" by (simp add: power_int_diff)
  have hi: "q < 2 * 2 powi ?e"
  proof -
    have "of_int n * 2 ^ ?b \<le> of_int n * (of_int d :: rat)" using b n by (intro mult_left_mono) auto
    also have "\<dots> < 2 * 2 ^ ?a * of_int d" using b d by (intro mult_strict_right_mono) auto
    finally show ?thesis using d by (simp add: q p field_simps)
  qed
  have lo: "2 powi ?e / 2 \<le> q"
  proof -
    have "2 ^ ?a * of_int d \<le> (2 ^ ?a * (2 * 2 ^ ?b) :: rat)" using b by (intro mult_left_mono) auto
    also have "\<dots> \<le> of_int n * (2 * 2 ^ ?b)" using b by (intro mult_right_mono) auto
    finally show ?thesis using d by (simp add: q p field_simps)
  qed
  show "2 powi log2_rat q \<le> q" using lo by (simp add: log2_rat_def nd Let_def power_int_diff)
  show "q < 2 powi (log2_rat q + 1)" using hi by (simp add: log2_rat_def nd Let_def power_int_add power_int_diff mult.commute)
qed

lemma powi_less_iff: "(2 :: rat) powi a < 2 powi b \<longleftrightarrow> a < b"
  using power_int_strict_increasing [of a b "2 :: rat"] power_int_increasing [of b a "2 :: rat"] by (meson not_less one_le_numeral one_less_numeral_iff semiring_norm(76))

lemma log2_rat_unique:
  assumes "2 powi e \<le> q" "q < 2 powi (e + 1)"
  shows "log2_rat q = e"
proof -
  have "(0 :: rat) < 2 powi e" by simp
  then have "0 < q" using assms(1) by linarith
  note b = log2_rat_bounds [OF this]
  have "(2 :: rat) powi e < 2 powi (log2_rat q + 1)" "(2 :: rat) powi (log2_rat q) < 2 powi (e + 1)" using assms b by linarith+
  then show ?thesis by (simp add: powi_less_iff)
qed

section \<open>Doubles\<close>

text \<open>The normal form of a positive double: 53 bits, or fewer with the least exponent.\<close>

definition normal_form :: "rat \<Rightarrow> int \<Rightarrow> int \<Rightarrow> bool" where
  "normal_form v m e \<longleftrightarrow> v = of_int m * 2 powi e \<and> 0 < m \<and> m < 2 ^ 53 \<and> - 1074 \<le> e \<and> e \<le> 971 \<and> (2 ^ 52 \<le> m \<or> e = - 1074)"

text \<open>The boundary between a double and the one below it.\<close>

definition lower_gap :: "int \<Rightarrow> int \<Rightarrow> rat" where
  "lower_gap m e = (if m = 2 ^ 52 \<and> e \<noteq> - 1074 then 1 / 4 else 1 / 2)"

lemma round_half_even_near: "of_int m - 1 / 2 < x \<Longrightarrow> x < of_int m + 1 / 2 \<Longrightarrow> round_half_even x = m"
proof -
  assume a: "of_int m - 1 / 2 < x" "x < of_int m + 1 / 2"
  have "\<lfloor>x\<rfloor> = m \<or> \<lfloor>x\<rfloor> = m - 1" using a by linarith
  then show ?thesis
  proof
    assume "\<lfloor>x\<rfloor> = m"
    then show ?thesis using a by (simp add: round_half_even_def Let_def)
  next
    assume "\<lfloor>x\<rfloor> = m - 1"
    then show ?thesis using a by (simp add: round_half_even_def Let_def)
  qed
qed

lemma normal_form_less: "normal_form v m e \<Longrightarrow> v < 2 powi 1024"
proof -
  assume n: "normal_form v m e"
  have "v < 2 ^ 53 * 2 powi e" using n by (auto simp: normal_form_def)
  also have "\<dots> = 2 powi (53 + e)" by (simp add: power_int_add)
  also have "\<dots> \<le> 2 powi 1024" using n by (intro power_int_increasing) (auto simp: normal_form_def)
  finally show ?thesis .
qed

lemma round_positiveI:
  assumes "max (log2_rat q - 52) (- 1074) = e" "round_half_even (q / 2 powi e) = k" "v = of_int k * 2 powi e" "v < 2 powi 1024"
  shows "round_positive q = Some v"
  using assms(4) unfolding round_positive_def assms(1) Let_def assms(2) assms(3) [symmetric] by (simp only: not_le [symmetric] if_False)

text \<open>Below a power of two the doubles lie twice as close.\<close>

lemma round_below_binade:
  assumes v: "normal_form v m e" and q: "(of_int m - lower_gap m e) * 2 powi e < q" "q < 2 powi (52 + e)"
    and m: "e \<noteq> - 1074" "2 ^ 52 \<le> m"
  shows "round_positive q = Some v"
proof -
  have e: "- 1074 \<le> e" "v = of_int m * 2 powi e" using v by (auto simp: normal_form_def)
  have pos: "(0 :: rat) < 2 powi e" by simp
  have gap: "lower_gap m e \<le> 1 / 2" by (simp add: lower_gap_def)
  have "q < 2 ^ 52 * 2 powi e" using q(2) by (simp add: power_int_add)
  then have "(of_int m - lower_gap m e) * 2 powi e < 2 ^ 52 * 2 powi e" using q(1) by (rule less_trans [rotated])
  then have "of_int m - lower_gap m e < (2 ^ 52 :: rat)" using pos mult_less_cancel_right_pos by blast
  then have "(of_int m :: rat) < of_int (2 ^ 52 + 1)" using gap by simp
  then have m52: "m = 2 ^ 52" using m(2) by (simp only: of_int_less_iff)
  then have low: "(2 ^ 52 - 1 / 4) * 2 powi e < q" using q(1) m(1) by (simp add: lower_gap_def)
  have "(2 :: rat) powi (51 + e) = 2 ^ 51 * 2 powi e" by (simp add: power_int_add)
  also have "\<dots> \<le> (2 ^ 52 - 1 / 4) * 2 powi e" by (intro mult_right_mono) simp_all
  finally have "log2_rat q = 51 + e" using low q(2) by (intro log2_rat_unique) (simp_all add: algebra_simps)
  then have "max (log2_rat q - 52) (- 1074) = e - 1" using m(1) e(1) by simp
  moreover have "round_half_even (q / 2 powi (e - 1)) = 2 * m"
  proof (rule round_half_even_near)
    show "of_int (2 * m) - 1 / 2 < q / 2 powi (e - 1)" using low m52 pos by (simp add: power_int_diff pos_less_divide_eq field_simps)
    have "q / 2 powi (e - 1) < of_int (2 * m)" using q(2) m52 pos by (simp add: power_int_diff power_int_add pos_divide_less_eq field_simps)
    then show "q / 2 powi (e - 1) < of_int (2 * m) + 1 / 2" by linarith
  qed
  ultimately show ?thesis by (rule round_positiveI) (use e(2) normal_form_less [OF v] in \<open>simp_all add: power_int_diff\<close>)
qed

lemma round_positive_interval:
  assumes v: "normal_form v m e"
    and q: "(of_int m - lower_gap m e) * 2 powi e < q" "q < (of_int m + 1 / 2) * 2 powi e"
  shows "round_positive q = Some v"
proof -
  have m: "0 < m" "m < 2 ^ 53" "- 1074 \<le> e" "2 ^ 52 \<le> m \<or> e = - 1074" "v = of_int m * 2 powi e" using v by (auto simp: normal_form_def)
  have pos: "(0 :: rat) < 2 powi e" by simp
  have gap: "lower_gap m e \<le> 1 / 2" by (simp add: lower_gap_def)
  have hi: "q < 2 powi (53 + e)"
  proof -
    have "(of_int m :: rat) \<le> of_int (2 ^ 53 - 1)" using m(2) by (simp only: of_int_le_iff)
    then have "(of_int m + 1 / 2) * 2 powi e < (2 ^ 53 :: rat) * 2 powi e" using pos by (intro mult_strict_right_mono) simp_all
    also have "\<dots> = 2 powi (53 + e)" by (simp add: power_int_add)
    finally show ?thesis using q(2) by linarith
  qed
  have q0: "0 < q"
  proof -
    have "(1 :: rat) \<le> of_int m" using m(1) by linarith
    then have "0 \<le> (of_int m - lower_gap m e) * 2 powi e" using gap pos by (intro mult_nonneg_nonneg) linarith+
    then show ?thesis using q(1) by linarith
  qed
  show ?thesis
  proof (cases "2 powi (52 + e) \<le> q \<or> e = - 1074")
    case True
    have "max (log2_rat q - 52) (- 1074) = e"
    proof (cases "2 powi (52 + e) \<le> q")
      case True
      then have "log2_rat q = 52 + e" using hi by (intro log2_rat_unique) (simp_all add: algebra_simps)
      then show ?thesis using m(3) by simp
    next
      case False
      then have "2 powi log2_rat q < (2 powi (52 + e) :: rat)" using log2_rat_bounds(1) [OF q0] by linarith
      then show ?thesis using True False by (simp add: powi_less_iff)
    qed
    moreover have "round_half_even (q / 2 powi e) = m"
    proof (rule round_half_even_near)
      show "q / 2 powi e < of_int m + 1 / 2" using q(2) pos by (simp add: pos_divide_less_eq)
      have "(of_int m - 1 / 2) * 2 powi e \<le> (of_int m - lower_gap m e) * 2 powi e" using gap pos by (intro mult_right_mono) simp_all
      then have "(of_int m - 1 / 2) * 2 powi e < q" using q(1) by linarith
      then show "of_int m - 1 / 2 < q / 2 powi e" using pos by (simp add: pos_less_divide_eq)
    qed
    ultimately show ?thesis using m(5) normal_form_less [OF v] by (rule round_positiveI)
  next
    case False
    then show ?thesis using round_below_binade [OF v q(1)] m(4) by auto
  qed
qed

lemma normal_form_boundary:
  assumes "normal_form v m e"
  shows "(of_int m - lower_gap m e) * 2 powi e < v" "v < (of_int m + 1 / 2) * 2 powi e"
  using assms by (auto simp: normal_form_def lower_gap_def algebra_simps)

text \<open>What a text is read to is a double again, and a double is read to itself.\<close>

definition is_double :: "rat \<Rightarrow> bool" where
  "is_double x \<longleftrightarrow> round_binary64 x = Some x"

lemma round_positive_normal:
  assumes "0 < q" "round_positive q = Some v" "v \<noteq> 0"
  shows "\<exists>m e. normal_form v m e"
proof -
  define e where "e = max (log2_rat q - 52) (- 1074)"
  define m where "m = round_half_even (q / 2 powi e)"
  have v: "v = of_int m * 2 powi e" "v < 2 powi 1024"
    using assms(2) by (auto simp: round_positive_def e_def m_def Let_def split: if_splits)
  have e: "- 1074 \<le> e" by (simp add: e_def)
  have pos: "(0 :: rat) < 2 powi e" by simp
  note b = log2_rat_bounds [OF assms(1)]
  have "q < 2 powi (53 + e)"
  proof -
    have "(2 :: rat) powi (log2_rat q + 1) \<le> 2 powi (53 + e)" by (intro power_int_increasing) (simp_all add: e_def)
    then show ?thesis using b(2) by linarith
  qed
  then have x: "q / 2 powi e < 2 ^ 53" "0 < q / 2 powi e" using assms(1) pos by (simp_all add: power_int_add pos_divide_less_eq)
  have near: "x - 1 / 2 \<le> of_int (round_half_even x)" "of_int (round_half_even x) \<le> x + 1 / 2" for x
    unfolding round_half_even_def Let_def by (auto, linarith+)
  have m: "0 \<le> m" "m \<le> 2 ^ 53"
  proof -
    have "- (1 / 2) < (of_int m :: rat)" using near(1) [of "q / 2 powi e"] x(2) by (simp add: m_def)
    then show "0 \<le> m" by linarith
    have "(of_int m :: rat) < of_int (2 ^ 53 + 1)" using near(2) [of "q / 2 powi e"] x(1) by (simp add: m_def)
    then show "m \<le> 2 ^ 53" by (simp only: of_int_less_iff)
  qed
  then have m0: "0 < m" using v(1) assms(3) by (cases "m = 0") auto
  have big: "2 ^ 52 \<le> m" if "e \<noteq> - 1074"
  proof -
    have "log2_rat q = 52 + e" using that by (auto simp: e_def max_def split: if_splits)
    then have "2 ^ 52 \<le> q / 2 powi e" using b(1) pos by (simp add: power_int_add pos_le_divide_eq)
    then have "(of_int (2 ^ 52 - 1) :: rat) < of_int m" using near(1) [of "q / 2 powi e"] by (simp add: m_def)
    then show ?thesis by (simp only: of_int_less_iff)
  qed
  have exp: "k \<le> 971" if "v = of_int m' * 2 powi k" "2 ^ 52 \<le> m'" for k m'
  proof -
    have "(2 :: rat) powi (52 + k) \<le> v" using that by (simp add: power_int_add)
    then have "(2 :: rat) powi (52 + k) < 2 powi 1024" using v(2) by linarith
    then show ?thesis unfolding powi_less_iff by simp
  qed
  show ?thesis
  proof (cases "m = 2 ^ 53")
    case True
    have v': "v = of_int (2 ^ 52) * 2 powi (e + 1)" using v(1) True by (simp add: power_int_add)
    then have "normal_form v (2 ^ 52) (e + 1)" using exp [OF v'] e by (simp add: normal_form_def)
    then show ?thesis by blast
  next
    case False
    have "e \<le> 971" using exp [OF v(1)] big by (cases "e = - 1074") auto
    then have "normal_form v m e" using v(1) m m0 e False big by (auto simp: normal_form_def)
    then show ?thesis by blast
  qed
qed

lemma round_normal_form: "normal_form v m e \<Longrightarrow> round_positive v = Some v"
  by (rule round_positive_interval) (auto simp: normal_form_boundary)

lemma round_positive_double: "0 < q \<Longrightarrow> round_positive q = Some v \<Longrightarrow> is_double v"
proof (cases "v = 0")
  case False
  assume "0 < q" "round_positive q = Some v"
  then obtain m e where n: "normal_form v m e" using round_positive_normal False by blast
  then have "0 < v" by (simp add: normal_form_def)
  then show ?thesis using round_normal_form [OF n] by (simp add: is_double_def round_binary64_def)
qed (simp add: is_double_def round_binary64_def)

lemma is_double_uminus: "is_double (- x) \<longleftrightarrow> is_double x"
  by (cases "x = 0"; cases "0 < x") (auto simp: is_double_def round_binary64_def)

lemma round_binary64_double: "round_binary64 q = Some v \<Longrightarrow> is_double v"
  using round_positive_double [of q v] round_positive_double [of "- q" "- v"] is_double_uminus [of v]
  by (auto simp: round_binary64_def is_double_def split: if_splits)

lemma strtod_double: "strtod s = Some x \<Longrightarrow> is_double x"
  by (auto simp: strtod_def dest: round_binary64_double split: if_splits)

lemma is_double_normal: "is_double v \<Longrightarrow> 0 < v \<Longrightarrow> \<exists>m e. normal_form v m e"
  using round_positive_normal [of v v] by (simp add: is_double_def round_binary64_def)

end
