(* ===== verification/GrisuBounds.thy ===== *)
theory GrisuBounds
  imports GrisuDigits BinaryRounding
begin

unbundle bit_operations_syntax

text \<open>
  The boundaries that Grisu2 computes for a double are the midpoints between it and its neighbours, scaled to 64 bits without loss.
\<close>

section \<open>Normalising\<close>

lemma normalize_spec:
  assumes "df x \<noteq> 0"
  shows "\<exists>s. unat (df (normalize_diyfp x)) = unat (df x) * 2 ^ s \<and> de (normalize_diyfp x) = de x - int s \<and>
    2 ^ 63 \<le> unat (df (normalize_diyfp x))"
  using assms
proof (induction x rule: normalize_diyfp.induct)
  case (1 x)
  show ?case
  proof (cases "drop_bit 63 (df x) = 0")
    case True
    let ?y = "\<lparr>df = push_bit 1 (df x), de = de x - 1\<rparr>"
    have less: "unat (df x) < 2 ^ 63" using True by (simp only: drop_bit_63_eq_0)
    then have twice: "unat (push_bit 1 (df x)) = 2 * unat (df x)" by (rule unat_push_bit_1)
    then have "df ?y \<noteq> 0" using 1(2) by (metis diyfp.select_convs(1) mult_eq_0_iff unat_eq_zero zero_neq_numeral)
    then obtain s where "unat (df (normalize_diyfp ?y)) = unat (df ?y) * 2 ^ s" "de (normalize_diyfp ?y) = de ?y - int s"
        "2 ^ 63 \<le> unat (df (normalize_diyfp ?y))"
      using 1(1) 1(2) True by blast
    moreover have "normalize_diyfp x = normalize_diyfp ?y" using 1(2) True by (subst normalize_diyfp.simps) simp
    ultimately show ?thesis using twice by (intro exI [of _ "Suc s"]) simp
  next
    case False
    then have "normalize_diyfp x = x" by (subst normalize_diyfp.simps) simp
    moreover have "2 ^ 63 \<le> unat (df x)" using False by (simp only: drop_bit_63_eq_0 not_less)
    ultimately show ?thesis by (intro exI [of _ 0]) simp
  qed
qed

section \<open>The bits of a double\<close>

lemma normal_form_exponent:
  assumes "normal_form v m e"
  shows "max (log2_rat v - 52) (- 1074) = e" "\<lfloor>v / 2 powi e\<rfloor> = m"
proof -
  have m: "v = of_int m * 2 powi e" "0 < m" "m < 2 ^ 53" "2 ^ 52 \<le> m \<or> e = - 1074" "- 1074 \<le> e" using assms by (auto simp: normal_form_def)
  have pos: "(0 :: rat) < 2 powi e" by simp
  show "\<lfloor>v / 2 powi e\<rfloor> = m" using m(1) by simp
  have "(of_int m :: rat) < of_int (2 ^ 53)" using m(3) by (simp only: of_int_less_iff)
  then have "of_int m * 2 powi e < (2 ^ 53 :: rat) * 2 powi e" using pos by (intro mult_strict_right_mono) simp_all
  also have "\<dots> = 2 powi (53 + e)" by (simp add: power_int_add)
  finally have hi: "v < 2 powi (53 + e)" using m(1) by simp
  show "max (log2_rat v - 52) (- 1074) = e"
  proof (cases "2 ^ 52 \<le> m")
    case True
    then have "(of_int (2 ^ 52) :: rat) \<le> of_int m" by (simp only: of_int_le_iff)
    then have "(2 ^ 52 :: rat) * 2 powi e \<le> of_int m * 2 powi e" using pos by (intro mult_right_mono) simp_all
    then have "2 powi (52 + e) \<le> v" using m(1) by (simp add: power_int_add)
    then have "log2_rat v = 52 + e" using hi by (intro log2_rat_unique) (simp_all add: algebra_simps)
    then show ?thesis using m(5) by simp
  next
    case False
    then have e: "e = - 1074" using m(4) by simp
    have "0 < v" using m(1,2) pos by simp
    then have "2 powi log2_rat v < (2 powi (53 + e) :: rat)" using log2_rat_bounds(1) [of v] hi by linarith
    then have "log2_rat v < 53 + e" unfolding powi_less_iff .
    then show ?thesis using e by simp
  qed
qed

lemma binary64_bits_normal:
  assumes "normal_form v m e"
  shows "unat (binary64_bits v) div 2 ^ 52 = (if m < 2 ^ 52 then 0 else nat (e + 1075))"
    "unat (binary64_bits v) mod 2 ^ 52 = nat (if m < 2 ^ 52 then m else m - 2 ^ 52)"
proof -
  have m: "0 < m" "m < 2 ^ 53" "- 1074 \<le> e" "e \<le> 971" using assms by (auto simp: normal_form_def)
  define r where "r = nat (if m < 2 ^ 52 then m else m - 2 ^ 52)"
  define k where "k = (if m < 2 ^ 52 then 0 else nat (e + 1075))"
  have bits: "binary64_bits v = (if m < 2 ^ 52 then of_int m else of_int ((e + 1075) * 2 ^ 52 + (m - 2 ^ 52)))"
    unfolding binary64_bits_def normal_form_exponent(1) [OF assms] Let_def normal_form_exponent(2) [OF assms] ..
  have "(if m < 2 ^ 52 then m else (e + 1075) * 2 ^ 52 + (m - 2 ^ 52)) = int (k * 2 ^ 52 + r)" using m by (simp add: k_def r_def)
  then have "binary64_bits v = of_nat (k * 2 ^ 52 + r)" unfolding bits by (metis of_int_of_nat_eq)
  moreover have r: "r < 2 ^ 52" "k < 2 ^ 11" using m by (auto simp: r_def k_def)
  moreover have "k * 2 ^ 52 + r < 2 ^ 64" using r by simp
  ultimately have u: "unat (binary64_bits v) = k * 2 ^ 52 + r" by (simp only: unat_of_nat) simp
  show "unat (binary64_bits v) div 2 ^ 52 = (if m < 2 ^ 52 then 0 else nat (e + 1075))"
    using r(1) unfolding u k_def [symmetric] by simp
  show "unat (binary64_bits v) mod 2 ^ 52 = nat (if m < 2 ^ 52 then m else m - 2 ^ 52)"
    using r(1) unfolding u r_def [symmetric] by simp
qed

section \<open>The boundaries\<close>

definition significand :: "rat \<Rightarrow> diyfp" where
  "significand val =
     (let bits = binary64_bits val; E = drop_bit 52 bits; F = bits AND (push_bit 52 1 - 1)
      in if E = 0 then \<lparr>df = F, de = - 1074\<rparr> else \<lparr>df = F + push_bit 52 1, de = uint E - 1075\<rparr>)"

lemma significand_normal:
  assumes "normal_form v m e"
  shows "unat (df (significand v)) = nat m" "de (significand v) = e"
    "(binary64_bits v AND (push_bit 52 1 - 1) = 0 \<and> drop_bit 52 (binary64_bits v) > 1) \<longleftrightarrow> m = 2 ^ 52 \<and> e \<noteq> - 1074"
proof -
  have m: "0 < m" "m < 2 ^ 53" "- 1074 \<le> e" "e \<le> 971" "2 ^ 52 \<le> m \<or> e = - 1074" using assms by (auto simp: normal_form_def)
  define E where "E = drop_bit 52 (binary64_bits v)"
  define F where "F = binary64_bits v AND (push_bit 52 1 - 1)"
  have E: "unat E = (if m < 2 ^ 52 then 0 else nat (e + 1075))"
    unfolding E_def unat_drop_bit64 binary64_bits_normal(1) [OF assms] ..
  have F: "unat F = nat (if m < 2 ^ 52 then m else m - 2 ^ 52)"
    unfolding F_def binary64_bits_normal(2) [OF assms, symmetric] by (rule unat_low_bits) simp
  have one: "unat (push_bit 52 1 :: uint64) = 2 ^ 52" using unat_push_bit64 [of 1 52] by simp
  have sum: "unat (F + push_bit 52 1) = unat F + 2 ^ 52" if "\<not> m < 2 ^ 52"
    using unat_add64 [of F "push_bit 52 1"] that m F one by simp
  have E0: "E = 0 \<longleftrightarrow> m < 2 ^ 52" using E m(3) by (auto simp: unat_eq_0 [symmetric])
  have sig: "significand v = (if E = 0 then \<lparr>df = F, de = - 1074\<rparr> else \<lparr>df = F + push_bit 52 1, de = uint E - 1075\<rparr>)"
    by (simp only: significand_def Let_def E_def F_def)
  show "unat (df (significand v)) = nat m" unfolding sig using E0 F sum m by auto
  have "uint E = int (unat E)" by simp
  then show "de (significand v) = e" unfolding sig using E0 E m by auto
  have "F = 0 \<longleftrightarrow> unat F = 0" "E > 1 \<longleftrightarrow> unat E > 1" by (simp_all add: unat_eq_0 word_less_nat_alt)
  then show "(binary64_bits v AND (push_bit 52 1 - 1) = 0 \<and> drop_bit 52 (binary64_bits v) > 1) \<longleftrightarrow> m = 2 ^ 52 \<and> e \<noteq> - 1074"
    unfolding E_def [symmetric] F_def [symmetric] using E F m by auto
qed

lemma compute_boundaries_alt:
  "compute_boundaries v =
     (let s = significand v; m_plus = normalize_diyfp \<lparr>df = 2 * df s + 1, de = de s - 1\<rparr>;
          m_minus = (if binary64_bits v AND (push_bit 52 1 - 1) = 0 \<and> drop_bit 52 (binary64_bits v) > 1
            then \<lparr>df = 4 * df s - 1, de = de s - 2\<rparr> else \<lparr>df = 2 * df s - 1, de = de s - 1\<rparr>)
      in \<lparr>bw = normalize_diyfp s, bminus = normalize_to m_minus (de m_plus), bplus = m_plus\<rparr>)"
  unfolding compute_boundaries_def significand_def Let_def by (simp del: push_bit_of_1)

lemma unat_push_bit_word: "unat (x :: uint64) * 2 ^ n < 2 ^ 64 \<Longrightarrow> unat (push_bit n x) = unat x * 2 ^ n"
  using unat_push_bit64 [of "unat x" n] by simp

lemma boundaries_nat:
  assumes "normal_form v m e"
  shows "\<exists>s. 10 \<le> s \<and> unat (df (bplus (compute_boundaries v))) = (2 * nat m + 1) * 2 ^ s \<and>
    de (bplus (compute_boundaries v)) = e - 1 - int s \<and> de (bminus (compute_boundaries v)) = e - 1 - int s \<and>
    2 ^ 63 \<le> unat (df (bplus (compute_boundaries v))) \<and>
    unat (df (bminus (compute_boundaries v))) =
      (if m = 2 ^ 52 \<and> e \<noteq> - 1074 then (4 * nat m - 1) * 2 ^ (s - 1) else (2 * nat m - 1) * 2 ^ s)"
proof -
  let ?M = "nat m" and ?x = "significand v"
  have m: "0 < m" "m < 2 ^ 53" using assms by (auto simp: normal_form_def)
  then have M: "0 < ?M" "?M < 2 ^ 53" by auto
  note sig = significand_normal [OF assms]
  define P where "P = normalize_diyfp \<lparr>df = 2 * df ?x + 1, de = de ?x - 1\<rparr>"
  have twice: "unat (2 * df ?x) = 2 * ?M" using unat_mult64 [of 2 "df ?x"] sig(1) M by simp
  have four: "unat (4 * df ?x) = 4 * ?M" using unat_mult64 [of 4 "df ?x"] sig(1) M by simp
  have plus: "unat (2 * df ?x + 1) = 2 * ?M + 1" using unat_add64 [of "2 * df ?x" 1] twice M by simp
  have minus: "unat (2 * df ?x - 1) = 2 * ?M - 1" "unat (4 * df ?x - 1) = 4 * ?M - 1"
    using twice four M unat_sub [of 1 "2 * df ?x"] unat_sub [of 1 "4 * df ?x"] by (simp_all add: word_le_nat_alt)
  have "2 * df ?x + 1 \<noteq> 0" using plus by (metis add_is_0 one_neq_zero unat_0)
  then obtain s where s: "unat (df P) = (2 * ?M + 1) * 2 ^ s" "de P = e - 1 - int s" "2 ^ 63 \<le> unat (df P)"
    using normalize_spec [of "\<lparr>df = 2 * df ?x + 1, de = de ?x - 1\<rparr>"] plus sig(2) unfolding P_def [symmetric] by auto
  have s10: "10 \<le> s"
  proof (rule ccontr)
    assume "\<not> 10 \<le> s"
    then have "(2 :: nat) ^ s \<le> 2 ^ 9" by (intro power_increasing) auto
    then have "(2 * ?M + 1) * 2 ^ s \<le> (2 ^ 54 - 1) * 2 ^ 9" using M(2) by (intro mult_le_mono) auto
    then show False using s(1,3) by simp
  qed
  have fits: "(2 * ?M + 1) * 2 ^ s < 2 ^ 64" using u64_less [of "df P"] s(1) by simp
  show ?thesis
  proof (cases "m = 2 ^ 52 \<and> e \<noteq> - 1074")
    case True
    have "(4 * ?M - 1) * 2 ^ (s - 1) \<le> (4 * ?M + 2) * 2 ^ (s - 1)" by (intro mult_le_mono1) simp
    also have "\<dots> = (2 * ?M + 1) * 2 ^ s" using s10 by (cases s) auto
    finally have "(4 * ?M - 1) * 2 ^ (s - 1) < 2 ^ 64" using fits by linarith
    then have "unat (push_bit (s - 1) (4 * df ?x - 1)) = (4 * ?M - 1) * 2 ^ (s - 1)" using unat_push_bit_word minus(2) by metis
    moreover have "nat (de ?x - 2 - de P) = s - 1" using sig(2) s(2) s10 by simp
    ultimately show ?thesis using True s s10 sig(3)
      by (intro exI [of _ s]) (simp add: compute_boundaries_alt Let_def normalize_to_def P_def [symmetric] del: push_bit_of_1)
  next
    case False
    have "(2 * ?M - 1) * 2 ^ s \<le> (2 * ?M + 1) * 2 ^ s" by (intro mult_le_mono1) simp
    then have "(2 * ?M - 1) * 2 ^ s < 2 ^ 64" using fits by linarith
    then have "unat (push_bit s (2 * df ?x - 1)) = (2 * ?M - 1) * 2 ^ s" using unat_push_bit_word minus(1) by metis
    moreover have "nat (de ?x - 1 - de P) = s" using sig(2) s(2) by simp
    ultimately show ?thesis using False s s10 sig(3)
      by (intro exI [of _ s]) (auto simp add: compute_boundaries_alt Let_def normalize_to_def P_def [symmetric] simp del: push_bit_of_1)
  qed
qed

lemma pow_shift: "of_nat (2 ^ k) * 2 powi a = (2 powi (int k + a) :: rat)"
  by (simp add: power_int_add)

lemma boundaries_spec:
  assumes "normal_form v m e"
  shows "\<exists>E. de (bplus (compute_boundaries v)) = E \<and> de (bminus (compute_boundaries v)) = E \<and> - 1137 \<le> E \<and> E \<le> 960 \<and>
    2 ^ 63 \<le> unat (df (bplus (compute_boundaries v))) \<and>
    0 < unat (df (bminus (compute_boundaries v))) \<and>
    unat (df (bminus (compute_boundaries v))) + 2 ^ 10 \<le> unat (df (bplus (compute_boundaries v))) \<and>
    of_nat (unat (df (bplus (compute_boundaries v)))) * 2 powi E = (of_int m + 1 / 2) * (2 powi e :: rat) \<and>
    of_nat (unat (df (bminus (compute_boundaries v)))) * 2 powi E = (of_int m - lower_gap m e) * (2 powi e :: rat)"
proof -
  obtain s where s: "10 \<le> s" "unat (df (bplus (compute_boundaries v))) = (2 * nat m + 1) * 2 ^ s"
    "de (bplus (compute_boundaries v)) = e - 1 - int s" "de (bminus (compute_boundaries v)) = e - 1 - int s"
    "2 ^ 63 \<le> unat (df (bplus (compute_boundaries v)))"
    "unat (df (bminus (compute_boundaries v))) =
      (if m = 2 ^ 52 \<and> e \<noteq> - 1074 then (4 * nat m - 1) * 2 ^ (s - 1) else (2 * nat m - 1) * 2 ^ s)"
    using boundaries_nat [OF assms] by blast
  have m: "0 < m" "m < 2 ^ 53" "- 1074 \<le> e" "e \<le> 971" using assms by (auto simp: normal_form_def)
  let ?P = "unat (df (bplus (compute_boundaries v)))" and ?N = "unat (df (bminus (compute_boundaries v)))" and ?E = "e - 1 - int s"
  obtain s' where s': "s = Suc s'" using s(1) by (cases s) auto
  have E: "(2 :: rat) powi ?E = 2 powi e / (2 * 2 ^ s)" by (simp add: power_int_diff)
  have P: "of_nat ?P * 2 powi ?E = (of_int m + 1 / 2) * (2 powi e :: rat)"
    using m(1) unfolding s(2) E by (simp add: field_simps)
  have N: "of_nat ?N * 2 powi ?E = (of_int m - lower_gap m e) * (2 powi e :: rat)"
    using m(1) unfolding s(6) E by (auto simp: lower_gap_def s' field_simps of_nat_diff)
  have gap: "?N + 2 ^ 10 \<le> ?P" "0 < ?N"
  proof -
    have "(2 :: nat) ^ 9 \<le> 2 ^ s'" using s(1) s' by (intro power_increasing) auto
    then show "?N + 2 ^ 10 \<le> ?P" using m(1) unfolding s(2,6) s' by (auto simp: algebra_simps diff_mult_distrib)
    show "0 < ?N" using m(1) unfolding s(6) by auto
  qed
  have pos: "(0 :: rat) < 2 powi k" for k by simp
  have "?E \<le> 960"
  proof -
    have "of_nat (2 ^ 63) * (2 powi ?E) \<le> (of_nat ?P * 2 powi ?E :: rat)"
      using s(5) pos [of ?E] by (intro mult_right_mono) (simp_all only: of_nat_le_iff less_imp_le)
    moreover have "(of_int m + 1 / 2) * 2 powi e < (2 ^ 53 :: rat) * 2 powi e"
    proof -
      have "(of_int m :: rat) \<le> of_int (2 ^ 53 - 1)" using m(2) by (simp only: of_int_le_iff)
      then show ?thesis using pos [of e] by (intro mult_strict_right_mono) simp_all
    qed
    moreover have "(2 ^ 53 :: rat) * 2 powi e = 2 powi (53 + e)" "of_nat (2 ^ 63) * (2 powi ?E :: rat) = 2 powi (63 + ?E)"
      using pow_shift [of 53 e] pow_shift [of 63 ?E] by simp_all
    ultimately have "(2 :: rat) powi (63 + ?E) < 2 powi (53 + e)" using P by linarith
    then show ?thesis unfolding powi_less_iff using m(4) by simp
  qed
  moreover have "- 1137 \<le> ?E"
  proof -
    have "of_nat ?P * 2 powi ?E < (of_nat (2 ^ 64) * (2 powi ?E) :: rat)"
      using u64_less pos [of ?E] by (intro mult_strict_right_mono) (simp_all only: of_nat_less_iff)
    moreover have "(2 powi e :: rat) \<le> (of_int m + 1 / 2) * 2 powi e" using m(1) pos [of e] by simp
    moreover have "of_nat (2 ^ 64) * (2 powi ?E :: rat) = 2 powi (64 + ?E)" using pow_shift [of 64 ?E] by simp
    ultimately have "(2 :: rat) powi e < 2 powi (64 + ?E)" using P by linarith
    then show ?thesis unfolding powi_less_iff using m(3) by simp
  qed
  ultimately show ?thesis using P N gap s(3-5) by (intro exI [of _ ?E]) simp
qed

end
