(* ===== verification/GrisuCorrect.thy ===== *)
theory GrisuCorrect
  imports GrisuPowers GrisuBounds
begin

text \<open>
  Grisu2 is correct: the decimal number it finds for a positive double lies strictly between the boundaries of the double,
  so reading it gives the double again.
\<close>

section \<open>The scaled boundaries\<close>

lemma half_up_div: "\<bar>(of_nat ((n + 2 ^ 63) div 2 ^ 64) :: rat) - of_nat n / 2 ^ 64\<bar> \<le> 1 / 2"
proof -
  define h where "h = (2 :: nat) ^ 63"
  define q where "q = (n + h) div (2 * h)"
  have h: "0 < h" by (simp add: h_def)
  have "q * (2 * h) \<le> n + h" "n + h < (q + 1) * (2 * h)"
    using h by (auto simp: q_def dividend_less_div_times)
  then have "(of_nat (q * (2 * h)) :: rat) \<le> of_nat (n + h)" "(of_nat (n + h) :: rat) < of_nat ((q + 1) * (2 * h))"
    by (simp_all only: of_nat_le_iff of_nat_less_iff)
  then have "\<bar>(of_nat q :: rat) - of_nat n / (2 * of_nat h)\<bar> \<le> 1 / 2"
    using h by (simp add: abs_le_iff field_simps)
  moreover have "(2 :: nat) ^ 64 = 2 * h" "(2 :: rat) ^ 64 = 2 * of_nat h" "(2 :: nat) ^ 63 = h" by (simp_all add: h_def)
  ultimately show ?thesis by (simp only: q_def)
qed

text \<open>A product of the table's entry is less than 1 away from the exact product.\<close>

lemma scaled_error:
  assumes "near_power (cf, ce, ck)" "P < 2 ^ 64"
  shows "\<bar>(of_nat ((P * unat cf + 2 ^ 63) div 2 ^ 64) :: rat) - of_nat P * (10 powi ck / 2 powi ce) / 2 ^ 64\<bar> < 1"
proof -
  define t :: rat where "t = 10 powi ck / 2 powi ce"
  have "\<bar>of_nat (unat cf) * 2 powi ce - 10 powi ck\<bar> \<le> (2 powi ce / 2 :: rat)" using assms(1) by (simp add: near_power_def)
  then have "\<bar>of_nat (unat cf) * 2 powi ce - t * 2 powi ce\<bar> \<le> (1 / 2) * 2 powi ce" by (simp add: t_def)
  then have "\<bar>of_nat (unat cf) - t\<bar> * 2 powi ce \<le> (1 / 2) * 2 powi ce" by (simp add: left_diff_distrib [symmetric] abs_mult)
  then have "\<bar>of_nat (unat cf) - t\<bar> \<le> 1 / 2" by (simp add: mult_le_cancel_right_pos)
  then have "of_nat P * \<bar>of_nat (unat cf) - t\<bar> \<le> of_nat P * (1 / 2)" by (intro mult_left_mono) simp_all
  moreover have "(of_nat P :: rat) < of_nat (2 ^ 64)" using assms(2) by (simp only: of_nat_less_iff)
  ultimately have "\<bar>of_nat P * of_nat (unat cf) - of_nat P * t\<bar> < 2 ^ 63" by (simp add: right_diff_distrib [symmetric] abs_mult)
  then have "\<bar>of_nat (P * unat cf) / 2 ^ 64 - of_nat P * t / 2 ^ 64\<bar> < 1 / 2" by (simp add: abs_less_iff field_simps)
  with half_up_div [of "P * unat cf"] show ?thesis unfolding t_def by linarith
qed

lemma scaled_large: "2 ^ 63 \<le> P \<Longrightarrow> 2 ^ 63 \<le> c \<Longrightarrow> 2 ^ 62 \<le> (P * c + 2 ^ 63) div (2 ^ 64 :: nat)"
proof -
  assume "2 ^ 63 \<le> P" "2 ^ 63 \<le> c"
  then have "2 ^ 63 * 2 ^ 63 \<le> P * c" by (rule mult_le_mono)
  then have "2 ^ 62 * 2 ^ 64 \<le> P * c + 2 ^ 63" by simp
  then show ?thesis by (simp only: less_eq_div_iff_mult_less_eq zero_less_power zero_less_numeral)
qed

lemma scaled_gap:
  assumes "Q + 2 ^ 10 \<le> P" "2 ^ 63 \<le> c"
  shows "(Q * c + 2 ^ 63) div 2 ^ 64 + 511 \<le> (P * c + 2 ^ 63) div (2 ^ 64 :: nat)"
proof -
  have "(Q + 2 ^ 10) * c \<le> P * c" using assms(1) by (rule mult_le_mono1)
  moreover have "2 ^ 10 * 2 ^ 63 \<le> 2 ^ 10 * c" using assms(2) by simp
  ultimately have "(Q * c + 2 ^ 63) + 511 * 2 ^ 64 \<le> P * c + 2 ^ 63" by (simp add: add_mult_distrib)
  then have "((Q * c + 2 ^ 63) + 511 * 2 ^ 64) div 2 ^ 64 \<le> (P * c + 2 ^ 63) div (2 ^ 64 :: nat)" by (rule div_le_mono)
  moreover have "(a + 511 * h) div h = a div h + 511" if "0 < h" for a h :: nat using that by simp
  ultimately show ?thesis by (metis zero_less_numeral zero_less_power)
qed

section \<open>The decimal number\<close>

lemma unat_plus_1: "unat x < 2 ^ 64 - 1 \<Longrightarrow> unat (x + 1 :: uint64) = unat x + 1"
  by (subst unat_add64) simp_all

lemma unat_minus_1: "0 < unat x \<Longrightarrow> unat (x - 1 :: uint64) = unat x - 1"
  by (simp add: unat_sub word_le_nat_alt)

lemma grisu2_between:
  assumes n: "normal_form v m e" and g: "grisu2 v = (ds, ex)"
  shows "digits_ok ds" "(of_int m - lower_gap m e) * 2 powi e < of_nat (digits_num ds) * 10 powi ex"
    "of_nat (digits_num ds) * 10 powi ex < (of_int m + 1 / 2) * (2 powi e :: rat)"
proof -
  define b where "b = compute_boundaries v"
  obtain E where E: "de (bplus b) = E" "de (bminus b) = E" "- 1137 \<le> E" "E \<le> 960"
    and P: "2 ^ 63 \<le> unat (df (bplus b))" "unat (df (bminus b)) + 2 ^ 10 \<le> unat (df (bplus b))"
    and bd: "of_nat (unat (df (bplus b))) * 2 powi E = (of_int m + 1 / 2) * (2 powi e :: rat)"
      "of_nat (unat (df (bminus b))) * 2 powi E = (of_int m - lower_gap m e) * (2 powi e :: rat)"
    using boundaries_spec [OF n] unfolding b_def [symmetric] by blast
  obtain cf ce ck where c: "get_cached_power_for_binary_exponent E = (cf, ce, ck)" "near_power (cf, ce, ck)"
    and ce: "- 60 \<le> ce + E + 64" "ce + E + 64 \<le> - 32"
    using cached_power_spec [OF E(3,4)] by blast
  define sh where "sh = nat (- (ce + E + 64))"
  define C where "C = \<lparr>df = cf, de = ce\<rparr>"
  define M_minus where "M_minus = \<lparr>df = df (mul_diyfp (bminus b) C) + 1, de = de (mul_diyfp (bminus b) C)\<rparr>"
  define M_plus where "M_plus = \<lparr>df = df (mul_diyfp (bplus b) C) - 1, de = de (mul_diyfp (bplus b) C)\<rparr>"
  let ?P = "unat (df (bplus b))" and ?Q = "unat (df (bminus b))"
  let ?W = "(?P * unat cf + 2 ^ 63) div 2 ^ 64" and ?V = "(?Q * unat cf + 2 ^ 63) div 2 ^ 64"
  have cf: "2 ^ 63 \<le> unat cf" using c(2) by (simp add: near_power_def)
  have W: "unat (df (mul_diyfp (bplus b) C)) = ?W" "unat (df (mul_diyfp (bminus b) C)) = ?V"
    by (simp_all only: unat_mul_diyfp C_def diyfp.select_convs)
  have big: "2 ^ 62 \<le> ?W" by (rule scaled_large [OF P(1) cf])
  have gap: "?V + 511 \<le> ?W" by (rule scaled_gap [OF P(2) cf])
  have lt: "?W < 2 ^ 64" using u64_less [of "df (mul_diyfp (bplus b) C)"] W(1) by simp
  have M: "unat (df M_plus) = ?W - 1" "unat (df M_minus) = ?V + 1"
    using unat_minus_1 [of "df (mul_diyfp (bplus b) C)"] unat_plus_1 [of "df (mul_diyfp (bminus b) C)"] W big gap lt
    by (simp_all add: M_plus_def M_minus_def)
  have de: "de M_plus = - int sh" "32 \<le> sh" "sh \<le> 60"
    using ce E(1) by (simp_all add: sh_def M_plus_def mul_diyfp_def C_def Let_def)
  have gen: "grisu2_digit_gen (- ck) M_minus (mul_diyfp (bw b) C) M_plus = (ds, ex)"
    using g unfolding grisu2_def grisu2_diyfp_def b_def [symmetric] Let_def E(1) c(1)
    by (simp add: C_def M_plus_def M_minus_def)
  note spec = digit_gen_spec [OF de _ _ _ gen]
  have ok: "0 < unat (df M_minus)" "unat (df M_minus) < unat (df M_plus)" "2 ^ 60 \<le> unat (df M_plus)"
    using M big gap by simp_all
  show "digits_ok ds" by (rule spec(1) [OF ok])
  define z :: rat where "z = 10 powi ck * 2 ^ sh"
  have z: "0 < z" by (simp add: z_def)
  have "(2 :: rat) powi E * 2 ^ sh = 1 / (2 powi ce * 2 ^ 64)"
  proof -
    have "(2 :: rat) powi (E + int sh + ce + 64) = 1" using ce by (simp add: sh_def)
    then show ?thesis by (simp add: power_int_add field_simps)
  qed
  then have scale: "of_nat k * (10 powi ck / 2 powi ce) / 2 ^ 64 = of_nat k * 2 powi E * z" for k :: nat
    by (simp add: z_def field_simps)
  have D: "of_nat (digits_num ds) * 10 powi (ex - - ck) * 2 ^ sh = of_nat (digits_num ds) * 10 powi ex * z"
    by (simp add: z_def power_int_add)
  have "of_nat (?V + 1) \<le> of_nat (digits_num ds) * 10 powi ex * z" "of_nat (digits_num ds) * 10 powi ex * z \<le> of_nat (?W - 1)"
    using spec(2,3) [OF ok] unfolding D M by simp_all
  moreover have "(of_nat (?W - 1) :: rat) = of_nat ?W - 1" using big by (simp add: of_nat_diff)
  ultimately have "of_nat ?Q * 2 powi E * z < of_nat (digits_num ds) * 10 powi ex * z"
      "of_nat (digits_num ds) * 10 powi ex * z < of_nat ?P * 2 powi E * z"
    using scaled_error [OF c(2) u64_less [of "df (bplus b)"]] scaled_error [OF c(2) u64_less [of "df (bminus b)"]]
    unfolding scale of_nat_add of_nat_1 by linarith+
  then show "(of_int m - lower_gap m e) * 2 powi e < of_nat (digits_num ds) * 10 powi ex"
      "of_nat (digits_num ds) * 10 powi ex < (of_int m + 1 / 2) * (2 powi e :: rat)"
    unfolding bd using z by (simp_all only: mult_less_cancel_right_pos)
qed

lemma grisu2_reads_back:
  assumes "normal_form v m e" "grisu2 v = (ds, ex)"
  shows "round_positive (of_nat (digits_num ds) * 10 powi ex) = Some v"
  using round_positive_interval [OF assms(1)] grisu2_between [OF assms] by blast

lemma digits_num_append: "digits_num (xs @ ys) = digits_num xs * 10 ^ length ys + digits_num ys"
  by (induction ys rule: rev_induct) (simp_all flip: append_assoc)

lemma digits_num_less: "\<forall>d \<in> set ds. d < 10 \<Longrightarrow> digits_num ds < 10 ^ length ds"
  by (induction ds rule: rev_induct) auto

lemma digits_num_ge: "digits_ok ds \<Longrightarrow> 10 ^ (length ds - 1) \<le> digits_num ds"
proof -
  assume ok: "digits_ok ds"
  then obtain d r where ds: "ds = d # r" "d \<noteq> 0" by (cases ds) (auto simp: digits_ok_def)
  have "digits_num ds = d * 10 ^ length r + digits_num r"
    using digits_num_append [of "[d]" r] ds(1) by (simp add: digits_num_def)
  moreover have "1 * 10 ^ length r \<le> d * 10 ^ length r" using ds(2) by (intro mult_le_mono1) simp
  ultimately have "10 ^ length r \<le> digits_num ds" by linarith
  then show ?thesis using ds(1) by simp
qed

text \<open>The exponent of the scientific notation has at most three digits.\<close>

lemma powi_less_cancel: "(10 :: rat) powi a < 10 powi b \<Longrightarrow> a < b"
  using power_int_increasing [of b a "10 :: rat"] by (meson not_less one_le_numeral)

lemma two_ten: "0 \<le> n \<Longrightarrow> (2 :: rat) powi (3 * n) \<le> 10 powi n" "0 \<le> n \<Longrightarrow> (10 :: rat) powi (- n) \<le> 2 powi (- (3 * n))"
proof -
  assume "0 \<le> n"
  then obtain k where n: "n = int k" by (metis nonneg_int_cases)
  have "(2 :: rat) ^ (3 * k) = 8 ^ k" by (simp add: power_mult)
  also have "\<dots> \<le> 10 ^ k" by (rule power_mono) simp_all
  finally have le: "(2 :: rat) ^ (3 * k) \<le> 10 ^ k" .
  have p: "(2 :: rat) powi (3 * n) = 2 ^ (3 * k)" "(10 :: rat) powi n = 10 ^ k"
    using power_int_of_nat [of "2 :: rat" "3 * k"] by (simp_all add: n)
  show "(2 :: rat) powi (3 * n) \<le> 10 powi n" unfolding p by (rule le)
  show "(10 :: rat) powi (- n) \<le> 2 powi (- (3 * n))"
    unfolding power_int_minus p by (intro le_imp_inverse_le le) simp
qed

lemma grisu2_exponent:
  assumes n: "normal_form v m e" and g: "grisu2 v = (ds, ex)"
  shows "- 400 \<le> int (length ds) + ex" "int (length ds) + ex \<le> 400"
proof -
  note b = grisu2_between [OF n g]
  have len: "0 < length ds" using b(1) by (auto simp: digits_ok_def)
  have m: "0 < m" "m < 2 ^ 53" "- 1074 \<le> e" "e \<le> 971" using n by (auto simp: normal_form_def)
  let ?D = "of_nat (digits_num ds) * 10 powi ex :: rat" and ?n = "int (length ds) + ex"
  have pw: "(10 :: rat) powi (int k + ex) = of_nat (10 ^ k) * 10 powi ex" for k by (simp add: power_int_add)
  have "(of_nat (digits_num ds) :: rat) < of_nat (10 ^ length ds)"
    using b(1) by (simp only: of_nat_less_iff) (simp add: digits_num_less digits_ok_def)
  then have up: "?D < 10 powi ?n" unfolding pw by (rule mult_strict_right_mono) simp
  have "(of_nat (10 ^ (length ds - 1)) :: rat) \<le> of_nat (digits_num ds)"
    by (simp only: of_nat_le_iff digits_num_ge [OF b(1)])
  then have "10 powi (int (length ds - 1) + ex) \<le> ?D" unfolding pw by (rule mult_right_mono) simp
  then have down: "10 powi (?n - 1) \<le> ?D" using len by (simp add: of_nat_diff algebra_simps)
  have "(10 :: rat) powi (- 359) \<le> 2 powi (- (3 * 359))" by (rule two_ten) simp
  also have "\<dots> \<le> 2 powi (- 1 + e)" using m(3) by (intro power_int_increasing) simp_all
  also have "\<dots> = (1 / 2) * 2 powi e" by (simp add: power_int_diff)
  also have "\<dots> \<le> (of_int m - lower_gap m e) * 2 powi e"
    using m(1) by (intro mult_right_mono) (simp_all add: lower_gap_def)
  finally have "(10 :: rat) powi (- 359) < 10 powi ?n" using b(2) up by linarith
  then have "- 359 < ?n" by (rule powi_less_cancel)
  then show "- 400 \<le> ?n" by simp
  have "(of_int m + 1 / 2 :: rat) \<le> of_int (2 ^ 53)"
  proof -
    have "(of_int (m + 1) :: rat) \<le> of_int (2 ^ 53)" using m(2) by (simp only: of_int_le_iff)
    then show ?thesis by simp
  qed
  then have "(of_int m + 1 / 2) * 2 powi e \<le> (2 ^ 53 :: rat) * 2 powi e" by (intro mult_right_mono) simp_all
  also have "\<dots> = 2 powi (53 + e)" by (simp add: power_int_add)
  also have "\<dots> \<le> 2 powi (3 * 342)" using m(4) by (intro power_int_increasing) simp_all
  also have "\<dots> \<le> 10 powi 342" by (rule two_ten) simp
  finally have "(10 :: rat) powi (?n - 1) < 10 powi 342" using b(3) down by linarith
  then have "?n - 1 < 342" by (rule powi_less_cancel)
  then show "?n \<le> 400" by simp
qed

end
