(* ===== verification/NumberText.thy ===== *)
theory NumberText
  imports JsonDump JsonLexer GrisuCorrect
begin

text \<open>
  The texts of numbers: the serializer writes an integer as \<^verbatim>\<open>std::to_string\<close> does, and the lexer reads the text of every
  64-bit integer and of every double back to that number.
\<close>

section \<open>Integers\<close>

lemma show_nat_100: "100 \<le> n \<Longrightarrow> show_nat n = show_nat (n div 100) @ digits_to_99 (n mod 100)"
proof -
  assume n: "100 \<le> n"
  have "n div 10 div 10 = n div 100" "n div 10 mod 10 = n mod 100 div 10" "n mod 10 = n mod 100 mod 10"
    using mod_mult2_eq [of n 10 10] by (simp_all add: div_mult2_eq [symmetric])
  moreover have "\<not> n div 10 < 10" using n by simp
  ultimately show ?thesis
    using n by (simp add: show_nat.simps [of n] show_nat.simps [of "n div 10"] digits_to_99_def)
qed

lemma fill_digits_show_nat: "fill_digits n acc = show_nat n @ acc"
proof (induction n acc rule: fill_digits.induct)
  case (1 n acc)
  show ?case
  proof (cases "100 \<le> n")
    case True
    then show ?thesis using 1 by (simp add: fill_digits.simps [of n] show_nat_100)
  next
    case False
    then have "n div 10 < 10" by simp
    with False show ?thesis
      by (simp add: fill_digits.simps [of n] show_nat.simps [of n] show_nat.simps [of "n div 10"] digits_to_99_def)
  qed
qed

lemma digit_char_0: "digit_char 0 = CHR ''0''"
  by (simp add: digit_char_def) code_simp

lemma dump_integer_to_string: "dump_integer x = to_string x"
proof -
  have "x < 0 \<Longrightarrow> remove_sign x = nat (- x)" by (simp add: remove_sign_def)
  then show ?thesis
    by (simp add: dump_integer_def to_string_def fill_digits_show_nat show_nat.simps [of 0] digit_char_0)
qed

text \<open>\<^verbatim>\<open>count_digits\<close> counts the digits that are written, so the number buffer is used exactly.\<close>

lemma length_show_nat_10: "10 \<le> n \<Longrightarrow> length (show_nat n) = Suc (length (show_nat (n div 10)))"
  by (simp add: show_nat.simps [of n])

lemma count_digits_length: "count_digits n k + 1 = k + length (show_nat n)"
proof (induction n k rule: count_digits.induct)
  case (1 n k)
  have four: "length (show_nat n) = 4 + length (show_nat (n div 10000))" if "10000 \<le> n"
    using that by (simp add: length_show_nat_10 div_mult2_eq [symmetric] less_eq_div_iff_mult_less_eq)
  show ?case
  proof (cases "n < 10000")
    case True
    have "n div 10 < 10 \<longleftrightarrow> n < 100" "n div 100 < 10 \<longleftrightarrow> n < 1000" "n div 1000 < 10"
      using True by (simp_all add: div_less_iff_less_mult)
    then show ?thesis
      using True by (simp add: count_digits.simps [of n] show_nat.simps [of n] show_nat.simps [of "n div 10"]
          show_nat.simps [of "n div 100"] show_nat.simps [of "n div 1000"] div_mult2_eq [symmetric])
  next
    case False
    then have "count_digits n k = count_digits (n div 10000) (k + 4)" by (simp add: count_digits.simps [of n])
    then show ?thesis using 1 False four by simp
  qed
qed

section \<open>Scanning numbers\<close>

text \<open>What may follow a number.\<close>

definition delim :: "string \<Rightarrow> bool" where
  "delim r \<longleftrightarrow> r = [] \<or> \<not> is_digit (hd r) \<and> hd r \<noteq> CHR ''.'' \<and> hd r \<noteq> CHR ''e'' \<and> hd r \<noteq> CHR ''E''"

lemma scan_any1_digits:
  "list_all is_digit ds \<Longrightarrow> delim r \<Longrightarrow> scan_number_any1 ty buf (ds @ r) = Some (scan_number_done ty (buf @ ds), r)"
proof (induction ds arbitrary: buf)
  case Nil
  then show ?case by (cases r) (auto simp: delim_def)
qed auto

lemma show_nat_first: "0 < n \<Longrightarrow> hd (show_nat n) \<noteq> CHR ''0''"
proof (induction n rule: show_nat.induct)
  case (1 n)
  show ?case
  proof (cases "n < 10")
    case True
    then have "digit_char n \<noteq> digit_char 0" using 1(2) by (metis digit_val_digit_char less_irrefl zero_less_numeral)
    then show ?thesis using True by (simp add: show_nat.simps [of n] digit_char_0)
  next
    case False
    then show ?thesis
      using 1(1) show_nat_digits [of "n div 10"] by (simp add: show_nat.simps [of n])
  qed
qed

lemma is_digit_0: "is_digit (CHR ''0'')"
  by (simp add: is_digit_def)

lemma digit_not_special:
  "is_digit c \<Longrightarrow> \<not> is_ws c \<and> c \<notin> {CHR ''['', CHR '']'', CHR ''{'', CHR ''}'', CHR '':'', CHR '','', CHR ''t'', CHR ''f'', CHR ''n'', CHR 0x22, CHR ''-''}"
  by (auto simp: is_digit_def is_ws_def)

lemma scan_token_number: "is_digit c \<or> c = CHR ''-'' \<Longrightarrow> scan_token (c # cs) = or_error (scan_number c cs)"
  using digit_not_special [of c] by (elim disjE) simp_all

lemma scan_digit: "is_digit c \<Longrightarrow> scan (c # cs) = or_error (scan_number c cs)"
  using digit_not_special [of c] by (simp add: scan_def skip_whitespace_def scan_token_number del: scan_token.simps)

lemma scan_minus: "scan (CHR ''-'' # cs) = or_error (scan_number_minus ''-'' cs)"
  by (simp add: scan_def skip_whitespace_def is_ws_def scan_number_def)

lemma scan_show_nat:
  assumes "0 < n" "delim r"
  obtains c cs where "show_nat n = c # cs" "is_digit c" "c \<noteq> CHR ''0''"
    "\<And>ty buf. scan_number_any1 ty (buf @ [c]) (cs @ r) = Some (scan_number_done ty (buf @ show_nat n), r)"
proof -
  obtain c cs where c: "show_nat n = c # cs" "is_digit c" "list_all is_digit cs"
    using show_nat_digits [of n] by (cases "show_nat n") auto
  moreover have "c \<noteq> CHR ''0''" using show_nat_first [OF assms(1)] c(1) by simp
  ultimately show thesis using that [of c cs] scan_any1_digits [OF c(3) assms(2)] by simp
qed

lemma scan_dumped_integer:
  assumes "- (2 ^ 63) \<le> i" "i < 2 ^ 64" "delim r"
  shows "scan (dump_integer i @ r) = (value_unsigned i, r) \<or> scan (dump_integer i @ r) = (value_integer i, r)"
proof -
  consider "i = 0" | "0 < i" | "i < 0" by linarith
  then show ?thesis
  proof cases
    case 1
    have "scan_number_zero NumUnsigned ''0'' r = Some (value_unsigned 0, r)"
      using assms(3) by (cases r) (auto simp: delim_def strtoull_def digits_val_def digit_val_def)
    then show ?thesis
      using 1 scan_digit [OF is_digit_0, of r] by (simp add: dump_integer_def scan_number_def or_error_def)
  next
    case 2
    obtain c cs where c: "show_nat (nat i) = c # cs" "is_digit c" "c \<noteq> CHR ''0''"
        "\<And>ty buf. scan_number_any1 ty (buf @ [c]) (cs @ r) = Some (scan_number_done ty (buf @ show_nat (nat i)), r)"
      using scan_show_nat [of "nat i" r] 2 assms(3) by auto
    have "strtoull (show_nat (nat i)) = Some i"
      using 2 assms(2) show_nat_digits [of "nat i"] by (simp add: strtoull_def)
    then show ?thesis
      using 2 c(1-3) c(4) [of NumUnsigned "[]"] digit_not_special [OF c(2)]
      by (simp add: dump_integer_to_string to_string_def scan_digit scan_number_def or_error_def)
  next
    case 3
    obtain c cs where c: "show_nat (nat (- i)) = c # cs" "is_digit c" "c \<noteq> CHR ''0''"
        "\<And>ty buf. scan_number_any1 ty (buf @ [c]) (cs @ r) = Some (scan_number_done ty (buf @ show_nat (nat (- i))), r)"
      using scan_show_nat [of "nat (- i)" r] 3 assms(3) by auto
    have "strtoll (CHR ''-'' # show_nat (nat (- i))) = Some i"
      using 3 assms(1) show_nat_digits [of "nat (- i)"] by (simp add: strtoll_def)
    then show ?thesis
      using 3 c(1-3) c(4) [of NumInteger "''-''"]
      by (simp add: dump_integer_to_string to_string_def scan_minus or_error_def)
  qed
qed

section \<open>What follows a number\<close>

lemma scan_number_extend:
  assumes "delim r"
  shows "scan_number_any2 buf cs = (b, []) \<Longrightarrow> scan_number_any2 buf (cs @ r) = (b, r)"
    "scan_number_sign buf cs = Some (b, []) \<Longrightarrow> scan_number_sign buf (cs @ r) = Some (b, r)"
    "scan_number_exponent buf cs = Some (b, []) \<Longrightarrow> scan_number_exponent buf (cs @ r) = Some (b, r)"
    "scan_number_decimal2 buf cs = Some (b, []) \<Longrightarrow> scan_number_decimal2 buf (cs @ r) = Some (b, r)"
    "scan_number_decimal1 buf cs = Some (b, []) \<Longrightarrow> scan_number_decimal1 buf (cs @ r) = Some (b, r)"
proof -
  show any2: "scan_number_any2 buf (cs @ r) = (b, r)" if "scan_number_any2 buf cs = (b, [])" for buf cs
    using that
  proof (induction buf cs rule: scan_number_any2.induct)
    case (1 buf)
    then show ?case using assms by (cases r) (auto simp: delim_def)
  qed (auto split: if_splits)
  show sign: "scan_number_sign buf (cs @ r) = Some (b, r)" if "scan_number_sign buf cs = Some (b, [])" for buf cs
    using that by (cases cs) (auto split: if_splits intro: any2)
  show ex: "scan_number_exponent buf (cs @ r) = Some (b, r)" if "scan_number_exponent buf cs = Some (b, [])" for buf cs
    using that by (cases cs) (auto split: if_splits intro: any2 sign)
  show d2: "scan_number_decimal2 buf (cs @ r) = Some (b, r)" if "scan_number_decimal2 buf cs = Some (b, [])" for buf cs
    using that
  proof (induction buf cs rule: scan_number_decimal2.induct)
    case (1 buf)
    then show ?case using assms by (cases r) (auto simp: delim_def)
  qed (auto split: if_splits intro: ex)
  show "scan_number_decimal1 buf (cs @ r) = Some (b, r)" if "scan_number_decimal1 buf cs = Some (b, [])" for buf cs
    using that by (cases cs) (auto split: if_splits intro: d2)
qed

lemma scan_number_extend_token:
  assumes "delim r" "scan_number ch cs = Some (t, [])"
  shows "scan_number ch (cs @ r) = Some (t, r)"
proof -
  have fin: "finish_float (f (cs @ r)) = Some (t, r)"
    if "finish_float (f cs) = Some (t, [])" "\<And>b. f cs = Some (b, []) \<Longrightarrow> f (cs @ r) = Some (b, r)" for f cs
    using that by (auto simp: finish_float_def)
  have zero: "scan_number_zero ty buf (cs @ r) = Some (t, r)" if "scan_number_zero ty buf cs = Some (t, [])" for ty buf cs
  proof (cases cs)
    case Nil
    then show ?thesis using that assms(1) by (cases r) (auto simp: delim_def)
  qed (use that assms(1) in \<open>auto split: if_splits intro!: fin scan_number_extend\<close>)
  have any1: "scan_number_any1 ty buf (cs @ r) = Some (t, r)" if "scan_number_any1 ty buf cs = Some (t, [])" for ty buf cs
    using that
  proof (induction ty buf cs rule: scan_number_any1.induct)
    case (1 ty buf)
    then show ?case using assms(1) by (cases r) (auto simp: delim_def)
  qed (use assms(1) in \<open>auto split: if_splits intro!: fin scan_number_extend\<close>)
  have minus: "scan_number_minus buf (cs @ r) = Some (t, r)" if "scan_number_minus buf cs = Some (t, [])" for buf
    using that zero any1 by (cases cs) (auto split: if_splits)
  show ?thesis using assms(2) zero any1 minus by (auto simp: scan_number_def split: if_splits)
qed

lemma scan_literal_token: "fst (scan_literal ls t cs) \<in> {t, parse_error}"
  by (induction ls t cs rule: scan_literal.induct) auto

lemma scan_token_float:
  assumes "scan_token (c # cs) = (value_float v, r)"
  shows "c = CHR ''-'' \<or> is_digit c" "scan_number c cs = Some (value_float v, r)"
proof -
  have lit: "scan_literal ls t cs \<noteq> (value_float v, r)" if "t \<noteq> value_float v" for ls t
    using scan_literal_token [of ls t cs] that by auto
  have str: "or_error (map_option (\<lambda>(s, r). (value_string s, r)) (scan_string [] cs)) \<noteq> (value_float v, r)"
    by (auto simp: or_error_def split: option.splits)
  have "(c = CHR ''-'' \<or> is_digit c) \<and> or_error (scan_number c cs) = (value_float v, r)"
    using assms unfolding scan_token.simps by (elim ifE) (simp_all add: lit str)
  then show "c = CHR ''-'' \<or> is_digit c" "scan_number c cs = Some (value_float v, r)"
    by (auto simp: or_error_def split: option.splits)
qed

lemma scan_float_extend:
  assumes "scan cs = (value_float v, [])" "delim r"
  shows "scan (cs @ r) = (value_float v, r)"
proof -
  obtain c cs' where ne: "skip_whitespace cs = c # cs'"
    using assms(1) by (cases "skip_whitespace cs") (auto simp: scan_def)
  then have ext: "skip_whitespace (cs @ r) = c # cs' @ r"
    by (metis append_Cons dropWhile_append1 dropWhile_eq_Nil_conv list.distinct(1) skip_whitespace_def)
  note fl = scan_token_float [of c cs' v "[]"]
  have num: "scan_number c (cs' @ r) = Some (value_float v, r)" "c = CHR ''-'' \<or> is_digit c"
    using fl assms ne scan_number_extend_token [OF assms(2), of c cs' "value_float v"] by (auto simp: scan_def)
  then have "scan_token (c # cs' @ r) = (value_float v, r)"
    using scan_token_number [of c] by (auto simp: or_error_def simp del: scan_token.simps)
  then show ?thesis by (simp add: scan_def ext)
qed

section \<open>Floating-point numbers\<close>

text \<open>A number with digits \<open>ip\<close>, digits \<open>fp\<close> after the point if there are any, and an exponent or none.\<close>

definition decimal_text :: "string \<Rightarrow> string \<Rightarrow> (char \<times> string) option \<Rightarrow> string" where
  "decimal_text ip fp xo = ip @ (if fp = [] then [] else CHR ''.'' # fp) @
     (case xo of None \<Rightarrow> [] | Some (sg, xs) \<Rightarrow> CHR ''e'' # sg # xs)"

fun exponent_value :: "(char \<times> string) option \<Rightarrow> int" where
  "exponent_value None = 0"
| "exponent_value (Some (sg, xs)) = (if sg = CHR ''-'' then - int (digits_val xs) else int (digits_val xs))"

definition decimal_ok :: "string \<Rightarrow> string \<Rightarrow> (char \<times> string) option \<Rightarrow> bool" where
  "decimal_ok ip fp xo \<longleftrightarrow> ip \<noteq> [] \<and> list_all is_digit ip \<and> (hd ip = CHR ''0'' \<longrightarrow> ip = ''0'') \<and> list_all is_digit fp \<and>
     (fp \<noteq> [] \<or> xo \<noteq> None) \<and>
     (case xo of None \<Rightarrow> True | Some (sg, xs) \<Rightarrow> (sg = CHR ''+'' \<or> sg = CHR ''-'') \<and> xs \<noteq> [] \<and> list_all is_digit xs)"

lemma not_digits: "\<not> is_digit (CHR ''.'')" "\<not> is_digit (CHR ''e'')" "\<not> is_digit (CHR ''+'')" "\<not> is_digit (CHR ''-'')"
  by (simp_all add: is_digit_def)

lemma takeWhile_digits: "list_all is_digit ds \<Longrightarrow> takeWhile is_digit (ds @ r) = ds @ takeWhile is_digit r"
  "list_all is_digit ds \<Longrightarrow> dropWhile is_digit (ds @ r) = dropWhile is_digit r"
  by (induction ds) auto

lemma unsigned_decimal_text:
  assumes "decimal_ok ip fp xo"
  shows "unsigned_decimal (decimal_text ip fp xo) = of_nat (digits_val (ip @ fp)) * 10 powi (exponent_value xo - int (length fp))"
  using assms by (auto simp: decimal_ok_def decimal_text_def unsigned_decimal_def Let_def takeWhile_digits not_digits
    split: option.splits)

text \<open>The states of the lexer over such a text.\<close>

lemma any2_digits: "list_all is_digit xs \<Longrightarrow> scan_number_any2 buf xs = (buf @ xs, [])"
  by (induction xs arbitrary: buf) auto

lemma decimal2_digits: "list_all is_digit fp \<Longrightarrow> scan_number_decimal2 buf (fp @ r) = scan_number_decimal2 (buf @ fp) r"
  by (induction fp arbitrary: buf) auto

lemma sign_digits: "xs \<noteq> [] \<Longrightarrow> list_all is_digit xs \<Longrightarrow> scan_number_sign buf xs = Some (buf @ xs, [])"
  by (cases xs) (auto simp: any2_digits)

lemma decimal_tail:
  assumes "decimal_ok ip fp xo"
  shows "scan_number_zero ty buf (decimal_text [] fp xo) = Some (value_float (strtod (buf @ decimal_text [] fp xo)), [])"
    "scan_number_any1 ty buf (decimal_text [] fp xo) = Some (value_float (strtod (buf @ decimal_text [] fp xo)), [])"
proof -
  have point: "scan_number_decimal1 b (fp @ r) = scan_number_decimal2 (b @ fp) r" if "fp \<noteq> []" for b r
    using assms that by (cases fp) (auto simp: decimal_ok_def decimal2_digits)
  note simps = decimal_text_def decimal_ok_def finish_float_def not_digits point sign_digits
  show "scan_number_zero ty buf (decimal_text [] fp xo) = Some (value_float (strtod (buf @ decimal_text [] fp xo)), [])"
    using assms point [of _ "[]"] by (auto simp: simps split: option.splits)
  show "scan_number_any1 ty buf (decimal_text [] fp xo) = Some (value_float (strtod (buf @ decimal_text [] fp xo)), [])"
    using assms point [of _ "[]"] by (auto simp: simps split: option.splits)
qed

lemma any1_digits: "list_all is_digit ds \<Longrightarrow> scan_number_any1 ty buf (ds @ r) = scan_number_any1 ty (buf @ ds) r"
  by (induction ds arbitrary: buf) auto

lemma scan_decimal_text:
  assumes ok: "decimal_ok ip fp xo"
  shows "scan (decimal_text ip fp xo) = (value_float (strtod (decimal_text ip fp xo)), [])"
    "scan (CHR ''-'' # decimal_text ip fp xo) = (value_float (strtod (CHR ''-'' # decimal_text ip fp xo)), [])"
proof -
  let ?t = "decimal_text [] fp xo"
  obtain c ds where ip: "ip = c # ds" "is_digit c" "list_all is_digit ds" "c = CHR ''0'' \<Longrightarrow> ds = []"
    using ok by (cases ip) (auto simp: decimal_ok_def)
  have tx: "decimal_text ip fp xo = c # ds @ ?t" by (simp add: decimal_text_def ip(1))
  note tail = decimal_tail [OF ok]
  have num: "scan_number_minus buf (c # ds @ ?t) = Some (value_float (strtod (buf @ c # ds @ ?t)), [])"
      "scan_number c (ds @ ?t) = Some (value_float (strtod (c # ds @ ?t)), [])" for buf
    using ip digit_not_special [OF ip(2)] tail any1_digits [OF ip(3)]
    by (cases "c = CHR ''0''"; simp add: scan_number_def)+
  show "scan (decimal_text ip fp xo) = (value_float (strtod (decimal_text ip fp xo)), [])"
    unfolding tx scan_digit [OF ip(2)] num or_error_def by simp
  show "scan (CHR ''-'' # decimal_text ip fp xo) = (value_float (strtod (CHR ''-'' # decimal_text ip fp xo)), [])"
    unfolding tx scan_minus num or_error_def by simp
qed

section \<open>The text of Grisu2's digits\<close>

lemma digits_val_append: "digits_val (xs @ ys) = digits_val xs * 10 ^ length ys + digits_val ys"
  by (induction ys rule: rev_induct) (simp_all add: digits_val_def)

lemma digits_val_single: "digits_val ''0'' = 0"
  by (simp add: digits_val_def digit_val_def)

lemma digits_val_zeros: "digits_val (replicate n (CHR ''0'')) = 0"
proof (induction n)
  case (Suc n)
  then show ?case using digits_val_append [of "''0''" "replicate n (CHR ''0'')"] by (simp add: digits_val_single)
qed (simp add: digits_val_def)

lemma digits_val_chars: "\<forall>d \<in> set ds. d < 10 \<Longrightarrow> digits_val (map digit_char ds) = digits_num ds"
  by (induction ds rule: rev_induct) (simp_all add: digits_val_def digits_num_def)

lemma digit_chars: "\<forall>d \<in> set ds. d < 10 \<Longrightarrow> list_all is_digit (map digit_char ds)"
  by (auto simp: list_all_iff)

lemma first_char: "digits_ok ds \<Longrightarrow> hd (map digit_char ds) \<noteq> CHR ''0''"
proof -
  assume "digits_ok ds"
  then have "hd ds \<noteq> 0" "hd ds < 10" "ds \<noteq> []" by (auto simp: digits_ok_def)
  then have "digit_char (hd ds) \<noteq> digit_char 0" by (metis digit_val_digit_char zero_less_numeral)
  then show ?thesis using \<open>ds \<noteq> []\<close> by (simp add: hd_map digit_char_0)
qed

lemma append_exponent_spec:
  assumes "\<bar>e\<bar> < 1000"
  shows "\<exists>sg xs. append_exponent e = sg # xs \<and> (sg = CHR ''+'' \<or> sg = CHR ''-'') \<and> xs \<noteq> [] \<and> list_all is_digit xs \<and>
    exponent_value (Some (sg, xs)) = e"
proof -
  define k where "k = nat \<bar>e\<bar>"
  define ds where "ds = (if k < 10 then [0, k] else if k < 100 then [k div 10, k mod 10] else [k div 100, k mod 100 div 10, k mod 100 mod 10])"
  have k: "k < 1000" using assms by (simp add: k_def)
  have ok: "\<forall>d \<in> set ds. d < 10" using k by (auto simp: ds_def div_less_iff_less_mult)
  have "digits_num ds = k"
    using mult_div_mod_eq [of 10 k] mult_div_mod_eq [of 100 k] mult_div_mod_eq [of 10 "k mod 100"]
    by (auto simp: ds_def digits_num_def)
  then have val: "digits_val (map digit_char ds) = k" using digits_val_chars [OF ok] by simp
  have "append_exponent e = (if e < 0 then CHR ''-'' else CHR ''+'') # map digit_char ds"
    by (simp add: append_exponent_def k_def [symmetric] ds_def Let_def digit_char_0)
  moreover have "exponent_value (Some (if e < 0 then CHR ''-'' else CHR ''+'', map digit_char ds)) = e"
    using val by (simp add: k_def)
  moreover have "map digit_char ds \<noteq> []" by (simp add: ds_def)
  ultimately show ?thesis using digit_chars [OF ok] by auto
qed

text \<open>Texts of a number that the lexer accepts.\<close>

definition denotes :: "string \<Rightarrow> rat \<Rightarrow> bool" where
  "denotes tx D \<longleftrightarrow> (\<exists>ip fp xo. tx = decimal_text ip fp xo \<and> decimal_ok ip fp xo \<and>
     of_nat (digits_val (ip @ fp)) * 10 powi (exponent_value xo - int (length fp)) = D)"

lemma buffer_chars:
  assumes "digits_ok ds"
  shows "map digit_char ds \<noteq> []" "list_all is_digit (map digit_char ds)" "hd (map digit_char ds) \<noteq> CHR ''0''"
    "digits_val (map digit_char ds) = digits_num ds"
  using assms digit_chars [of ds] digits_val_chars [of ds] first_char [OF assms] by (auto simp: digits_ok_def)

lemma denotes_split:
  assumes ok: "digits_ok ds" and i: "0 < i" "i \<le> length ds" and xo: "i < length ds \<or> xo \<noteq> None"
    "case xo of None \<Rightarrow> True | Some (sg, xs) \<Rightarrow> (sg = CHR ''+'' \<or> sg = CHR ''-'') \<and> xs \<noteq> [] \<and> list_all is_digit xs"
  shows "denotes (decimal_text (take i (map digit_char ds)) (drop i (map digit_char ds)) xo)
    (of_nat (digits_num ds) * 10 powi (exponent_value xo - (int (length ds) - int i)))"
proof -
  define buf where "buf = map digit_char ds"
  note buf = buffer_chars [OF ok, folded buf_def]
  have len: "length buf = length ds" by (simp add: buf_def)
  have "list_all is_digit (take i buf)" "list_all is_digit (drop i buf)"
    using buf(2) by (auto simp: list_all_iff dest: in_set_takeD in_set_dropD)
  then have "decimal_ok (take i buf) (drop i buf) xo" using buf i xo len by (auto simp: decimal_ok_def)
  moreover have "int (length (drop i buf)) = int (length ds) - int i" using i len by simp
  moreover have "digits_val (take i buf @ drop i buf) = digits_num ds" by (simp add: buf(4))
  ultimately show ?thesis unfolding denotes_def buf_def [symmetric] by metis
qed

lemma denotes_trailing:
  assumes "digits_ok ds"
  shows "denotes (map digit_char ds @ replicate n (CHR ''0'') @ ''.0'') (of_nat (digits_num ds) * 10 ^ n)"
proof -
  let ?ip = "map digit_char ds @ replicate n (CHR ''0'')"
  note buf = buffer_chars [OF assms]
  have "decimal_ok ?ip ''0'' None" using buf by (auto simp: decimal_ok_def is_digit_0 list_all_iff)
  moreover have "(of_nat (digits_val (?ip @ ''0'')) * 10 powi (exponent_value None - int (length ''0'')) :: rat) = of_nat (digits_num ds) * 10 ^ n"
    by (simp add: digits_val_append buf(4) digits_val_single digits_val_zeros power_int_minus)
  moreover have "map digit_char ds @ replicate n (CHR ''0'') @ ''.0'' = decimal_text ?ip ''0'' None" by (simp add: decimal_text_def)
  ultimately show ?thesis unfolding denotes_def by metis
qed

lemma denotes_leading:
  assumes "digits_ok ds"
  shows "denotes (''0.'' @ replicate n (CHR ''0'') @ map digit_char ds) (of_nat (digits_num ds) * 10 powi (- int n - int (length ds)))"
proof -
  let ?fp = "replicate n (CHR ''0'') @ map digit_char ds"
  note buf = buffer_chars [OF assms]
  have "decimal_ok ''0'' ?fp None" using buf by (auto simp: decimal_ok_def is_digit_0 list_all_iff)
  moreover have "digits_val (''0'' @ ?fp) = digits_num ds"
    using digits_val_zeros [of "Suc n"] digits_val_append [of "replicate (Suc n) (CHR ''0'')" "map digit_char ds"] by (simp add: buf(4))
  moreover have "exponent_value None - int (length ?fp) = - int n - int (length ds)" by simp
  moreover have "''0.'' @ ?fp = decimal_text ''0'' ?fp None" using buf(1) by (simp add: decimal_text_def)
  ultimately show ?thesis unfolding denotes_def by metis
qed

lemma format_buffer_spec:
  assumes ok: "digits_ok ds" and bounds: "- 900 \<le> int (length ds) + ex" "int (length ds) + ex \<le> 900"
  shows "denotes (format_buffer ds ex (- 4) 15) (of_nat (digits_num ds) * 10 powi ex)"
proof -
  define buf where "buf = map digit_char ds"
  define k where "k = int (length ds)"
  define n where "n = k + ex"
  have k: "0 < k" using ok by (simp add: k_def digits_ok_def)
  have fmt: "format_buffer ds ex (- 4) 15 =
      (if k \<le> n \<and> n \<le> 15 then buf @ replicate (nat (n - k)) (CHR ''0'') @ ''.0''
       else if 0 < n \<and> n \<le> 15 then take (nat n) buf @ ''.'' @ drop (nat n) buf
       else if - 4 < n \<and> n \<le> 0 then ''0.'' @ replicate (nat (- n)) (CHR ''0'') @ buf
       else if k = 1 then buf @ ''e'' @ append_exponent (n - 1)
       else take 1 buf @ ''.'' @ drop 1 buf @ ''e'' @ append_exponent (n - 1))"
    unfolding format_buffer_def Let_def buf_def k_def n_def by (rule refl)
  consider "k \<le> n" "n \<le> 15" | "0 < n" "n < k" "n \<le> 15" | "- 4 < n" "n \<le> 0" | "n \<le> - 4 \<or> 15 < n" by linarith
  then show ?thesis
  proof cases
    case 1
    moreover have "(10 :: rat) ^ nat (n - k) = 10 powi ex" using 1 by (simp add: n_def power_int_def)
    ultimately show ?thesis using denotes_trailing [OF ok, of "nat (n - k)"] by (simp add: fmt buf_def)
  next
    case 2
    then have "nat n < length ds" "int (nat n) = n" by (simp_all add: k_def)
    then show ?thesis using 2 denotes_split [OF ok, of "nat n" None] by (simp add: fmt buf_def decimal_text_def n_def k_def)
  next
    case 3
    then have "format_buffer ds ex (- 4) 15 = ''0.'' @ replicate (nat (- n)) (CHR ''0'') @ buf" using k by (simp add: fmt)
    then show ?thesis using 3 denotes_leading [OF ok, of "nat (- n)"] by (simp add: buf_def n_def k_def)
  next
    case 4
    have "\<bar>n - 1\<bar> < 1000" using bounds by (simp add: n_def k_def)
    then obtain sg xs where x: "append_exponent (n - 1) = sg # xs" "sg = CHR ''+'' \<or> sg = CHR ''-''" "xs \<noteq> []" "list_all is_digit xs"
      "exponent_value (Some (sg, xs)) = n - 1"
      using append_exponent_spec by blast
    have len: "int (length buf) = k" by (simp add: buf_def k_def)
    have "format_buffer ds ex (- 4) 15 =
        (if k = 1 then buf @ ''e'' @ append_exponent (n - 1) else take 1 buf @ ''.'' @ drop 1 buf @ ''e'' @ append_exponent (n - 1))"
      using 4 k by (auto simp: fmt)
    then have "format_buffer ds ex (- 4) 15 = decimal_text (take 1 buf) (drop 1 buf) (Some (sg, xs))"
      using len k by (auto simp: decimal_text_def x(1))
    moreover have "n - 1 - (int (length ds) - int 1) = ex" by (simp add: n_def k_def)
    moreover have "0 < length ds" using k by (simp add: k_def)
    ultimately show ?thesis using denotes_split [OF ok, of 1 "Some (sg, xs)"] x(2-4) unfolding x(5) buf_def by (simp add: Suc_le_eq)
  qed
qed

section \<open>Doubles are read back\<close>

lemma scan_positive_double:
  assumes "is_double x" "0 < x"
  shows "scan (case grisu2 x of (ds, ex) \<Rightarrow> format_buffer ds ex (- 4) 15) = (value_float (Some x), [])"
    "scan (CHR ''-'' # (case grisu2 x of (ds, ex) \<Rightarrow> format_buffer ds ex (- 4) 15)) = (value_float (Some (- x)), [])"
proof -
  obtain m e where n: "normal_form x m e" using is_double_normal [OF assms] by blast
  obtain ds ex where g: "grisu2 x = (ds, ex)" by (cases "grisu2 x")
  let ?D = "of_nat (digits_num ds) * 10 powi ex :: rat"
  have ok: "digits_ok ds" by (rule grisu2_between(1) [OF n g])
  have "- 900 \<le> int (length ds) + ex" "int (length ds) + ex \<le> 900" using grisu2_exponent [OF n g] by simp_all
  then obtain ip fp xo where tx: "format_buffer ds ex (- 4) 15 = decimal_text ip fp xo" "decimal_ok ip fp xo"
      "of_nat (digits_val (ip @ fp)) * 10 powi (exponent_value xo - int (length fp)) = ?D"
    using format_buffer_spec [OF ok] unfolding denotes_def by blast
  have val: "unsigned_decimal (decimal_text ip fp xo) = ?D" unfolding unsigned_decimal_text [OF tx(2)] by (rule tx(3))
  have D: "round_positive ?D = Some x" by (rule grisu2_reads_back [OF n g])
  have pos: "0 < ?D"
    using digits_num_ge [OF ok] by (metis mult_pos_pos of_nat_0_less_iff order_less_le_trans zero_less_numeral zero_less_power zero_less_power_int)
  have "hd (decimal_text ip fp xo) \<noteq> CHR ''-''" "decimal_text ip fp xo \<noteq> []"
    using tx(2) not_digits by (cases ip; auto simp: decimal_text_def decimal_ok_def)+
  then have "strtod (decimal_text ip fp xo) = Some x" "strtod (CHR ''-'' # decimal_text ip fp xo) = Some (- x)"
    using D pos by (auto simp: strtod_def val round_binary64_def)
  then show "scan (case grisu2 x of (ds, ex) \<Rightarrow> format_buffer ds ex (- 4) 15) = (value_float (Some x), [])"
      "scan (CHR ''-'' # (case grisu2 x of (ds, ex) \<Rightarrow> format_buffer ds ex (- 4) 15)) = (value_float (Some (- x)), [])"
    using scan_decimal_text [OF tx(2)] by (simp_all add: g tx(1))
qed

lemma scan_double:
  assumes "is_double x"
  shows "scan (to_chars x) = (value_float (Some x), [])"
proof -
  consider "x = 0" | "0 < x" | "x < 0" by linarith
  then show ?thesis
  proof cases
    case 1
    have ok: "decimal_ok ''0'' ''0'' None" by (simp add: decimal_ok_def is_digit_0)
    have "digits_val (''0'' @ ''0'') = 0" using digits_val_zeros [of 2] by (simp add: numeral_2_eq_2)
    then have "unsigned_decimal (decimal_text ''0'' ''0'' None) = 0" unfolding unsigned_decimal_text [OF ok] by simp
    then have "strtod (decimal_text ''0'' ''0'' None) = Some 0" by (simp add: strtod_def round_binary64_def decimal_text_def)
    then show ?thesis using 1 scan_decimal_text(1) [OF ok] by (simp add: to_chars_def decimal_text_def)
  next
    case 2
    then show ?thesis using scan_positive_double(1) [OF assms] by (simp add: to_chars_def)
  next
    case 3
    then have "is_double (- x)" "0 < - x" using assms by (simp_all add: is_double_uminus)
    then show ?thesis using 3 scan_positive_double(2) [of "- x"] by (simp add: to_chars_def)
  qed
qed

end
