(* ===== verification/JsonRoundtrip.thy ===== *)
theory JsonRoundtrip
  imports Utf8 JsonParser NumberText
begin

text \<open>
  Parsing what was dumped: for every value with integers of 64 bits and doubles, the text of \<^verbatim>\<open>dump()\<close> and of \<^verbatim>\<open>dump(n)\<close> is parsed back to the
  value, with the members of its objects in the order of the map.  In the other direction, a value that was parsed has its
  members in order, its strings are UTF-8 and its numbers are of these kinds.
\<close>

section \<open>Values\<close>

lemma scan_ws [simp]: "list_all is_ws w \<Longrightarrow> scan (w @ cs) = scan cs"
  by (simp add: scan_def skip_whitespace_def dropWhile_append list_all_iff)

lemma scan_punctuation [simp]:
  "scan (CHR ''['' # cs) = (begin_array, cs)" "scan (CHR '']'' # cs) = (end_array, cs)"
  "scan (CHR ''{'' # cs) = (begin_object, cs)" "scan (CHR ''}'' # cs) = (end_object, cs)"
  "scan (CHR '':'' # cs) = (name_separator, cs)" "scan (CHR '','' # cs) = (value_separator, cs)"
  by (simp_all add: scan_def skip_whitespace_def is_ws_def)

lemma scan_words [simp]:
  "scan (''true'' @ cs) = (literal_true, cs)" "scan (''false'' @ cs) = (literal_false, cs)"
  "scan (''null'' @ cs) = (literal_null, cs)"
  by (simp_all add: scan_def skip_whitespace_def is_ws_def)

lemma scan_quoted: "quoted s = Some q \<Longrightarrow> scan (q @ cs) = (value_string s, cs)"
  using scan_dumped_string [of s _ "[]" cs]
  by (auto simp: quoted_def scan_def skip_whitespace_def is_ws_def or_error_def)

text \<open>The text of a value, wherever it stands: the parser takes it as a whole.\<close>

definition reads :: "string \<Rightarrow> json \<Rightarrow> bool" where
  "reads text v \<longleftrightarrow> (\<forall>r st d. delim r \<longrightarrow>
     fst (scan (text @ r)) \<noteq> end_array \<and>
     (case scan (text @ r) of (t, r') \<Rightarrow> parse_value t r' st d) = next_state r st (handle_value v d))"

lemma readsI:
  "(\<And>r st d. delim r \<Longrightarrow> fst (scan (text @ r)) \<noteq> end_array \<and>
     (case scan (text @ r) of (t, r') \<Rightarrow> parse_value t r' st d) = next_state r st (handle_value v d)) \<Longrightarrow> reads text v"
  by (simp add: reads_def)

abbreviation push :: "open_container \<Rightarrow> dom \<Rightarrow> dom" where
  "push c d \<equiv> d\<lparr>ref_stack := c # ref_stack d\<rparr>"

lemma handle_push [simp]:
  "handle_value v (push (OpenArray xs) d) = push (OpenArray (xs @ [v])) d"
  "handle_value v (push (OpenObject kvs k) d) = push (OpenObject (map_put k v kvs) k) d"
  "sax_key k (push (OpenObject kvs k') d) = push (OpenObject kvs k) d"
  "sax_end (push (OpenArray xs) d) = handle_value (JArr xs) d"
  "sax_end (push (OpenObject kvs k) d) = handle_value (JObj kvs) d"
  by (cases d; simp)+

lemma delim_ws: "list_all is_ws w \<Longrightarrow> c \<in> {CHR '','', CHR '']'', CHR ''}''} \<Longrightarrow> delim (w @ c # r)"
  by (cases w) (auto simp: delim_def is_ws_def is_digit_def)

lemma next_state_array:
  "list_all is_ws w \<Longrightarrow> next_state (w @ CHR '']'' # r) (True # st) d = next_state r st (sax_end d)"
  "next_state (CHR '','' # r) (True # st) d = (case scan r of (t, r') \<Rightarrow> parse_value t r' (True # st) d)"
  by (simp_all add: next_state.simps [of _ "True # st"])

lemma reads_elements:
  assumes ws: "list_all is_ws pre" "list_all is_ws w" "list_all is_ws w2"
    and "ps \<noteq> []" "\<forall>(t, v) \<in> set ps. reads t v"
  shows "fst (scan (join (CHR '','' # w) (map (\<lambda>p. pre @ fst p) ps) @ w2 @ CHR '']'' # r)) \<noteq> end_array \<and>
    (case scan (join (CHR '','' # w) (map (\<lambda>p. pre @ fst p) ps) @ w2 @ CHR '']'' # r) of
       (t, r') \<Rightarrow> parse_value t r' (True # st) (push (OpenArray acc) d))
     = next_state r st (handle_value (JArr (acc @ map snd ps)) d)"
  using assms(4,5)
proof (induction ps arbitrary: acc rule: list_nonempty_induct)
  case (single p)
  have "delim (w2 @ CHR '']'' # r)" using ws(3) by (rule delim_ws) simp
  then show ?case
    using single ws by (cases p) (simp add: reads_def next_state_array)
next
  case (cons p ps)
  let ?r = "CHR '','' # w @ join (CHR '','' # w) (map (\<lambda>p. pre @ fst p) ps) @ w2 @ CHR '']'' # r"
  have eq: "join (CHR '','' # w) (map (\<lambda>p. pre @ fst p) (p # ps)) @ w2 @ CHR '']'' # r = pre @ fst p @ ?r"
    using cons.hyps by (cases ps) auto
  have "delim ?r" using delim_ws [of "[]"] by simp
  then show ?case
    unfolding eq using cons ws by (cases p) (simp add: reads_def next_state_array)
qed

lemma reads_array:
  assumes "list_all is_ws pre" "list_all is_ws w" "list_all is_ws w1" "list_all is_ws w2"
    and "ps \<noteq> []" "\<forall>(t, v) \<in> set ps. reads t v"
  shows "reads (CHR ''['' # w1 @ join (CHR '','' # w) (map (\<lambda>p. pre @ fst p) ps) @ w2 @ '']'') (JArr (map snd ps))"
proof (rule readsI)
  fix r st d
  show "fst (scan ((CHR ''['' # w1 @ join (CHR '','' # w) (map (\<lambda>p. pre @ fst p) ps) @ w2 @ '']'') @ r)) \<noteq> end_array \<and>
    (case scan ((CHR ''['' # w1 @ join (CHR '','' # w) (map (\<lambda>p. pre @ fst p) ps) @ w2 @ '']'') @ r) of
       (t, r') \<Rightarrow> parse_value t r' st d) = next_state r st (handle_value (JArr (map snd ps)) d)"
    using reads_elements [OF assms(1,2,4,5,6), of r st "[]" d] assms(3)
    by (simp add: parse_value.simps [of begin_array] start_array_def split: prod.splits)
qed

text \<open>The members of an object.\<close>

definition parse_member :: "string \<Rightarrow> bool list \<Rightarrow> dom \<Rightarrow> exn + dom \<times> string" where
  "parse_member cs st d =
     (case scan cs of (t1, r1) \<Rightarrow>
        (case t1 of
           value_string k \<Rightarrow>
             (case scan r1 of (t2, r2) \<Rightarrow>
                if t2 = name_separator then (case scan r2 of (t3, r3) \<Rightarrow> parse_value t3 r3 (False # st) (sax_key k d))
                else syntax_error)
         | _ \<Rightarrow> syntax_error))"

lemma next_state_object:
  "list_all is_ws w \<Longrightarrow> next_state (w @ CHR ''}'' # r) (False # st) d = next_state r st (sax_end d)"
  "next_state (CHR '','' # r) (False # st) d = parse_member r st d"
  by (simp_all add: next_state.simps [of _ "False # st"] parse_member_def)

definition member_text :: "string \<Rightarrow> string \<Rightarrow> string \<times> string \<times> string \<times> json \<Rightarrow> string" where
  "member_text pre w = (\<lambda>(k, q, t, v). pre @ q @ CHR '':'' # w @ t)"

definition member_ok :: "string \<times> string \<times> string \<times> json \<Rightarrow> bool" where
  "member_ok = (\<lambda>(k, q, t, v). quoted k = Some q \<and> reads t v)"

lemma parse_member_text:
  assumes "list_all is_ws pre" "list_all is_ws w1" "member_ok (k, q, t, v)" "delim r"
  shows "parse_member (member_text pre w1 (k, q, t, v) @ r) st (push (OpenObject acc k') d)
    = next_state r (False # st) (push (OpenObject (map_put k v acc) k) d)"
  using assms scan_quoted [of k q] by (simp add: parse_member_def member_text_def member_ok_def reads_def)

lemma reads_members:
  assumes ws: "list_all is_ws pre" "list_all is_ws w" "list_all is_ws w1" "list_all is_ws w2"
    and "ps \<noteq> []" "\<forall>p \<in> set ps. member_ok p"
  shows "parse_member (w @ join (CHR '','' # w) (map (member_text pre w1) ps) @ w2 @ CHR ''}'' # r) st (push (OpenObject acc k') d)
     = next_state r st (handle_value (JObj (fold (\<lambda>(k, _, _, v). map_put k v) ps acc)) d)"
  using assms(5,6)
proof (induction ps arbitrary: acc k' rule: list_nonempty_induct)
  case (single p)
  have "delim (w2 @ CHR ''}'' # r)" using ws(4) by (rule delim_ws) simp
  moreover have "parse_member (w @ cs) st d = parse_member cs st d" for cs d
    using ws(2) by (simp add: parse_member_def)
  ultimately show ?case
    using single ws by (cases p) (simp add: parse_member_text next_state_object)
next
  case (cons p ps)
  let ?r = "CHR '','' # w @ join (CHR '','' # w) (map (member_text pre w1) ps) @ w2 @ CHR ''}'' # r"
  have eq: "join (CHR '','' # w) (map (member_text pre w1) (p # ps)) @ w2 @ CHR ''}'' # r = member_text pre w1 p @ ?r"
    using cons.hyps by (cases ps) auto
  have "delim ?r" using delim_ws [of "[]"] by simp
  moreover have "parse_member (w @ cs) st d = parse_member cs st d" for cs d
    using ws(2) by (simp add: parse_member_def)
  ultimately show ?case
    unfolding eq using cons ws by (cases p) (simp add: parse_member_text next_state_object)
qed

lemma fold_map_put: "key_sorted (acc @ map (\<lambda>(k, _, _, v). (k, v)) ps) \<Longrightarrow>
  fold (\<lambda>(k, _, _, v). map_put k v) ps acc = acc @ map (\<lambda>(k, _, _, v). (k, v)) ps"
proof (induction ps arbitrary: acc)
  case (Cons p ps)
  obtain k q t v where p: "p = (k, q, t, v)" by (cases p)
  have "key_sorted (acc @ [(k, v)])" using Cons.prems by (auto simp: p sorted_wrt_append)
  then have "map_put k v acc = acc @ [(k, v)]" by (rule map_put_snoc)
  then show ?case using Cons.IH [of "acc @ [(k, v)]"] Cons.prems by (simp add: p)
qed simp

lemma reads_object:
  assumes "list_all is_ws pre" "list_all is_ws w" "list_all is_ws w1" "list_all is_ws w2"
    and "ps \<noteq> []" "\<forall>p \<in> set ps. member_ok p" "key_sorted (map (\<lambda>(k, _, _, v). (k, v)) ps)"
  shows "reads (CHR ''{'' # w @ join (CHR '','' # w) (map (member_text pre w1) ps) @ w2 @ ''}'') (JObj (map (\<lambda>(k, _, _, v). (k, v)) ps))"
proof (rule readsI)
  fix r st d
  let ?body = "w @ join (CHR '','' # w) (map (member_text pre w1) ps) @ w2 @ CHR ''}'' # r"
  obtain k q t v ps' where ps: "ps = (k, q, t, v) # ps'" using assms(5) by (cases ps) auto
  obtain cs where "join (CHR '','' # w) (map (member_text pre w1) ps) = pre @ q @ cs"
    by (cases ps') (auto simp: ps member_text_def)
  then have "fst (scan ?body) = value_string k"
    using assms(1,2,6) scan_quoted [of k q] by (simp add: ps member_ok_def)
  then obtain r' where "scan ?body = (value_string k, r')" by (cases "scan ?body") auto
  then have "parse_value begin_object ?body st d = parse_member ?body st (start_object d)"
    by (simp add: parse_value.simps [of begin_object] parse_member_def)
  then show "fst (scan ((CHR ''{'' # w @ join (CHR '','' # w) (map (member_text pre w1) ps) @ w2 @ ''}'') @ r)) \<noteq> end_array \<and>
    (case scan ((CHR ''{'' # w @ join (CHR '','' # w) (map (member_text pre w1) ps) @ w2 @ ''}'') @ r) of
       (t, r') \<Rightarrow> parse_value t r' st d) = next_state r st (handle_value (JObj (map (\<lambda>(k, _, _, v). (k, v)) ps)) d)"
    using reads_members [OF assms(1-6), of r st "[]" "[]" d] fold_map_put [of "[]" ps] assms(7)
    by (simp add: start_object_def)
qed

section \<open>The round trip\<close>

text \<open>Numbers that the library can hold: integers of 64 bits and doubles.\<close>

fun numbers_ok :: "json \<Rightarrow> bool" where
  "numbers_ok (JInt i) = (- (2 ^ 63) \<le> i \<and> i < 2 ^ 64)"
| "numbers_ok (JFloat x) = is_double x"
| "numbers_ok (JArr xs) = (\<forall>x \<in> set xs. numbers_ok x)"
| "numbers_ok (JObj kvs) = (\<forall>kv \<in> set kvs. numbers_ok (snd kv))"
| "numbers_ok _ = True"

text \<open>Values whose strings and keys are UTF-8.\<close>

fun utf8_json :: "json \<Rightarrow> bool" where
  "utf8_json (JStr s) = utf8_ok s"
| "utf8_json (JArr xs) = (\<forall>x \<in> set xs. utf8_json x)"
| "utf8_json (JObj kvs) = (\<forall>kv \<in> set kvs. utf8_ok (fst kv) \<and> utf8_json (snd kv))"
| "utf8_json _ = True"

lemma all_some_eq: "all_some os = Some vs \<longleftrightarrow> os = map Some vs"
  by (induction os arbitrary: vs) (auto split: option.splits)

lemma all_some_map: "all_some (map f xs) = Some vs \<longleftrightarrow> vs = map (the \<circ> f) xs \<and> (\<forall>x \<in> set xs. f x \<noteq> None)"
  unfolding all_some_eq by (induction xs arbitrary: vs) (auto simp: Cons_eq_map_conv)

lemma all_some_not_None: "all_some (map f xs) \<noteq> None \<longleftrightarrow> (\<forall>x \<in> set xs. f x \<noteq> None)"
  by (metis (mono_tags, lifting) all_some_map not_None_eq)

lemma indent_ws: "list_all is_ws (indent n)"
  by (simp add: indent_def is_ws_def list_all_iff)

lemma blank_ws: "is_ws (CHR '' '')"
  by (simp add: is_ws_def)

lemma newline_ws: "is_ws newline"
  by (simp add: newline_def is_ws_def)

lemma reads_scalars:
  "reads ''null'' JNull" "reads ''true'' (JBool True)" "reads ''false'' (JBool False)"
  "quoted s = Some q \<Longrightarrow> reads q (JStr s)" "is_double x \<Longrightarrow> reads (to_chars x) (JFloat x)"
  using scan_words scan_quoted [of s q] scan_float_extend [of "to_chars x" "Some x"]
  by (auto intro!: readsI simp: parse_value.simps scan_double simp del: append_Cons)

lemma reads_empty: "reads ''[]'' (JArr [])" "reads ''{}'' (JObj [])"
  by (auto intro!: readsI simp: parse_value.simps start_array_def start_object_def)

lemma reads_integer: "- (2 ^ 63) \<le> i \<Longrightarrow> i < 2 ^ 64 \<Longrightarrow> reads (dump_integer i) (JInt i)"
  using scan_dumped_integer [of i] by (intro readsI) (fastforce simp: parse_value.simps)

lemma quoted_iff: "quoted s \<noteq> None \<longleftrightarrow> utf8_ok s"
  using dump_escaped_iff [of s] by (simp add: quoted_def)

lemma std_map_mem: "(k, v) \<in> set (std_map kvs) \<Longrightarrow> (k, v) \<in> set kvs"
  using set_std_map [of kvs] by blast

text \<open>Objects, with the texts of their members.\<close>

lemma reads_dumped_object:
  assumes ws: "list_all is_ws pre" "list_all is_ws w" "list_all is_ws w1" "list_all is_ws w2" and "kvs \<noteq> []"
    and dumped: "all_some (map (\<lambda>(k, t). (case quoted k of None \<Rightarrow> None | Some q \<Rightarrow> map_option (\<lambda>v. pre @ q @ CHR '':'' # w1 @ v) t))
      (std_map (map (\<lambda>(k, v). (k, f v)) kvs))) = Some ms"
    and reads: "\<And>k v t. (k, v) \<in> set kvs \<Longrightarrow> f v = Some t \<Longrightarrow> reads t (canon v)"
  shows "reads (CHR ''{'' # w @ join (CHR '','' # w) ms @ w2 @ ''}'') (canon (JObj kvs))"
proof -
  define ps where "ps = map (\<lambda>(k, v). (k, the (quoted k), the (f v), canon v)) (std_map kvs)"
  have some: "quoted k \<noteq> None \<and> f v \<noteq> None" if "(k, v) \<in> set (std_map kvs)" for k v
    using dumped that by (fastforce simp: std_map_map all_some_map split: option.splits)
  let ?g = "\<lambda>k t. case quoted k of None \<Rightarrow> None | Some q \<Rightarrow> map_option (\<lambda>v. pre @ q @ CHR '':'' # w1 @ v) t"
  have "ms = map (\<lambda>(k, v). the (?g k (f v))) (std_map kvs)"
    using dumped unfolding std_map_map map_map all_some_map by (auto simp: comp_def split_beta cong: option.case_cong)
  also have "\<dots> = map (member_text pre w1) ps"
    unfolding ps_def map_map by (rule map_cong) (auto simp: member_text_def dest!: some)
  finally have ms: "ms = map (member_text pre w1) ps" .
  have "member_ok (k, the (quoted k), the (f v), canon v)" if "(k, v) \<in> set (std_map kvs)" for k v
    using some [OF that] reads [OF std_map_mem [OF that]] by (auto simp: member_ok_def)
  then have "\<forall>p \<in> set ps. member_ok p" by (auto simp: ps_def)
  moreover have obj: "canon (JObj kvs) = JObj (map (\<lambda>(k, _, _, v). (k, v)) ps)"
    unfolding canon.simps std_map_map by (auto simp: ps_def)
  then have "key_sorted (map (\<lambda>(k, _, _, v). (k, v)) ps)"
    using is_canon_canon [of "JObj kvs"] by (metis is_canon.simps(2))
  moreover have "ps \<noteq> []" using assms(5) by (simp add: ps_def)
  ultimately show ?thesis unfolding ms obj using ws by (intro reads_object) auto
qed

lemma reads_dumped_array:
  assumes ws: "list_all is_ws pre" "list_all is_ws w" "list_all is_ws w1" "list_all is_ws w2" and "xs \<noteq> []"
    and dumped: "all_some (map (\<lambda>x. map_option (\<lambda>v. pre @ v) (f x)) xs) = Some ms"
    and reads: "\<And>x t. x \<in> set xs \<Longrightarrow> f x = Some t \<Longrightarrow> reads t (canon x)"
  shows "reads (CHR ''['' # w1 @ join (CHR '','' # w) ms @ w2 @ '']'') (canon (JArr xs))"
proof -
  define ps where "ps = map (\<lambda>x. (the (f x), canon x)) xs"
  have some: "f x \<noteq> None" if "x \<in> set xs" for x using dumped that by (auto simp: all_some_map)
  have "ms = map (\<lambda>p. pre @ fst p) ps" using dumped some by (fastforce simp: all_some_map ps_def)
  moreover have "canon (JArr xs) = JArr (map snd ps)" by (simp add: ps_def comp_def)
  moreover have "\<forall>(t, v) \<in> set ps. reads t v" using some reads by (auto simp: ps_def)
  moreover have "ps \<noteq> []" using assms(5) by (simp add: ps_def)
  ultimately show ?thesis using ws by (simp add: reads_array)
qed

lemma reads_dumped: "dump_value pretty step cur j = Some tx \<Longrightarrow> numbers_ok j \<Longrightarrow> reads tx (canon j)"
proof (induction pretty step cur j arbitrary: tx rule: dump_value.induct)
  case (1 pretty step cur kvs)
  have ok: "numbers_ok v" if "(k, v) \<in> set kvs" for k v using 1(4) that by auto
  show ?case
  proof (cases "kvs = []")
    case True
    then show ?thesis using 1 reads_empty(2) by simp
  next
    case False
    show ?thesis
    proof (cases pretty)
      case True
      obtain ms where ms: "all_some (map (\<lambda>(k, t). (case quoted k of None \<Rightarrow> None | Some q \<Rightarrow> map_option (\<lambda>v. indent (cur + step) @ q @ CHR '':'' # '' '' @ v) t))
          (std_map (map (\<lambda>(k, v). (k, dump_value True step (cur + step) v)) kvs))) = Some ms"
        and tx: "tx = CHR ''{'' # [newline] @ join (CHR '','' # [newline]) ms @ ([newline] @ indent cur) @ ''}''"
        using 1(3) False True by (auto cong: option.case_cong)
      show ?thesis unfolding tx
        by (rule reads_dumped_object [OF _ _ _ _ False ms])
          (use 1(1) False True ok in \<open>auto simp: indent_ws newline_ws blank_ws\<close>)
    next
      case compact: False
      obtain ms where ms: "all_some (map (\<lambda>(k, t). (case quoted k of None \<Rightarrow> None | Some q \<Rightarrow> map_option (\<lambda>v. [] @ q @ CHR '':'' # [] @ v) t))
          (std_map (map (\<lambda>(k, v). (k, dump_value False step cur v)) kvs))) = Some ms"
        and tx: "tx = CHR ''{'' # [] @ join (CHR '','' # []) ms @ [] @ ''}''"
        using 1(3) False compact by (auto cong: option.case_cong)
      show ?thesis unfolding tx
        by (rule reads_dumped_object [OF _ _ _ _ False ms]) (use 1(2) False compact ok in auto)
    qed
  qed
next
  case (2 pretty step cur xs)
  show ?case
  proof (cases "xs = []")
    case True
    then show ?thesis using 2 reads_empty(1) by simp
  next
    case False
    show ?thesis
    proof (cases pretty)
      case True
      obtain ms where ms: "all_some (map (\<lambda>x. map_option (\<lambda>v. indent (cur + step) @ v) (dump_value True step (cur + step) x)) xs) = Some ms"
        and tx: "tx = CHR ''['' # [newline] @ join (CHR '','' # [newline]) ms @ ([newline] @ indent cur) @ '']''"
        using 2(3) False True by auto
      show ?thesis unfolding tx
        by (rule reads_dumped_array [OF _ _ _ _ False ms])
          (use 2(1,4) False True in \<open>auto simp: indent_ws newline_ws\<close>)
    next
      case compact: False
      obtain ms where ms: "all_some (map (\<lambda>x. map_option (\<lambda>v. [] @ v) (dump_value False step cur x)) xs) = Some ms"
        and tx: "tx = CHR ''['' # [] @ join (CHR '','' # []) ms @ [] @ '']''"
        using 2(3) False compact by (auto simp: option.map_ident)
      show ?thesis unfolding tx
        by (rule reads_dumped_array [OF _ _ _ _ False ms]) (use 2(2,4) False compact in auto)
    qed
  qed
qed (auto simp: reads_scalars reads_integer)

lemma reads_parse:
  assumes "reads text v" "\<forall>c cs. text = c # cs \<longrightarrow> c \<noteq> CHR 0xEF"
  shows "json_parse text = Inr v"
proof -
  have "skip_bom text = Some text" using assms(2) by (auto simp: skip_bom_def split: list.splits)
  then have "json_parse text = (case scan text of (t, r) \<Rightarrow>
      ebind (parse_value t r [] empty_dom) (\<lambda>(d, r'). if fst (scan r') = end_of_input then Inr (root d) else syntax_error))"
    by (simp add: json_parse_def first_scan_def)
  also have "\<dots> = ebind (case scan text of (t, r) \<Rightarrow> parse_value t r [] empty_dom)
      (\<lambda>(d, r'). if fst (scan r') = end_of_input then Inr (root d) else syntax_error)"
    by (simp split: prod.splits)
  also have "(case scan text of (t, r) \<Rightarrow> parse_value t r [] empty_dom) = next_state [] [] (handle_value v empty_dom)"
    using assms(1) [unfolded reads_def, rule_format, of "[]" "[]" empty_dom] by (simp add: delim_def)
  finally show ?thesis
    by (simp add: next_state.simps [of "[]" "[]"] empty_dom_def scan_def skip_whitespace_def)
qed

lemma dumped_first:
  assumes "dump_value pretty step cur j = Some tx" "numbers_ok j"
  shows "\<forall>c cs. tx = c # cs \<longrightarrow> c \<noteq> CHR 0xEF"
proof (intro allI impI notI)
  fix c cs
  assume "tx = c # cs" "c = CHR 0xEF"
  then have "scan tx = (parse_error, [])"
    by (simp add: scan_def skip_whitespace_def is_ws_def is_digit_def)
  moreover have "(case scan (tx @ []) of (t, r') \<Rightarrow> parse_value t r' [] empty_dom) = next_state [] [] (handle_value (canon j) empty_dom)"
    using reads_dumped [OF assms] by (auto simp: reads_def delim_def)
  ultimately show False by (simp add: parse_value.simps next_state.simps)
qed

lemma parse_dump:
  assumes "json_dump j = Inr tx" "numbers_ok j"
  shows "json_parse tx = Inr (canon j)"
proof -
  have d: "dump_value False 0 0 j = Some tx" using assms(1) by (auto simp: json_dump_def split: option.splits)
  show ?thesis using reads_parse [OF reads_dumped [OF d assms(2)] dumped_first [OF d assms(2)]] .
qed

lemma parse_dump_indent:
  assumes "json_dump_indent n j = Inr tx" "numbers_ok j"
  shows "json_parse tx = Inr (canon j)"
proof -
  have d: "dump_value True n 0 j = Some tx" using assms(1) by (auto simp: json_dump_indent_def split: option.splits)
  show ?thesis using reads_parse [OF reads_dumped [OF d assms(2)] dumped_first [OF d assms(2)]] .
qed

text \<open>Dumping fails for a text that is not UTF-8, and for no other reason.\<close>

lemma dump_value_iff: "dump_value pretty step cur j \<noteq> None \<longleftrightarrow> utf8_json (canon j)"
proof (induction pretty step cur j rule: dump_value.induct)
  case (1 pretty step cur kvs)
  have sub: "(k, v) \<in> set (std_map kvs) \<Longrightarrow> (k, v) \<in> set kvs" for k v by (rule std_map_mem)
  have all: "all_some (map (\<lambda>(k, t). case quoted k of None \<Rightarrow> None | Some q \<Rightarrow> map_option (g q) t) (std_map (map (\<lambda>(k, v). (k, f v)) kvs))) \<noteq> None
      \<longleftrightarrow> utf8_json (canon (JObj kvs))"
    if "\<And>k v. (k, v) \<in> set kvs \<Longrightarrow> (f v \<noteq> None) = utf8_json (canon v)" for f and g :: "string \<Rightarrow> string \<Rightarrow> string"
    unfolding std_map_map map_map all_some_not_None canon.simps utf8_json.simps set_map ball_simps(9)
  proof (rule ball_cong [OF refl])
    fix kv assume "kv \<in> set (std_map kvs)"
    then have "(f (snd kv) \<noteq> None) = utf8_json (canon (snd kv))" using that [of "fst kv" "snd kv"] sub [of "fst kv" "snd kv"] by (simp only: prod.collapse)
    then show "(((\<lambda>(k, t). case quoted k of None \<Rightarrow> None | Some q \<Rightarrow> map_option (g q) t) \<circ> (\<lambda>(k, v). (k, f v))) kv \<noteq> None)
        = (utf8_ok (fst (case kv of (k, v) \<Rightarrow> (k, canon v))) \<and> utf8_json (snd (case kv of (k, v) \<Rightarrow> (k, canon v))))"
      using quoted_iff [of "fst kv"] by (cases kv) (auto split: option.splits)
  qed
  have "(dump_value True step (cur + step) v \<noteq> None) = utf8_json (canon v)" if "pretty" "(k, v) \<in> set kvs" for k v
    using 1(1) [of "(k, v)" k v] that by force
  moreover have "(dump_value False step cur v \<noteq> None) = utf8_json (canon v)" if "\<not> pretty" "(k, v) \<in> set kvs" for k v
    using 1(2) [of "(k, v)" k v] that by force
  ultimately show ?case using all by (cases "kvs = []"; cases pretty) (simp_all del: canon.simps add: canon.simps(2) [of "[]"])
next
  case (2 pretty step cur xs)
  have "(dump_value True step (cur + step) x \<noteq> None) = utf8_json (canon x)" if "pretty" "x \<in> set xs" for x
    using 2(1) [of x] that by force
  moreover have "(dump_value False step cur x \<noteq> None) = utf8_json (canon x)" if "\<not> pretty" "x \<in> set xs" for x
    using 2(2) [of x] that by force
  ultimately show ?case by (cases "xs = []"; cases pretty) (auto simp: all_some_not_None [unfolded not_None_eq])
qed (use quoted_iff in auto)

lemma utf8_json_canon: "utf8_json j \<Longrightarrow> utf8_json (canon j)"
proof (induction j rule: canon.induct)
  case (2 kvs)
  then show ?case by (fastforce dest: std_map_mem)
qed auto

lemma dump_value_utf8: "utf8_json j \<Longrightarrow> dump_value pretty step cur j \<noteq> None"
  unfolding dump_value_iff by (rule utf8_json_canon)

section \<open>What the parser builds\<close>

text \<open>Parsed values: members in order, strings in UTF-8, integers of 64 bits, doubles.\<close>

definition parsed_ok :: "json \<Rightarrow> bool" where
  "parsed_ok j \<longleftrightarrow> is_canon j \<and> utf8_json j \<and> numbers_ok j"

fun token_ok :: "token_type \<Rightarrow> bool" where
  "token_ok (value_string s) = utf8_ok s"
| "token_ok (value_unsigned x) = (- (2 ^ 63) \<le> x \<and> x < 2 ^ 64)"
| "token_ok (value_integer x) = (- (2 ^ 63) \<le> x \<and> x < 2 ^ 64)"
| "token_ok (value_float (Some x)) = is_double x"
| "token_ok _ = True"

fun open_ok :: "open_container \<Rightarrow> bool" where
  "open_ok (OpenArray xs) = (\<forall>x \<in> set xs. parsed_ok x)"
| "open_ok (OpenObject kvs k) = (utf8_ok k \<and> key_sorted kvs \<and> (\<forall>kv \<in> set kvs. utf8_ok (fst kv) \<and> parsed_ok (snd kv)))"

definition dom_ok :: "dom \<Rightarrow> bool" where
  "dom_ok d \<longleftrightarrow> parsed_ok (root d) \<and> (\<forall>c \<in> set (ref_stack d). open_ok c)"

lemma strtod_token_ok [simp]: "token_ok (value_float (strtod buf))"
  using strtod_double [of buf] by (cases "strtod buf") auto

lemma scan_number_done_ok: "token_ok (scan_number_done ty buf)"
  by (cases ty) (auto simp: strtoull_def strtoll_def Let_def split: option.splits if_splits)

lemma scan_number_ok: "scan_number ch cs = Some (t, r) \<Longrightarrow> token_ok t"
proof -
  have fin: "finish_float x = Some (t, r) \<Longrightarrow> token_ok t" for x t r
    by (auto simp: finish_float_def)
  have zero: "scan_number_zero ty buf cs = Some (t, r) \<Longrightarrow> token_ok t" for ty buf cs t r
    by (cases cs) (auto split: if_splits dest: fin simp: scan_number_done_ok)
  have any1: "scan_number_any1 ty buf cs = Some (t, r) \<Longrightarrow> token_ok t" for ty buf cs t r
    by (induction ty buf cs rule: scan_number_any1.induct) (auto split: if_splits dest: fin simp: scan_number_done_ok)
  have minus: "scan_number_minus buf cs = Some (t, r) \<Longrightarrow> token_ok t" for buf cs
    by (cases cs) (auto elim!: ifE dest: zero any1 simp del: scan_number_zero.simps scan_number_any1.simps)
  show "scan_number ch cs = Some (t, r) \<Longrightarrow> token_ok t"
    unfolding scan_number_def by (elim ifE) (auto dest: zero any1 minus)
qed

lemma scan_ok: "token_ok (fst (scan cs))"
proof (cases "skip_whitespace cs")
  case (Cons ch cs')
  have lit: "token_ok (fst (scan_literal ls t cs'))" if "token_ok t" for ls t
    using scan_literal_token [of ls t cs'] that by auto
  have str: "token_ok (fst (or_error (map_option (\<lambda>(s, r). (value_string s, r)) (scan_string [] cs'))))"
    using scan_string_utf8 [of "[]" cs'] by (auto simp: or_error_def split: option.splits)
  have num: "token_ok (fst (or_error (scan_number ch cs')))"
    using scan_number_ok [of ch cs'] by (auto simp: or_error_def split: option.splits)
  show ?thesis using lit str num by (simp add: scan_def Cons)
qed (simp add: scan_def)

lemma parsed_ok_simps [simp]:
  "parsed_ok JNull" "parsed_ok (JBool b)" "parsed_ok (JFloat x) \<longleftrightarrow> is_double x" "parsed_ok (JStr s) \<longleftrightarrow> utf8_ok s"
  "parsed_ok (JInt i) \<longleftrightarrow> - (2 ^ 63) \<le> i \<and> i < 2 ^ 64" "parsed_ok (JArr xs) \<longleftrightarrow> (\<forall>x \<in> set xs. parsed_ok x)"
  "parsed_ok (JObj kvs) \<longleftrightarrow> key_sorted kvs \<and> (\<forall>kv \<in> set kvs. utf8_ok (fst kv) \<and> parsed_ok (snd kv))"
  by (auto simp: parsed_ok_def)

lemma dom_ok_handle: "dom_ok d \<Longrightarrow> parsed_ok v \<Longrightarrow> dom_ok (handle_value v d)"
proof (induction v d rule: handle_value.induct)
  case (3 v r kvs k st)
  then show ?case
    using set_map_put [of k v kvs] by (fastforce simp: dom_ok_def intro!: key_sorted_map_put)
qed (auto simp: dom_ok_def)

lemma dom_ok_sax:
  "dom_ok d \<Longrightarrow> dom_ok (start_object d)" "dom_ok d \<Longrightarrow> dom_ok (start_array d)"
  "dom_ok d \<Longrightarrow> utf8_ok k \<Longrightarrow> dom_ok (sax_key k d)" "dom_ok d \<Longrightarrow> dom_ok (sax_end d)"
proof -
  show "dom_ok d \<Longrightarrow> utf8_ok k \<Longrightarrow> dom_ok (sax_key k d)"
    by (induction k d rule: sax_key.induct) (auto simp: dom_ok_def)
  show "dom_ok d \<Longrightarrow> dom_ok (sax_end d)"
    by (induction d rule: sax_end.induct) (auto simp: dom_ok_def intro!: dom_ok_handle [unfolded dom_ok_def])
qed (auto simp: dom_ok_def start_object_def start_array_def)

lemma scan_token_ok: "(t, r) = scan cs \<Longrightarrow> token_ok t"
  using scan_ok [of cs] by (metis fst_conv)

definition result_ok :: "exn + dom \<times> string \<Rightarrow> bool" where
  "result_ok x \<longleftrightarrow> (case x of Inl e \<Rightarrow> e \<in> {JsonException 101, JsonException 406} | Inr (d, r) \<Rightarrow> dom_ok d)"

lemma result_ok_error [simp]: "result_ok syntax_error" "result_ok (Inl (JsonException 406))"
  by (simp_all add: result_ok_def)

lemma result_ok_scan:
  "(\<And>t r. (t, r) = scan cs \<Longrightarrow> token_ok t \<Longrightarrow> result_ok (f t r)) \<Longrightarrow> result_ok (case scan cs of (t, r) \<Rightarrow> f t r)"
  using scan_token_ok [of _ _ cs] by (auto split: prod.split)

lemma result_ok_key:
  "(\<And>k. t = value_string k \<Longrightarrow> result_ok (f k)) \<Longrightarrow> (t = end_object \<Longrightarrow> result_ok g) \<Longrightarrow>
   result_ok (case t of value_string k \<Rightarrow> f k | end_object \<Rightarrow> g | _ \<Rightarrow> syntax_error)"
  by (cases t) auto

lemma parse_value_ok:
  "token_ok t \<longrightarrow> dom_ok d \<longrightarrow> result_ok (parse_value t cs st d)"
  "dom_ok d \<longrightarrow> result_ok (next_state cs st d)"
proof (induction t cs st d and cs st d rule: parse_value_next_state.induct)
  case (1 t cs st d)
  show ?case
  proof (intro impI)
    assume ok: "token_ok t" "dom_ok d"
    show "result_ok (parse_value t cs st d)"
    proof (cases t)
      case begin_array
      show ?thesis unfolding begin_array parse_value.simps [of begin_array] token_type.case
        by (rule result_ok_scan) (use 1(8,9) begin_array ok dom_ok_sax in auto)
    next
      case begin_object
      show ?thesis unfolding begin_object parse_value.simps [of begin_object] token_type.case
      proof (rule result_ok_scan, rule result_ok_key)
        fix t1 r1 k
        assume s1: "(t1, r1) = scan cs" "token_ok t1" and k: "t1 = value_string k"
        have "result_ok (parse_value t3 r3 (False # st) (sax_key k (start_object d)))"
          if "(t2, r2) = scan r1" "t2 = name_separator" "(t3, r3) = scan r2" "token_ok t3" for t2 r2 t3 r3
          using 1(10) [OF begin_object s1(1) k that(1-3)] that s1 k ok dom_ok_sax by simp
        then show "result_ok (case scan r1 of (t2, r2) \<Rightarrow> if t2 = name_separator
            then case scan r2 of (t3, r3) \<Rightarrow> parse_value t3 r3 (False # st) (sax_key k (start_object d)) else syntax_error)"
          by (intro result_ok_scan) (auto intro!: result_ok_scan)
      qed (use 1(11) begin_object ok dom_ok_sax in auto)
    qed (use 1(1-7) ok dom_ok_handle in \<open>auto simp: parse_value.simps split: option.split\<close>)
  qed
next
  case (2 cs st d)
  show ?case
  proof (intro impI)
    assume ok: "dom_ok d"
    consider (root) "st = []" | (arr) ss where "st = True # ss" | (obj) ss where "st = False # ss"
      by (cases st; cases "hd st") auto
    then show "result_ok (next_state cs st d)"
    proof cases
      case root
      then show ?thesis using ok by (simp add: next_state.simps result_ok_def)
    next
      case arr
      have "result_ok (parse_value t2 r2 st d)"
        if "(t1, r1) = scan cs" "t1 = value_separator" "(t2, r2) = scan r1" "token_ok t2" for t1 r1 t2 r2
        using 2(1) [OF arr refl that(1-3)] that ok by simp
      moreover have "result_ok (next_state r1 ss (sax_end d))" if "(t1, r1) = scan cs" "t1 = end_array" for t1 r1
        using 2(2) [OF arr refl that(1)] that ok dom_ok_sax by simp
      ultimately show ?thesis
        unfolding next_state.simps [of cs st d] by (simp add: arr) (rule result_ok_scan, auto simp: arr intro!: result_ok_scan)
    next
      case obj
      have "result_ok (parse_value t4 r4 st (sax_key k d))"
        if "(t1, r1) = scan cs" "t1 = value_separator" "(t2, r2) = scan r1" "t2 = value_string k" "token_ok t2"
          "(t3, r3) = scan r2" "t3 = name_separator" "(t4, r4) = scan r3" "token_ok t4" for t1 r1 t2 r2 k t3 r3 t4 r4
        using 2(3) [OF obj refl that(1-4,6-8)] that ok dom_ok_sax by simp
      then have member: "result_ok (case scan r1 of (t2, r2) \<Rightarrow>
          (case t2 of value_string k \<Rightarrow> (case scan r2 of (t3, r3) \<Rightarrow>
             if t3 = name_separator then (case scan r3 of (t4, r4) \<Rightarrow> parse_value t4 r4 st (sax_key k d)) else syntax_error)
           | _ \<Rightarrow> syntax_error))" if "(value_separator, r1) = scan cs" for r1
        using that by (intro result_ok_scan) (auto split: token_type.split intro!: result_ok_scan)
      moreover have "result_ok (next_state r1 ss (sax_end d))" if "(t1, r1) = scan cs" "t1 = end_object" for t1 r1
        using 2(4) [OF obj refl that(1)] that ok dom_ok_sax by simp
      ultimately show ?thesis
        unfolding next_state.simps [of cs st d] by (simp add: obj) (rule result_ok_scan, auto simp: obj)
    qed
  qed
qed

lemma parse_first_ok: "first_scan tx = (t, r) \<Longrightarrow> result_ok (parse_value t r [] empty_dom)"
proof -
  assume fs: "first_scan tx = (t, r)"
  have "token_ok t" using fs scan_ok by (auto simp: first_scan_def split: option.splits) (metis fst_conv)
  moreover have "dom_ok empty_dom" by (simp add: dom_ok_def empty_dom_def)
  ultimately show ?thesis using parse_value_ok(1) by blast
qed

lemma json_parse_ok:
  assumes "json_parse tx = Inr j"
  shows "parsed_ok j"
proof -
  obtain t r where fs: "first_scan tx = (t, r)" by (cases "first_scan tx")
  then obtain d r' where pv: "parse_value t r [] empty_dom = Inr (d, r')" "j = root d"
    using assms by (auto simp: json_parse_def ebind_Inr_iff split: if_splits)
  have "dom_ok d" using parse_first_ok [OF fs] pv(1) by (simp add: result_ok_def)
  then show ?thesis using pv(2) by (simp add: dom_ok_def)
qed

lemma json_parse_error:
  assumes "json_parse tx = Inl e"
  shows "e \<in> {JsonException 101, JsonException 406}"
proof -
  obtain t r where fs: "first_scan tx = (t, r)" by (cases "first_scan tx")
  show ?thesis
    using assms parse_first_ok [OF fs]
    by (cases "parse_value t r [] empty_dom") (auto simp: json_parse_def fs result_ok_def split: if_splits prod.splits)
qed

end
