(* ===== verification/Dto_Account.thy ===== *)
theory Dto_Account
  imports Json
begin

text \<open>
  The account, membership and home-screen messages of \<^verbatim>\<open>dto/BaseDTO.h\<close>, \<^verbatim>\<open>dto/AccountDTO.h\<close>: one record per struct
  (field \<open>f\<close> of \<^verbatim>\<open>struct XDTO\<close> is \<open>X_f\<close>), its value-initialised object \<open>default_XDTO\<close>, and the two
  conversions the \<^verbatim>\<open>NLOHMANN_DEFINE_TYPE_INTRUSIVE\<close> macros or the hand-written
  \<^verbatim>\<open>to_json\<close>/\<^verbatim>\<open>from_json\<close> give.  Members of an object are listed in the order of the source; the
  order carries no meaning.
\<close>

section \<open>\<^verbatim>\<open>BaseDTO.h\<close>\<close>

record BaseResponseDTO =
  BaseResponse_status :: "int"
  BaseResponse_message :: "string"

definition default_BaseResponseDTO :: BaseResponseDTO where
  "default_BaseResponseDTO =
     \<lparr>BaseResponse_status = 0, BaseResponse_message = ''''\<rparr>"

definition from_json_BaseResponseDTO :: "json \<Rightarrow> exn + BaseResponseDTO" where
  "from_json_BaseResponseDTO j =
     ebind (j_at get_int j ''status'') (\<lambda>x0.
     ebind (j_at get_string j ''message'') (\<lambda>x1.
     Inr \<lparr>BaseResponse_status = x0, BaseResponse_message = x1\<rparr>))"

definition to_json_BaseResponseDTO :: "BaseResponseDTO \<Rightarrow> json" where
  "to_json_BaseResponseDTO dto = JObj
     [(''status'', JInt (BaseResponse_status dto)),
      (''message'', JStr (BaseResponse_message dto))]"

record CategoryItem =
  CategoryItem_id :: "int"
  CategoryItem_name :: "string"
  CategoryItem_iconPath :: "string"

definition default_CategoryItem :: CategoryItem where
  "default_CategoryItem =
     \<lparr>CategoryItem_id = 0, CategoryItem_name = '''', CategoryItem_iconPath = ''''\<rparr>"

definition from_json_CategoryItem :: "json \<Rightarrow> exn + CategoryItem" where
  "from_json_CategoryItem j =
     ebind (j_at get_int j ''id'') (\<lambda>x0.
     ebind (j_at get_string j ''name'') (\<lambda>x1.
     ebind (j_at get_string j ''iconPath'') (\<lambda>x2.
     Inr \<lparr>CategoryItem_id = x0, CategoryItem_name = x1, CategoryItem_iconPath = x2\<rparr>)))"

definition to_json_CategoryItem :: "CategoryItem \<Rightarrow> json" where
  "to_json_CategoryItem dto = JObj
     [(''id'', JInt (CategoryItem_id dto)), (''name'', JStr (CategoryItem_name dto)),
      (''iconPath'', JStr (CategoryItem_iconPath dto))]"

record BrandCategoryItem =
  BrandCategoryItem_brandName :: "string"

definition default_BrandCategoryItem :: BrandCategoryItem where
  "default_BrandCategoryItem =
     \<lparr>BrandCategoryItem_brandName = ''''\<rparr>"

definition from_json_BrandCategoryItem :: "json \<Rightarrow> exn + BrandCategoryItem" where
  "from_json_BrandCategoryItem j =
     ebind (j_at get_string j ''brandName'') (\<lambda>x0.
     Inr \<lparr>BrandCategoryItem_brandName = x0\<rparr>)"

definition to_json_BrandCategoryItem :: "BrandCategoryItem \<Rightarrow> json" where
  "to_json_BrandCategoryItem dto = JObj
     [(''brandName'', JStr (BrandCategoryItem_brandName dto))]"

record TopStoreInfo =
  TopStoreInfo_storeId :: "int"
  TopStoreInfo_storeName :: "string"
  TopStoreInfo_category :: "string"
  TopStoreInfo_brandName :: "string"
  TopStoreInfo_minOrderPrice :: "int"
  TopStoreInfo_deliveryTime :: "string"
  TopStoreInfo_deliveryFee :: "int"
  TopStoreInfo_iconPath :: "string"
  TopStoreInfo_deliveryTimeRange :: "string"
  TopStoreInfo_pickupTime :: "string"
  TopStoreInfo_rating :: "rat"
  TopStoreInfo_reviewCount :: "int"
  TopStoreInfo_minOrderAmount :: "int"
  TopStoreInfo_grade :: "string"

definition default_TopStoreInfo :: TopStoreInfo where
  "default_TopStoreInfo =
     \<lparr>TopStoreInfo_storeId = 0, TopStoreInfo_storeName = '''', TopStoreInfo_category = '''',
      TopStoreInfo_brandName = '''', TopStoreInfo_minOrderPrice = 0,
      TopStoreInfo_deliveryTime = '''', TopStoreInfo_deliveryFee = 0,
      TopStoreInfo_iconPath = '''', TopStoreInfo_deliveryTimeRange = '''',
      TopStoreInfo_pickupTime = '''', TopStoreInfo_rating = 0, TopStoreInfo_reviewCount = 0,
      TopStoreInfo_minOrderAmount = 0, TopStoreInfo_grade = ''''\<rparr>"

definition from_json_TopStoreInfo :: "json \<Rightarrow> exn + TopStoreInfo" where
  "from_json_TopStoreInfo j =
     ebind (j_at get_int j ''storeId'') (\<lambda>x0.
     ebind (j_at get_string j ''storeName'') (\<lambda>x1.
     ebind (j_at get_string j ''category'') (\<lambda>x2.
     ebind (j_at get_string j ''brandName'') (\<lambda>x3.
     ebind (j_at get_int j ''minOrderPrice'') (\<lambda>x4.
     ebind (j_at get_string j ''deliveryTime'') (\<lambda>x5.
     ebind (j_at get_int j ''deliveryFee'') (\<lambda>x6.
     ebind (j_at get_string j ''iconPath'') (\<lambda>x7.
     ebind (j_at get_string j ''deliveryTimeRange'') (\<lambda>x8.
     ebind (j_at get_string j ''pickupTime'') (\<lambda>x9.
     ebind (j_at get_double j ''rating'') (\<lambda>x10.
     ebind (j_at get_int j ''reviewCount'') (\<lambda>x11.
     ebind (j_at get_int j ''minOrderAmount'') (\<lambda>x12.
     ebind (j_at get_string j ''grade'') (\<lambda>x13.
     Inr \<lparr>TopStoreInfo_storeId = x0, TopStoreInfo_storeName = x1, TopStoreInfo_category = x2,
          TopStoreInfo_brandName = x3, TopStoreInfo_minOrderPrice = x4,
          TopStoreInfo_deliveryTime = x5, TopStoreInfo_deliveryFee = x6,
          TopStoreInfo_iconPath = x7, TopStoreInfo_deliveryTimeRange = x8,
          TopStoreInfo_pickupTime = x9, TopStoreInfo_rating = x10,
          TopStoreInfo_reviewCount = x11, TopStoreInfo_minOrderAmount = x12,
          TopStoreInfo_grade = x13\<rparr>))))))))))))))"

definition to_json_TopStoreInfo :: "TopStoreInfo \<Rightarrow> json" where
  "to_json_TopStoreInfo dto = JObj
     [(''storeId'', JInt (TopStoreInfo_storeId dto)),
      (''storeName'', JStr (TopStoreInfo_storeName dto)),
      (''category'', JStr (TopStoreInfo_category dto)),
      (''brandName'', JStr (TopStoreInfo_brandName dto)),
      (''minOrderPrice'', JInt (TopStoreInfo_minOrderPrice dto)),
      (''deliveryTime'', JStr (TopStoreInfo_deliveryTime dto)),
      (''deliveryFee'', JInt (TopStoreInfo_deliveryFee dto)),
      (''iconPath'', JStr (TopStoreInfo_iconPath dto)),
      (''deliveryTimeRange'', JStr (TopStoreInfo_deliveryTimeRange dto)),
      (''pickupTime'', JStr (TopStoreInfo_pickupTime dto)),
      (''rating'', JFloat (TopStoreInfo_rating dto)),
      (''reviewCount'', JInt (TopStoreInfo_reviewCount dto)),
      (''minOrderAmount'', JInt (TopStoreInfo_minOrderAmount dto)),
      (''grade'', JStr (TopStoreInfo_grade dto))]"

record MainHomeResDTO =
  MainHomeRes_status :: "int"
  MainHomeRes_categories :: "CategoryItem list"
  MainHomeRes_brandCategories :: "BrandCategoryItem list"
  MainHomeRes_topStores :: "TopStoreInfo list"

definition default_MainHomeResDTO :: MainHomeResDTO where
  "default_MainHomeResDTO =
     \<lparr>MainHomeRes_status = 200, MainHomeRes_categories = [],
      MainHomeRes_brandCategories = [], MainHomeRes_topStores = []\<rparr>"

definition from_json_MainHomeResDTO :: "json \<Rightarrow> exn + MainHomeResDTO" where
  "from_json_MainHomeResDTO j =
     ebind (j_at get_int j ''status'') (\<lambda>x0.
     ebind (j_at (get_vector from_json_CategoryItem) j ''categories'') (\<lambda>x1.
     ebind (j_at (get_vector from_json_BrandCategoryItem) j ''brandCategories'') (\<lambda>x2.
     ebind (j_at (get_vector from_json_TopStoreInfo) j ''topStores'') (\<lambda>x3.
     Inr \<lparr>MainHomeRes_status = x0, MainHomeRes_categories = x1, MainHomeRes_brandCategories = x2,
          MainHomeRes_topStores = x3\<rparr>))))"

definition to_json_MainHomeResDTO :: "MainHomeResDTO \<Rightarrow> json" where
  "to_json_MainHomeResDTO dto = JObj
     [(''status'', JInt (MainHomeRes_status dto)),
      (''categories'', JArr (map to_json_CategoryItem (MainHomeRes_categories dto))),
      (''brandCategories'', JArr (map to_json_BrandCategoryItem (MainHomeRes_brandCategories dto))),
      (''topStores'', JArr (map to_json_TopStoreInfo (MainHomeRes_topStores dto)))]"

record CategoryListResDTO =
  CategoryListRes_status :: "int"
  CategoryListRes_categories :: "CategoryItem list"

definition default_CategoryListResDTO :: CategoryListResDTO where
  "default_CategoryListResDTO =
     \<lparr>CategoryListRes_status = 200, CategoryListRes_categories = []\<rparr>"

definition from_json_CategoryListResDTO :: "json \<Rightarrow> exn + CategoryListResDTO" where
  "from_json_CategoryListResDTO j =
     ebind (j_at get_int j ''status'') (\<lambda>x0.
     ebind (j_at (get_vector from_json_CategoryItem) j ''categories'') (\<lambda>x1.
     Inr \<lparr>CategoryListRes_status = x0, CategoryListRes_categories = x1\<rparr>))"

definition to_json_CategoryListResDTO :: "CategoryListResDTO \<Rightarrow> json" where
  "to_json_CategoryListResDTO dto = JObj
     [(''status'', JInt (CategoryListRes_status dto)),
      (''categories'', JArr (map to_json_CategoryItem (CategoryListRes_categories dto)))]"

record ReqGradeUpdateDTO =
  ReqGradeUpdate_userId :: "string"
  ReqGradeUpdate_grade :: "string"
  ReqGradeUpdate_action :: "int"

definition default_ReqGradeUpdateDTO :: ReqGradeUpdateDTO where
  "default_ReqGradeUpdateDTO =
     \<lparr>ReqGradeUpdate_userId = '''', ReqGradeUpdate_grade = '''', ReqGradeUpdate_action = 0\<rparr>"

definition from_json_ReqGradeUpdateDTO :: "json \<Rightarrow> exn + ReqGradeUpdateDTO" where
  "from_json_ReqGradeUpdateDTO j =
     ebind (j_at get_string j ''userId'') (\<lambda>x0.
     ebind (j_at get_string j ''grade'') (\<lambda>x1.
     ebind (j_at get_int j ''action'') (\<lambda>x2.
     Inr \<lparr>ReqGradeUpdate_userId = x0, ReqGradeUpdate_grade = x1, ReqGradeUpdate_action = x2\<rparr>)))"

definition to_json_ReqGradeUpdateDTO :: "ReqGradeUpdateDTO \<Rightarrow> json" where
  "to_json_ReqGradeUpdateDTO dto = JObj
     [(''userId'', JStr (ReqGradeUpdate_userId dto)),
      (''grade'', JStr (ReqGradeUpdate_grade dto)),
      (''action'', JInt (ReqGradeUpdate_action dto))]"

record ResGradeUpdateDTO =
  ResGradeUpdate_status :: "int"
  ResGradeUpdate_message :: "string"

definition default_ResGradeUpdateDTO :: ResGradeUpdateDTO where
  "default_ResGradeUpdateDTO =
     \<lparr>ResGradeUpdate_status = 0, ResGradeUpdate_message = ''''\<rparr>"

definition from_json_ResGradeUpdateDTO :: "json \<Rightarrow> exn + ResGradeUpdateDTO" where
  "from_json_ResGradeUpdateDTO j =
     ebind (j_at get_int j ''status'') (\<lambda>x0.
     ebind (j_at get_string j ''message'') (\<lambda>x1.
     Inr \<lparr>ResGradeUpdate_status = x0, ResGradeUpdate_message = x1\<rparr>))"

definition to_json_ResGradeUpdateDTO :: "ResGradeUpdateDTO \<Rightarrow> json" where
  "to_json_ResGradeUpdateDTO dto = JObj
     [(''status'', JInt (ResGradeUpdate_status dto)),
      (''message'', JStr (ResGradeUpdate_message dto))]"

section \<open>\<^verbatim>\<open>AccountDTO.h\<close>\<close>

record SignupReqDTO =
  SignupReq_userId :: "string"
  SignupReq_password :: "string"
  SignupReq_userName :: "string"
  SignupReq_phoneNumber :: "string"
  SignupReq_role :: "int"
  SignupReq_address :: "string"
  SignupReq_businessNumber :: "string"
  SignupReq_accountNumber :: "string"
  SignupReq_storeName :: "string"
  SignupReq_category :: "string"
  SignupReq_storeAddress :: "string"

definition default_SignupReqDTO :: SignupReqDTO where
  "default_SignupReqDTO =
     \<lparr>SignupReq_userId = '''', SignupReq_password = '''', SignupReq_userName = '''',
      SignupReq_phoneNumber = '''', SignupReq_role = 0, SignupReq_address = '''',
      SignupReq_businessNumber = '''', SignupReq_accountNumber = '''',
      SignupReq_storeName = '''', SignupReq_category = '''', SignupReq_storeAddress = ''''\<rparr>"

definition from_json_SignupReqDTO :: "json \<Rightarrow> exn + SignupReqDTO" where
  "from_json_SignupReqDTO j =
     ebind (j_at get_string j ''userId'') (\<lambda>x0.
     ebind (j_at get_string j ''password'') (\<lambda>x1.
     ebind (j_at get_string j ''userName'') (\<lambda>x2.
     ebind (j_at get_string j ''phoneNumber'') (\<lambda>x3.
     ebind (j_at get_int j ''role'') (\<lambda>x4.
     ebind (j_value get_string j ''address'' '''') (\<lambda>x5.
     ebind (j_value get_string j ''businessNumber'' '''') (\<lambda>x6.
     ebind (j_value get_string j ''accountNumber'' '''') (\<lambda>x7.
     ebind (j_value get_string j ''storeName'' '''') (\<lambda>x8.
     ebind (j_value get_string j ''category'' '''') (\<lambda>x9.
     ebind (j_value get_string j ''storeAddress'' '''') (\<lambda>x10.
     Inr \<lparr>SignupReq_userId = x0, SignupReq_password = x1, SignupReq_userName = x2,
          SignupReq_phoneNumber = x3, SignupReq_role = x4, SignupReq_address = x5,
          SignupReq_businessNumber = x6, SignupReq_accountNumber = x7, SignupReq_storeName = x8,
          SignupReq_category = x9, SignupReq_storeAddress = x10\<rparr>)))))))))))"

definition to_json_SignupReqDTO :: "SignupReqDTO \<Rightarrow> json" where
  "to_json_SignupReqDTO dto = JObj
     [(''userId'', JStr (SignupReq_userId dto)),
      (''password'', JStr (SignupReq_password dto)),
      (''userName'', JStr (SignupReq_userName dto)),
      (''phoneNumber'', JStr (SignupReq_phoneNumber dto)),
      (''role'', JInt (SignupReq_role dto)), (''address'', JStr (SignupReq_address dto)),
      (''businessNumber'', JStr (SignupReq_businessNumber dto)),
      (''accountNumber'', JStr (SignupReq_accountNumber dto)),
      (''storeName'', JStr (SignupReq_storeName dto)),
      (''category'', JStr (SignupReq_category dto)),
      (''storeAddress'', JStr (SignupReq_storeAddress dto))]"

record LoginReqDTO =
  LoginReq_userId :: "string"
  LoginReq_password :: "string"
  LoginReq_role :: "int"

definition default_LoginReqDTO :: LoginReqDTO where
  "default_LoginReqDTO =
     \<lparr>LoginReq_userId = '''', LoginReq_password = '''', LoginReq_role = 0\<rparr>"

definition from_json_LoginReqDTO :: "json \<Rightarrow> exn + LoginReqDTO" where
  "from_json_LoginReqDTO j =
     ebind (j_at get_string j ''userId'') (\<lambda>x0.
     ebind (j_at get_string j ''password'') (\<lambda>x1.
     ebind (j_at get_int j ''role'') (\<lambda>x2.
     Inr \<lparr>LoginReq_userId = x0, LoginReq_password = x1, LoginReq_role = x2\<rparr>)))"

definition to_json_LoginReqDTO :: "LoginReqDTO \<Rightarrow> json" where
  "to_json_LoginReqDTO dto = JObj
     [(''userId'', JStr (LoginReq_userId dto)), (''password'', JStr (LoginReq_password dto)),
      (''role'', JInt (LoginReq_role dto))]"

record LoginResDTO =
  LoginRes_status :: "int"
  LoginRes_message :: "string"
  LoginRes_userName :: "string"
  LoginRes_address :: "string"
  LoginRes_phoneNumber :: "string"
  LoginRes_role :: "string"
  LoginRes_storeName :: "string"
  LoginRes_grade :: "string"

definition default_LoginResDTO :: LoginResDTO where
  "default_LoginResDTO =
     \<lparr>LoginRes_status = 0, LoginRes_message = '''', LoginRes_userName = '''',
      LoginRes_address = '''', LoginRes_phoneNumber = '''', LoginRes_role = '''',
      LoginRes_storeName = '''', LoginRes_grade = ''''\<rparr>"

definition from_json_LoginResDTO :: "json \<Rightarrow> exn + LoginResDTO" where
  "from_json_LoginResDTO j =
     ebind (j_at get_int j ''status'') (\<lambda>x0.
     ebind (j_at get_string j ''message'') (\<lambda>x1.
     ebind (j_at get_string j ''userName'') (\<lambda>x2.
     ebind (j_at get_string j ''address'') (\<lambda>x3.
     ebind (j_at get_string j ''phoneNumber'') (\<lambda>x4.
     ebind (j_at get_string j ''role'') (\<lambda>x5.
     ebind (j_at get_string j ''storeName'') (\<lambda>x6.
     ebind (j_at get_string j ''grade'') (\<lambda>x7.
     Inr \<lparr>LoginRes_status = x0, LoginRes_message = x1, LoginRes_userName = x2,
          LoginRes_address = x3, LoginRes_phoneNumber = x4, LoginRes_role = x5,
          LoginRes_storeName = x6, LoginRes_grade = x7\<rparr>))))))))"

definition to_json_LoginResDTO :: "LoginResDTO \<Rightarrow> json" where
  "to_json_LoginResDTO dto = JObj
     [(''status'', JInt (LoginRes_status dto)), (''message'', JStr (LoginRes_message dto)),
      (''userName'', JStr (LoginRes_userName dto)),
      (''address'', JStr (LoginRes_address dto)),
      (''phoneNumber'', JStr (LoginRes_phoneNumber dto)),
      (''role'', JStr (LoginRes_role dto)), (''storeName'', JStr (LoginRes_storeName dto)),
      (''grade'', JStr (LoginRes_grade dto))]"

record AuthResDTO =
  AuthRes_status :: "int"
  AuthRes_userId :: "string"
  AuthRes_address :: "string"
  AuthRes_message :: "string"
  AuthRes_userName :: "string"
  AuthRes_phoneNumber :: "string"
  AuthRes_role :: "string"
  AuthRes_errorType :: "string"
  AuthRes_grade :: "string"
  AuthRes_storeId :: "int"
  AuthRes_businessNumber :: "string"
  AuthRes_storeName :: "string"
  AuthRes_category :: "string"
  AuthRes_storeAddress :: "string"
  AuthRes_cookTime :: "string"
  AuthRes_minOrderAmount :: "string"
  AuthRes_openTime :: "string"
  AuthRes_closeTime :: "string"
  AuthRes_accountNumber :: "string"
  AuthRes_deliveryFee :: "int"
  AuthRes_approvalStatus :: "int"

definition default_AuthResDTO :: AuthResDTO where
  "default_AuthResDTO =
     \<lparr>AuthRes_status = 0, AuthRes_userId = '''', AuthRes_address = '''',
      AuthRes_message = '''', AuthRes_userName = '''', AuthRes_phoneNumber = '''',
      AuthRes_role = '''', AuthRes_errorType = '''', AuthRes_grade = '''',
      AuthRes_storeId = 0, AuthRes_businessNumber = '''', AuthRes_storeName = '''',
      AuthRes_category = '''', AuthRes_storeAddress = '''', AuthRes_cookTime = '''',
      AuthRes_minOrderAmount = '''', AuthRes_openTime = '''', AuthRes_closeTime = '''',
      AuthRes_accountNumber = '''', AuthRes_deliveryFee = 0, AuthRes_approvalStatus = 0\<rparr>"

definition from_json_AuthResDTO :: "json \<Rightarrow> exn + AuthResDTO" where
  "from_json_AuthResDTO j =
     ebind (j_at get_int j ''status'') (\<lambda>x0.
     ebind (j_at get_string j ''message'') (\<lambda>x1.
     ebind (j_at get_string j ''userId'') (\<lambda>x2.
     ebind (j_at get_string j ''address'') (\<lambda>x3.
     ebind (j_at get_string j ''userName'') (\<lambda>x4.
     ebind (j_at get_string j ''phoneNumber'') (\<lambda>x5.
     ebind (j_at get_string j ''role'') (\<lambda>x6.
     ebind (j_at get_string j ''errorType'') (\<lambda>x7.
     ebind (j_at get_int j ''storeId'') (\<lambda>x8.
     ebind (j_at get_string j ''storeName'') (\<lambda>x9.
     ebind (j_at get_string j ''category'') (\<lambda>x10.
     ebind (j_at get_string j ''storeAddress'') (\<lambda>x11.
     ebind (j_at get_string j ''cookTime'') (\<lambda>x12.
     ebind (j_at get_string j ''minOrderAmount'') (\<lambda>x13.
     ebind (j_at get_string j ''openTime'') (\<lambda>x14.
     ebind (j_at get_string j ''closeTime'') (\<lambda>x15.
     ebind (j_at get_string j ''accountNumber'') (\<lambda>x16.
     ebind (j_at get_int j ''deliveryFee'') (\<lambda>x17.
     ebind (j_at get_int j ''approvalStatus'') (\<lambda>x18.
     ebind (j_at get_string j ''businessNumber'') (\<lambda>x19.
     ebind (j_at get_string j ''grade'') (\<lambda>x20.
     Inr \<lparr>AuthRes_status = x0, AuthRes_userId = x2, AuthRes_address = x3, AuthRes_message = x1,
          AuthRes_userName = x4, AuthRes_phoneNumber = x5, AuthRes_role = x6,
          AuthRes_errorType = x7, AuthRes_grade = x20, AuthRes_storeId = x8,
          AuthRes_businessNumber = x19, AuthRes_storeName = x9, AuthRes_category = x10,
          AuthRes_storeAddress = x11, AuthRes_cookTime = x12, AuthRes_minOrderAmount = x13,
          AuthRes_openTime = x14, AuthRes_closeTime = x15, AuthRes_accountNumber = x16,
          AuthRes_deliveryFee = x17, AuthRes_approvalStatus = x18\<rparr>)))))))))))))))))))))"

definition to_json_AuthResDTO :: "AuthResDTO \<Rightarrow> json" where
  "to_json_AuthResDTO dto = JObj
     [(''status'', JInt (AuthRes_status dto)), (''message'', JStr (AuthRes_message dto)),
      (''userId'', JStr (AuthRes_userId dto)), (''address'', JStr (AuthRes_address dto)),
      (''userName'', JStr (AuthRes_userName dto)),
      (''phoneNumber'', JStr (AuthRes_phoneNumber dto)), (''role'', JStr (AuthRes_role dto)),
      (''errorType'', JStr (AuthRes_errorType dto)),
      (''storeId'', JInt (AuthRes_storeId dto)),
      (''storeName'', JStr (AuthRes_storeName dto)),
      (''category'', JStr (AuthRes_category dto)),
      (''storeAddress'', JStr (AuthRes_storeAddress dto)),
      (''cookTime'', JStr (AuthRes_cookTime dto)),
      (''minOrderAmount'', JStr (AuthRes_minOrderAmount dto)),
      (''openTime'', JStr (AuthRes_openTime dto)),
      (''closeTime'', JStr (AuthRes_closeTime dto)),
      (''accountNumber'', JStr (AuthRes_accountNumber dto)),
      (''deliveryFee'', JInt (AuthRes_deliveryFee dto)),
      (''approvalStatus'', JInt (AuthRes_approvalStatus dto)),
      (''businessNumber'', JStr (AuthRes_businessNumber dto)),
      (''grade'', JStr (AuthRes_grade dto))]"

record AuthCheckReqDTO =
  AuthCheckReq_userId :: "string"

definition default_AuthCheckReqDTO :: AuthCheckReqDTO where
  "default_AuthCheckReqDTO =
     \<lparr>AuthCheckReq_userId = ''''\<rparr>"

definition from_json_AuthCheckReqDTO :: "json \<Rightarrow> exn + AuthCheckReqDTO" where
  "from_json_AuthCheckReqDTO j =
     ebind (j_at get_string j ''userId'') (\<lambda>x0.
     Inr \<lparr>AuthCheckReq_userId = x0\<rparr>)"

definition to_json_AuthCheckReqDTO :: "AuthCheckReqDTO \<Rightarrow> json" where
  "to_json_AuthCheckReqDTO dto = JObj
     [(''userId'', JStr (AuthCheckReq_userId dto))]"

record AuthCheckResDTO =
  AuthCheckRes_status :: "int"
  AuthCheckRes_isAvailable :: "bool"
  AuthCheckRes_message :: "string"

definition default_AuthCheckResDTO :: AuthCheckResDTO where
  "default_AuthCheckResDTO =
     \<lparr>AuthCheckRes_status = 0, AuthCheckRes_isAvailable = False, AuthCheckRes_message = ''''\<rparr>"

definition from_json_AuthCheckResDTO :: "json \<Rightarrow> exn + AuthCheckResDTO" where
  "from_json_AuthCheckResDTO j =
     ebind (j_at get_int j ''status'') (\<lambda>x0.
     ebind (j_at get_bool j ''isAvailable'') (\<lambda>x1.
     ebind (j_at get_string j ''message'') (\<lambda>x2.
     Inr \<lparr>AuthCheckRes_status = x0, AuthCheckRes_isAvailable = x1, AuthCheckRes_message = x2\<rparr>)))"

definition to_json_AuthCheckResDTO :: "AuthCheckResDTO \<Rightarrow> json" where
  "to_json_AuthCheckResDTO dto = JObj
     [(''status'', JInt (AuthCheckRes_status dto)),
      (''isAvailable'', JBool (AuthCheckRes_isAvailable dto)),
      (''message'', JStr (AuthCheckRes_message dto))]"

record PhoneCheckReqDTO =
  PhoneCheckReq_phoneNumber :: "string"
  PhoneCheckReq_role :: "int"

definition default_PhoneCheckReqDTO :: PhoneCheckReqDTO where
  "default_PhoneCheckReqDTO =
     \<lparr>PhoneCheckReq_phoneNumber = '''', PhoneCheckReq_role = 0\<rparr>"

definition from_json_PhoneCheckReqDTO :: "json \<Rightarrow> exn + PhoneCheckReqDTO" where
  "from_json_PhoneCheckReqDTO j =
     ebind (j_at get_string j ''phoneNumber'') (\<lambda>x0.
     ebind (j_at get_int j ''role'') (\<lambda>x1.
     Inr \<lparr>PhoneCheckReq_phoneNumber = x0, PhoneCheckReq_role = x1\<rparr>))"

definition to_json_PhoneCheckReqDTO :: "PhoneCheckReqDTO \<Rightarrow> json" where
  "to_json_PhoneCheckReqDTO dto = JObj
     [(''phoneNumber'', JStr (PhoneCheckReq_phoneNumber dto)),
      (''role'', JInt (PhoneCheckReq_role dto))]"

record PhoneCheckResDTO =
  PhoneCheckRes_status :: "int"
  PhoneCheckRes_isAvailable :: "bool"
  PhoneCheckRes_message :: "string"

definition default_PhoneCheckResDTO :: PhoneCheckResDTO where
  "default_PhoneCheckResDTO =
     \<lparr>PhoneCheckRes_status = 0, PhoneCheckRes_isAvailable = False,
      PhoneCheckRes_message = ''''\<rparr>"

definition from_json_PhoneCheckResDTO :: "json \<Rightarrow> exn + PhoneCheckResDTO" where
  "from_json_PhoneCheckResDTO j =
     ebind (j_at get_int j ''status'') (\<lambda>x0.
     ebind (j_at get_bool j ''isAvailable'') (\<lambda>x1.
     ebind (j_at get_string j ''message'') (\<lambda>x2.
     Inr \<lparr>PhoneCheckRes_status = x0, PhoneCheckRes_isAvailable = x1, PhoneCheckRes_message = x2\<rparr>)))"

definition to_json_PhoneCheckResDTO :: "PhoneCheckResDTO \<Rightarrow> json" where
  "to_json_PhoneCheckResDTO dto = JObj
     [(''status'', JInt (PhoneCheckRes_status dto)),
      (''isAvailable'', JBool (PhoneCheckRes_isAvailable dto)),
      (''message'', JStr (PhoneCheckRes_message dto))]"

end
