(* ===== verification/Dto_Order.thy ===== *)
theory Dto_Order
  imports Json
begin

text \<open>
  The order, payment and rider messages of \<^verbatim>\<open>dto/OrderDTO.h\<close>, \<^verbatim>\<open>dto/PaymentDTO.h\<close>, \<^verbatim>\<open>dto/RiderDTO.h\<close>: one record per struct
  (field \<open>f\<close> of \<^verbatim>\<open>struct XDTO\<close> is \<open>X_f\<close>), its value-initialised object \<open>default_XDTO\<close>, and the two
  conversions the \<^verbatim>\<open>NLOHMANN_DEFINE_TYPE_INTRUSIVE\<close> macros or the hand-written
  \<^verbatim>\<open>to_json\<close>/\<^verbatim>\<open>from_json\<close> give.  Members of an object are listed in the order of the source; the
  order carries no meaning.
\<close>

section \<open>\<^verbatim>\<open>OrderDTO.h\<close>\<close>

record OrderItemDTO =
  OrderItem_menuId :: "int"
  OrderItem_quantity :: "int"
  OrderItem_unitPrice :: "int"
  OrderItem_selectedOptions :: "json"
  OrderItem_menuName :: "string"
  OrderItem_options :: "string list"

definition default_OrderItemDTO :: OrderItemDTO where
  "default_OrderItemDTO =
     \<lparr>OrderItem_menuId = 0, OrderItem_quantity = 0, OrderItem_unitPrice = 0,
      OrderItem_selectedOptions = JNull, OrderItem_menuName = '''', OrderItem_options = []\<rparr>"

definition from_json_OrderItemDTO :: "json \<Rightarrow> exn + OrderItemDTO" where
  "from_json_OrderItemDTO j =
     ebind (j_default get_int j ''menuId'' 0) (\<lambda>x0.
     ebind (j_default get_int j ''quantity'' 0) (\<lambda>x1.
     ebind (j_default get_int j ''unitPrice'' 0) (\<lambda>x2.
     ebind (j_default get_json j ''selectedOptions'' JNull) (\<lambda>x3.
     ebind (j_default get_string j ''menuName'' '''') (\<lambda>x4.
     ebind (j_default (get_vector get_string) j ''options'' []) (\<lambda>x5.
     Inr \<lparr>OrderItem_menuId = x0, OrderItem_quantity = x1, OrderItem_unitPrice = x2,
          OrderItem_selectedOptions = x3, OrderItem_menuName = x4, OrderItem_options = x5\<rparr>))))))"

definition to_json_OrderItemDTO :: "OrderItemDTO \<Rightarrow> json" where
  "to_json_OrderItemDTO dto = JObj
     [(''menuId'', JInt (OrderItem_menuId dto)),
      (''quantity'', JInt (OrderItem_quantity dto)),
      (''unitPrice'', JInt (OrderItem_unitPrice dto)),
      (''selectedOptions'', OrderItem_selectedOptions dto),
      (''menuName'', JStr (OrderItem_menuName dto)),
      (''options'', JArr (map JStr (OrderItem_options dto)))]"

record OrderCreateReqDTO =
  OrderCreateReq_userId :: "string"
  OrderCreateReq_storeId :: "int"
  OrderCreateReq_totalPrice :: "int"
  OrderCreateReq_deliveryAddress :: "string"
  OrderCreateReq_couponId :: "int"
  OrderCreateReq_items :: "OrderItemDTO list"
  OrderCreateReq_storeRequest :: "string"
  OrderCreateReq_riderRequest :: "string"

definition default_OrderCreateReqDTO :: OrderCreateReqDTO where
  "default_OrderCreateReqDTO =
     \<lparr>OrderCreateReq_userId = '''', OrderCreateReq_storeId = 0,
      OrderCreateReq_totalPrice = 0, OrderCreateReq_deliveryAddress = '''',
      OrderCreateReq_couponId = 0, OrderCreateReq_items = [],
      OrderCreateReq_storeRequest = '''', OrderCreateReq_riderRequest = ''''\<rparr>"

definition from_json_OrderCreateReqDTO :: "json \<Rightarrow> exn + OrderCreateReqDTO" where
  "from_json_OrderCreateReqDTO j =
     ebind (j_default get_string j ''userId'' '''') (\<lambda>x0.
     ebind (j_default get_int j ''storeId'' 0) (\<lambda>x1.
     ebind (j_default get_int j ''totalPrice'' 0) (\<lambda>x2.
     ebind (j_default get_string j ''deliveryAddress'' '''') (\<lambda>x3.
     ebind (j_default get_string j ''storeRequest'' '''') (\<lambda>x4.
     ebind (j_default get_string j ''riderRequest'' '''') (\<lambda>x5.
     ebind (j_default (get_vector from_json_OrderItemDTO) j ''items'' []) (\<lambda>x6.
     Inr (default_OrderCreateReqDTO\<lparr>OrderCreateReq_userId := x0, OrderCreateReq_storeId := x1,
          OrderCreateReq_totalPrice := x2, OrderCreateReq_deliveryAddress := x3,
          OrderCreateReq_items := x6, OrderCreateReq_storeRequest := x4,
          OrderCreateReq_riderRequest := x5\<rparr>))))))))"

definition to_json_OrderCreateReqDTO :: "OrderCreateReqDTO \<Rightarrow> json" where
  "to_json_OrderCreateReqDTO dto = JObj
     [(''userId'', JStr (OrderCreateReq_userId dto)),
      (''storeId'', JInt (OrderCreateReq_storeId dto)),
      (''totalPrice'', JInt (OrderCreateReq_totalPrice dto)),
      (''deliveryAddress'', JStr (OrderCreateReq_deliveryAddress dto)),
      (''storeRequest'', JStr (OrderCreateReq_storeRequest dto)),
      (''riderRequest'', JStr (OrderCreateReq_riderRequest dto)),
      (''items'', JArr (map to_json_OrderItemDTO (OrderCreateReq_items dto)))]"

record OrderCreateResDTO =
  OrderCreateRes_status :: "int"
  OrderCreateRes_message :: "string"
  OrderCreateRes_orderId :: "string"

definition default_OrderCreateResDTO :: OrderCreateResDTO where
  "default_OrderCreateResDTO =
     \<lparr>OrderCreateRes_status = 0, OrderCreateRes_message = '''', OrderCreateRes_orderId = ''''\<rparr>"

definition from_json_OrderCreateResDTO :: "json \<Rightarrow> exn + OrderCreateResDTO" where
  "from_json_OrderCreateResDTO j =
     ebind (j_default get_int j ''status'' 0) (\<lambda>x0.
     ebind (j_default get_string j ''message'' '''') (\<lambda>x1.
     ebind (j_default get_string j ''orderId'' '''') (\<lambda>x2.
     Inr \<lparr>OrderCreateRes_status = x0, OrderCreateRes_message = x1, OrderCreateRes_orderId = x2\<rparr>)))"

definition to_json_OrderCreateResDTO :: "OrderCreateResDTO \<Rightarrow> json" where
  "to_json_OrderCreateResDTO dto = JObj
     [(''status'', JInt (OrderCreateRes_status dto)),
      (''message'', JStr (OrderCreateRes_message dto)),
      (''orderId'', JStr (OrderCreateRes_orderId dto))]"

record OrderAcceptReqDTO =
  OrderAcceptReq_orderId :: "string"
  OrderAcceptReq_estimatedTime :: "int"

definition default_OrderAcceptReqDTO :: OrderAcceptReqDTO where
  "default_OrderAcceptReqDTO =
     \<lparr>OrderAcceptReq_orderId = '''', OrderAcceptReq_estimatedTime = 0\<rparr>"

definition from_json_OrderAcceptReqDTO :: "json \<Rightarrow> exn + OrderAcceptReqDTO" where
  "from_json_OrderAcceptReqDTO j =
     ebind (j_default get_string j ''orderId'' '''') (\<lambda>x0.
     ebind (j_default get_int j ''estimatedTime'' 0) (\<lambda>x1.
     Inr \<lparr>OrderAcceptReq_orderId = x0, OrderAcceptReq_estimatedTime = x1\<rparr>))"

definition to_json_OrderAcceptReqDTO :: "OrderAcceptReqDTO \<Rightarrow> json" where
  "to_json_OrderAcceptReqDTO dto = JObj
     [(''orderId'', JStr (OrderAcceptReq_orderId dto)),
      (''estimatedTime'', JInt (OrderAcceptReq_estimatedTime dto))]"

record OrderAcceptResDTO =
  OrderAcceptRes_status :: "int"
  OrderAcceptRes_message :: "string"
  OrderAcceptRes_orderId :: "string"

definition default_OrderAcceptResDTO :: OrderAcceptResDTO where
  "default_OrderAcceptResDTO =
     \<lparr>OrderAcceptRes_status = 0, OrderAcceptRes_message = '''', OrderAcceptRes_orderId = ''''\<rparr>"

definition from_json_OrderAcceptResDTO :: "json \<Rightarrow> exn + OrderAcceptResDTO" where
  "from_json_OrderAcceptResDTO j =
     ebind (j_default get_int j ''status'' 0) (\<lambda>x0.
     ebind (j_default get_string j ''message'' '''') (\<lambda>x1.
     ebind (j_default get_string j ''orderId'' '''') (\<lambda>x2.
     Inr \<lparr>OrderAcceptRes_status = x0, OrderAcceptRes_message = x1, OrderAcceptRes_orderId = x2\<rparr>)))"

definition to_json_OrderAcceptResDTO :: "OrderAcceptResDTO \<Rightarrow> json" where
  "to_json_OrderAcceptResDTO dto = JObj
     [(''status'', JInt (OrderAcceptRes_status dto)),
      (''message'', JStr (OrderAcceptRes_message dto)),
      (''orderId'', JStr (OrderAcceptRes_orderId dto))]"

record NotifyOrderStateDTO =
  NotifyOrderState_orderId :: "string"
  NotifyOrderState_state :: "int"
  NotifyOrderState_message :: "string"

definition default_NotifyOrderStateDTO :: NotifyOrderStateDTO where
  "default_NotifyOrderStateDTO =
     \<lparr>NotifyOrderState_orderId = '''', NotifyOrderState_state = 0,
      NotifyOrderState_message = ''''\<rparr>"

definition from_json_NotifyOrderStateDTO :: "json \<Rightarrow> exn + NotifyOrderStateDTO" where
  "from_json_NotifyOrderStateDTO j =
     ebind (j_default get_string j ''orderId'' '''') (\<lambda>x0.
     ebind (j_default get_int j ''state'' 0) (\<lambda>x1.
     ebind (j_default get_string j ''message'' '''') (\<lambda>x2.
     Inr \<lparr>NotifyOrderState_orderId = x0, NotifyOrderState_state = x1,
          NotifyOrderState_message = x2\<rparr>)))"

definition to_json_NotifyOrderStateDTO :: "NotifyOrderStateDTO \<Rightarrow> json" where
  "to_json_NotifyOrderStateDTO dto = JObj
     [(''orderId'', JStr (NotifyOrderState_orderId dto)),
      (''state'', JInt (NotifyOrderState_state dto)),
      (''message'', JStr (NotifyOrderState_message dto))]"

record NotifyDeliveryCallDTO =
  NotifyDeliveryCall_orderId :: "string"
  NotifyDeliveryCall_pickupAddress :: "string"
  NotifyDeliveryCall_deliveryAddress :: "string"
  NotifyDeliveryCall_deliveryFee :: "int"
  NotifyDeliveryCall_menuSummary :: "string"
  NotifyDeliveryCall_totalPrice :: "int"
  NotifyDeliveryCall_createdAt :: "string"

definition default_NotifyDeliveryCallDTO :: NotifyDeliveryCallDTO where
  "default_NotifyDeliveryCallDTO =
     \<lparr>NotifyDeliveryCall_orderId = '''', NotifyDeliveryCall_pickupAddress = '''',
      NotifyDeliveryCall_deliveryAddress = '''', NotifyDeliveryCall_deliveryFee = 0,
      NotifyDeliveryCall_menuSummary = '''', NotifyDeliveryCall_totalPrice = 0,
      NotifyDeliveryCall_createdAt = ''''\<rparr>"

definition from_json_NotifyDeliveryCallDTO :: "json \<Rightarrow> exn + NotifyDeliveryCallDTO" where
  "from_json_NotifyDeliveryCallDTO j =
     ebind (j_default get_string j ''orderId'' '''') (\<lambda>x0.
     ebind (j_default get_string j ''pickupAddress'' '''') (\<lambda>x1.
     ebind (j_default get_string j ''deliveryAddress'' '''') (\<lambda>x2.
     ebind (j_default get_int j ''deliveryFee'' 0) (\<lambda>x3.
     ebind (j_default get_string j ''menuSummary'' '''') (\<lambda>x4.
     ebind (j_default get_int j ''totalPrice'' 0) (\<lambda>x5.
     ebind (j_default get_string j ''createdAt'' '''') (\<lambda>x6.
     Inr \<lparr>NotifyDeliveryCall_orderId = x0, NotifyDeliveryCall_pickupAddress = x1,
          NotifyDeliveryCall_deliveryAddress = x2, NotifyDeliveryCall_deliveryFee = x3,
          NotifyDeliveryCall_menuSummary = x4, NotifyDeliveryCall_totalPrice = x5,
          NotifyDeliveryCall_createdAt = x6\<rparr>)))))))"

definition to_json_NotifyDeliveryCallDTO :: "NotifyDeliveryCallDTO \<Rightarrow> json" where
  "to_json_NotifyDeliveryCallDTO dto = JObj
     [(''orderId'', JStr (NotifyDeliveryCall_orderId dto)),
      (''pickupAddress'', JStr (NotifyDeliveryCall_pickupAddress dto)),
      (''deliveryAddress'', JStr (NotifyDeliveryCall_deliveryAddress dto)),
      (''deliveryFee'', JInt (NotifyDeliveryCall_deliveryFee dto)),
      (''menuSummary'', JStr (NotifyDeliveryCall_menuSummary dto)),
      (''totalPrice'', JInt (NotifyDeliveryCall_totalPrice dto)),
      (''createdAt'', JStr (NotifyDeliveryCall_createdAt dto))]"

record ReqCheckoutInfoDTO =
  ReqCheckoutInfo_userId :: "string"
  ReqCheckoutInfo_storeId :: "int"

definition default_ReqCheckoutInfoDTO :: ReqCheckoutInfoDTO where
  "default_ReqCheckoutInfoDTO =
     \<lparr>ReqCheckoutInfo_userId = '''', ReqCheckoutInfo_storeId = 0\<rparr>"

definition from_json_ReqCheckoutInfoDTO :: "json \<Rightarrow> exn + ReqCheckoutInfoDTO" where
  "from_json_ReqCheckoutInfoDTO j =
     ebind (j_default get_string j ''userId'' '''') (\<lambda>x0.
     ebind (j_default get_int j ''storeId'' 0) (\<lambda>x1.
     Inr \<lparr>ReqCheckoutInfo_userId = x0, ReqCheckoutInfo_storeId = x1\<rparr>))"

definition to_json_ReqCheckoutInfoDTO :: "ReqCheckoutInfoDTO \<Rightarrow> json" where
  "to_json_ReqCheckoutInfoDTO dto = JObj
     [(''userId'', JStr (ReqCheckoutInfo_userId dto)),
      (''storeId'', JInt (ReqCheckoutInfo_storeId dto))]"

record ResCheckoutInfoDTO =
  ResCheckoutInfo_status :: "int"
  ResCheckoutInfo_customerGrade :: "string"
  ResCheckoutInfo_cardNumber :: "string"
  ResCheckoutInfo_accountNumber :: "string"
  ResCheckoutInfo_userPoint :: "int"
  ResCheckoutInfo_userAddress :: "string"
  ResCheckoutInfo_appliedDeliveryFee :: "int"
  ResCheckoutInfo_minOrderAmount :: "int"
  ResCheckoutInfo_deliveryFee :: "int"
  ResCheckoutInfo_storeAddress :: "string"
  ResCheckoutInfo_pickupTime :: "string"
  ResCheckoutInfo_totalPrice :: "int"

definition default_ResCheckoutInfoDTO :: ResCheckoutInfoDTO where
  "default_ResCheckoutInfoDTO =
     \<lparr>ResCheckoutInfo_status = 0, ResCheckoutInfo_customerGrade = '''',
      ResCheckoutInfo_cardNumber = '''', ResCheckoutInfo_accountNumber = '''',
      ResCheckoutInfo_userPoint = 0, ResCheckoutInfo_userAddress = '''',
      ResCheckoutInfo_appliedDeliveryFee = 0, ResCheckoutInfo_minOrderAmount = 0,
      ResCheckoutInfo_deliveryFee = 0, ResCheckoutInfo_storeAddress = '''',
      ResCheckoutInfo_pickupTime = '''', ResCheckoutInfo_totalPrice = 0\<rparr>"

definition from_json_ResCheckoutInfoDTO :: "json \<Rightarrow> exn + ResCheckoutInfoDTO" where
  "from_json_ResCheckoutInfoDTO j =
     ebind (j_default get_int j ''status'' 0) (\<lambda>x0.
     ebind (j_default get_string j ''customerGrade'' '''') (\<lambda>x1.
     ebind (j_default get_string j ''cardNumber'' '''') (\<lambda>x2.
     ebind (j_default get_string j ''accountNumber'' '''') (\<lambda>x3.
     ebind (j_default get_int j ''userPoint'' 0) (\<lambda>x4.
     ebind (j_default get_string j ''userAddress'' '''') (\<lambda>x5.
     ebind (j_default get_int j ''appliedDeliveryFee'' 0) (\<lambda>x6.
     ebind (j_default get_int j ''minOrderAmount'' 0) (\<lambda>x7.
     ebind (j_default get_int j ''deliveryFee'' 0) (\<lambda>x8.
     ebind (j_default get_string j ''storeAddress'' '''') (\<lambda>x9.
     ebind (j_default get_string j ''pickupTime'' '''') (\<lambda>x10.
     ebind (j_default get_int j ''totalPrice'' 0) (\<lambda>x11.
     Inr \<lparr>ResCheckoutInfo_status = x0, ResCheckoutInfo_customerGrade = x1,
          ResCheckoutInfo_cardNumber = x2, ResCheckoutInfo_accountNumber = x3,
          ResCheckoutInfo_userPoint = x4, ResCheckoutInfo_userAddress = x5,
          ResCheckoutInfo_appliedDeliveryFee = x6, ResCheckoutInfo_minOrderAmount = x7,
          ResCheckoutInfo_deliveryFee = x8, ResCheckoutInfo_storeAddress = x9,
          ResCheckoutInfo_pickupTime = x10, ResCheckoutInfo_totalPrice = x11\<rparr>))))))))))))"

definition to_json_ResCheckoutInfoDTO :: "ResCheckoutInfoDTO \<Rightarrow> json" where
  "to_json_ResCheckoutInfoDTO dto = JObj
     [(''status'', JInt (ResCheckoutInfo_status dto)),
      (''customerGrade'', JStr (ResCheckoutInfo_customerGrade dto)),
      (''cardNumber'', JStr (ResCheckoutInfo_cardNumber dto)),
      (''accountNumber'', JStr (ResCheckoutInfo_accountNumber dto)),
      (''userPoint'', JInt (ResCheckoutInfo_userPoint dto)),
      (''userAddress'', JStr (ResCheckoutInfo_userAddress dto)),
      (''appliedDeliveryFee'', JInt (ResCheckoutInfo_appliedDeliveryFee dto)),
      (''minOrderAmount'', JInt (ResCheckoutInfo_minOrderAmount dto)),
      (''deliveryFee'', JInt (ResCheckoutInfo_deliveryFee dto)),
      (''storeAddress'', JStr (ResCheckoutInfo_storeAddress dto)),
      (''pickupTime'', JStr (ResCheckoutInfo_pickupTime dto)),
      (''totalPrice'', JInt (ResCheckoutInfo_totalPrice dto))]"

record ReqChangeOrderStateDTO =
  ReqChangeOrderState_orderId :: "string"
  ReqChangeOrderState_newState :: "int"

definition default_ReqChangeOrderStateDTO :: ReqChangeOrderStateDTO where
  "default_ReqChangeOrderStateDTO =
     \<lparr>ReqChangeOrderState_orderId = '''', ReqChangeOrderState_newState = 0\<rparr>"

definition from_json_ReqChangeOrderStateDTO :: "json \<Rightarrow> exn + ReqChangeOrderStateDTO" where
  "from_json_ReqChangeOrderStateDTO j =
     ebind (j_default get_string j ''orderId'' '''') (\<lambda>x0.
     ebind (j_default get_int j ''newState'' 0) (\<lambda>x1.
     Inr \<lparr>ReqChangeOrderState_orderId = x0, ReqChangeOrderState_newState = x1\<rparr>))"

definition to_json_ReqChangeOrderStateDTO :: "ReqChangeOrderStateDTO \<Rightarrow> json" where
  "to_json_ReqChangeOrderStateDTO dto = JObj
     [(''orderId'', JStr (ReqChangeOrderState_orderId dto)),
      (''newState'', JInt (ReqChangeOrderState_newState dto))]"

record ResChangeOrderStateDTO =
  ResChangeOrderState_status :: "int"
  ResChangeOrderState_message :: "string"

definition default_ResChangeOrderStateDTO :: ResChangeOrderStateDTO where
  "default_ResChangeOrderStateDTO =
     \<lparr>ResChangeOrderState_status = 0, ResChangeOrderState_message = ''''\<rparr>"

definition from_json_ResChangeOrderStateDTO :: "json \<Rightarrow> exn + ResChangeOrderStateDTO" where
  "from_json_ResChangeOrderStateDTO j =
     ebind (j_default get_int j ''status'' 0) (\<lambda>x0.
     ebind (j_default get_string j ''message'' '''') (\<lambda>x1.
     Inr \<lparr>ResChangeOrderState_status = x0, ResChangeOrderState_message = x1\<rparr>))"

definition to_json_ResChangeOrderStateDTO :: "ResChangeOrderStateDTO \<Rightarrow> json" where
  "to_json_ResChangeOrderStateDTO dto = JObj
     [(''status'', JInt (ResChangeOrderState_status dto)),
      (''message'', JStr (ResChangeOrderState_message dto))]"

record NotifyNewOrderDTO =
  NotifyNewOrder_orderId :: "string"
  NotifyNewOrder_userId :: "string"
  NotifyNewOrder_menuSummary :: "string"
  NotifyNewOrder_totalPrice :: "int"
  NotifyNewOrder_deliveryAddress :: "string"
  NotifyNewOrder_createdAt :: "string"
  NotifyNewOrder_items :: "OrderItemDTO list"
  NotifyNewOrder_storeRequest :: "string"
  NotifyNewOrder_riderRequest :: "string"

definition default_NotifyNewOrderDTO :: NotifyNewOrderDTO where
  "default_NotifyNewOrderDTO =
     \<lparr>NotifyNewOrder_orderId = '''', NotifyNewOrder_userId = '''',
      NotifyNewOrder_menuSummary = '''', NotifyNewOrder_totalPrice = 0,
      NotifyNewOrder_deliveryAddress = '''', NotifyNewOrder_createdAt = '''',
      NotifyNewOrder_items = [], NotifyNewOrder_storeRequest = '''',
      NotifyNewOrder_riderRequest = ''''\<rparr>"

definition from_json_NotifyNewOrderDTO :: "json \<Rightarrow> exn + NotifyNewOrderDTO" where
  "from_json_NotifyNewOrderDTO j =
     ebind (j_default get_string j ''orderId'' '''') (\<lambda>x0.
     ebind (j_default get_string j ''userId'' '''') (\<lambda>x1.
     ebind (j_default get_string j ''menuSummary'' '''') (\<lambda>x2.
     ebind (j_default get_int j ''totalPrice'' 0) (\<lambda>x3.
     ebind (j_default get_string j ''deliveryAddress'' '''') (\<lambda>x4.
     ebind (j_default get_string j ''createdAt'' '''') (\<lambda>x5.
     ebind (j_default (get_vector from_json_OrderItemDTO) j ''items'' []) (\<lambda>x6.
     ebind (j_default get_string j ''storeRequest'' '''') (\<lambda>x7.
     ebind (j_default get_string j ''riderRequest'' '''') (\<lambda>x8.
     Inr \<lparr>NotifyNewOrder_orderId = x0, NotifyNewOrder_userId = x1,
          NotifyNewOrder_menuSummary = x2, NotifyNewOrder_totalPrice = x3,
          NotifyNewOrder_deliveryAddress = x4, NotifyNewOrder_createdAt = x5,
          NotifyNewOrder_items = x6, NotifyNewOrder_storeRequest = x7,
          NotifyNewOrder_riderRequest = x8\<rparr>)))))))))"

definition to_json_NotifyNewOrderDTO :: "NotifyNewOrderDTO \<Rightarrow> json" where
  "to_json_NotifyNewOrderDTO dto = JObj
     [(''orderId'', JStr (NotifyNewOrder_orderId dto)),
      (''userId'', JStr (NotifyNewOrder_userId dto)),
      (''menuSummary'', JStr (NotifyNewOrder_menuSummary dto)),
      (''totalPrice'', JInt (NotifyNewOrder_totalPrice dto)),
      (''deliveryAddress'', JStr (NotifyNewOrder_deliveryAddress dto)),
      (''createdAt'', JStr (NotifyNewOrder_createdAt dto)),
      (''items'', JArr (map to_json_OrderItemDTO (NotifyNewOrder_items dto))),
      (''storeRequest'', JStr (NotifyNewOrder_storeRequest dto)),
      (''riderRequest'', JStr (NotifyNewOrder_riderRequest dto))]"

record ReqOrderRejectDTO =
  ReqOrderReject_orderId :: "string"
  ReqOrderReject_reason :: "string"

definition default_ReqOrderRejectDTO :: ReqOrderRejectDTO where
  "default_ReqOrderRejectDTO =
     \<lparr>ReqOrderReject_orderId = '''', ReqOrderReject_reason = ''''\<rparr>"

definition from_json_ReqOrderRejectDTO :: "json \<Rightarrow> exn + ReqOrderRejectDTO" where
  "from_json_ReqOrderRejectDTO j =
     ebind (j_at get_string j ''orderId'') (\<lambda>x0.
     ebind (j_at get_string j ''reason'') (\<lambda>x1.
     Inr \<lparr>ReqOrderReject_orderId = x0, ReqOrderReject_reason = x1\<rparr>))"

definition to_json_ReqOrderRejectDTO :: "ReqOrderRejectDTO \<Rightarrow> json" where
  "to_json_ReqOrderRejectDTO dto = JObj
     [(''orderId'', JStr (ReqOrderReject_orderId dto)),
      (''reason'', JStr (ReqOrderReject_reason dto))]"

record ResOrderRejectDTO =
  ResOrderReject_status :: "int"
  ResOrderReject_message :: "string"
  ResOrderReject_orderId :: "string"

definition default_ResOrderRejectDTO :: ResOrderRejectDTO where
  "default_ResOrderRejectDTO =
     \<lparr>ResOrderReject_status = 0, ResOrderReject_message = '''', ResOrderReject_orderId = ''''\<rparr>"

definition from_json_ResOrderRejectDTO :: "json \<Rightarrow> exn + ResOrderRejectDTO" where
  "from_json_ResOrderRejectDTO j =
     ebind (j_at get_int j ''status'') (\<lambda>x0.
     ebind (j_at get_string j ''message'') (\<lambda>x1.
     ebind (j_at get_string j ''orderId'') (\<lambda>x2.
     Inr \<lparr>ResOrderReject_status = x0, ResOrderReject_message = x1, ResOrderReject_orderId = x2\<rparr>)))"

definition to_json_ResOrderRejectDTO :: "ResOrderRejectDTO \<Rightarrow> json" where
  "to_json_ResOrderRejectDTO dto = JObj
     [(''status'', JInt (ResOrderReject_status dto)),
      (''message'', JStr (ResOrderReject_message dto)),
      (''orderId'', JStr (ResOrderReject_orderId dto))]"

record OrderHistoryItemDTO =
  OrderHistoryItem_orderId :: "string"
  OrderHistoryItem_storeId :: "int"
  OrderHistoryItem_storeName :: "string"
  OrderHistoryItem_menuName :: "string"
  OrderHistoryItem_totalPrice :: "int"
  OrderHistoryItem_status :: "int"
  OrderHistoryItem_menuSummary :: "string"
  OrderHistoryItem_createdAt :: "string"
  OrderHistoryItem_deliveryPhotoUrl :: "string"

definition default_OrderHistoryItemDTO :: OrderHistoryItemDTO where
  "default_OrderHistoryItemDTO =
     \<lparr>OrderHistoryItem_orderId = '''', OrderHistoryItem_storeId = 0,
      OrderHistoryItem_storeName = '''', OrderHistoryItem_menuName = '''',
      OrderHistoryItem_totalPrice = 0, OrderHistoryItem_status = 0,
      OrderHistoryItem_menuSummary = '''', OrderHistoryItem_createdAt = '''',
      OrderHistoryItem_deliveryPhotoUrl = ''''\<rparr>"

definition from_json_OrderHistoryItemDTO :: "json \<Rightarrow> exn + OrderHistoryItemDTO" where
  "from_json_OrderHistoryItemDTO j =
     ebind (j_default get_string j ''orderId'' '''') (\<lambda>x0.
     ebind (j_default get_int j ''storeId'' 0) (\<lambda>x1.
     ebind (j_default get_string j ''storeName'' '''') (\<lambda>x2.
     ebind (j_default get_string j ''menuName'' '''') (\<lambda>x3.
     ebind (j_default get_int j ''totalPrice'' 0) (\<lambda>x4.
     ebind (j_default get_int j ''status'' 0) (\<lambda>x5.
     ebind (j_default get_string j ''menuSummary'' '''') (\<lambda>x6.
     ebind (j_default get_string j ''createdAt'' '''') (\<lambda>x7.
     ebind (j_default get_string j ''deliveryPhotoUrl'' '''') (\<lambda>x8.
     Inr \<lparr>OrderHistoryItem_orderId = x0, OrderHistoryItem_storeId = x1,
          OrderHistoryItem_storeName = x2, OrderHistoryItem_menuName = x3,
          OrderHistoryItem_totalPrice = x4, OrderHistoryItem_status = x5,
          OrderHistoryItem_menuSummary = x6, OrderHistoryItem_createdAt = x7,
          OrderHistoryItem_deliveryPhotoUrl = x8\<rparr>)))))))))"

definition to_json_OrderHistoryItemDTO :: "OrderHistoryItemDTO \<Rightarrow> json" where
  "to_json_OrderHistoryItemDTO dto = JObj
     [(''orderId'', JStr (OrderHistoryItem_orderId dto)),
      (''storeId'', JInt (OrderHistoryItem_storeId dto)),
      (''storeName'', JStr (OrderHistoryItem_storeName dto)),
      (''menuName'', JStr (OrderHistoryItem_menuName dto)),
      (''totalPrice'', JInt (OrderHistoryItem_totalPrice dto)),
      (''status'', JInt (OrderHistoryItem_status dto)),
      (''menuSummary'', JStr (OrderHistoryItem_menuSummary dto)),
      (''createdAt'', JStr (OrderHistoryItem_createdAt dto)),
      (''deliveryPhotoUrl'', JStr (OrderHistoryItem_deliveryPhotoUrl dto))]"

record ResOrderHistoryDTO =
  ResOrderHistory_status :: "int"
  ResOrderHistory_historyList :: "OrderHistoryItemDTO list"

definition default_ResOrderHistoryDTO :: ResOrderHistoryDTO where
  "default_ResOrderHistoryDTO =
     \<lparr>ResOrderHistory_status = 0, ResOrderHistory_historyList = []\<rparr>"

definition from_json_ResOrderHistoryDTO :: "json \<Rightarrow> exn + ResOrderHistoryDTO" where
  "from_json_ResOrderHistoryDTO j =
     ebind (j_default get_int j ''status'' 0) (\<lambda>x0.
     ebind (j_default (get_vector from_json_OrderHistoryItemDTO) j ''historyList'' []) (\<lambda>x1.
     Inr \<lparr>ResOrderHistory_status = x0, ResOrderHistory_historyList = x1\<rparr>))"

definition to_json_ResOrderHistoryDTO :: "ResOrderHistoryDTO \<Rightarrow> json" where
  "to_json_ResOrderHistoryDTO dto = JObj
     [(''status'', JInt (ResOrderHistory_status dto)),
      (''historyList'', JArr (map to_json_OrderHistoryItemDTO (ResOrderHistory_historyList dto)))]"

record ReqOrderHistoryDTO =
  ReqOrderHistory_userId :: "string"

definition default_ReqOrderHistoryDTO :: ReqOrderHistoryDTO where
  "default_ReqOrderHistoryDTO =
     \<lparr>ReqOrderHistory_userId = ''''\<rparr>"

definition from_json_ReqOrderHistoryDTO :: "json \<Rightarrow> exn + ReqOrderHistoryDTO" where
  "from_json_ReqOrderHistoryDTO j =
     ebind (j_default get_string j ''userId'' '''') (\<lambda>x0.
     Inr \<lparr>ReqOrderHistory_userId = x0\<rparr>)"

definition to_json_ReqOrderHistoryDTO :: "ReqOrderHistoryDTO \<Rightarrow> json" where
  "to_json_ReqOrderHistoryDTO dto = JObj
     [(''userId'', JStr (ReqOrderHistory_userId dto))]"

record ReqOrderHistorySearchDTO =
  ReqOrderHistorySearch_userId :: "string"
  ReqOrderHistorySearch_keyword :: "string"

definition default_ReqOrderHistorySearchDTO :: ReqOrderHistorySearchDTO where
  "default_ReqOrderHistorySearchDTO =
     \<lparr>ReqOrderHistorySearch_userId = '''', ReqOrderHistorySearch_keyword = ''''\<rparr>"

definition from_json_ReqOrderHistorySearchDTO :: "json \<Rightarrow> exn + ReqOrderHistorySearchDTO" where
  "from_json_ReqOrderHistorySearchDTO j =
     ebind (j_default get_string j ''userId'' '''') (\<lambda>x0.
     ebind (j_default get_string j ''keyword'' '''') (\<lambda>x1.
     Inr \<lparr>ReqOrderHistorySearch_userId = x0, ReqOrderHistorySearch_keyword = x1\<rparr>))"

definition to_json_ReqOrderHistorySearchDTO :: "ReqOrderHistorySearchDTO \<Rightarrow> json" where
  "to_json_ReqOrderHistorySearchDTO dto = JObj
     [(''userId'', JStr (ReqOrderHistorySearch_userId dto)),
      (''keyword'', JStr (ReqOrderHistorySearch_keyword dto))]"

record ReqOrderDetailDTO =
  ReqOrderDetail_orderId :: "string"

definition default_ReqOrderDetailDTO :: ReqOrderDetailDTO where
  "default_ReqOrderDetailDTO =
     \<lparr>ReqOrderDetail_orderId = ''''\<rparr>"

definition from_json_ReqOrderDetailDTO :: "json \<Rightarrow> exn + ReqOrderDetailDTO" where
  "from_json_ReqOrderDetailDTO j =
     ebind (j_at get_string j ''orderId'') (\<lambda>x0.
     Inr \<lparr>ReqOrderDetail_orderId = x0\<rparr>)"

definition to_json_ReqOrderDetailDTO :: "ReqOrderDetailDTO \<Rightarrow> json" where
  "to_json_ReqOrderDetailDTO dto = JObj
     [(''orderId'', JStr (ReqOrderDetail_orderId dto))]"

section \<open>\<^verbatim>\<open>PaymentDTO.h\<close>\<close>

record ResOrderDetailDTO =
  ResOrderDetail_status :: "int"
  ResOrderDetail_orderId :: "string"
  ResOrderDetail_storeName :: "string"
  ResOrderDetail_createdAt :: "string"
  ResOrderDetail_paymentMethod :: "string"
  ResOrderDetail_deliveryAddress :: "string"
  ResOrderDetail_totalMenuPrice :: "int"
  ResOrderDetail_deliveryFee :: "int"
  ResOrderDetail_couponDiscount :: "int"
  ResOrderDetail_wowDiscount :: "int"
  ResOrderDetail_totalPrice :: "int"
  ResOrderDetail_items :: "OrderItemDTO list"

definition default_ResOrderDetailDTO :: ResOrderDetailDTO where
  "default_ResOrderDetailDTO =
     \<lparr>ResOrderDetail_status = 0, ResOrderDetail_orderId = '''',
      ResOrderDetail_storeName = '''', ResOrderDetail_createdAt = '''',
      ResOrderDetail_paymentMethod = '''', ResOrderDetail_deliveryAddress = '''',
      ResOrderDetail_totalMenuPrice = 0, ResOrderDetail_deliveryFee = 0,
      ResOrderDetail_couponDiscount = 0, ResOrderDetail_wowDiscount = 0,
      ResOrderDetail_totalPrice = 0, ResOrderDetail_items = []\<rparr>"

definition from_json_ResOrderDetailDTO :: "json \<Rightarrow> exn + ResOrderDetailDTO" where
  "from_json_ResOrderDetailDTO j =
     ebind (j_at get_int j ''status'') (\<lambda>x0.
     ebind (j_at get_string j ''orderId'') (\<lambda>x1.
     ebind (j_at get_string j ''storeName'') (\<lambda>x2.
     ebind (j_at get_string j ''createdAt'') (\<lambda>x3.
     ebind (j_at get_string j ''paymentMethod'') (\<lambda>x4.
     ebind (j_at get_string j ''deliveryAddress'') (\<lambda>x5.
     ebind (j_at get_int j ''totalMenuPrice'') (\<lambda>x6.
     ebind (j_at get_int j ''deliveryFee'') (\<lambda>x7.
     ebind (j_at get_int j ''couponDiscount'') (\<lambda>x8.
     ebind (j_at get_int j ''wowDiscount'') (\<lambda>x9.
     ebind (j_at get_int j ''totalPrice'') (\<lambda>x10.
     ebind (j_at (get_vector from_json_OrderItemDTO) j ''items'') (\<lambda>x11.
     Inr \<lparr>ResOrderDetail_status = x0, ResOrderDetail_orderId = x1, ResOrderDetail_storeName = x2,
          ResOrderDetail_createdAt = x3, ResOrderDetail_paymentMethod = x4,
          ResOrderDetail_deliveryAddress = x5, ResOrderDetail_totalMenuPrice = x6,
          ResOrderDetail_deliveryFee = x7, ResOrderDetail_couponDiscount = x8,
          ResOrderDetail_wowDiscount = x9, ResOrderDetail_totalPrice = x10,
          ResOrderDetail_items = x11\<rparr>))))))))))))"

definition to_json_ResOrderDetailDTO :: "ResOrderDetailDTO \<Rightarrow> json" where
  "to_json_ResOrderDetailDTO dto = JObj
     [(''status'', JInt (ResOrderDetail_status dto)),
      (''orderId'', JStr (ResOrderDetail_orderId dto)),
      (''storeName'', JStr (ResOrderDetail_storeName dto)),
      (''createdAt'', JStr (ResOrderDetail_createdAt dto)),
      (''paymentMethod'', JStr (ResOrderDetail_paymentMethod dto)),
      (''deliveryAddress'', JStr (ResOrderDetail_deliveryAddress dto)),
      (''totalMenuPrice'', JInt (ResOrderDetail_totalMenuPrice dto)),
      (''deliveryFee'', JInt (ResOrderDetail_deliveryFee dto)),
      (''couponDiscount'', JInt (ResOrderDetail_couponDiscount dto)),
      (''wowDiscount'', JInt (ResOrderDetail_wowDiscount dto)),
      (''totalPrice'', JInt (ResOrderDetail_totalPrice dto)),
      (''items'', JArr (map to_json_OrderItemDTO (ResOrderDetail_items dto)))]"

section \<open>\<^verbatim>\<open>RiderDTO.h\<close>\<close>

record ReqDeliveryCompleteDTO =
  ReqDeliveryComplete_orderId :: "string"

definition default_ReqDeliveryCompleteDTO :: ReqDeliveryCompleteDTO where
  "default_ReqDeliveryCompleteDTO =
     \<lparr>ReqDeliveryComplete_orderId = ''''\<rparr>"

definition from_json_ReqDeliveryCompleteDTO :: "json \<Rightarrow> exn + ReqDeliveryCompleteDTO" where
  "from_json_ReqDeliveryCompleteDTO j =
     ebind (j_at get_string j ''orderId'') (\<lambda>x0.
     Inr \<lparr>ReqDeliveryComplete_orderId = x0\<rparr>)"

definition to_json_ReqDeliveryCompleteDTO :: "ReqDeliveryCompleteDTO \<Rightarrow> json" where
  "to_json_ReqDeliveryCompleteDTO dto = JObj
     [(''orderId'', JStr (ReqDeliveryComplete_orderId dto))]"

record ResDeliveryCompleteDTO =
  ResDeliveryComplete_status :: "int"
  ResDeliveryComplete_message :: "string"

definition default_ResDeliveryCompleteDTO :: ResDeliveryCompleteDTO where
  "default_ResDeliveryCompleteDTO =
     \<lparr>ResDeliveryComplete_status = 0, ResDeliveryComplete_message = ''''\<rparr>"

definition from_json_ResDeliveryCompleteDTO :: "json \<Rightarrow> exn + ResDeliveryCompleteDTO" where
  "from_json_ResDeliveryCompleteDTO j =
     ebind (j_at get_int j ''status'') (\<lambda>x0.
     ebind (j_at get_string j ''message'') (\<lambda>x1.
     Inr \<lparr>ResDeliveryComplete_status = x0, ResDeliveryComplete_message = x1\<rparr>))"

definition to_json_ResDeliveryCompleteDTO :: "ResDeliveryCompleteDTO \<Rightarrow> json" where
  "to_json_ResDeliveryCompleteDTO dto = JObj
     [(''status'', JInt (ResDeliveryComplete_status dto)),
      (''message'', JStr (ResDeliveryComplete_message dto))]"

end
