(* ===== verification/Dto_Chat.thy ===== *)
theory Dto_Chat
  imports Json
begin

text \<open>
  The chat and administrator messages of \<^verbatim>\<open>dto/ChatDTO.h\<close>, \<^verbatim>\<open>dto/AdminDTO.h\<close>: one record per struct
  (field \<open>f\<close> of \<^verbatim>\<open>struct XDTO\<close> is \<open>X_f\<close>), its value-initialised object \<open>default_XDTO\<close>, and the two
  conversions the \<^verbatim>\<open>NLOHMANN_DEFINE_TYPE_INTRUSIVE\<close> macros or the hand-written
  \<^verbatim>\<open>to_json\<close>/\<^verbatim>\<open>from_json\<close> give.  Members of an object are listed in the order of the source; the
  order carries no meaning.
\<close>

section \<open>\<^verbatim>\<open>ChatDTO.h\<close>\<close>

record ReqChatConnectDTO =
  ReqChatConnect_userId :: "string"
  ReqChatConnect_storeId :: "int"

definition default_ReqChatConnectDTO :: ReqChatConnectDTO where
  "default_ReqChatConnectDTO =
     \<lparr>ReqChatConnect_userId = '''', ReqChatConnect_storeId = 0\<rparr>"

definition from_json_ReqChatConnectDTO :: "json \<Rightarrow> exn + ReqChatConnectDTO" where
  "from_json_ReqChatConnectDTO j =
     ebind (j_at get_string j ''userId'') (\<lambda>x0.
     ebind (j_at get_int j ''storeId'') (\<lambda>x1.
     Inr \<lparr>ReqChatConnect_userId = x0, ReqChatConnect_storeId = x1\<rparr>))"

definition to_json_ReqChatConnectDTO :: "ReqChatConnectDTO \<Rightarrow> json" where
  "to_json_ReqChatConnectDTO dto = JObj
     [(''userId'', JStr (ReqChatConnect_userId dto)),
      (''storeId'', JInt (ReqChatConnect_storeId dto))]"

record ResChatConnectDTO =
  ResChatConnect_status :: "int"
  ResChatConnect_roomId :: "int"
  ResChatConnect_message :: "string"

definition default_ResChatConnectDTO :: ResChatConnectDTO where
  "default_ResChatConnectDTO =
     \<lparr>ResChatConnect_status = 0, ResChatConnect_roomId = 0, ResChatConnect_message = ''''\<rparr>"

definition from_json_ResChatConnectDTO :: "json \<Rightarrow> exn + ResChatConnectDTO" where
  "from_json_ResChatConnectDTO j =
     ebind (j_at get_int j ''status'') (\<lambda>x0.
     ebind (j_at get_int j ''roomId'') (\<lambda>x1.
     ebind (j_at get_string j ''message'') (\<lambda>x2.
     Inr \<lparr>ResChatConnect_status = x0, ResChatConnect_roomId = x1, ResChatConnect_message = x2\<rparr>)))"

definition to_json_ResChatConnectDTO :: "ResChatConnectDTO \<Rightarrow> json" where
  "to_json_ResChatConnectDTO dto = JObj
     [(''status'', JInt (ResChatConnect_status dto)),
      (''roomId'', JInt (ResChatConnect_roomId dto)),
      (''message'', JStr (ResChatConnect_message dto))]"

record ReqChatSendDTO =
  ReqChatSend_roomId :: "int"
  ReqChatSend_senderId :: "string"
  ReqChatSend_content :: "string"

definition default_ReqChatSendDTO :: ReqChatSendDTO where
  "default_ReqChatSendDTO =
     \<lparr>ReqChatSend_roomId = 0, ReqChatSend_senderId = '''', ReqChatSend_content = ''''\<rparr>"

definition from_json_ReqChatSendDTO :: "json \<Rightarrow> exn + ReqChatSendDTO" where
  "from_json_ReqChatSendDTO j =
     ebind (j_at get_int j ''roomId'') (\<lambda>x0.
     ebind (j_at get_string j ''senderId'') (\<lambda>x1.
     ebind (j_at get_string j ''content'') (\<lambda>x2.
     Inr \<lparr>ReqChatSend_roomId = x0, ReqChatSend_senderId = x1, ReqChatSend_content = x2\<rparr>)))"

definition to_json_ReqChatSendDTO :: "ReqChatSendDTO \<Rightarrow> json" where
  "to_json_ReqChatSendDTO dto = JObj
     [(''roomId'', JInt (ReqChatSend_roomId dto)),
      (''senderId'', JStr (ReqChatSend_senderId dto)),
      (''content'', JStr (ReqChatSend_content dto))]"

record ResChatSendDTO =
  ResChatSend_status :: "int"
  ResChatSend_message :: "string"

definition default_ResChatSendDTO :: ResChatSendDTO where
  "default_ResChatSendDTO =
     \<lparr>ResChatSend_status = 0, ResChatSend_message = ''''\<rparr>"

definition from_json_ResChatSendDTO :: "json \<Rightarrow> exn + ResChatSendDTO" where
  "from_json_ResChatSendDTO j =
     ebind (j_at get_int j ''status'') (\<lambda>x0.
     ebind (j_at get_string j ''message'') (\<lambda>x1.
     Inr \<lparr>ResChatSend_status = x0, ResChatSend_message = x1\<rparr>))"

definition to_json_ResChatSendDTO :: "ResChatSendDTO \<Rightarrow> json" where
  "to_json_ResChatSendDTO dto = JObj
     [(''status'', JInt (ResChatSend_status dto)),
      (''message'', JStr (ResChatSend_message dto))]"

record NotifyChatRecvDTO =
  NotifyChatRecv_roomId :: "int"
  NotifyChatRecv_senderId :: "string"
  NotifyChatRecv_content :: "string"
  NotifyChatRecv_sendTime :: "string"

definition default_NotifyChatRecvDTO :: NotifyChatRecvDTO where
  "default_NotifyChatRecvDTO =
     \<lparr>NotifyChatRecv_roomId = 0, NotifyChatRecv_senderId = '''',
      NotifyChatRecv_content = '''', NotifyChatRecv_sendTime = ''''\<rparr>"

definition from_json_NotifyChatRecvDTO :: "json \<Rightarrow> exn + NotifyChatRecvDTO" where
  "from_json_NotifyChatRecvDTO j =
     ebind (j_at get_int j ''roomId'') (\<lambda>x0.
     ebind (j_at get_string j ''senderId'') (\<lambda>x1.
     ebind (j_at get_string j ''content'') (\<lambda>x2.
     ebind (j_at get_string j ''sendTime'') (\<lambda>x3.
     Inr \<lparr>NotifyChatRecv_roomId = x0, NotifyChatRecv_senderId = x1, NotifyChatRecv_content = x2,
          NotifyChatRecv_sendTime = x3\<rparr>))))"

definition to_json_NotifyChatRecvDTO :: "NotifyChatRecvDTO \<Rightarrow> json" where
  "to_json_NotifyChatRecvDTO dto = JObj
     [(''roomId'', JInt (NotifyChatRecv_roomId dto)),
      (''senderId'', JStr (NotifyChatRecv_senderId dto)),
      (''content'', JStr (NotifyChatRecv_content dto)),
      (''sendTime'', JStr (NotifyChatRecv_sendTime dto))]"

record ReqChatAcceptDTO =
  ReqChatAccept_requesterId :: "string"
  ReqChatAccept_requesterType :: "string"
  ReqChatAccept_result :: "string"

definition default_ReqChatAcceptDTO :: ReqChatAcceptDTO where
  "default_ReqChatAcceptDTO =
     \<lparr>ReqChatAccept_requesterId = '''', ReqChatAccept_requesterType = '''',
      ReqChatAccept_result = ''''\<rparr>"

definition from_json_ReqChatAcceptDTO :: "json \<Rightarrow> exn + ReqChatAcceptDTO" where
  "from_json_ReqChatAcceptDTO j =
     ebind (j_at get_string j ''requesterId'') (\<lambda>x0.
     ebind (j_at get_string j ''requesterType'') (\<lambda>x1.
     ebind (j_at get_string j ''result'') (\<lambda>x2.
     Inr \<lparr>ReqChatAccept_requesterId = x0, ReqChatAccept_requesterType = x1,
          ReqChatAccept_result = x2\<rparr>)))"

definition to_json_ReqChatAcceptDTO :: "ReqChatAcceptDTO \<Rightarrow> json" where
  "to_json_ReqChatAcceptDTO dto = JObj
     [(''requesterId'', JStr (ReqChatAccept_requesterId dto)),
      (''requesterType'', JStr (ReqChatAccept_requesterType dto)),
      (''result'', JStr (ReqChatAccept_result dto))]"

section \<open>\<^verbatim>\<open>AdminDTO.h\<close>\<close>

record ReqAdminOrderListDTO =
  ReqAdminOrderList_keyword :: "string"
  ReqAdminOrderList_searchType :: "string"

definition default_ReqAdminOrderListDTO :: ReqAdminOrderListDTO where
  "default_ReqAdminOrderListDTO =
     \<lparr>ReqAdminOrderList_keyword = '''', ReqAdminOrderList_searchType = ''''\<rparr>"

definition from_json_ReqAdminOrderListDTO :: "json \<Rightarrow> exn + ReqAdminOrderListDTO" where
  "from_json_ReqAdminOrderListDTO j =
     ebind (j_default get_string j ''keyword'' '''') (\<lambda>x0.
     ebind (j_default get_string j ''searchType'' '''') (\<lambda>x1.
     Inr \<lparr>ReqAdminOrderList_keyword = x0, ReqAdminOrderList_searchType = x1\<rparr>))"

definition to_json_ReqAdminOrderListDTO :: "ReqAdminOrderListDTO \<Rightarrow> json" where
  "to_json_ReqAdminOrderListDTO dto = JObj
     [(''keyword'', JStr (ReqAdminOrderList_keyword dto)),
      (''searchType'', JStr (ReqAdminOrderList_searchType dto))]"

record AdminOrderDTO =
  AdminOrder_orderId :: "string"
  AdminOrder_userId :: "string"
  AdminOrder_totalPrice :: "int"
  AdminOrder_orderStatus :: "int"
  AdminOrder_createdAt :: "string"

definition default_AdminOrderDTO :: AdminOrderDTO where
  "default_AdminOrderDTO =
     \<lparr>AdminOrder_orderId = '''', AdminOrder_userId = '''', AdminOrder_totalPrice = 0,
      AdminOrder_orderStatus = 0, AdminOrder_createdAt = ''''\<rparr>"

definition from_json_AdminOrderDTO :: "json \<Rightarrow> exn + AdminOrderDTO" where
  "from_json_AdminOrderDTO j =
     ebind (j_at get_string j ''orderId'') (\<lambda>x0.
     ebind (j_at get_string j ''userId'') (\<lambda>x1.
     ebind (j_at get_int j ''totalPrice'') (\<lambda>x2.
     ebind (j_at get_int j ''orderStatus'') (\<lambda>x3.
     ebind (j_at get_string j ''createdAt'') (\<lambda>x4.
     Inr \<lparr>AdminOrder_orderId = x0, AdminOrder_userId = x1, AdminOrder_totalPrice = x2,
          AdminOrder_orderStatus = x3, AdminOrder_createdAt = x4\<rparr>)))))"

definition to_json_AdminOrderDTO :: "AdminOrderDTO \<Rightarrow> json" where
  "to_json_AdminOrderDTO dto = JObj
     [(''orderId'', JStr (AdminOrder_orderId dto)),
      (''userId'', JStr (AdminOrder_userId dto)),
      (''totalPrice'', JInt (AdminOrder_totalPrice dto)),
      (''orderStatus'', JInt (AdminOrder_orderStatus dto)),
      (''createdAt'', JStr (AdminOrder_createdAt dto))]"

record ResAdminOrderListDTO =
  ResAdminOrderList_status :: "int"
  ResAdminOrderList_orders :: "AdminOrderDTO list"

definition default_ResAdminOrderListDTO :: ResAdminOrderListDTO where
  "default_ResAdminOrderListDTO =
     \<lparr>ResAdminOrderList_status = 0, ResAdminOrderList_orders = []\<rparr>"

definition from_json_ResAdminOrderListDTO :: "json \<Rightarrow> exn + ResAdminOrderListDTO" where
  "from_json_ResAdminOrderListDTO j =
     ebind (j_at get_int j ''status'') (\<lambda>x0.
     ebind (j_at (get_vector from_json_AdminOrderDTO) j ''orders'') (\<lambda>x1.
     Inr \<lparr>ResAdminOrderList_status = x0, ResAdminOrderList_orders = x1\<rparr>))"

definition to_json_ResAdminOrderListDTO :: "ResAdminOrderListDTO \<Rightarrow> json" where
  "to_json_ResAdminOrderListDTO dto = JObj
     [(''status'', JInt (ResAdminOrderList_status dto)),
      (''orders'', JArr (map to_json_AdminOrderDTO (ResAdminOrderList_orders dto)))]"

record NotifyAdminChatReqDTO =
  NotifyAdminChatReq_requesterId :: "string"
  NotifyAdminChatReq_requesterType :: "string"
  NotifyAdminChatReq_message :: "string"

definition default_NotifyAdminChatReqDTO :: NotifyAdminChatReqDTO where
  "default_NotifyAdminChatReqDTO =
     \<lparr>NotifyAdminChatReq_requesterId = '''', NotifyAdminChatReq_requesterType = '''',
      NotifyAdminChatReq_message = ''''\<rparr>"

definition from_json_NotifyAdminChatReqDTO :: "json \<Rightarrow> exn + NotifyAdminChatReqDTO" where
  "from_json_NotifyAdminChatReqDTO j =
     ebind (j_at get_string j ''requesterId'') (\<lambda>x0.
     ebind (j_at get_string j ''requesterType'') (\<lambda>x1.
     ebind (j_at get_string j ''message'') (\<lambda>x2.
     Inr \<lparr>NotifyAdminChatReq_requesterId = x0, NotifyAdminChatReq_requesterType = x1,
          NotifyAdminChatReq_message = x2\<rparr>)))"

definition to_json_NotifyAdminChatReqDTO :: "NotifyAdminChatReqDTO \<Rightarrow> json" where
  "to_json_NotifyAdminChatReqDTO dto = JObj
     [(''requesterId'', JStr (NotifyAdminChatReq_requesterId dto)),
      (''requesterType'', JStr (NotifyAdminChatReq_requesterType dto)),
      (''message'', JStr (NotifyAdminChatReq_message dto))]"

record ReqAdminChatAcceptDTO =
  ReqAdminChatAccept_requesterId :: "string"
  ReqAdminChatAccept_adminId :: "string"

definition default_ReqAdminChatAcceptDTO :: ReqAdminChatAcceptDTO where
  "default_ReqAdminChatAcceptDTO =
     \<lparr>ReqAdminChatAccept_requesterId = '''', ReqAdminChatAccept_adminId = ''''\<rparr>"

definition from_json_ReqAdminChatAcceptDTO :: "json \<Rightarrow> exn + ReqAdminChatAcceptDTO" where
  "from_json_ReqAdminChatAcceptDTO j =
     ebind (j_at get_string j ''requesterId'') (\<lambda>x0.
     ebind (j_at get_string j ''adminId'') (\<lambda>x1.
     Inr \<lparr>ReqAdminChatAccept_requesterId = x0, ReqAdminChatAccept_adminId = x1\<rparr>))"

definition to_json_ReqAdminChatAcceptDTO :: "ReqAdminChatAcceptDTO \<Rightarrow> json" where
  "to_json_ReqAdminChatAcceptDTO dto = JObj
     [(''requesterId'', JStr (ReqAdminChatAccept_requesterId dto)),
      (''adminId'', JStr (ReqAdminChatAccept_adminId dto))]"

record ReqAdminChatRejectDTO =
  ReqAdminChatReject_requesterId :: "string"
  ReqAdminChatReject_reason :: "string"

definition default_ReqAdminChatRejectDTO :: ReqAdminChatRejectDTO where
  "default_ReqAdminChatRejectDTO =
     \<lparr>ReqAdminChatReject_requesterId = '''', ReqAdminChatReject_reason = ''''\<rparr>"

definition from_json_ReqAdminChatRejectDTO :: "json \<Rightarrow> exn + ReqAdminChatRejectDTO" where
  "from_json_ReqAdminChatRejectDTO j =
     ebind (j_default get_string j ''requesterId'' '''') (\<lambda>x0.
     ebind (j_default get_string j ''reason'' '''') (\<lambda>x1.
     Inr \<lparr>ReqAdminChatReject_requesterId = x0, ReqAdminChatReject_reason = x1\<rparr>))"

definition to_json_ReqAdminChatRejectDTO :: "ReqAdminChatRejectDTO \<Rightarrow> json" where
  "to_json_ReqAdminChatRejectDTO dto = JObj
     [(''requesterId'', JStr (ReqAdminChatReject_requesterId dto)),
      (''reason'', JStr (ReqAdminChatReject_reason dto))]"

record ResChatRequestResultDTO =
  ResChatRequestResult_status :: "int"
  ResChatRequestResult_roomId :: "string"
  ResChatRequestResult_message :: "string"

definition default_ResChatRequestResultDTO :: ResChatRequestResultDTO where
  "default_ResChatRequestResultDTO =
     \<lparr>ResChatRequestResult_status = 0, ResChatRequestResult_roomId = '''',
      ResChatRequestResult_message = ''''\<rparr>"

definition from_json_ResChatRequestResultDTO :: "json \<Rightarrow> exn + ResChatRequestResultDTO" where
  "from_json_ResChatRequestResultDTO j =
     ebind (j_default get_int j ''status'' 0) (\<lambda>x0.
     ebind (j_default get_string j ''roomId'' '''') (\<lambda>x1.
     ebind (j_default get_string j ''message'' '''') (\<lambda>x2.
     Inr \<lparr>ResChatRequestResult_status = x0, ResChatRequestResult_roomId = x1,
          ResChatRequestResult_message = x2\<rparr>)))"

definition to_json_ResChatRequestResultDTO :: "ResChatRequestResultDTO \<Rightarrow> json" where
  "to_json_ResChatRequestResultDTO dto = JObj
     [(''status'', JInt (ResChatRequestResult_status dto)),
      (''roomId'', JStr (ResChatRequestResult_roomId dto)),
      (''message'', JStr (ResChatRequestResult_message dto))]"

end
