(* ===== verification/Dto_Store.thy ===== *)
theory Dto_Store
  imports Dto_Account
begin

text \<open>
  The store, menu, review and option messages of \<^verbatim>\<open>dto/StoreDTO.h\<close>, \<^verbatim>\<open>dto/StoreDetailDTO.h\<close>: one record per struct
  (field \<open>f\<close> of \<^verbatim>\<open>struct XDTO\<close> is \<open>X_f\<close>), its value-initialised object \<open>default_XDTO\<close>, and the two
  conversions the \<^verbatim>\<open>NLOHMANN_DEFINE_TYPE_INTRUSIVE\<close> macros or the hand-written
  \<^verbatim>\<open>to_json\<close>/\<^verbatim>\<open>from_json\<close> give.  Members of an object are listed in the order of the source; the
  order carries no meaning.
\<close>

definition is_array_field :: "json \<Rightarrow> string \<Rightarrow> bool" where
  "is_array_field j k =
     (case j of JObj kvs \<Rightarrow> (case map_of kvs k of Some (JArr _) \<Rightarrow> True | _ \<Rightarrow> False) | _ \<Rightarrow> False)"

section \<open>\<^verbatim>\<open>StoreDTO.h\<close>\<close>

record OptionItem =
  OptionItem_optionId :: "int"
  OptionItem_optionName :: "string"
  OptionItem_additionalPrice :: "int"
  OptionItem_displayOrder :: "int"

definition default_OptionItem :: OptionItem where
  "default_OptionItem =
     \<lparr>OptionItem_optionId = 0, OptionItem_optionName = '''', OptionItem_additionalPrice = 0,
      OptionItem_displayOrder = 0\<rparr>"

definition from_json_OptionItem :: "json \<Rightarrow> exn + OptionItem" where
  "from_json_OptionItem j =
     ebind (j_at get_int j ''optionId'') (\<lambda>x0.
     ebind (j_at get_string j ''optionName'') (\<lambda>x1.
     ebind (j_at get_int j ''additionalPrice'') (\<lambda>x2.
     ebind (j_at get_int j ''displayOrder'') (\<lambda>x3.
     Inr \<lparr>OptionItem_optionId = x0, OptionItem_optionName = x1, OptionItem_additionalPrice = x2,
          OptionItem_displayOrder = x3\<rparr>))))"

definition to_json_OptionItem :: "OptionItem \<Rightarrow> json" where
  "to_json_OptionItem dto = JObj
     [(''optionId'', JInt (OptionItem_optionId dto)),
      (''optionName'', JStr (OptionItem_optionName dto)),
      (''additionalPrice'', JInt (OptionItem_additionalPrice dto)),
      (''displayOrder'', JInt (OptionItem_displayOrder dto))]"

record OptionGroup =
  OptionGroup_groupId :: "int"
  OptionGroup_groupName :: "string"
  OptionGroup_isRequired :: "bool"
  OptionGroup_maxCount :: "int"
  OptionGroup_displayOrder :: "int"
  OptionGroup_options :: "OptionItem list"

definition default_OptionGroup :: OptionGroup where
  "default_OptionGroup =
     \<lparr>OptionGroup_groupId = 0, OptionGroup_groupName = '''', OptionGroup_isRequired = False,
      OptionGroup_maxCount = 0, OptionGroup_displayOrder = 0, OptionGroup_options = []\<rparr>"

definition from_json_OptionGroup :: "json \<Rightarrow> exn + OptionGroup" where
  "from_json_OptionGroup j =
     ebind (j_at get_int j ''groupId'') (\<lambda>x0.
     ebind (j_at get_string j ''groupName'') (\<lambda>x1.
     ebind (j_value get_bool j ''isRequired'' False) (\<lambda>x2.
     ebind (j_value get_int j ''maxCount'' 1) (\<lambda>x3.
     ebind (j_value get_int j ''displayOrder'' 99) (\<lambda>x4.
     ebind (j_at (get_vector from_json_OptionItem) j ''options'') (\<lambda>x5.
     Inr \<lparr>OptionGroup_groupId = x0, OptionGroup_groupName = x1, OptionGroup_isRequired = x2,
          OptionGroup_maxCount = x3, OptionGroup_displayOrder = x4, OptionGroup_options = x5\<rparr>))))))"

definition to_json_OptionGroup :: "OptionGroup \<Rightarrow> json" where
  "to_json_OptionGroup dto = JObj
     [(''groupId'', JInt (OptionGroup_groupId dto)),
      (''groupName'', JStr (OptionGroup_groupName dto)),
      (''isRequired'', JBool (OptionGroup_isRequired dto)),
      (''maxCount'', JInt (OptionGroup_maxCount dto)),
      (''displayOrder'', JInt (OptionGroup_displayOrder dto)),
      (''options'', JArr (map to_json_OptionItem (OptionGroup_options dto)))]"

record ReqMenuOptionDTO =
  ReqMenuOption_menuId :: "int"

definition default_ReqMenuOptionDTO :: ReqMenuOptionDTO where
  "default_ReqMenuOptionDTO =
     \<lparr>ReqMenuOption_menuId = 0\<rparr>"

definition from_json_ReqMenuOptionDTO :: "json \<Rightarrow> exn + ReqMenuOptionDTO" where
  "from_json_ReqMenuOptionDTO j =
     ebind (j_at get_int j ''menuId'') (\<lambda>x0.
     Inr \<lparr>ReqMenuOption_menuId = x0\<rparr>)"

definition to_json_ReqMenuOptionDTO :: "ReqMenuOptionDTO \<Rightarrow> json" where
  "to_json_ReqMenuOptionDTO dto = JObj
     [(''menuId'', JInt (ReqMenuOption_menuId dto))]"

record ResMenuOptionDTO =
  ResMenuOption_status :: "int"
  ResMenuOption_menuId :: "int"
  ResMenuOption_optionGroups :: "OptionGroup list"

definition default_ResMenuOptionDTO :: ResMenuOptionDTO where
  "default_ResMenuOptionDTO =
     \<lparr>ResMenuOption_status = 0, ResMenuOption_menuId = 0, ResMenuOption_optionGroups = []\<rparr>"

definition from_json_ResMenuOptionDTO :: "json \<Rightarrow> exn + ResMenuOptionDTO" where
  "from_json_ResMenuOptionDTO j =
     ebind (j_at get_int j ''status'') (\<lambda>x0.
     ebind (j_at get_int j ''menuId'') (\<lambda>x1.
     ebind (j_at (get_vector from_json_OptionGroup) j ''optionGroups'') (\<lambda>x2.
     Inr \<lparr>ResMenuOption_status = x0, ResMenuOption_menuId = x1, ResMenuOption_optionGroups = x2\<rparr>)))"

definition to_json_ResMenuOptionDTO :: "ResMenuOptionDTO \<Rightarrow> json" where
  "to_json_ResMenuOptionDTO dto = JObj
     [(''status'', JInt (ResMenuOption_status dto)),
      (''menuId'', JInt (ResMenuOption_menuId dto)),
      (''optionGroups'', JArr (map to_json_OptionGroup (ResMenuOption_optionGroups dto)))]"

record MenuDTO =
  Menu_menuId :: "int"
  Menu_menuName :: "string"
  Menu_basePrice :: "int"
  Menu_isSoldOut :: "bool"
  Menu_description :: "string"
  Menu_imageUrl :: "string"
  Menu_menuCategory :: "string"
  Menu_isPopular :: "bool"
  Menu_optionGroups :: "OptionGroup list"

definition default_MenuDTO :: MenuDTO where
  "default_MenuDTO =
     \<lparr>Menu_menuId = 0, Menu_menuName = '''', Menu_basePrice = 0, Menu_isSoldOut = False,
      Menu_description = '''', Menu_imageUrl = '''', Menu_menuCategory = '''',
      Menu_isPopular = False, Menu_optionGroups = []\<rparr>"

definition from_json_MenuDTO :: "json \<Rightarrow> exn + MenuDTO" where
  "from_json_MenuDTO j =
     ebind (j_value get_int j ''menuId'' 0) (\<lambda>x0.
     ebind (j_value get_string j ''menuName'' '''') (\<lambda>x1.
     ebind (j_value get_int j ''basePrice'' 0) (\<lambda>x2.
     ebind (j_value get_bool j ''isSoldOut'' False) (\<lambda>x3.
     ebind (j_value get_bool j ''isPopular'' False) (\<lambda>x4.
     ebind (j_value get_string j ''description'' '''') (\<lambda>x5.
     ebind (j_value get_string j ''imageUrl'' '''') (\<lambda>x6.
     ebind (j_value get_string j ''menuCategory'' (utf8 [234, 184, 176, 235, 179, 184, 32, 235, 169, 148, 235, 137, 180])) (\<lambda>x7.
     ebind ((if is_array_field j ''optionGroups'' then j_at (get_vector from_json_OptionGroup) j ''optionGroups'' else Inr [])) (\<lambda>x8.
     Inr \<lparr>Menu_menuId = x0, Menu_menuName = x1, Menu_basePrice = x2, Menu_isSoldOut = x3,
          Menu_description = x5, Menu_imageUrl = x6, Menu_menuCategory = x7, Menu_isPopular = x4,
          Menu_optionGroups = x8\<rparr>)))))))))"

definition to_json_MenuDTO :: "MenuDTO \<Rightarrow> json" where
  "to_json_MenuDTO dto = JObj
     [(''menuId'', JInt (Menu_menuId dto)), (''menuName'', JStr (Menu_menuName dto)),
      (''basePrice'', JInt (Menu_basePrice dto)),
      (''isSoldOut'', JBool (Menu_isSoldOut dto)),
      (''isPopular'', JBool (Menu_isPopular dto)),
      (''description'', JStr (Menu_description dto)),
      (''imageUrl'', JStr (Menu_imageUrl dto)),
      (''menuCategory'', JStr (Menu_menuCategory dto)),
      (''optionGroups'', JArr (map to_json_OptionGroup (Menu_optionGroups dto)))]"

record MenuListReqDTO =
  MenuListReq_storeId :: "int"

definition default_MenuListReqDTO :: MenuListReqDTO where
  "default_MenuListReqDTO =
     \<lparr>MenuListReq_storeId = 0\<rparr>"

definition from_json_MenuListReqDTO :: "json \<Rightarrow> exn + MenuListReqDTO" where
  "from_json_MenuListReqDTO j =
     ebind (j_at get_int j ''storeId'') (\<lambda>x0.
     Inr \<lparr>MenuListReq_storeId = x0\<rparr>)"

definition to_json_MenuListReqDTO :: "MenuListReqDTO \<Rightarrow> json" where
  "to_json_MenuListReqDTO dto = JObj
     [(''storeId'', JInt (MenuListReq_storeId dto))]"

record MenuListResDTO =
  MenuListRes_status :: "int"
  MenuListRes_message :: "string"
  MenuListRes_storeId :: "int"
  MenuListRes_menus :: "MenuDTO list"

definition default_MenuListResDTO :: MenuListResDTO where
  "default_MenuListResDTO =
     \<lparr>MenuListRes_status = 0, MenuListRes_message = '''', MenuListRes_storeId = 0,
      MenuListRes_menus = []\<rparr>"

definition from_json_MenuListResDTO :: "json \<Rightarrow> exn + MenuListResDTO" where
  "from_json_MenuListResDTO j =
     ebind (j_at get_int j ''status'') (\<lambda>x0.
     ebind (j_at get_string j ''message'') (\<lambda>x1.
     ebind (j_at get_int j ''storeId'') (\<lambda>x2.
     ebind (j_at (get_vector from_json_MenuDTO) j ''menus'') (\<lambda>x3.
     Inr \<lparr>MenuListRes_status = x0, MenuListRes_message = x1, MenuListRes_storeId = x2,
          MenuListRes_menus = x3\<rparr>))))"

definition to_json_MenuListResDTO :: "MenuListResDTO \<Rightarrow> json" where
  "to_json_MenuListResDTO dto = JObj
     [(''status'', JInt (MenuListRes_status dto)),
      (''message'', JStr (MenuListRes_message dto)),
      (''storeId'', JInt (MenuListRes_storeId dto)),
      (''menus'', JArr (map to_json_MenuDTO (MenuListRes_menus dto)))]"

record StoreDTO =
  Store_storeId :: "int"
  Store_storeName :: "string"
  Store_category :: "string"
  Store_status :: "int"
  Store_deliveryFees :: "json"
  Store_cookTime :: "int"
  Store_imageUrl :: "string"
  Store_minOrderAmount :: "int"
  Store_rating :: "rat"
  Store_reviewCount :: "int"
  Store_deliveryTimeRange :: "string"
  Store_pickupTime :: "string"
  Store_storeAddress :: "string"
  Store_openTime :: "string"
  Store_closeTime :: "string"
  Store_brandName :: "string"
  Store_popularMenu :: "MenuDTO"

definition default_StoreDTO :: StoreDTO where
  "default_StoreDTO =
     \<lparr>Store_storeId = 0, Store_storeName = '''', Store_category = '''', Store_status = 0,
      Store_deliveryFees = JNull, Store_cookTime = 0, Store_imageUrl = '''',
      Store_minOrderAmount = 0, Store_rating = 0, Store_reviewCount = 0,
      Store_deliveryTimeRange = '''', Store_pickupTime = '''', Store_storeAddress = '''',
      Store_openTime = '''', Store_closeTime = '''', Store_brandName = '''',
      Store_popularMenu = default_MenuDTO\<rparr>"

definition from_json_StoreDTO :: "json \<Rightarrow> exn + StoreDTO" where
  "from_json_StoreDTO j =
     ebind (j_at get_int j ''storeId'') (\<lambda>x0.
     ebind (j_at get_string j ''storeName'') (\<lambda>x1.
     ebind (j_at get_string j ''category'') (\<lambda>x2.
     ebind (j_at get_int j ''status'') (\<lambda>x3.
     ebind (j_at get_json j ''deliveryFees'') (\<lambda>x4.
     ebind (j_at get_int j ''cookTime'') (\<lambda>x5.
     ebind (j_at get_string j ''imageUrl'') (\<lambda>x6.
     ebind (j_at get_int j ''minOrderAmount'') (\<lambda>x7.
     ebind (j_at get_double j ''rating'') (\<lambda>x8.
     ebind (j_at get_int j ''reviewCount'') (\<lambda>x9.
     ebind (j_at get_string j ''deliveryTimeRange'') (\<lambda>x10.
     ebind (j_at get_string j ''storeAddress'') (\<lambda>x11.
     ebind (j_at get_string j ''openTime'') (\<lambda>x12.
     ebind (j_at get_string j ''closeTime'') (\<lambda>x13.
     ebind (j_at get_string j ''brandName'') (\<lambda>x14.
     ebind (j_at get_string j ''pickupTime'') (\<lambda>x15.
     ebind (j_at from_json_MenuDTO j ''popularMenu'') (\<lambda>x16.
     Inr \<lparr>Store_storeId = x0, Store_storeName = x1, Store_category = x2, Store_status = x3,
          Store_deliveryFees = x4, Store_cookTime = x5, Store_imageUrl = x6,
          Store_minOrderAmount = x7, Store_rating = x8, Store_reviewCount = x9,
          Store_deliveryTimeRange = x10, Store_pickupTime = x15, Store_storeAddress = x11,
          Store_openTime = x12, Store_closeTime = x13, Store_brandName = x14,
          Store_popularMenu = x16\<rparr>)))))))))))))))))"

definition to_json_StoreDTO :: "StoreDTO \<Rightarrow> json" where
  "to_json_StoreDTO dto = JObj
     [(''storeId'', JInt (Store_storeId dto)), (''storeName'', JStr (Store_storeName dto)),
      (''category'', JStr (Store_category dto)), (''status'', JInt (Store_status dto)),
      (''deliveryFees'', Store_deliveryFees dto), (''cookTime'', JInt (Store_cookTime dto)),
      (''imageUrl'', JStr (Store_imageUrl dto)),
      (''minOrderAmount'', JInt (Store_minOrderAmount dto)),
      (''rating'', JFloat (Store_rating dto)),
      (''reviewCount'', JInt (Store_reviewCount dto)),
      (''deliveryTimeRange'', JStr (Store_deliveryTimeRange dto)),
      (''storeAddress'', JStr (Store_storeAddress dto)),
      (''openTime'', JStr (Store_openTime dto)), (''closeTime'', JStr (Store_closeTime dto)),
      (''brandName'', JStr (Store_brandName dto)),
      (''pickupTime'', JStr (Store_pickupTime dto)),
      (''popularMenu'', to_json_MenuDTO (Store_popularMenu dto))]"

record StoreStatusUpdateReqDTO =
  StoreStatusUpdateReq_storeId :: "int"
  StoreStatusUpdateReq_updateType :: "int"
  StoreStatusUpdateReq_statusValue :: "int"

definition default_StoreStatusUpdateReqDTO :: StoreStatusUpdateReqDTO where
  "default_StoreStatusUpdateReqDTO =
     \<lparr>StoreStatusUpdateReq_storeId = 0, StoreStatusUpdateReq_updateType = 0,
      StoreStatusUpdateReq_statusValue = 0\<rparr>"

definition from_json_StoreStatusUpdateReqDTO :: "json \<Rightarrow> exn + StoreStatusUpdateReqDTO" where
  "from_json_StoreStatusUpdateReqDTO j =
     ebind (j_at get_int j ''storeId'') (\<lambda>x0.
     ebind (j_at get_int j ''updateType'') (\<lambda>x1.
     ebind (j_at get_int j ''statusValue'') (\<lambda>x2.
     Inr \<lparr>StoreStatusUpdateReq_storeId = x0, StoreStatusUpdateReq_updateType = x1,
          StoreStatusUpdateReq_statusValue = x2\<rparr>)))"

definition to_json_StoreStatusUpdateReqDTO :: "StoreStatusUpdateReqDTO \<Rightarrow> json" where
  "to_json_StoreStatusUpdateReqDTO dto = JObj
     [(''storeId'', JInt (StoreStatusUpdateReq_storeId dto)),
      (''updateType'', JInt (StoreStatusUpdateReq_updateType dto)),
      (''statusValue'', JInt (StoreStatusUpdateReq_statusValue dto))]"

record MenuUpdateReqDTO =
  MenuUpdateReq_storeId :: "int"
  MenuUpdateReq_actionType :: "int"
  MenuUpdateReq_menuData :: "MenuDTO"

definition default_MenuUpdateReqDTO :: MenuUpdateReqDTO where
  "default_MenuUpdateReqDTO =
     \<lparr>MenuUpdateReq_storeId = 0, MenuUpdateReq_actionType = 0,
      MenuUpdateReq_menuData = default_MenuDTO\<rparr>"

definition from_json_MenuUpdateReqDTO :: "json \<Rightarrow> exn + MenuUpdateReqDTO" where
  "from_json_MenuUpdateReqDTO j =
     ebind (j_at get_int j ''storeId'') (\<lambda>x0.
     ebind (j_at get_int j ''actionType'') (\<lambda>x1.
     ebind (j_at from_json_MenuDTO j ''menuData'') (\<lambda>x2.
     Inr \<lparr>MenuUpdateReq_storeId = x0, MenuUpdateReq_actionType = x1, MenuUpdateReq_menuData = x2\<rparr>)))"

definition to_json_MenuUpdateReqDTO :: "MenuUpdateReqDTO \<Rightarrow> json" where
  "to_json_MenuUpdateReqDTO dto = JObj
     [(''storeId'', JInt (MenuUpdateReq_storeId dto)),
      (''actionType'', JInt (MenuUpdateReq_actionType dto)),
      (''menuData'', to_json_MenuDTO (MenuUpdateReq_menuData dto))]"

record StoreListReqDTO =
  StoreListReq_categoryId :: "int"
  StoreListReq_brandName :: "string"

definition default_StoreListReqDTO :: StoreListReqDTO where
  "default_StoreListReqDTO =
     \<lparr>StoreListReq_categoryId = 0, StoreListReq_brandName = ''''\<rparr>"

definition from_json_StoreListReqDTO :: "json \<Rightarrow> exn + StoreListReqDTO" where
  "from_json_StoreListReqDTO j =
     ebind (j_default get_int j ''categoryId'' 0) (\<lambda>x0.
     ebind (j_default get_string j ''brandName'' '''') (\<lambda>x1.
     Inr \<lparr>StoreListReq_categoryId = x0, StoreListReq_brandName = x1\<rparr>))"

definition to_json_StoreListReqDTO :: "StoreListReqDTO \<Rightarrow> json" where
  "to_json_StoreListReqDTO dto = JObj
     [(''categoryId'', JInt (StoreListReq_categoryId dto)),
      (''brandName'', JStr (StoreListReq_brandName dto))]"

record StoreListResDTO =
  StoreListRes_status :: "int"
  StoreListRes_message :: "string"
  StoreListRes_stores :: "TopStoreInfo list"

definition default_StoreListResDTO :: StoreListResDTO where
  "default_StoreListResDTO =
     \<lparr>StoreListRes_status = 0, StoreListRes_message = '''', StoreListRes_stores = []\<rparr>"

definition from_json_StoreListResDTO :: "json \<Rightarrow> exn + StoreListResDTO" where
  "from_json_StoreListResDTO j =
     ebind (j_at get_int j ''status'') (\<lambda>x0.
     ebind (j_at get_string j ''message'') (\<lambda>x1.
     ebind (j_at (get_vector from_json_TopStoreInfo) j ''stores'') (\<lambda>x2.
     Inr \<lparr>StoreListRes_status = x0, StoreListRes_message = x1, StoreListRes_stores = x2\<rparr>)))"

definition to_json_StoreListResDTO :: "StoreListResDTO \<Rightarrow> json" where
  "to_json_StoreListResDTO dto = JObj
     [(''status'', JInt (StoreListRes_status dto)),
      (''message'', JStr (StoreListRes_message dto)),
      (''stores'', JArr (map to_json_TopStoreInfo (StoreListRes_stores dto)))]"

record BizNumCheckReqDTO =
  BizNumCheckReq_businessNum :: "string"

definition default_BizNumCheckReqDTO :: BizNumCheckReqDTO where
  "default_BizNumCheckReqDTO =
     \<lparr>BizNumCheckReq_businessNum = ''''\<rparr>"

definition from_json_BizNumCheckReqDTO :: "json \<Rightarrow> exn + BizNumCheckReqDTO" where
  "from_json_BizNumCheckReqDTO j =
     ebind (j_at get_string j ''businessNum'') (\<lambda>x0.
     Inr \<lparr>BizNumCheckReq_businessNum = x0\<rparr>)"

definition to_json_BizNumCheckReqDTO :: "BizNumCheckReqDTO \<Rightarrow> json" where
  "to_json_BizNumCheckReqDTO dto = JObj
     [(''businessNum'', JStr (BizNumCheckReq_businessNum dto))]"

record BizNumCheckResDTO =
  BizNumCheckRes_status :: "int"
  BizNumCheckRes_isAvailable :: "bool"
  BizNumCheckRes_message :: "string"

definition default_BizNumCheckResDTO :: BizNumCheckResDTO where
  "default_BizNumCheckResDTO =
     \<lparr>BizNumCheckRes_status = 0, BizNumCheckRes_isAvailable = False,
      BizNumCheckRes_message = ''''\<rparr>"

definition from_json_BizNumCheckResDTO :: "json \<Rightarrow> exn + BizNumCheckResDTO" where
  "from_json_BizNumCheckResDTO j =
     ebind (j_at get_int j ''status'') (\<lambda>x0.
     ebind (j_at get_bool j ''isAvailable'') (\<lambda>x1.
     ebind (j_at get_string j ''message'') (\<lambda>x2.
     Inr \<lparr>BizNumCheckRes_status = x0, BizNumCheckRes_isAvailable = x1, BizNumCheckRes_message = x2\<rparr>)))"

definition to_json_BizNumCheckResDTO :: "BizNumCheckResDTO \<Rightarrow> json" where
  "to_json_BizNumCheckResDTO dto = JObj
     [(''status'', JInt (BizNumCheckRes_status dto)),
      (''isAvailable'', JBool (BizNumCheckRes_isAvailable dto)),
      (''message'', JStr (BizNumCheckRes_message dto))]"

record ReqCookTimeSetDTO =
  ReqCookTimeSet_orderId :: "string"
  ReqCookTimeSet_cookTime :: "int"

definition default_ReqCookTimeSetDTO :: ReqCookTimeSetDTO where
  "default_ReqCookTimeSetDTO =
     \<lparr>ReqCookTimeSet_orderId = '''', ReqCookTimeSet_cookTime = 0\<rparr>"

definition from_json_ReqCookTimeSetDTO :: "json \<Rightarrow> exn + ReqCookTimeSetDTO" where
  "from_json_ReqCookTimeSetDTO j =
     ebind (j_at get_string j ''orderId'') (\<lambda>x0.
     ebind (j_at get_int j ''cookTime'') (\<lambda>x1.
     Inr \<lparr>ReqCookTimeSet_orderId = x0, ReqCookTimeSet_cookTime = x1\<rparr>))"

definition to_json_ReqCookTimeSetDTO :: "ReqCookTimeSetDTO \<Rightarrow> json" where
  "to_json_ReqCookTimeSetDTO dto = JObj
     [(''orderId'', JStr (ReqCookTimeSet_orderId dto)),
      (''cookTime'', JInt (ReqCookTimeSet_cookTime dto))]"

record ResCookTimeSetDTO =
  ResCookTimeSet_status :: "int"
  ResCookTimeSet_message :: "string"

definition default_ResCookTimeSetDTO :: ResCookTimeSetDTO where
  "default_ResCookTimeSetDTO =
     \<lparr>ResCookTimeSet_status = 0, ResCookTimeSet_message = ''''\<rparr>"

definition from_json_ResCookTimeSetDTO :: "json \<Rightarrow> exn + ResCookTimeSetDTO" where
  "from_json_ResCookTimeSetDTO j =
     ebind (j_at get_int j ''status'') (\<lambda>x0.
     ebind (j_at get_string j ''message'') (\<lambda>x1.
     Inr \<lparr>ResCookTimeSet_status = x0, ResCookTimeSet_message = x1\<rparr>))"

definition to_json_ResCookTimeSetDTO :: "ResCookTimeSetDTO \<Rightarrow> json" where
  "to_json_ResCookTimeSetDTO dto = JObj
     [(''status'', JInt (ResCookTimeSet_status dto)),
      (''message'', JStr (ResCookTimeSet_message dto))]"

section \<open>\<^verbatim>\<open>StoreDetailDTO.h\<close>\<close>

record StoreDataDTO =
  StoreData_storeId :: "int"
  StoreData_storeName :: "string"
  StoreData_storeAddress :: "string"
  StoreData_operatingHours :: "string"
  StoreData_deliveryFees :: "string"
  StoreData_isOpen :: "bool"
  StoreData_imageUrl :: "string"
  StoreData_minOrderAmount :: "int"
  StoreData_rating :: "rat"
  StoreData_reviewCount :: "int"
  StoreData_deliveryTimeRange :: "string"
  StoreData_pickupTime :: "string"
  StoreData_brandName :: "string"
  StoreData_category :: "string"
  StoreData_phoneNumber :: "string"
  StoreData_representativeName :: "string"
  StoreData_businessNumber :: "string"

definition default_StoreDataDTO :: StoreDataDTO where
  "default_StoreDataDTO =
     \<lparr>StoreData_storeId = 0, StoreData_storeName = '''', StoreData_storeAddress = '''',
      StoreData_operatingHours = '''', StoreData_deliveryFees = '''',
      StoreData_isOpen = False, StoreData_imageUrl = '''', StoreData_minOrderAmount = 0,
      StoreData_rating = 0, StoreData_reviewCount = 0, StoreData_deliveryTimeRange = '''',
      StoreData_pickupTime = '''', StoreData_brandName = '''', StoreData_category = '''',
      StoreData_phoneNumber = '''', StoreData_representativeName = '''',
      StoreData_businessNumber = ''''\<rparr>"

definition from_json_StoreDataDTO :: "json \<Rightarrow> exn + StoreDataDTO" where
  "from_json_StoreDataDTO j =
     ebind (ebind (j_value get_int j ''store_id'' 0) (\<lambda>d. j_value get_int j ''storeId'' d)) (\<lambda>x0.
     ebind (ebind (j_value get_string j ''store_name'' '''') (\<lambda>d. j_value get_string j ''storeName'' d)) (\<lambda>x1.
     ebind (ebind (j_value get_string j ''store_address'' '''') (\<lambda>d. j_value get_string j ''storeAddress'' d)) (\<lambda>x2.
     ebind (ebind (j_value get_string j ''operating_hours'' '''') (\<lambda>d. j_value get_string j ''operatingHours'' d)) (\<lambda>x3.
     ebind (ebind (j_value get_string j ''delivery_fees'' '''') (\<lambda>d. j_value get_string j ''deliveryFees'' d)) (\<lambda>x4.
     ebind (ebind (j_value get_bool j ''is_open'' False) (\<lambda>d. j_value get_bool j ''isOpen'' d)) (\<lambda>x5.
     ebind (ebind (j_value get_string j ''image_url'' '''') (\<lambda>d. j_value get_string j ''imageUrl'' d)) (\<lambda>x6.
     ebind (ebind (j_value get_int j ''min_order_amount'' 0) (\<lambda>d. j_value get_int j ''minOrderAmount'' d)) (\<lambda>x7.
     ebind (j_value get_double j ''rating'' 0) (\<lambda>x8.
     ebind (ebind (j_value get_int j ''review_count'' 0) (\<lambda>d. j_value get_int j ''reviewCount'' d)) (\<lambda>x9.
     ebind (ebind (j_value get_string j ''delivery_time_range'' '''') (\<lambda>d. j_value get_string j ''deliveryTimeRange'' d)) (\<lambda>x10.
     ebind (ebind (j_value get_string j ''pickup_time'' '''') (\<lambda>d. j_value get_string j ''pickupTime'' d)) (\<lambda>x11.
     ebind (ebind (j_value get_string j ''brand_name'' (utf8 [236, 160, 149, 235, 179, 180, 32, 236, 151, 134, 236, 157, 140])) (\<lambda>d. j_value get_string j ''brandName'' d)) (\<lambda>x12.
     ebind (ebind (j_value get_string j ''phone_number'' (utf8 [236, 160, 149, 235, 179, 180, 32, 236, 151, 134, 236, 157, 140])) (\<lambda>d. j_value get_string j ''phoneNumber'' d)) (\<lambda>x13.
     ebind (ebind (j_value get_string j ''representative_name'' (utf8 [236, 160, 149, 235, 179, 180, 32, 236, 151, 134, 236, 157, 140])) (\<lambda>d. j_value get_string j ''representativeName'' d)) (\<lambda>x14.
     ebind (ebind (j_value get_string j ''business_number'' (utf8 [236, 160, 149, 235, 179, 180, 32, 236, 151, 134, 236, 157, 140])) (\<lambda>d. j_value get_string j ''businessNumber'' d)) (\<lambda>x15.
     Inr (default_StoreDataDTO\<lparr>StoreData_storeId := x0, StoreData_storeName := x1, StoreData_storeAddress := x2,
          StoreData_operatingHours := x3, StoreData_deliveryFees := x4, StoreData_isOpen := x5,
          StoreData_imageUrl := x6, StoreData_minOrderAmount := x7, StoreData_rating := x8,
          StoreData_reviewCount := x9, StoreData_deliveryTimeRange := x10,
          StoreData_pickupTime := x11, StoreData_brandName := x12, StoreData_phoneNumber := x13,
          StoreData_representativeName := x14, StoreData_businessNumber := x15\<rparr>)))))))))))))))))"

definition to_json_StoreDataDTO :: "StoreDataDTO \<Rightarrow> json" where
  "to_json_StoreDataDTO dto = JObj
     [(''storeId'', JInt (StoreData_storeId dto)),
      (''storeName'', JStr (StoreData_storeName dto)),
      (''storeAddress'', JStr (StoreData_storeAddress dto)),
      (''operatingHours'', JStr (StoreData_operatingHours dto)),
      (''deliveryFees'', JStr (StoreData_deliveryFees dto)),
      (''isOpen'', JBool (StoreData_isOpen dto)),
      (''imageUrl'', JStr (StoreData_imageUrl dto)),
      (''minOrderAmount'', JInt (StoreData_minOrderAmount dto)),
      (''rating'', JFloat (StoreData_rating dto)),
      (''reviewCount'', JInt (StoreData_reviewCount dto)),
      (''deliveryTimeRange'', JStr (StoreData_deliveryTimeRange dto)),
      (''pickupTime'', JStr (StoreData_pickupTime dto)),
      (''brandName'', JStr (StoreData_brandName dto)),
      (''category'', JStr (StoreData_category dto)),
      (''phoneNumber'', JStr (StoreData_phoneNumber dto)),
      (''representativeName'', JStr (StoreData_representativeName dto)),
      (''businessNumber'', JStr (StoreData_businessNumber dto))]"

record MenuDataDTO =
  MenuData_menuId :: "int"
  MenuData_storeId :: "int"
  MenuData_menuName :: "string"
  MenuData_basePrice :: "int"
  MenuData_isSoldOut :: "bool"
  MenuData_description :: "string"
  MenuData_imageUrl :: "string"
  MenuData_menuCategory :: "string"
  MenuData_isPopular :: "bool"
  MenuData_optionGroups :: "json"
  MenuData_reviewContent :: "string"

definition default_MenuDataDTO :: MenuDataDTO where
  "default_MenuDataDTO =
     \<lparr>MenuData_menuId = 0, MenuData_storeId = 0, MenuData_menuName = '''',
      MenuData_basePrice = 0, MenuData_isSoldOut = False, MenuData_description = '''',
      MenuData_imageUrl = '''', MenuData_menuCategory = '''', MenuData_isPopular = False,
      MenuData_optionGroups = JNull, MenuData_reviewContent = ''''\<rparr>"

definition from_json_MenuDataDTO :: "json \<Rightarrow> exn + MenuDataDTO" where
  "from_json_MenuDataDTO j =
     ebind (ebind (j_value get_int j ''menu_id'' 0) (\<lambda>d. j_value get_int j ''menuId'' d)) (\<lambda>x0.
     ebind (ebind (j_value get_int j ''store_id'' 0) (\<lambda>d. j_value get_int j ''storeId'' d)) (\<lambda>x1.
     ebind (ebind (j_value get_string j ''menu_name'' '''') (\<lambda>d. j_value get_string j ''menuName'' d)) (\<lambda>x2.
     ebind (ebind (j_value get_int j ''base_price'' 0) (\<lambda>d. j_value get_int j ''basePrice'' d)) (\<lambda>x3.
     ebind (ebind (j_value get_bool j ''is_sold_out'' False) (\<lambda>d. j_value get_bool j ''isSoldOut'' d)) (\<lambda>x4.
     ebind (j_value get_string j ''description'' '''') (\<lambda>x5.
     ebind (ebind (j_value get_string j ''image_url'' '''') (\<lambda>d. j_value get_string j ''imageUrl'' d)) (\<lambda>x6.
     ebind (ebind (j_value get_string j ''menu_category'' (utf8 [234, 184, 176, 235, 179, 184, 32, 235, 169, 148, 235, 137, 180])) (\<lambda>d. j_value get_string j ''menuCategory'' d)) (\<lambda>x7.
     ebind (ebind (j_value get_bool j ''is_popular'' False) (\<lambda>d. j_value get_bool j ''isPopular'' d)) (\<lambda>x8.
     ebind (ebind (j_value get_json j ''option_groups'' (JArr [])) (\<lambda>d. j_value get_json j ''optionGroups'' d)) (\<lambda>x9.
     ebind (ebind (j_value get_string j ''review_content'' '''') (\<lambda>d. j_value get_string j ''reviewContent'' d)) (\<lambda>x10.
     Inr \<lparr>MenuData_menuId = x0, MenuData_storeId = x1, MenuData_menuName = x2,
          MenuData_basePrice = x3, MenuData_isSoldOut = x4, MenuData_description = x5,
          MenuData_imageUrl = x6, MenuData_menuCategory = x7, MenuData_isPopular = x8,
          MenuData_optionGroups = x9, MenuData_reviewContent = x10\<rparr>)))))))))))"

definition to_json_MenuDataDTO :: "MenuDataDTO \<Rightarrow> json" where
  "to_json_MenuDataDTO dto = JObj
     [(''menuId'', JInt (MenuData_menuId dto)), (''storeId'', JInt (MenuData_storeId dto)),
      (''menuName'', JStr (MenuData_menuName dto)),
      (''basePrice'', JInt (MenuData_basePrice dto)),
      (''isSoldOut'', JBool (MenuData_isSoldOut dto)),
      (''description'', JStr (MenuData_description dto)),
      (''imageUrl'', JStr (MenuData_imageUrl dto)),
      (''menuCategory'', JStr (MenuData_menuCategory dto)),
      (''isPopular'', JBool (MenuData_isPopular dto)),
      (''optionGroups'', MenuData_optionGroups dto),
      (''reviewContent'', JStr (MenuData_reviewContent dto))]"

record ReviewDTO =
  Review_reviewId :: "int"
  Review_orderId :: "string"
  Review_userId :: "string"
  Review_storeId :: "int"
  Review_menuId :: "int"
  Review_menuName :: "string"
  Review_rating :: "int"
  Review_content :: "string"
  Review_imageUrl :: "string"
  Review_ownerReply :: "string"
  Review_createdAt :: "string"

definition default_ReviewDTO :: ReviewDTO where
  "default_ReviewDTO =
     \<lparr>Review_reviewId = 0, Review_orderId = '''', Review_userId = '''', Review_storeId = 0,
      Review_menuId = 0, Review_menuName = '''', Review_rating = 0, Review_content = '''',
      Review_imageUrl = '''', Review_ownerReply = '''', Review_createdAt = ''''\<rparr>"

definition from_json_ReviewDTO :: "json \<Rightarrow> exn + ReviewDTO" where
  "from_json_ReviewDTO j =
     ebind (ebind (j_value get_int j ''review_id'' 0) (\<lambda>d. j_value get_int j ''reviewId'' d)) (\<lambda>x0.
     ebind (ebind (j_value get_string j ''order_id'' '''') (\<lambda>d. j_value get_string j ''orderId'' d)) (\<lambda>x1.
     ebind (ebind (j_value get_string j ''user_id'' '''') (\<lambda>d. j_value get_string j ''userId'' d)) (\<lambda>x2.
     ebind (ebind (j_value get_int j ''store_id'' 0) (\<lambda>d. j_value get_int j ''storeId'' d)) (\<lambda>x3.
     ebind (ebind (j_value get_int j ''menu_id'' 0) (\<lambda>d. j_value get_int j ''menuId'' d)) (\<lambda>x4.
     ebind (ebind (j_value get_string j ''menu_name'' '''') (\<lambda>d. j_value get_string j ''menuName'' d)) (\<lambda>x5.
     ebind (j_value get_int j ''rating'' 0) (\<lambda>x6.
     ebind (j_value get_string j ''content'' '''') (\<lambda>x7.
     ebind (ebind (j_value get_string j ''image_url'' '''') (\<lambda>d. j_value get_string j ''imageUrl'' d)) (\<lambda>x8.
     ebind (ebind (j_value get_string j ''owner_reply'' '''') (\<lambda>d. j_value get_string j ''ownerReply'' d)) (\<lambda>x9.
     ebind (ebind (j_value get_string j ''created_at'' '''') (\<lambda>d. j_value get_string j ''createdAt'' d)) (\<lambda>x10.
     Inr \<lparr>Review_reviewId = x0, Review_orderId = x1, Review_userId = x2, Review_storeId = x3,
          Review_menuId = x4, Review_menuName = x5, Review_rating = x6, Review_content = x7,
          Review_imageUrl = x8, Review_ownerReply = x9, Review_createdAt = x10\<rparr>)))))))))))"

definition to_json_ReviewDTO :: "ReviewDTO \<Rightarrow> json" where
  "to_json_ReviewDTO dto = JObj
     [(''reviewId'', JInt (Review_reviewId dto)), (''orderId'', JStr (Review_orderId dto)),
      (''userId'', JStr (Review_userId dto)), (''storeId'', JInt (Review_storeId dto)),
      (''menuId'', JInt (Review_menuId dto)), (''menuName'', JStr (Review_menuName dto)),
      (''rating'', JInt (Review_rating dto)), (''content'', JStr (Review_content dto)),
      (''imageUrl'', JStr (Review_imageUrl dto)),
      (''ownerReply'', JStr (Review_ownerReply dto)),
      (''createdAt'', JStr (Review_createdAt dto))]"

record ResStoreDetailDTO =
  ResStoreDetail_status :: "int"
  ResStoreDetail_storeData :: "StoreDataDTO"
  ResStoreDetail_menuList :: "MenuDataDTO list"
  ResStoreDetail_reviewList :: "ReviewDTO list"
  ResStoreDetail_storeAddress :: "string"

definition default_ResStoreDetailDTO :: ResStoreDetailDTO where
  "default_ResStoreDetailDTO =
     \<lparr>ResStoreDetail_status = 0, ResStoreDetail_storeData = default_StoreDataDTO,
      ResStoreDetail_menuList = [], ResStoreDetail_reviewList = [],
      ResStoreDetail_storeAddress = ''''\<rparr>"

definition to_json_ResStoreDetailDTO :: "ResStoreDetailDTO \<Rightarrow> json" where
  "to_json_ResStoreDetailDTO dto = JObj
     [(''status'', JInt (ResStoreDetail_status dto)),
      (''storeData'', to_json_StoreDataDTO (ResStoreDetail_storeData dto)),
      (''menuList'', JArr (map to_json_MenuDataDTO (ResStoreDetail_menuList dto))),
      (''reviewList'', JArr (map to_json_ReviewDTO (ResStoreDetail_reviewList dto))),
      (''storeAddress'', JStr (ResStoreDetail_storeAddress dto))]"

record ReqStoreDetailDTO =
  ReqStoreDetail_storeId :: "int"

definition default_ReqStoreDetailDTO :: ReqStoreDetailDTO where
  "default_ReqStoreDetailDTO =
     \<lparr>ReqStoreDetail_storeId = 0\<rparr>"

definition from_json_ReqStoreDetailDTO :: "json \<Rightarrow> exn + ReqStoreDetailDTO" where
  "from_json_ReqStoreDetailDTO j =
     ebind (ebind (j_value get_int j ''store_id'' 0) (\<lambda>d. j_value get_int j ''storeId'' d)) (\<lambda>x0.
     Inr \<lparr>ReqStoreDetail_storeId = x0\<rparr>)"

definition to_json_ReqStoreDetailDTO :: "ReqStoreDetailDTO \<Rightarrow> json" where
  "to_json_ReqStoreDetailDTO dto = JObj
     [(''storeId'', JInt (ReqStoreDetail_storeId dto))]"

end
