(* ===== verification/Dto_Misc.thy ===== *)
theory Dto_Misc
  imports Dto_Store
begin

text \<open>
  The address and search messages of \<^verbatim>\<open>dto/AddressDTO.h\<close>, \<^verbatim>\<open>dto/ResearchDTO.h\<close>: one record per struct
  (field \<open>f\<close> of \<^verbatim>\<open>struct XDTO\<close> is \<open>X_f\<close>), its value-initialised object \<open>default_XDTO\<close>, and the two
  conversions the \<^verbatim>\<open>NLOHMANN_DEFINE_TYPE_INTRUSIVE\<close> macros or the hand-written
  \<^verbatim>\<open>to_json\<close>/\<^verbatim>\<open>from_json\<close> give.  Members of an object are listed in the order of the source; the
  order carries no meaning.
\<close>

section \<open>\<^verbatim>\<open>AddressDTO.h\<close>\<close>

record AddressItemDTO =
  AddressItem_addressId :: "int"
  AddressItem_address :: "string"
  AddressItem_detail :: "string"
  AddressItem_guide :: "string"
  AddressItem_label :: "string"
  AddressItem_isDefault :: "bool"

definition default_AddressItemDTO :: AddressItemDTO where
  "default_AddressItemDTO =
     \<lparr>AddressItem_addressId = 0, AddressItem_address = '''', AddressItem_detail = '''',
      AddressItem_guide = '''', AddressItem_label = (utf8 [234, 184, 176, 237, 131, 128]),
      AddressItem_isDefault = False\<rparr>"

definition from_json_AddressItemDTO :: "json \<Rightarrow> exn + AddressItemDTO" where
  "from_json_AddressItemDTO j =
     ebind (j_at get_int j ''addressId'') (\<lambda>x0.
     ebind (j_at get_string j ''address'') (\<lambda>x1.
     ebind (j_at get_string j ''detail'') (\<lambda>x2.
     ebind (j_at get_string j ''guide'') (\<lambda>x3.
     ebind (j_at get_string j ''label'') (\<lambda>x4.
     ebind (j_at get_bool j ''isDefault'') (\<lambda>x5.
     Inr \<lparr>AddressItem_addressId = x0, AddressItem_address = x1, AddressItem_detail = x2,
          AddressItem_guide = x3, AddressItem_label = x4, AddressItem_isDefault = x5\<rparr>))))))"

definition to_json_AddressItemDTO :: "AddressItemDTO \<Rightarrow> json" where
  "to_json_AddressItemDTO dto = JObj
     [(''addressId'', JInt (AddressItem_addressId dto)),
      (''address'', JStr (AddressItem_address dto)),
      (''detail'', JStr (AddressItem_detail dto)), (''guide'', JStr (AddressItem_guide dto)),
      (''label'', JStr (AddressItem_label dto)),
      (''isDefault'', JBool (AddressItem_isDefault dto))]"

record ReqAddressSaveDTO =
  ReqAddressSave_userId :: "string"
  ReqAddressSave_address :: "string"
  ReqAddressSave_detail :: "string"
  ReqAddressSave_guide :: "string"
  ReqAddressSave_label :: "string"

definition default_ReqAddressSaveDTO :: ReqAddressSaveDTO where
  "default_ReqAddressSaveDTO =
     \<lparr>ReqAddressSave_userId = '''', ReqAddressSave_address = '''',
      ReqAddressSave_detail = '''', ReqAddressSave_guide = '''', ReqAddressSave_label = ''''\<rparr>"

definition from_json_ReqAddressSaveDTO :: "json \<Rightarrow> exn + ReqAddressSaveDTO" where
  "from_json_ReqAddressSaveDTO j =
     ebind (j_at get_string j ''userId'') (\<lambda>x0.
     ebind (j_at get_string j ''address'') (\<lambda>x1.
     ebind (j_at get_string j ''detail'') (\<lambda>x2.
     ebind (j_at get_string j ''guide'') (\<lambda>x3.
     ebind (j_at get_string j ''label'') (\<lambda>x4.
     Inr \<lparr>ReqAddressSave_userId = x0, ReqAddressSave_address = x1, ReqAddressSave_detail = x2,
          ReqAddressSave_guide = x3, ReqAddressSave_label = x4\<rparr>)))))"

definition to_json_ReqAddressSaveDTO :: "ReqAddressSaveDTO \<Rightarrow> json" where
  "to_json_ReqAddressSaveDTO dto = JObj
     [(''userId'', JStr (ReqAddressSave_userId dto)),
      (''address'', JStr (ReqAddressSave_address dto)),
      (''detail'', JStr (ReqAddressSave_detail dto)),
      (''guide'', JStr (ReqAddressSave_guide dto)),
      (''label'', JStr (ReqAddressSave_label dto))]"

record ResAddressSaveDTO =
  ResAddressSave_status :: "int"
  ResAddressSave_addressId :: "int"

definition default_ResAddressSaveDTO :: ResAddressSaveDTO where
  "default_ResAddressSaveDTO =
     \<lparr>ResAddressSave_status = 200, ResAddressSave_addressId = 0\<rparr>"

definition from_json_ResAddressSaveDTO :: "json \<Rightarrow> exn + ResAddressSaveDTO" where
  "from_json_ResAddressSaveDTO j =
     ebind (j_at get_int j ''status'') (\<lambda>x0.
     ebind (j_at get_int j ''addressId'') (\<lambda>x1.
     Inr \<lparr>ResAddressSave_status = x0, ResAddressSave_addressId = x1\<rparr>))"

definition to_json_ResAddressSaveDTO :: "ResAddressSaveDTO \<Rightarrow> json" where
  "to_json_ResAddressSaveDTO dto = JObj
     [(''status'', JInt (ResAddressSave_status dto)),
      (''addressId'', JInt (ResAddressSave_addressId dto))]"

record ReqAddressListDTO =
  ReqAddressList_userId :: "string"

definition default_ReqAddressListDTO :: ReqAddressListDTO where
  "default_ReqAddressListDTO =
     \<lparr>ReqAddressList_userId = ''''\<rparr>"

definition from_json_ReqAddressListDTO :: "json \<Rightarrow> exn + ReqAddressListDTO" where
  "from_json_ReqAddressListDTO j =
     ebind (j_at get_string j ''userId'') (\<lambda>x0.
     Inr \<lparr>ReqAddressList_userId = x0\<rparr>)"

definition to_json_ReqAddressListDTO :: "ReqAddressListDTO \<Rightarrow> json" where
  "to_json_ReqAddressListDTO dto = JObj
     [(''userId'', JStr (ReqAddressList_userId dto))]"

record ResAddressListDTO =
  ResAddressList_status :: "int"
  ResAddressList_addresses :: "AddressItemDTO list"

definition default_ResAddressListDTO :: ResAddressListDTO where
  "default_ResAddressListDTO =
     \<lparr>ResAddressList_status = 200, ResAddressList_addresses = []\<rparr>"

definition from_json_ResAddressListDTO :: "json \<Rightarrow> exn + ResAddressListDTO" where
  "from_json_ResAddressListDTO j =
     ebind (j_at get_int j ''status'') (\<lambda>x0.
     ebind (j_at (get_vector from_json_AddressItemDTO) j ''addresses'') (\<lambda>x1.
     Inr \<lparr>ResAddressList_status = x0, ResAddressList_addresses = x1\<rparr>))"

definition to_json_ResAddressListDTO :: "ResAddressListDTO \<Rightarrow> json" where
  "to_json_ResAddressListDTO dto = JObj
     [(''status'', JInt (ResAddressList_status dto)),
      (''addresses'', JArr (map to_json_AddressItemDTO (ResAddressList_addresses dto)))]"

record ReqAddressDeleteDTO =
  ReqAddressDelete_userId :: "string"
  ReqAddressDelete_addressId :: "int"

definition default_ReqAddressDeleteDTO :: ReqAddressDeleteDTO where
  "default_ReqAddressDeleteDTO =
     \<lparr>ReqAddressDelete_userId = '''', ReqAddressDelete_addressId = 0\<rparr>"

definition from_json_ReqAddressDeleteDTO :: "json \<Rightarrow> exn + ReqAddressDeleteDTO" where
  "from_json_ReqAddressDeleteDTO j =
     ebind (j_at get_string j ''userId'') (\<lambda>x0.
     ebind (j_at get_int j ''addressId'') (\<lambda>x1.
     Inr \<lparr>ReqAddressDelete_userId = x0, ReqAddressDelete_addressId = x1\<rparr>))"

definition to_json_ReqAddressDeleteDTO :: "ReqAddressDeleteDTO \<Rightarrow> json" where
  "to_json_ReqAddressDeleteDTO dto = JObj
     [(''userId'', JStr (ReqAddressDelete_userId dto)),
      (''addressId'', JInt (ReqAddressDelete_addressId dto))]"

record ResAddressDeleteDTO =
  ResAddressDelete_status :: "int"

definition default_ResAddressDeleteDTO :: ResAddressDeleteDTO where
  "default_ResAddressDeleteDTO =
     \<lparr>ResAddressDelete_status = 200\<rparr>"

definition from_json_ResAddressDeleteDTO :: "json \<Rightarrow> exn + ResAddressDeleteDTO" where
  "from_json_ResAddressDeleteDTO j =
     ebind (j_at get_int j ''status'') (\<lambda>x0.
     Inr \<lparr>ResAddressDelete_status = x0\<rparr>)"

definition to_json_ResAddressDeleteDTO :: "ResAddressDeleteDTO \<Rightarrow> json" where
  "to_json_ResAddressDeleteDTO dto = JObj
     [(''status'', JInt (ResAddressDelete_status dto))]"

record ReqAddressUpdateDTO =
  ReqAddressUpdate_userId :: "string"
  ReqAddressUpdate_addressId :: "int"
  ReqAddressUpdate_detail :: "string"
  ReqAddressUpdate_guide :: "string"
  ReqAddressUpdate_label :: "string"

definition default_ReqAddressUpdateDTO :: ReqAddressUpdateDTO where
  "default_ReqAddressUpdateDTO =
     \<lparr>ReqAddressUpdate_userId = '''', ReqAddressUpdate_addressId = 0,
      ReqAddressUpdate_detail = '''', ReqAddressUpdate_guide = '''',
      ReqAddressUpdate_label = ''''\<rparr>"

definition from_json_ReqAddressUpdateDTO :: "json \<Rightarrow> exn + ReqAddressUpdateDTO" where
  "from_json_ReqAddressUpdateDTO j =
     ebind (j_at get_string j ''userId'') (\<lambda>x0.
     ebind (j_at get_int j ''addressId'') (\<lambda>x1.
     ebind (j_at get_string j ''detail'') (\<lambda>x2.
     ebind (j_at get_string j ''guide'') (\<lambda>x3.
     ebind (j_at get_string j ''label'') (\<lambda>x4.
     Inr \<lparr>ReqAddressUpdate_userId = x0, ReqAddressUpdate_addressId = x1,
          ReqAddressUpdate_detail = x2, ReqAddressUpdate_guide = x3, ReqAddressUpdate_label = x4\<rparr>)))))"

definition to_json_ReqAddressUpdateDTO :: "ReqAddressUpdateDTO \<Rightarrow> json" where
  "to_json_ReqAddressUpdateDTO dto = JObj
     [(''userId'', JStr (ReqAddressUpdate_userId dto)),
      (''addressId'', JInt (ReqAddressUpdate_addressId dto)),
      (''detail'', JStr (ReqAddressUpdate_detail dto)),
      (''guide'', JStr (ReqAddressUpdate_guide dto)),
      (''label'', JStr (ReqAddressUpdate_label dto))]"

record ResAddressUpdateDTO =
  ResAddressUpdate_status :: "int"

definition default_ResAddressUpdateDTO :: ResAddressUpdateDTO where
  "default_ResAddressUpdateDTO =
     \<lparr>ResAddressUpdate_status = 200\<rparr>"

definition from_json_ResAddressUpdateDTO :: "json \<Rightarrow> exn + ResAddressUpdateDTO" where
  "from_json_ResAddressUpdateDTO j =
     ebind (j_at get_int j ''status'') (\<lambda>x0.
     Inr \<lparr>ResAddressUpdate_status = x0\<rparr>)"

definition to_json_ResAddressUpdateDTO :: "ResAddressUpdateDTO \<Rightarrow> json" where
  "to_json_ResAddressUpdateDTO dto = JObj
     [(''status'', JInt (ResAddressUpdate_status dto))]"

record ReqAddressDefaultDTO =
  ReqAddressDefault_userId :: "string"
  ReqAddressDefault_addressId :: "int"

definition default_ReqAddressDefaultDTO :: ReqAddressDefaultDTO where
  "default_ReqAddressDefaultDTO =
     \<lparr>ReqAddressDefault_userId = '''', ReqAddressDefault_addressId = 0\<rparr>"

definition from_json_ReqAddressDefaultDTO :: "json \<Rightarrow> exn + ReqAddressDefaultDTO" where
  "from_json_ReqAddressDefaultDTO j =
     ebind (j_at get_string j ''userId'') (\<lambda>x0.
     ebind (j_at get_int j ''addressId'') (\<lambda>x1.
     Inr \<lparr>ReqAddressDefault_userId = x0, ReqAddressDefault_addressId = x1\<rparr>))"

definition to_json_ReqAddressDefaultDTO :: "ReqAddressDefaultDTO \<Rightarrow> json" where
  "to_json_ReqAddressDefaultDTO dto = JObj
     [(''userId'', JStr (ReqAddressDefault_userId dto)),
      (''addressId'', JInt (ReqAddressDefault_addressId dto))]"

record ResAddressDefaultDTO =
  ResAddressDefault_status :: "int"

definition default_ResAddressDefaultDTO :: ResAddressDefaultDTO where
  "default_ResAddressDefaultDTO =
     \<lparr>ResAddressDefault_status = 200\<rparr>"

definition from_json_ResAddressDefaultDTO :: "json \<Rightarrow> exn + ResAddressDefaultDTO" where
  "from_json_ResAddressDefaultDTO j =
     ebind (j_at get_int j ''status'') (\<lambda>x0.
     Inr \<lparr>ResAddressDefault_status = x0\<rparr>)"

definition to_json_ResAddressDefaultDTO :: "ResAddressDefaultDTO \<Rightarrow> json" where
  "to_json_ResAddressDefaultDTO dto = JObj
     [(''status'', JInt (ResAddressDefault_status dto))]"

section \<open>\<^verbatim>\<open>ResearchDTO.h\<close>\<close>

record PopularKeyword =
  PopularKeyword_rank :: "int"
  PopularKeyword_keyword :: "string"

definition default_PopularKeyword :: PopularKeyword where
  "default_PopularKeyword =
     \<lparr>PopularKeyword_rank = 0, PopularKeyword_keyword = ''''\<rparr>"

definition from_json_PopularKeyword :: "json \<Rightarrow> exn + PopularKeyword" where
  "from_json_PopularKeyword j =
     ebind (j_at get_int j ''rank'') (\<lambda>x0.
     ebind (j_at get_string j ''keyword'') (\<lambda>x1.
     Inr \<lparr>PopularKeyword_rank = x0, PopularKeyword_keyword = x1\<rparr>))"

definition to_json_PopularKeyword :: "PopularKeyword \<Rightarrow> json" where
  "to_json_PopularKeyword dto = JObj
     [(''rank'', JInt (PopularKeyword_rank dto)),
      (''keyword'', JStr (PopularKeyword_keyword dto))]"

record RecentSearch =
  RecentSearch_historyId :: "int"
  RecentSearch_keyword :: "string"
  RecentSearch_searchDate :: "string"

definition default_RecentSearch :: RecentSearch where
  "default_RecentSearch =
     \<lparr>RecentSearch_historyId = 0, RecentSearch_keyword = '''', RecentSearch_searchDate = ''''\<rparr>"

definition from_json_RecentSearch :: "json \<Rightarrow> exn + RecentSearch" where
  "from_json_RecentSearch j =
     ebind (j_at get_int j ''historyId'') (\<lambda>x0.
     ebind (j_at get_string j ''keyword'') (\<lambda>x1.
     ebind (j_at get_string j ''searchDate'') (\<lambda>x2.
     Inr \<lparr>RecentSearch_historyId = x0, RecentSearch_keyword = x1, RecentSearch_searchDate = x2\<rparr>)))"

definition to_json_RecentSearch :: "RecentSearch \<Rightarrow> json" where
  "to_json_RecentSearch dto = JObj
     [(''historyId'', JInt (RecentSearch_historyId dto)),
      (''keyword'', JStr (RecentSearch_keyword dto)),
      (''searchDate'', JStr (RecentSearch_searchDate dto))]"

record ReqResearchWidgetDTO =
  ReqResearchWidget_userId :: "string"

definition default_ReqResearchWidgetDTO :: ReqResearchWidgetDTO where
  "default_ReqResearchWidgetDTO =
     \<lparr>ReqResearchWidget_userId = ''''\<rparr>"

definition from_json_ReqResearchWidgetDTO :: "json \<Rightarrow> exn + ReqResearchWidgetDTO" where
  "from_json_ReqResearchWidgetDTO j =
     ebind (j_at get_string j ''userId'') (\<lambda>x0.
     Inr \<lparr>ReqResearchWidget_userId = x0\<rparr>)"

definition to_json_ReqResearchWidgetDTO :: "ReqResearchWidgetDTO \<Rightarrow> json" where
  "to_json_ReqResearchWidgetDTO dto = JObj
     [(''userId'', JStr (ReqResearchWidget_userId dto))]"

record ResResearchWidgetDTO =
  ResResearchWidget_status :: "int"
  ResResearchWidget_popularKeywords :: "PopularKeyword list"
  ResResearchWidget_recentSearches :: "RecentSearch list"
  ResResearchWidget_searchDate :: "string"

definition default_ResResearchWidgetDTO :: ResResearchWidgetDTO where
  "default_ResResearchWidgetDTO =
     \<lparr>ResResearchWidget_status = 0, ResResearchWidget_popularKeywords = [],
      ResResearchWidget_recentSearches = [], ResResearchWidget_searchDate = ''''\<rparr>"

definition from_json_ResResearchWidgetDTO :: "json \<Rightarrow> exn + ResResearchWidgetDTO" where
  "from_json_ResResearchWidgetDTO j =
     ebind (j_at get_int j ''status'') (\<lambda>x0.
     ebind (j_at (get_vector from_json_PopularKeyword) j ''popularKeywords'') (\<lambda>x1.
     ebind (j_at (get_vector from_json_RecentSearch) j ''recentSearches'') (\<lambda>x2.
     ebind (j_at get_string j ''searchDate'') (\<lambda>x3.
     Inr \<lparr>ResResearchWidget_status = x0, ResResearchWidget_popularKeywords = x1,
          ResResearchWidget_recentSearches = x2, ResResearchWidget_searchDate = x3\<rparr>))))"

definition to_json_ResResearchWidgetDTO :: "ResResearchWidgetDTO \<Rightarrow> json" where
  "to_json_ResResearchWidgetDTO dto = JObj
     [(''status'', JInt (ResResearchWidget_status dto)),
      (''popularKeywords'', JArr (map to_json_PopularKeyword (ResResearchWidget_popularKeywords dto))),
      (''recentSearches'', JArr (map to_json_RecentSearch (ResResearchWidget_recentSearches dto))),
      (''searchDate'', JStr (ResResearchWidget_searchDate dto))]"

record ReqResearchDeleteDTO =
  ReqResearchDelete_userId :: "string"
  ReqResearchDelete_historyId :: "int"

definition default_ReqResearchDeleteDTO :: ReqResearchDeleteDTO where
  "default_ReqResearchDeleteDTO =
     \<lparr>ReqResearchDelete_userId = '''', ReqResearchDelete_historyId = 0\<rparr>"

definition from_json_ReqResearchDeleteDTO :: "json \<Rightarrow> exn + ReqResearchDeleteDTO" where
  "from_json_ReqResearchDeleteDTO j =
     ebind (j_at get_string j ''userId'') (\<lambda>x0.
     ebind (j_at get_int j ''historyId'') (\<lambda>x1.
     Inr \<lparr>ReqResearchDelete_userId = x0, ReqResearchDelete_historyId = x1\<rparr>))"

definition to_json_ReqResearchDeleteDTO :: "ReqResearchDeleteDTO \<Rightarrow> json" where
  "to_json_ReqResearchDeleteDTO dto = JObj
     [(''userId'', JStr (ReqResearchDelete_userId dto)),
      (''historyId'', JInt (ReqResearchDelete_historyId dto))]"

record ResResearchDeleteDTO =
  ResResearchDelete_status :: "int"

definition default_ResResearchDeleteDTO :: ResResearchDeleteDTO where
  "default_ResResearchDeleteDTO =
     \<lparr>ResResearchDelete_status = 0\<rparr>"

definition from_json_ResResearchDeleteDTO :: "json \<Rightarrow> exn + ResResearchDeleteDTO" where
  "from_json_ResResearchDeleteDTO j =
     ebind (j_at get_int j ''status'') (\<lambda>x0.
     Inr \<lparr>ResResearchDelete_status = x0\<rparr>)"

definition to_json_ResResearchDeleteDTO :: "ResResearchDeleteDTO \<Rightarrow> json" where
  "to_json_ResResearchDeleteDTO dto = JObj
     [(''status'', JInt (ResResearchDelete_status dto))]"

record ReqResearchAddDTO =
  ReqResearchAdd_userId :: "string"
  ReqResearchAdd_keyword :: "string"

definition default_ReqResearchAddDTO :: ReqResearchAddDTO where
  "default_ReqResearchAddDTO =
     \<lparr>ReqResearchAdd_userId = '''', ReqResearchAdd_keyword = ''''\<rparr>"

definition from_json_ReqResearchAddDTO :: "json \<Rightarrow> exn + ReqResearchAddDTO" where
  "from_json_ReqResearchAddDTO j =
     ebind (j_at get_string j ''userId'') (\<lambda>x0.
     ebind (j_at get_string j ''keyword'') (\<lambda>x1.
     Inr \<lparr>ReqResearchAdd_userId = x0, ReqResearchAdd_keyword = x1\<rparr>))"

definition to_json_ReqResearchAddDTO :: "ReqResearchAddDTO \<Rightarrow> json" where
  "to_json_ReqResearchAddDTO dto = JObj
     [(''userId'', JStr (ReqResearchAdd_userId dto)),
      (''keyword'', JStr (ReqResearchAdd_keyword dto))]"

record ResResearchAddDTO =
  ResResearchAdd_status :: "int"

definition default_ResResearchAddDTO :: ResResearchAddDTO where
  "default_ResResearchAddDTO =
     \<lparr>ResResearchAdd_status = 0\<rparr>"

definition from_json_ResResearchAddDTO :: "json \<Rightarrow> exn + ResResearchAddDTO" where
  "from_json_ResResearchAddDTO j =
     ebind (j_at get_int j ''status'') (\<lambda>x0.
     Inr \<lparr>ResResearchAdd_status = x0\<rparr>)"

definition to_json_ResResearchAddDTO :: "ResResearchAddDTO \<Rightarrow> json" where
  "to_json_ResResearchAddDTO dto = JObj
     [(''status'', JInt (ResResearchAdd_status dto))]"

record ReqResearchDelAllDTO =
  ReqResearchDelAll_userId :: "string"

definition default_ReqResearchDelAllDTO :: ReqResearchDelAllDTO where
  "default_ReqResearchDelAllDTO =
     \<lparr>ReqResearchDelAll_userId = ''''\<rparr>"

definition from_json_ReqResearchDelAllDTO :: "json \<Rightarrow> exn + ReqResearchDelAllDTO" where
  "from_json_ReqResearchDelAllDTO j =
     ebind (j_at get_string j ''userId'') (\<lambda>x0.
     Inr \<lparr>ReqResearchDelAll_userId = x0\<rparr>)"

definition to_json_ReqResearchDelAllDTO :: "ReqResearchDelAllDTO \<Rightarrow> json" where
  "to_json_ReqResearchDelAllDTO dto = JObj
     [(''userId'', JStr (ReqResearchDelAll_userId dto))]"

record ResResearchDelAllDTO =
  ResResearchDelAll_status :: "int"

definition default_ResResearchDelAllDTO :: ResResearchDelAllDTO where
  "default_ResResearchDelAllDTO =
     \<lparr>ResResearchDelAll_status = 0\<rparr>"

definition from_json_ResResearchDelAllDTO :: "json \<Rightarrow> exn + ResResearchDelAllDTO" where
  "from_json_ResResearchDelAllDTO j =
     ebind (j_at get_int j ''status'') (\<lambda>x0.
     Inr \<lparr>ResResearchDelAll_status = x0\<rparr>)"

definition to_json_ResResearchDelAllDTO :: "ResResearchDelAllDTO \<Rightarrow> json" where
  "to_json_ResResearchDelAllDTO dto = JObj
     [(''status'', JInt (ResResearchDelAll_status dto))]"

record ReqSearchStoreDTO =
  ReqSearchStore_keyword :: "string"

definition default_ReqSearchStoreDTO :: ReqSearchStoreDTO where
  "default_ReqSearchStoreDTO =
     \<lparr>ReqSearchStore_keyword = ''''\<rparr>"

definition from_json_ReqSearchStoreDTO :: "json \<Rightarrow> exn + ReqSearchStoreDTO" where
  "from_json_ReqSearchStoreDTO j =
     ebind (j_at get_string j ''keyword'') (\<lambda>x0.
     Inr \<lparr>ReqSearchStore_keyword = x0\<rparr>)"

definition to_json_ReqSearchStoreDTO :: "ReqSearchStoreDTO \<Rightarrow> json" where
  "to_json_ReqSearchStoreDTO dto = JObj
     [(''keyword'', JStr (ReqSearchStore_keyword dto))]"

record ResSearchStoreDTO =
  ResSearchStore_status :: "int"
  ResSearchStore_storeList :: "TopStoreInfo list"

definition default_ResSearchStoreDTO :: ResSearchStoreDTO where
  "default_ResSearchStoreDTO =
     \<lparr>ResSearchStore_status = 0, ResSearchStore_storeList = []\<rparr>"

definition from_json_ResSearchStoreDTO :: "json \<Rightarrow> exn + ResSearchStoreDTO" where
  "from_json_ResSearchStoreDTO j =
     ebind (j_at get_int j ''status'') (\<lambda>x0.
     ebind (j_at (get_vector from_json_TopStoreInfo) j ''storeList'') (\<lambda>x1.
     Inr \<lparr>ResSearchStore_status = x0, ResSearchStore_storeList = x1\<rparr>))"

definition to_json_ResSearchStoreDTO :: "ResSearchStoreDTO \<Rightarrow> json" where
  "to_json_ResSearchStoreDTO dto = JObj
     [(''status'', JInt (ResSearchStore_status dto)),
      (''storeList'', JArr (map to_json_TopStoreInfo (ResSearchStore_storeList dto)))]"

end
