(* ===== verification/Codecs.thy ===== *)
theory Codecs
  imports JsonRoundtrip Dto_Account Dto_Order Dto_Chat Dto_Store Dto_Misc
begin

text \<open>
  The contract of a message type, as a locale: a struct of \<^verbatim>\<open>src/dto\<close> that is turned into JSON, dumped, parsed
  and turned back is the same struct.  Each interpretation discharges it for the two conversions of one struct.
\<close>

named_theorems codec_simps

section \<open>Contents that survive the wire\<close>

text \<open>Integers are read back into an \<^verbatim>\<open>int\<close>, texts have to be UTF-8.\<close>

fun wire_ok :: "json \<Rightarrow> bool" where
  "wire_ok (JInt i) = (- (2 ^ 31) \<le> i \<and> i < 2 ^ 31)"
| "wire_ok (JFloat x) = is_double x"
| "wire_ok (JStr s) = utf8_ok s"
| "wire_ok (JArr xs) = (\<forall>x \<in> set xs. wire_ok x)"
| "wire_ok (JObj kvs) = (\<forall>kv \<in> set kvs. utf8_ok (fst kv) \<and> wire_ok (snd kv))"
| "wire_ok _ = True"

lemma wire_ok_utf8: "wire_ok j \<Longrightarrow> utf8_json j"
  by (induction j rule: wire_ok.induct) auto

lemma wire_ok_numbers: "wire_ok j \<Longrightarrow> numbers_ok j"
  by (induction j rule: wire_ok.induct) auto

lemma get_vector_map:
  assumes "\<And>x. x \<in> set xs \<Longrightarrow> f (g x) = Inr x"
  shows "get_vector f (JArr (map g xs)) = Inr xs"
proof -
  have "emap f (map g xs) = Inr xs" using assms by (induction xs) auto
  then show ?thesis by (simp add: get_vector_def)
qed

lemma get_vector_strings [codec_simps]: "get_vector get_string (JArr (map JStr xs)) = Inr xs"
  by (rule get_vector_map) simp

lemma map_canon_strings [codec_simps]: "map (canon \<circ> JStr) xs = map JStr xs"
  by simp

declare to_int32_id [codec_simps] canon_id [codec_simps] list_all_iff [codec_simps]

section \<open>The contract\<close>

locale message =
  fixes to_json :: "'a \<Rightarrow> json"
    and from_json :: "json \<Rightarrow> exn + 'a"
    and ok :: "'a \<Rightarrow> bool"
  assumes encodes: "ok d \<Longrightarrow> wire_ok (to_json d)"
    and decodes: "ok d \<Longrightarrow> from_json (canon (to_json d)) = Inr d"
begin

lemma vector_encodes: "list_all ok ds \<Longrightarrow> wire_ok (JArr (map to_json ds))"
  using encodes by (auto simp: list_all_iff)

lemma vector_decodes: "list_all ok ds \<Longrightarrow> get_vector from_json (JArr (map (canon \<circ> to_json) ds)) = Inr ds"
  using decodes by (intro get_vector_map) (auto simp: list_all_iff)

lemma crosses:
  assumes "ok d"
  shows "\<exists>tx. json_dump (to_json d) = Inr tx \<and> ebind (json_parse tx) from_json = Inr d"
proof -
  have "wire_ok (to_json d)" using encodes assms .
  then obtain tx where tx: "json_dump (to_json d) = Inr tx"
    using dump_value_utf8 [OF wire_ok_utf8] by (fastforce simp: json_dump_def split: option.splits)
  with decodes [OF assms] parse_dump [OF tx wire_ok_numbers] encodes [OF assms] show ?thesis by simp
qed

end

lemma messageI:
  "(\<And>d. wire_ok (to_json d) \<Longrightarrow> from_json (canon (to_json d)) = Inr d) \<Longrightarrow> message to_json from_json (\<lambda>d. wire_ok (to_json d))"
  by (rule message.intro)

section \<open>Messages\<close>

text \<open>For most structs, contents that can be written are contents that are read back.\<close>

interpretation address_item: message to_json_AddressItemDTO from_json_AddressItemDTO "\<lambda>d. wire_ok (to_json_AddressItemDTO d)"
  by (rule messageI) (simp add: to_json_AddressItemDTO_def from_json_AddressItemDTO_def codec_simps)

interpretation res_address_list: message to_json_ResAddressListDTO from_json_ResAddressListDTO "\<lambda>d. wire_ok (to_json_ResAddressListDTO d)"
  by (rule messageI) (simp add: to_json_ResAddressListDTO_def from_json_ResAddressListDTO_def codec_simps address_item.vector_decodes)

interpretation res_address_save: message to_json_ResAddressSaveDTO from_json_ResAddressSaveDTO "\<lambda>d. wire_ok (to_json_ResAddressSaveDTO d)"
  by (rule messageI) (simp add: to_json_ResAddressSaveDTO_def from_json_ResAddressSaveDTO_def codec_simps)

interpretation req_address_save: message to_json_ReqAddressSaveDTO from_json_ReqAddressSaveDTO "\<lambda>d. wire_ok (to_json_ReqAddressSaveDTO d)"
  by (rule messageI) (simp add: to_json_ReqAddressSaveDTO_def from_json_ReqAddressSaveDTO_def codec_simps)

interpretation req_address_list: message to_json_ReqAddressListDTO from_json_ReqAddressListDTO "\<lambda>d. wire_ok (to_json_ReqAddressListDTO d)"
  by (rule messageI) (simp add: to_json_ReqAddressListDTO_def from_json_ReqAddressListDTO_def codec_simps)

interpretation req_address_delete: message to_json_ReqAddressDeleteDTO from_json_ReqAddressDeleteDTO "\<lambda>d. wire_ok (to_json_ReqAddressDeleteDTO d)"
  by (rule messageI) (simp add: to_json_ReqAddressDeleteDTO_def from_json_ReqAddressDeleteDTO_def codec_simps)

interpretation res_address_delete: message to_json_ResAddressDeleteDTO from_json_ResAddressDeleteDTO "\<lambda>d. wire_ok (to_json_ResAddressDeleteDTO d)"
  by (rule messageI) (simp add: to_json_ResAddressDeleteDTO_def from_json_ResAddressDeleteDTO_def codec_simps)

interpretation req_address_update: message to_json_ReqAddressUpdateDTO from_json_ReqAddressUpdateDTO "\<lambda>d. wire_ok (to_json_ReqAddressUpdateDTO d)"
  by (rule messageI) (simp add: to_json_ReqAddressUpdateDTO_def from_json_ReqAddressUpdateDTO_def codec_simps)

interpretation res_address_update: message to_json_ResAddressUpdateDTO from_json_ResAddressUpdateDTO "\<lambda>d. wire_ok (to_json_ResAddressUpdateDTO d)"
  by (rule messageI) (simp add: to_json_ResAddressUpdateDTO_def from_json_ResAddressUpdateDTO_def codec_simps)

interpretation req_address_default: message to_json_ReqAddressDefaultDTO from_json_ReqAddressDefaultDTO "\<lambda>d. wire_ok (to_json_ReqAddressDefaultDTO d)"
  by (rule messageI) (simp add: to_json_ReqAddressDefaultDTO_def from_json_ReqAddressDefaultDTO_def codec_simps)

interpretation res_address_default: message to_json_ResAddressDefaultDTO from_json_ResAddressDefaultDTO "\<lambda>d. wire_ok (to_json_ResAddressDefaultDTO d)"
  by (rule messageI) (simp add: to_json_ResAddressDefaultDTO_def from_json_ResAddressDefaultDTO_def codec_simps)

interpretation res_chat_connect: message to_json_ResChatConnectDTO from_json_ResChatConnectDTO "\<lambda>d. wire_ok (to_json_ResChatConnectDTO d)"
  by (rule messageI) (simp add: to_json_ResChatConnectDTO_def from_json_ResChatConnectDTO_def codec_simps)

interpretation req_chat_connect: message to_json_ReqChatConnectDTO from_json_ReqChatConnectDTO "\<lambda>d. wire_ok (to_json_ReqChatConnectDTO d)"
  by (rule messageI) (simp add: to_json_ReqChatConnectDTO_def from_json_ReqChatConnectDTO_def codec_simps)

interpretation req_chat_accept: message to_json_ReqChatAcceptDTO from_json_ReqChatAcceptDTO "\<lambda>d. wire_ok (to_json_ReqChatAcceptDTO d)"
  by (rule messageI) (simp add: to_json_ReqChatAcceptDTO_def from_json_ReqChatAcceptDTO_def codec_simps)

interpretation req_chat_send: message to_json_ReqChatSendDTO from_json_ReqChatSendDTO "\<lambda>d. wire_ok (to_json_ReqChatSendDTO d)"
  by (rule messageI) (simp add: to_json_ReqChatSendDTO_def from_json_ReqChatSendDTO_def codec_simps)

interpretation notify_chat_recv: message to_json_NotifyChatRecvDTO from_json_NotifyChatRecvDTO "\<lambda>d. wire_ok (to_json_NotifyChatRecvDTO d)"
  by (rule messageI) (simp add: to_json_NotifyChatRecvDTO_def from_json_NotifyChatRecvDTO_def codec_simps)

interpretation res_chat_send: message to_json_ResChatSendDTO from_json_ResChatSendDTO "\<lambda>d. wire_ok (to_json_ResChatSendDTO d)"
  by (rule messageI) (simp add: to_json_ResChatSendDTO_def from_json_ResChatSendDTO_def codec_simps)

interpretation req_admin_order_list: message to_json_ReqAdminOrderListDTO from_json_ReqAdminOrderListDTO "\<lambda>d. wire_ok (to_json_ReqAdminOrderListDTO d)"
  by (rule messageI) (simp add: to_json_ReqAdminOrderListDTO_def from_json_ReqAdminOrderListDTO_def codec_simps)

interpretation admin_order: message to_json_AdminOrderDTO from_json_AdminOrderDTO "\<lambda>d. wire_ok (to_json_AdminOrderDTO d)"
  by (rule messageI) (simp add: to_json_AdminOrderDTO_def from_json_AdminOrderDTO_def codec_simps)

interpretation res_admin_order_list: message to_json_ResAdminOrderListDTO from_json_ResAdminOrderListDTO "\<lambda>d. wire_ok (to_json_ResAdminOrderListDTO d)"
  by (rule messageI) (simp add: to_json_ResAdminOrderListDTO_def from_json_ResAdminOrderListDTO_def codec_simps admin_order.vector_decodes)

interpretation category_item: message to_json_CategoryItem from_json_CategoryItem "\<lambda>d. wire_ok (to_json_CategoryItem d)"
  by (rule messageI) (simp add: to_json_CategoryItem_def from_json_CategoryItem_def codec_simps)

interpretation brand_category_item: message to_json_BrandCategoryItem from_json_BrandCategoryItem "\<lambda>d. wire_ok (to_json_BrandCategoryItem d)"
  by (rule messageI) (simp add: to_json_BrandCategoryItem_def from_json_BrandCategoryItem_def codec_simps)

interpretation top_store_info: message to_json_TopStoreInfo from_json_TopStoreInfo "\<lambda>d. wire_ok (to_json_TopStoreInfo d)"
  by (rule messageI) (simp add: to_json_TopStoreInfo_def from_json_TopStoreInfo_def codec_simps)

interpretation main_home_res: message to_json_MainHomeResDTO from_json_MainHomeResDTO "\<lambda>d. wire_ok (to_json_MainHomeResDTO d)"
  by (rule messageI) (simp add: to_json_MainHomeResDTO_def from_json_MainHomeResDTO_def codec_simps category_item.vector_decodes brand_category_item.vector_decodes top_store_info.vector_decodes)

interpretation notify_order_state: message to_json_NotifyOrderStateDTO from_json_NotifyOrderStateDTO "\<lambda>d. wire_ok (to_json_NotifyOrderStateDTO d)"
  by (rule messageI) (simp add: to_json_NotifyOrderStateDTO_def from_json_NotifyOrderStateDTO_def codec_simps)

interpretation order_accept_res: message to_json_OrderAcceptResDTO from_json_OrderAcceptResDTO "\<lambda>d. wire_ok (to_json_OrderAcceptResDTO d)"
  by (rule messageI) (simp add: to_json_OrderAcceptResDTO_def from_json_OrderAcceptResDTO_def codec_simps)

interpretation order_accept_req: message to_json_OrderAcceptReqDTO from_json_OrderAcceptReqDTO "\<lambda>d. wire_ok (to_json_OrderAcceptReqDTO d)"
  by (rule messageI) (simp add: to_json_OrderAcceptReqDTO_def from_json_OrderAcceptReqDTO_def codec_simps)

interpretation res_change_order_state: message to_json_ResChangeOrderStateDTO from_json_ResChangeOrderStateDTO "\<lambda>d. wire_ok (to_json_ResChangeOrderStateDTO d)"
  by (rule messageI) (simp add: to_json_ResChangeOrderStateDTO_def from_json_ResChangeOrderStateDTO_def codec_simps)

interpretation req_change_order_state: message to_json_ReqChangeOrderStateDTO from_json_ReqChangeOrderStateDTO "\<lambda>d. wire_ok (to_json_ReqChangeOrderStateDTO d)"
  by (rule messageI) (simp add: to_json_ReqChangeOrderStateDTO_def from_json_ReqChangeOrderStateDTO_def codec_simps)

interpretation order_history_item: message to_json_OrderHistoryItemDTO from_json_OrderHistoryItemDTO "\<lambda>d. wire_ok (to_json_OrderHistoryItemDTO d)"
  by (rule messageI) (simp add: to_json_OrderHistoryItemDTO_def from_json_OrderHistoryItemDTO_def codec_simps)

interpretation res_order_history: message to_json_ResOrderHistoryDTO from_json_ResOrderHistoryDTO "\<lambda>d. wire_ok (to_json_ResOrderHistoryDTO d)"
  by (rule messageI) (simp add: to_json_ResOrderHistoryDTO_def from_json_ResOrderHistoryDTO_def codec_simps order_history_item.vector_decodes)

interpretation req_order_history: message to_json_ReqOrderHistoryDTO from_json_ReqOrderHistoryDTO "\<lambda>d. wire_ok (to_json_ReqOrderHistoryDTO d)"
  by (rule messageI) (simp add: to_json_ReqOrderHistoryDTO_def from_json_ReqOrderHistoryDTO_def codec_simps)

interpretation req_order_history_search: message to_json_ReqOrderHistorySearchDTO from_json_ReqOrderHistorySearchDTO "\<lambda>d. wire_ok (to_json_ReqOrderHistorySearchDTO d)"
  by (rule messageI) (simp add: to_json_ReqOrderHistorySearchDTO_def from_json_ReqOrderHistorySearchDTO_def codec_simps)

interpretation order_create_res: message to_json_OrderCreateResDTO from_json_OrderCreateResDTO "\<lambda>d. wire_ok (to_json_OrderCreateResDTO d)"
  by (rule messageI) (simp add: to_json_OrderCreateResDTO_def from_json_OrderCreateResDTO_def codec_simps)

interpretation address_item: message to_json_AddressItemDTO from_json_AddressItemDTO "\<lambda>d. wire_ok (to_json_AddressItemDTO d)"
  by (rule messageI) (simp add: to_json_AddressItemDTO_def from_json_AddressItemDTO_def codec_simps del: std_map_sorted)

interpretation res_address_list: message to_json_ResAddressListDTO from_json_ResAddressListDTO "\<lambda>d. wire_ok (to_json_ResAddressListDTO d)"
  by (rule messageI) (simp add: to_json_ResAddressListDTO_def from_json_ResAddressListDTO_def codec_simps address_item.vector_decodes del: std_map_sorted)

interpretation res_address_save: message to_json_ResAddressSaveDTO from_json_ResAddressSaveDTO "\<lambda>d. wire_ok (to_json_ResAddressSaveDTO d)"
  by (rule messageI) (simp add: to_json_ResAddressSaveDTO_def from_json_ResAddressSaveDTO_def codec_simps del: std_map_sorted)

interpretation req_address_save: message to_json_ReqAddressSaveDTO from_json_ReqAddressSaveDTO "\<lambda>d. wire_ok (to_json_ReqAddressSaveDTO d)"
  by (rule messageI) (simp add: to_json_ReqAddressSaveDTO_def from_json_ReqAddressSaveDTO_def codec_simps del: std_map_sorted)

interpretation req_address_list: message to_json_ReqAddressListDTO from_json_ReqAddressListDTO "\<lambda>d. wire_ok (to_json_ReqAddressListDTO d)"
  by (rule messageI) (simp add: to_json_ReqAddressListDTO_def from_json_ReqAddressListDTO_def codec_simps del: std_map_sorted)

interpretation req_address_delete: message to_json_ReqAddressDeleteDTO from_json_ReqAddressDeleteDTO "\<lambda>d. wire_ok (to_json_ReqAddressDeleteDTO d)"
  by (rule messageI) (simp add: to_json_ReqAddressDeleteDTO_def from_json_ReqAddressDeleteDTO_def codec_simps del: std_map_sorted)

interpretation res_address_delete: message to_json_ResAddressDeleteDTO from_json_ResAddressDeleteDTO "\<lambda>d. wire_ok (to_json_ResAddressDeleteDTO d)"
  by (rule messageI) (simp add: to_json_ResAddressDeleteDTO_def from_json_ResAddressDeleteDTO_def codec_simps del: std_map_sorted)

interpretation req_address_update: message to_json_ReqAddressUpdateDTO from_json_ReqAddressUpdateDTO "\<lambda>d. wire_ok (to_json_ReqAddressUpdateDTO d)"
  by (rule messageI) (simp add: to_json_ReqAddressUpdateDTO_def from_json_ReqAddressUpdateDTO_def codec_simps del: std_map_sorted)

interpretation res_address_update: message to_json_ResAddressUpdateDTO from_json_ResAddressUpdateDTO "\<lambda>d. wire_ok (to_json_ResAddressUpdateDTO d)"
  by (rule messageI) (simp add: to_json_ResAddressUpdateDTO_def from_json_ResAddressUpdateDTO_def codec_simps del: std_map_sorted)

interpretation req_address_default: message to_json_ReqAddressDefaultDTO from_json_ReqAddressDefaultDTO "\<lambda>d. wire_ok (to_json_ReqAddressDefaultDTO d)"
  by (rule messageI) (simp add: to_json_ReqAddressDefaultDTO_def from_json_ReqAddressDefaultDTO_def codec_simps del: std_map_sorted)

interpretation res_address_default: message to_json_ResAddressDefaultDTO from_json_ResAddressDefaultDTO "\<lambda>d. wire_ok (to_json_ResAddressDefaultDTO d)"
  by (rule messageI) (simp add: to_json_ResAddressDefaultDTO_def from_json_ResAddressDefaultDTO_def codec_simps del: std_map_sorted)

interpretation res_chat_connect: message to_json_ResChatConnectDTO from_json_ResChatConnectDTO "\<lambda>d. wire_ok (to_json_ResChatConnectDTO d)"
  by (rule messageI) (simp add: to_json_ResChatConnectDTO_def from_json_ResChatConnectDTO_def codec_simps del: std_map_sorted)

interpretation req_chat_connect: message to_json_ReqChatConnectDTO from_json_ReqChatConnectDTO "\<lambda>d. wire_ok (to_json_ReqChatConnectDTO d)"
  by (rule messageI) (simp add: to_json_ReqChatConnectDTO_def from_json_ReqChatConnectDTO_def codec_simps del: std_map_sorted)

interpretation req_chat_accept: message to_json_ReqChatAcceptDTO from_json_ReqChatAcceptDTO "\<lambda>d. wire_ok (to_json_ReqChatAcceptDTO d)"
  by (rule messageI) (simp add: to_json_ReqChatAcceptDTO_def from_json_ReqChatAcceptDTO_def codec_simps del: std_map_sorted)

interpretation req_chat_send: message to_json_ReqChatSendDTO from_json_ReqChatSendDTO "\<lambda>d. wire_ok (to_json_ReqChatSendDTO d)"
  by (rule messageI) (simp add: to_json_ReqChatSendDTO_def from_json_ReqChatSendDTO_def codec_simps del: std_map_sorted)

interpretation notify_chat_recv: message to_json_NotifyChatRecvDTO from_json_NotifyChatRecvDTO "\<lambda>d. wire_ok (to_json_NotifyChatRecvDTO d)"
  by (rule messageI) (simp add: to_json_NotifyChatRecvDTO_def from_json_NotifyChatRecvDTO_def codec_simps del: std_map_sorted)

interpretation res_chat_send: message to_json_ResChatSendDTO from_json_ResChatSendDTO "\<lambda>d. wire_ok (to_json_ResChatSendDTO d)"
  by (rule messageI) (simp add: to_json_ResChatSendDTO_def from_json_ResChatSendDTO_def codec_simps del: std_map_sorted)

interpretation req_admin_order_list: message to_json_ReqAdminOrderListDTO from_json_ReqAdminOrderListDTO "\<lambda>d. wire_ok (to_json_ReqAdminOrderListDTO d)"
  by (rule messageI) (simp add: to_json_ReqAdminOrderListDTO_def from_json_ReqAdminOrderListDTO_def codec_simps del: std_map_sorted)

interpretation admin_order: message to_json_AdminOrderDTO from_json_AdminOrderDTO "\<lambda>d. wire_ok (to_json_AdminOrderDTO d)"
  by (rule messageI) (simp add: to_json_AdminOrderDTO_def from_json_AdminOrderDTO_def codec_simps del: std_map_sorted)

interpretation res_admin_order_list: message to_json_ResAdminOrderListDTO from_json_ResAdminOrderListDTO "\<lambda>d. wire_ok (to_json_ResAdminOrderListDTO d)"
  by (rule messageI) (simp add: to_json_ResAdminOrderListDTO_def from_json_ResAdminOrderListDTO_def codec_simps admin_order.vector_decodes del: std_map_sorted)

interpretation category_item: message to_json_CategoryItem from_json_CategoryItem "\<lambda>d. wire_ok (to_json_CategoryItem d)"
  by (rule messageI) (simp add: to_json_CategoryItem_def from_json_CategoryItem_def codec_simps del: std_map_sorted)

interpretation brand_category_item: message to_json_BrandCategoryItem from_json_BrandCategoryItem "\<lambda>d. wire_ok (to_json_BrandCategoryItem d)"
  by (rule messageI) (simp add: to_json_BrandCategoryItem_def from_json_BrandCategoryItem_def codec_simps del: std_map_sorted)

interpretation top_store_info: message to_json_TopStoreInfo from_json_TopStoreInfo "\<lambda>d. wire_ok (to_json_TopStoreInfo d)"
  by (rule messageI) (simp add: to_json_TopStoreInfo_def from_json_TopStoreInfo_def codec_simps del: std_map_sorted)

interpretation main_home_res: message to_json_MainHomeResDTO from_json_MainHomeResDTO "\<lambda>d. wire_ok (to_json_MainHomeResDTO d)"
  by (rule messageI) (simp add: to_json_MainHomeResDTO_def from_json_MainHomeResDTO_def codec_simps category_item.vector_decodes brand_category_item.vector_decodes top_store_info.vector_decodes del: std_map_sorted)

interpretation notify_order_state: message to_json_NotifyOrderStateDTO from_json_NotifyOrderStateDTO "\<lambda>d. wire_ok (to_json_NotifyOrderStateDTO d)"
  by (rule messageI) (simp add: to_json_NotifyOrderStateDTO_def from_json_NotifyOrderStateDTO_def codec_simps del: std_map_sorted)

interpretation order_accept_res: message to_json_OrderAcceptResDTO from_json_OrderAcceptResDTO "\<lambda>d. wire_ok (to_json_OrderAcceptResDTO d)"
  by (rule messageI) (simp add: to_json_OrderAcceptResDTO_def from_json_OrderAcceptResDTO_def codec_simps del: std_map_sorted)

interpretation order_accept_req: message to_json_OrderAcceptReqDTO from_json_OrderAcceptReqDTO "\<lambda>d. wire_ok (to_json_OrderAcceptReqDTO d)"
  by (rule messageI) (simp add: to_json_OrderAcceptReqDTO_def from_json_OrderAcceptReqDTO_def codec_simps del: std_map_sorted)

interpretation res_change_order_state: message to_json_ResChangeOrderStateDTO from_json_ResChangeOrderStateDTO "\<lambda>d. wire_ok (to_json_ResChangeOrderStateDTO d)"
  by (rule messageI) (simp add: to_json_ResChangeOrderStateDTO_def from_json_ResChangeOrderStateDTO_def codec_simps del: std_map_sorted)

interpretation req_change_order_state: message to_json_ReqChangeOrderStateDTO from_json_ReqChangeOrderStateDTO "\<lambda>d. wire_ok (to_json_ReqChangeOrderStateDTO d)"
  by (rule messageI) (simp add: to_json_ReqChangeOrderStateDTO_def from_json_ReqChangeOrderStateDTO_def codec_simps del: std_map_sorted)

interpretation order_history_item: message to_json_OrderHistoryItemDTO from_json_OrderHistoryItemDTO "\<lambda>d. wire_ok (to_json_OrderHistoryItemDTO d)"
  by (rule messageI) (simp add: to_json_OrderHistoryItemDTO_def from_json_OrderHistoryItemDTO_def codec_simps del: std_map_sorted)

interpretation res_order_history: message to_json_ResOrderHistoryDTO from_json_ResOrderHistoryDTO "\<lambda>d. wire_ok (to_json_ResOrderHistoryDTO d)"
  by (rule messageI) (simp add: to_json_ResOrderHistoryDTO_def from_json_ResOrderHistoryDTO_def codec_simps order_history_item.vector_decodes del: std_map_sorted)

interpretation req_order_history: message to_json_ReqOrderHistoryDTO from_json_ReqOrderHistoryDTO "\<lambda>d. wire_ok (to_json_ReqOrderHistoryDTO d)"
  by (rule messageI) (simp add: to_json_ReqOrderHistoryDTO_def from_json_ReqOrderHistoryDTO_def codec_simps del: std_map_sorted)

interpretation req_order_history_search: message to_json_ReqOrderHistorySearchDTO from_json_ReqOrderHistorySearchDTO "\<lambda>d. wire_ok (to_json_ReqOrderHistorySearchDTO d)"
  by (rule messageI) (simp add: to_json_ReqOrderHistorySearchDTO_def from_json_ReqOrderHistorySearchDTO_def codec_simps del: std_map_sorted)

interpretation order_create_res: message to_json_OrderCreateResDTO from_json_OrderCreateResDTO "\<lambda>d. wire_ok (to_json_OrderCreateResDTO d)"
  by (rule messageI) (simp add: to_json_OrderCreateResDTO_def from_json_OrderCreateResDTO_def codec_simps del: std_map_sorted)

definition item_ok :: "OrderItemDTO \<Rightarrow> bool" where
  "item_ok d \<longleftrightarrow> wire_ok (to_json_OrderItemDTO d) \<and> is_canon (OrderItem_selectedOptions d)"

interpretation order_item: message to_json_OrderItemDTO from_json_OrderItemDTO item_ok
  by (rule message.intro) (simp_all add: item_ok_def to_json_OrderItemDTO_def from_json_OrderItemDTO_def codec_simps del: std_map_sorted)

definition order_ok :: "OrderCreateReqDTO \<Rightarrow> bool" where
  "order_ok d \<longleftrightarrow> wire_ok (to_json_OrderCreateReqDTO d) \<and> list_all item_ok (OrderCreateReq_items d)
     \<and> OrderCreateReq_couponId d = 0"

interpretation order_create_req: message to_json_OrderCreateReqDTO from_json_OrderCreateReqDTO order_ok
  by (rule message.intro) (simp_all add: order_ok_def to_json_OrderCreateReqDTO_def from_json_OrderCreateReqDTO_def codec_simps order_item.vector_decodes default_OrderCreateReqDTO_def del: std_map_sorted)

interpretation res_cook_time_set: message to_json_ResCookTimeSetDTO from_json_ResCookTimeSetDTO "\<lambda>d. wire_ok (to_json_ResCookTimeSetDTO d)"
  by (rule messageI) (simp add: to_json_ResCookTimeSetDTO_def from_json_ResCookTimeSetDTO_def codec_simps del: std_map_sorted)

interpretation notify_delivery_call: message to_json_NotifyDeliveryCallDTO from_json_NotifyDeliveryCallDTO "\<lambda>d. wire_ok (to_json_NotifyDeliveryCallDTO d)"
  by (rule messageI) (simp add: to_json_NotifyDeliveryCallDTO_def from_json_NotifyDeliveryCallDTO_def codec_simps del: std_map_sorted)

interpretation req_cook_time_set: message to_json_ReqCookTimeSetDTO from_json_ReqCookTimeSetDTO "\<lambda>d. wire_ok (to_json_ReqCookTimeSetDTO d)"
  by (rule messageI) (simp add: to_json_ReqCookTimeSetDTO_def from_json_ReqCookTimeSetDTO_def codec_simps del: std_map_sorted)

interpretation res_delivery_complete: message to_json_ResDeliveryCompleteDTO from_json_ResDeliveryCompleteDTO "\<lambda>d. wire_ok (to_json_ResDeliveryCompleteDTO d)"
  by (rule messageI) (simp add: to_json_ResDeliveryCompleteDTO_def from_json_ResDeliveryCompleteDTO_def codec_simps del: std_map_sorted)

interpretation req_delivery_complete: message to_json_ReqDeliveryCompleteDTO from_json_ReqDeliveryCompleteDTO "\<lambda>d. wire_ok (to_json_ReqDeliveryCompleteDTO d)"
  by (rule messageI) (simp add: to_json_ReqDeliveryCompleteDTO_def from_json_ReqDeliveryCompleteDTO_def codec_simps del: std_map_sorted)

interpretation req_checkout_info: message to_json_ReqCheckoutInfoDTO from_json_ReqCheckoutInfoDTO "\<lambda>d. wire_ok (to_json_ReqCheckoutInfoDTO d)"
  by (rule messageI) (simp add: to_json_ReqCheckoutInfoDTO_def from_json_ReqCheckoutInfoDTO_def codec_simps del: std_map_sorted)

interpretation res_checkout_info: message to_json_ResCheckoutInfoDTO from_json_ResCheckoutInfoDTO "\<lambda>d. wire_ok (to_json_ResCheckoutInfoDTO d)"
  by (rule messageI) (simp add: to_json_ResCheckoutInfoDTO_def from_json_ResCheckoutInfoDTO_def codec_simps del: std_map_sorted)

interpretation res_order_reject: message to_json_ResOrderRejectDTO from_json_ResOrderRejectDTO "\<lambda>d. wire_ok (to_json_ResOrderRejectDTO d)"
  by (rule messageI) (simp add: to_json_ResOrderRejectDTO_def from_json_ResOrderRejectDTO_def codec_simps del: std_map_sorted)

definition order_detail_ok :: "ResOrderDetailDTO \<Rightarrow> bool" where
  "order_detail_ok d \<longleftrightarrow> wire_ok (to_json_ResOrderDetailDTO d) \<and> list_all item_ok (ResOrderDetail_items d)"

interpretation res_order_detail: message to_json_ResOrderDetailDTO from_json_ResOrderDetailDTO order_detail_ok
  by (rule message.intro) (simp_all add: order_detail_ok_def to_json_ResOrderDetailDTO_def from_json_ResOrderDetailDTO_def codec_simps order_item.vector_decodes del: std_map_sorted)

interpretation req_research_widget: message to_json_ReqResearchWidgetDTO from_json_ReqResearchWidgetDTO "\<lambda>d. wire_ok (to_json_ReqResearchWidgetDTO d)"
  by (rule messageI) (simp add: to_json_ReqResearchWidgetDTO_def from_json_ReqResearchWidgetDTO_def codec_simps del: std_map_sorted)

interpretation popular_keyword: message to_json_PopularKeyword from_json_PopularKeyword "\<lambda>d. wire_ok (to_json_PopularKeyword d)"
  by (rule messageI) (simp add: to_json_PopularKeyword_def from_json_PopularKeyword_def codec_simps del: std_map_sorted)

interpretation recent_search: message to_json_RecentSearch from_json_RecentSearch "\<lambda>d. wire_ok (to_json_RecentSearch d)"
  by (rule messageI) (simp add: to_json_RecentSearch_def from_json_RecentSearch_def codec_simps del: std_map_sorted)

interpretation res_research_widget: message to_json_ResResearchWidgetDTO from_json_ResResearchWidgetDTO "\<lambda>d. wire_ok (to_json_ResResearchWidgetDTO d)"
  by (rule messageI) (simp add: to_json_ResResearchWidgetDTO_def from_json_ResResearchWidgetDTO_def codec_simps popular_keyword.vector_decodes recent_search.vector_decodes del: std_map_sorted)

interpretation req_research_add: message to_json_ReqResearchAddDTO from_json_ReqResearchAddDTO "\<lambda>d. wire_ok (to_json_ReqResearchAddDTO d)"
  by (rule messageI) (simp add: to_json_ReqResearchAddDTO_def from_json_ReqResearchAddDTO_def codec_simps del: std_map_sorted)

interpretation res_research_add: message to_json_ResResearchAddDTO from_json_ResResearchAddDTO "\<lambda>d. wire_ok (to_json_ResResearchAddDTO d)"
  by (rule messageI) (simp add: to_json_ResResearchAddDTO_def from_json_ResResearchAddDTO_def codec_simps del: std_map_sorted)

interpretation req_research_delete: message to_json_ReqResearchDeleteDTO from_json_ReqResearchDeleteDTO "\<lambda>d. wire_ok (to_json_ReqResearchDeleteDTO d)"
  by (rule messageI) (simp add: to_json_ReqResearchDeleteDTO_def from_json_ReqResearchDeleteDTO_def codec_simps del: std_map_sorted)

interpretation res_research_delete: message to_json_ResResearchDeleteDTO from_json_ResResearchDeleteDTO "\<lambda>d. wire_ok (to_json_ResResearchDeleteDTO d)"
  by (rule messageI) (simp add: to_json_ResResearchDeleteDTO_def from_json_ResResearchDeleteDTO_def codec_simps del: std_map_sorted)

interpretation req_research_del_all: message to_json_ReqResearchDelAllDTO from_json_ReqResearchDelAllDTO "\<lambda>d. wire_ok (to_json_ReqResearchDelAllDTO d)"
  by (rule messageI) (simp add: to_json_ReqResearchDelAllDTO_def from_json_ReqResearchDelAllDTO_def codec_simps del: std_map_sorted)

interpretation res_research_del_all: message to_json_ResResearchDelAllDTO from_json_ResResearchDelAllDTO "\<lambda>d. wire_ok (to_json_ResResearchDelAllDTO d)"
  by (rule messageI) (simp add: to_json_ResResearchDelAllDTO_def from_json_ResResearchDelAllDTO_def codec_simps del: std_map_sorted)

interpretation req_search_store: message to_json_ReqSearchStoreDTO from_json_ReqSearchStoreDTO "\<lambda>d. wire_ok (to_json_ReqSearchStoreDTO d)"
  by (rule messageI) (simp add: to_json_ReqSearchStoreDTO_def from_json_ReqSearchStoreDTO_def codec_simps del: std_map_sorted)

interpretation res_search_store: message to_json_ResSearchStoreDTO from_json_ResSearchStoreDTO "\<lambda>d. wire_ok (to_json_ResSearchStoreDTO d)"
  by (rule messageI) (simp add: to_json_ResSearchStoreDTO_def from_json_ResSearchStoreDTO_def codec_simps top_store_info.vector_decodes del: std_map_sorted)

interpretation store_list_res: message to_json_StoreListResDTO from_json_StoreListResDTO "\<lambda>d. wire_ok (to_json_StoreListResDTO d)"
  by (rule messageI) (simp add: to_json_StoreListResDTO_def from_json_StoreListResDTO_def codec_simps top_store_info.vector_decodes del: std_map_sorted)

interpretation store_list_req: message to_json_StoreListReqDTO from_json_StoreListReqDTO "\<lambda>d. wire_ok (to_json_StoreListReqDTO d)"
  by (rule messageI) (simp add: to_json_StoreListReqDTO_def from_json_StoreListReqDTO_def codec_simps del: std_map_sorted)

interpretation req_store_detail: message to_json_ReqStoreDetailDTO from_json_ReqStoreDetailDTO "\<lambda>d. wire_ok (to_json_ReqStoreDetailDTO d)"
  by (rule messageI) (simp add: to_json_ReqStoreDetailDTO_def from_json_ReqStoreDetailDTO_def codec_simps del: std_map_sorted)

interpretation option_item: message to_json_OptionItem from_json_OptionItem "\<lambda>d. wire_ok (to_json_OptionItem d)"
  by (rule messageI) (simp add: to_json_OptionItem_def from_json_OptionItem_def codec_simps del: std_map_sorted)

interpretation option_group: message to_json_OptionGroup from_json_OptionGroup "\<lambda>d. wire_ok (to_json_OptionGroup d)"
  by (rule messageI) (simp add: to_json_OptionGroup_def from_json_OptionGroup_def codec_simps option_item.vector_decodes del: std_map_sorted)

interpretation res_menu_option: message to_json_ResMenuOptionDTO from_json_ResMenuOptionDTO "\<lambda>d. wire_ok (to_json_ResMenuOptionDTO d)"
  by (rule messageI) (simp add: to_json_ResMenuOptionDTO_def from_json_ResMenuOptionDTO_def codec_simps option_group.vector_decodes del: std_map_sorted)

interpretation req_menu_option: message to_json_ReqMenuOptionDTO from_json_ReqMenuOptionDTO "\<lambda>d. wire_ok (to_json_ReqMenuOptionDTO d)"
  by (rule messageI) (simp add: to_json_ReqMenuOptionDTO_def from_json_ReqMenuOptionDTO_def codec_simps del: std_map_sorted)

interpretation signup_req: message to_json_SignupReqDTO from_json_SignupReqDTO "\<lambda>d. wire_ok (to_json_SignupReqDTO d)"
  by (rule messageI) (simp add: to_json_SignupReqDTO_def from_json_SignupReqDTO_def codec_simps del: std_map_sorted)

interpretation auth_res: message to_json_AuthResDTO from_json_AuthResDTO "\<lambda>d. wire_ok (to_json_AuthResDTO d)"
  by (rule messageI) (simp add: to_json_AuthResDTO_def from_json_AuthResDTO_def codec_simps del: std_map_sorted)

interpretation login_req: message to_json_LoginReqDTO from_json_LoginReqDTO "\<lambda>d. wire_ok (to_json_LoginReqDTO d)"
  by (rule messageI) (simp add: to_json_LoginReqDTO_def from_json_LoginReqDTO_def codec_simps del: std_map_sorted)

interpretation auth_check_req: message to_json_AuthCheckReqDTO from_json_AuthCheckReqDTO "\<lambda>d. wire_ok (to_json_AuthCheckReqDTO d)"
  by (rule messageI) (simp add: to_json_AuthCheckReqDTO_def from_json_AuthCheckReqDTO_def codec_simps del: std_map_sorted)

interpretation auth_check_res: message to_json_AuthCheckResDTO from_json_AuthCheckResDTO "\<lambda>d. wire_ok (to_json_AuthCheckResDTO d)"
  by (rule messageI) (simp add: to_json_AuthCheckResDTO_def from_json_AuthCheckResDTO_def codec_simps del: std_map_sorted)

interpretation phone_check_req: message to_json_PhoneCheckReqDTO from_json_PhoneCheckReqDTO "\<lambda>d. wire_ok (to_json_PhoneCheckReqDTO d)"
  by (rule messageI) (simp add: to_json_PhoneCheckReqDTO_def from_json_PhoneCheckReqDTO_def codec_simps del: std_map_sorted)

interpretation phone_check_res: message to_json_PhoneCheckResDTO from_json_PhoneCheckResDTO "\<lambda>d. wire_ok (to_json_PhoneCheckResDTO d)"
  by (rule messageI) (simp add: to_json_PhoneCheckResDTO_def from_json_PhoneCheckResDTO_def codec_simps del: std_map_sorted)

interpretation biz_num_check_req: message to_json_BizNumCheckReqDTO from_json_BizNumCheckReqDTO "\<lambda>d. wire_ok (to_json_BizNumCheckReqDTO d)"
  by (rule messageI) (simp add: to_json_BizNumCheckReqDTO_def from_json_BizNumCheckReqDTO_def codec_simps del: std_map_sorted)

interpretation biz_num_check_res: message to_json_BizNumCheckResDTO from_json_BizNumCheckResDTO "\<lambda>d. wire_ok (to_json_BizNumCheckResDTO d)"
  by (rule messageI) (simp add: to_json_BizNumCheckResDTO_def from_json_BizNumCheckResDTO_def codec_simps del: std_map_sorted)

interpretation req_grade_update: message to_json_ReqGradeUpdateDTO from_json_ReqGradeUpdateDTO "\<lambda>d. wire_ok (to_json_ReqGradeUpdateDTO d)"
  by (rule messageI) (simp add: to_json_ReqGradeUpdateDTO_def from_json_ReqGradeUpdateDTO_def codec_simps del: std_map_sorted)

interpretation res_grade_update: message to_json_ResGradeUpdateDTO from_json_ResGradeUpdateDTO "\<lambda>d. wire_ok (to_json_ResGradeUpdateDTO d)"
  by (rule messageI) (simp add: to_json_ResGradeUpdateDTO_def from_json_ResGradeUpdateDTO_def codec_simps del: std_map_sorted)

end
