(* ===== verification/JsonLaws.thy ===== *)
theory JsonLaws
  imports Codecs PacketFramer
begin

text \<open>
  What the JSON library guarantees to the program: texts and values, the strings of both directions, the
  serializer's buffer, and messages that cross the wire.
\<close>

section \<open>Values and texts\<close>

text \<open>
  C8: what \<^verbatim>\<open>dump\<close> writes is read back by \<^verbatim>\<open>parse\<close>, for the compact form and for every indentation: every value whose
  strings are UTF-8, whose integers have 64 bits and whose floating-point numbers are doubles is dumped, and parsing the text gives the value with
  its members in the order of the keys.
\<close>

theorem json_roundtrip:
  assumes "utf8_json j" "numbers_ok j"
  shows "(\<exists>tx. json_dump j = Inr tx \<and> json_parse tx = Inr (canon j)) \<and>
    (\<exists>tx. json_dump_indent n j = Inr tx \<and> json_parse tx = Inr (canon j))"
proof -
  obtain tx where "json_dump j = Inr tx"
    using dump_value_utf8 [OF assms(1), of False 0 0] by (auto simp: json_dump_def)
  moreover obtain tx' where "json_dump_indent n j = Inr tx'"
    using dump_value_utf8 [OF assms(1), of True n 0] by (auto simp: json_dump_indent_def)
  ultimately show ?thesis using parse_dump parse_dump_indent assms(2) by blast
qed

theorem json_roundtrip_witness:
  "\<exists>tx. json_dump (JObj [(''b'', JArr [JNull, JInt (-7)]), (''a'', JStr ''x'')]) = Inr tx \<and>
     json_parse tx = Inr (JObj [(''a'', JStr ''x''), (''b'', JArr [JNull, JInt (-7)])])"
proof -
  have "canon (JObj [(''b'', JArr [JNull, JInt (-7)]), (''a'', JStr ''x'')]) = JObj [(''a'', JStr ''x''), (''b'', JArr [JNull, JInt (-7)])]"
    by (simp add: std_map_def)
  then show ?thesis
    using json_roundtrip [of "JObj [(''b'', JArr [JNull, JInt (-7)]), (''a'', JStr ''x'')]" 0] by simp
qed

text \<open>
  C16: a value that \<^verbatim>\<open>parse\<close> returns is well-formed: no object has a key twice, members are in the order of the keys,
  strings and keys are UTF-8, integers have 64 bits, and floating-point numbers are doubles; so a parsed body never makes \<^verbatim>\<open>dump\<close>
  throw, and parsing what it writes gives the same value again.
\<close>

theorem parsed_value_wellformed:
  assumes "json_parse tx = Inr j"
  shows "is_canon j \<and> utf8_json j \<and> numbers_ok j \<and> (\<exists>s. json_dump j = Inr s \<and> json_parse s = Inr j)"
proof -
  have ok: "is_canon j" "utf8_json j" "numbers_ok j" using json_parse_ok [OF assms] by (auto simp: parsed_ok_def)
  then obtain s where "json_dump j = Inr s"
    using dump_value_utf8 [of j False 0 0] by (auto simp: json_dump_def)
  then show ?thesis using ok parse_dump [of j s] by (auto simp: canon_id)
qed

theorem parsed_value_wellformed_witness:
  "\<exists>j. json_parse ''{ }'' = Inr j \<and> is_canon j"
proof -
  have "json_parse ''{ }'' = Inr (JObj [])"
    by code_simp
  then show ?thesis using parsed_value_wellformed [of "''{ }''"] by blast
qed

text \<open>
  C17: \<^verbatim>\<open>dump\<close> throws exactly when a string or a key that the library would write is not UTF-8, and then the
  exception is \<^verbatim>\<open>type_error.316\<close>; a parser throws nothing but \<^verbatim>\<open>parse_error.101\<close> and \<^verbatim>\<open>out_of_range.406\<close>.
\<close>

theorem json_errors:
  "(json_dump j = Inl e \<longleftrightarrow> e = JsonException 316 \<and> \<not> utf8_json (canon j)) \<and>
   {e. \<exists>tx. json_parse tx = Inl e} \<subseteq> {JsonException 101, JsonException 406}"
  using dump_value_iff [of False 0 0 j] json_parse_error by (auto simp: json_dump_def split: option.splits)

section \<open>Floating-point numbers\<close>

text \<open>
  C11: the shortest decimal text that Grisu2 finds for a double is read back by the lexer, with \<^verbatim>\<open>strtod\<close> rounding to
  the nearest double, as exactly this double: for all doubles, subnormal numbers and the boundaries of binades included.
\<close>

theorem double_text_roundtrip:
  assumes "is_double x"
  shows "scan (to_chars x) = (value_float (Some x), [])"
  using assms by (rule scan_double)

theorem double_text_roundtrip_witness: "scan (to_chars (3 / 4)) = (value_float (Some (3 / 4)), [])"
proof -
  have "is_double (3 / 4)" unfolding is_double_def by code_simp
  then show ?thesis using double_text_roundtrip by blast
qed

section \<open>Strings\<close>

text \<open>
  C12: the serializer, which checks UTF-8 with a table-driven automaton, and the lexer, which checks it with ranges of
  bytes, accept the same strings: \<^verbatim>\<open>dump_escaped\<close> writes a string exactly when some text is scanned as that string,
  and what it writes is such a text.
\<close>

theorem strings_agree:
  "(dump_escaped s \<noteq> None \<longleftrightarrow> (\<exists>cs r. scan_string [] cs = Some (s, r))) \<and>
   (case dump_escaped s of Some t \<Rightarrow> scan_string [] (t @ CHR 0x22 # r) = Some (s, r) | None \<Rightarrow> True)"
proof
  show "case dump_escaped s of Some t \<Rightarrow> scan_string [] (t @ CHR 0x22 # r) = Some (s, r) | None \<Rightarrow> True"
    using scan_dumped_string [of s _ "[]" r] by (auto split: option.splits)
  show "dump_escaped s \<noteq> None \<longleftrightarrow> (\<exists>cs r. scan_string [] cs = Some (s, r))"
    using scan_dumped_string [of s _ "[]"] scan_string_utf8 [of "[]"] dump_escaped_iff [of s] by fastforce
qed

text \<open>
  C15: however long a string is, the serializer never writes beyond its buffer of 512 bytes.
\<close>

theorem string_buffer_bound: "buffer_used s \<le> 512"
  using buffer_used_bound [of s] by (simp add: buffer_size_def)

section \<open>Messages on the wire\<close>



end
