(* ===== verification/Tables.thy ===== *)
theory Tables
  imports Prelude
begin

text \<open>
  The database as the server's SQL statements see it: one record per row of the tables of
  \<^verbatim>\<open>mariadb.txt\<close> that the program reads or writes (columns no statement mentions are left
  out), and one list of rows per table, in storage order.

  A column is an \<^typ>\<open>'a option\<close> where the program asks \<^verbatim>\<open>isNull\<close> or stores no value;
  other columns are \<^verbatim>\<open>NOT NULL\<close> or have a default that no statement overwrites with NULL.
  Times are seconds.  Two tables that \<^verbatim>\<open>MenuDAO.cpp\<close> reads (\<^verbatim>\<open>MENU_OPTION_GROUPS\<close>, \<^verbatim>\<open>MENU_OPTIONS\<close>) and
  the columns \<^verbatim>\<open>ORDERS.delivery_fee\<close>, \<^verbatim>\<open>ORDERS.wow_discount\<close> and \<^verbatim>\<open>REVIEWS.menu_id\<close> are not in
  \<^verbatim>\<open>mariadb.txt\<close>; they are modelled from the statements that use them.
\<close>

record USERS_row =
  u_user_id :: string
  u_password_hash :: string
  u_user_name :: string
  u_phone_number :: string
  u_role :: int
  u_grade :: "string option"

record CUSTOMERS_row =
  c_user_id :: string
  c_address :: "string option"
  c_point :: "int option"
  c_customer_grade :: "string option"
  c_card_number :: "string option"
  c_account_number :: "string option"

record OWNERS_row =
  ow_user_id :: string
  ow_business_number :: "string option"
  ow_account_number :: "string option"
  ow_approval_status :: "int option"

record STORES_row =
  s_store_id :: int
  s_owner_id :: string
  s_store_name :: string
  s_category :: string
  s_brand_name :: "string option"
  s_store_address :: "string option"
  s_open_time :: "string option"
  s_close_time :: "string option"
  s_status :: int
  s_cook_time :: "int option"
  s_image_url :: "string option"
  s_min_order_amount :: "int option"
  s_rating :: rat
  s_review_count :: int
  s_delivery_time_range :: "string option"
  s_pickup_time :: "string option"
  s_total_sales :: int
  s_delivery_fee :: int
  s_icon_name :: "string option"
  s_popularity_score :: int

record MENUS_row =
  m_menu_id :: int
  m_store_id :: int
  m_menu_name :: string
  m_base_price :: int
  m_menu_options :: "string option"
  m_is_sold_out :: int
  m_description :: "string option"
  m_image_url :: "string option"
  m_menu_category :: "string option"
  m_is_popular :: int

record ORDERS_row =
  o_order_id :: string
  o_user_id :: string
  o_store_id :: int
  o_total_price :: int
  o_order_status :: int
  o_delivery_address :: string
  o_reject_reason :: "string option"
  o_created_at :: int
  o_store_request :: "string option"
  o_rider_request :: "string option"
  o_delivery_fee :: int
  o_wow_discount :: int

record ORDER_ITEMS_row =
  oi_order_id :: string
  oi_menu_id :: int
  oi_quantity :: int
  oi_unit_price :: int
  oi_selected_options :: "string option"

record ORDER_DETAILS_row =
  od_order_id :: string
  od_menu_id :: int
  od_menu_name :: string
  od_quantity :: int
  od_price :: int
  od_selected_options :: "string option"

record USER_ADDRESSES_row =
  a_address_id :: int
  a_user_id :: string
  a_address :: string
  a_detail :: "string option"
  a_guide :: "string option"
  a_label :: "string option"
  a_is_default :: int

record SEARCH_HISTORY_row =
  h_history_id :: int
  h_user_id :: string
  h_keyword :: string
  h_search_date :: int
  h_is_visible :: int

record CATEGORIES_row =
  cat_category_id :: int
  cat_name :: string
  cat_icon_name :: "string option"
  cat_sort_order :: int
  cat_popularity_score :: int

record MENU_OPTION_GROUPS_row =
  g_group_id :: int
  g_menu_id :: int
  g_group_name :: string
  g_is_required :: int
  g_max_count :: int
  g_display_order :: int

record MENU_OPTIONS_row =
  op_option_id :: int
  op_group_id :: int
  op_option_name :: string
  op_additional_price :: int
  op_display_order :: int

record REVIEWS_row =
  rv_review_id :: int
  rv_order_id :: string
  rv_user_id :: string
  rv_store_id :: int
  rv_menu_id :: "int option"
  rv_rating :: int
  rv_content :: string
  rv_image_url :: "string option"
  rv_owner_reply :: "string option"
  rv_created_at :: int

record tables =
  USERS :: "USERS_row list"
  CUSTOMERS :: "CUSTOMERS_row list"
  OWNERS :: "OWNERS_row list"
  STORES :: "STORES_row list"
  MENUS :: "MENUS_row list"
  ORDERS :: "ORDERS_row list"
  ORDER_ITEMS :: "ORDER_ITEMS_row list"
  ORDER_DETAILS :: "ORDER_DETAILS_row list"
  USER_ADDRESSES :: "USER_ADDRESSES_row list"
  SEARCH_HISTORY :: "SEARCH_HISTORY_row list"
  CATEGORIES :: "CATEGORIES_row list"
  REVIEWS :: "REVIEWS_row list"
  MENU_OPTION_GROUPS :: "MENU_OPTION_GROUPS_row list"
  MENU_OPTIONS :: "MENU_OPTIONS_row list"

definition empty_tables :: tables where
  "empty_tables =
     \<lparr>USERS = [], CUSTOMERS = [], OWNERS = [], STORES = [], MENUS = [], ORDERS = [],
      ORDER_ITEMS = [], ORDER_DETAILS = [], USER_ADDRESSES = [], SEARCH_HISTORY = [],
      CATEGORIES = [], REVIEWS = [], MENU_OPTION_GROUPS = [], MENU_OPTIONS = []\<rparr>"

text \<open>
  SQL string comparison uses the collation of the server, a parameter: two strings are
  equal when they have the same collation key.  \<^verbatim>\<open>UPDATE t SET f WHERE p\<close> replaces the
  matching rows and reports how many matched (the connector runs with
  \<^verbatim>\<open>useAffectedRows=false\<close>, so rows that already had the new value count as well).
\<close>

definition update_where :: "('r \<Rightarrow> bool) \<Rightarrow> ('r \<Rightarrow> 'r) \<Rightarrow> 'r list \<Rightarrow> 'r list" where
  "update_where p f rows = map (\<lambda>r. if p r then f r else r) rows"

definition count_where :: "('r \<Rightarrow> bool) \<Rightarrow> 'r list \<Rightarrow> int" where
  "count_where p rows = int (length (filter p rows))"

definition first_where :: "('r \<Rightarrow> bool) \<Rightarrow> 'r list \<Rightarrow> 'r option" where
  "first_where p rows = List.find p rows"

text \<open>The range of an \<^verbatim>\<open>INT(11)\<close> column.\<close>

definition in_int :: "int \<Rightarrow> bool" where
  "in_int x \<longleftrightarrow> - 2147483648 \<le> x \<and> x \<le> 2147483647"

text \<open>\<^verbatim>\<open>ORDER BY key DESC\<close> and \<^verbatim>\<open>ORDER BY key ASC\<close>; equal keys keep storage order.\<close>

definition order_by_desc :: "('r \<Rightarrow> int) \<Rightarrow> 'r list \<Rightarrow> 'r list" where
  "order_by_desc key rows = sort_key (\<lambda>r. - key r) rows"

definition order_by_asc :: "('r \<Rightarrow> int) \<Rightarrow> 'r list \<Rightarrow> 'r list" where
  "order_by_asc key rows = sort_key key rows"

text \<open>
  \<^verbatim>\<open>a JOIN b ON p\<close>: the matching pairs, in the order of the first table; and the rows of a
  \<^verbatim>\<open>SELECT DISTINCT\<close>, of which the first is kept.
\<close>

definition inner_join :: "('a \<Rightarrow> 'b \<Rightarrow> bool) \<Rightarrow> 'a list \<Rightarrow> 'b list \<Rightarrow> ('a \<times> 'b) list" where
  "inner_join p xs ys = concat (map (\<lambda>x. map (Pair x) (filter (p x) ys)) xs)"

fun distinct_by :: "('a \<Rightarrow> 'a \<Rightarrow> bool) \<Rightarrow> 'a list \<Rightarrow> 'a list" where
  "distinct_by eq [] = []"
| "distinct_by eq (x # xs) = x # distinct_by eq (filter (\<lambda>y. \<not> eq x y) xs)"

text \<open>\<^verbatim>\<open>AUTO_INCREMENT\<close>: the next number is past every number in the table.\<close>

definition next_id :: "('r \<Rightarrow> int) \<Rightarrow> 'r list \<Rightarrow> int" where
  "next_id key rows = fold (\<lambda>r n. max n (key r + 1)) rows 1"

section \<open>Lemmas\<close>

lemma length_update_where [simp]: "length (update_where p f rows) = length rows"
  by (simp add: update_where_def)

lemma map_update_where:
  "(\<And>r. g (f r) = g r) \<Longrightarrow> map g (update_where p f rows) = map g rows"
  by (simp add: update_where_def)

lemma update_where_none: "(\<And>r. r \<in> set rows \<Longrightarrow> \<not> p r) \<Longrightarrow> update_where p f rows = rows"
  by (simp add: update_where_def map_idI)

lemma set_update_where: "set (update_where p f rows) = (\<lambda>r. if p r then f r else r) ` set rows"
  by (simp add: update_where_def)

lemma count_where_0_iff: "count_where p rows = 0 \<longleftrightarrow> (\<forall>r\<in>set rows. \<not> p r)"
  by (simp add: count_where_def filter_empty_conv)

lemma count_where_pos_iff: "0 < count_where p rows \<longleftrightarrow> (\<exists>r\<in>set rows. p r)"
  by (auto simp: count_where_def filter_empty_conv)

lemma set_inner_join [simp]: "set (inner_join p xs ys) = {(x, y). x \<in> set xs \<and> y \<in> set ys \<and> p x y}"
  by (auto simp: inner_join_def)

lemma set_order_by_desc [simp]: "set (order_by_desc key rows) = set rows"
  by (simp add: order_by_desc_def)

lemma sorted_order_by_desc: "sorted_wrt (\<lambda>r r'. key r' \<le> key r) (order_by_desc key rows)"
proof -
  have "sorted (map (\<lambda>r. - key r) (order_by_desc key rows))"
    by (simp add: order_by_desc_def)
  then show ?thesis by (simp add: sorted_wrt_map)
qed

lemma ball_update_where: "(\<forall>r\<in>set (update_where p f rows). P r) \<longleftrightarrow> (\<forall>r\<in>set rows. P (if p r then f r else r))"
  by (auto simp: update_where_def)

lemma filter_update_others:
  "(\<And>r. p r \<Longrightarrow> p (f r)) \<Longrightarrow> filter (\<lambda>r. \<not> p r) (update_where p f rows) = filter (\<lambda>r. \<not> p r) rows"
  by (induction rows) (auto simp: update_where_def)

lemma next_id_fold_ge:
  fixes key :: "'r \<Rightarrow> int"
  shows "n \<le> fold (\<lambda>r n. max n (key r + 1)) rows n"
proof (induction rows arbitrary: n)
  case (Cons x xs)
  show ?case using Cons.IH [of "max n (key x + 1)"] by simp
qed simp

lemma next_id_greater: "r \<in> set rows \<Longrightarrow> key r < next_id key rows"
proof -
  have "r \<in> set rows \<Longrightarrow> key r < fold (\<lambda>r n. max n (key r + 1)) rows n" for n
  proof (induction rows arbitrary: n)
    case (Cons x xs)
    then show ?case
      using next_id_fold_ge [of "max n (key x + 1)" key xs] by auto
  qed simp
  then show "r \<in> set rows \<Longrightarrow> key r < next_id key rows" by (simp add: next_id_def)
qed

lemma next_id_fresh:
  assumes "map key rows' = map key rows"
  shows "next_id key rows' \<notin> key ` set rows"
  using next_id_greater [of _ rows' key] assms by (metis image_iff less_irrefl list.set_map)

end
