(* ===== verification/World.thy ===== *)
theory World
  imports JsonParser JsonDump Tables SessionManager ChatRoomManager Fifo
begin

text \<open>
  The state a request handler works on, and the effects it has: database statements on a
  pooled connection (\<^verbatim>\<open>server/src/database/DbManager.cpp\<close> and the connector's
  \<^verbatim>\<open>setAutoCommit\<close>, \<^verbatim>\<open>commit\<close>, \<^verbatim>\<open>rollback\<close>, \<^verbatim>\<open>executeUpdate\<close>, \<^verbatim>\<open>executeQuery\<close>), packets sent to
  sessions, the session table and the chat rooms.

  An action of type \<open>'a io\<close> maps a world to a result or an exception and a new world.  What
  comes from outside the program is collected in \<open>env\<close>, an argument of the actions: which
  database calls fail (\<open>sql_fault\<close>, by the number of the call), which pooled connections have
  died, the texts of the exceptions, the collation, the \<^verbatim>\<open>LIKE\<close> operator of the server and its
  conversion of a text to an \<^verbatim>\<open>INT\<close> column, the clock, \<^verbatim>\<open>rand()\<close>, and the value of an uninitialised \<^verbatim>\<open>int\<close>.

  A handler runs here without interference of other handlers; \<open>Blocked\<close> is the result of
  a handler that waits for a connection for ever (theory Pool treats several workers).  A
  database call that fails has had no effect.
\<close>

record env =
  sql_fault :: "nat \<Rightarrow> bool"
  conn_dead :: "nat \<Rightarrow> bool"
  sql_what :: "nat \<Rightarrow> string"
  json_what :: "nat \<Rightarrow> string"
  collate :: "string \<Rightarrow> string"
  sql_like :: "string \<Rightarrow> string \<Rightarrow> bool"
  sql_int :: "string \<Rightarrow> int option"
  clock :: "nat \<Rightarrow> int"
  clock_ms :: "nat \<Rightarrow> int"
  strftime :: "string \<Rightarrow> int \<Rightarrow> string"
  rand_value :: "nat \<Rightarrow> int"
  indet :: int

record conn =
  autocommit :: bool
  work :: "tables option"

record world =
  committed :: tables
  conns :: "nat \<Rightarrow> conn"
  pool :: "nat list"
  sm :: SessionManager
  crm :: ChatRoomManager
  sent :: "(sess_ref \<times> CmdID \<times> json) list"
  tick :: nat

type_synonym 'a io = "world \<Rightarrow> (exn + 'a) \<times> world"

section \<open>Sequencing, exceptions, loops\<close>

definition retE :: "'a \<Rightarrow> 'a io" where
  "retE x w = (Inr x, w)"

definition throwE :: "exn \<Rightarrow> 'a io" where
  "throwE e w = (Inl e, w)"

definition bindE :: "'a io \<Rightarrow> ('a \<Rightarrow> 'b io) \<Rightarrow> 'b io" where
  "bindE m f w = (case m w of (Inl e, w') \<Rightarrow> (Inl e, w') | (Inr x, w') \<Rightarrow> f x w')"

definition thenE :: "unit io \<Rightarrow> 'b io \<Rightarrow> 'b io" where
  "thenE m n = bindE m (\<lambda>_. n)"

text \<open>\<^verbatim>\<open>try { m } catch (const std::exception &e) { h }\<close>; waiting for ever is not caught.\<close>

definition catchE :: "'a io \<Rightarrow> (exn \<Rightarrow> 'a io) \<Rightarrow> 'a io" where
  "catchE m h w =
     (case m w of
        (Inl e, w') \<Rightarrow> (if e = Blocked then (Inl e, w') else h e w')
      | (Inr x, w') \<Rightarrow> (Inr x, w'))"

fun is_sql :: "exn \<Rightarrow> bool" where
  "is_sql (SQLException _) = True"
| "is_sql _ = False"

text \<open>\<^verbatim>\<open>catch (sql::SQLException &e)\<close>: other exceptions pass.\<close>

definition catch_sql :: "'a io \<Rightarrow> 'a io \<Rightarrow> 'a io" where
  "catch_sql m h = catchE m (\<lambda>e. if is_sql e then h else throwE e)"

definition liftE :: "exn + 'a \<Rightarrow> 'a io" where
  "liftE r w = (r, w)"

definition getsE :: "(world \<Rightarrow> 'a) \<Rightarrow> 'a io" where
  "getsE f w = (Inr (f w), w)"

definition modifyE :: "(world \<Rightarrow> world) \<Rightarrow> unit io" where
  "modifyE f w = (Inr (), f w)"

fun mapE :: "('a \<Rightarrow> 'b io) \<Rightarrow> 'a list \<Rightarrow> 'b list io" where
  "mapE f [] = retE []"
| "mapE f (x # xs) = bindE (f x) (\<lambda>y. bindE (mapE f xs) (\<lambda>ys. retE (y # ys)))"

definition whenE :: "bool \<Rightarrow> unit io \<Rightarrow> unit io" where
  "whenE b m = (if b then m else retE ())"

definition exn_what :: "env \<Rightarrow> exn \<Rightarrow> string" where
  "exn_what E e =
     (case e of
        SQLException n \<Rightarrow> sql_what E n
      | JsonException n \<Rightarrow> json_what E n
      | RuntimeError s \<Rightarrow> s
      | StdException s \<Rightarrow> s
      | Blocked \<Rightarrow> [])"

text \<open>\<^verbatim>\<open>nlohmann::json::parse(jsonBody).get<T>()\<close>\<close>

definition parse_dto :: "(json \<Rightarrow> exn + 'a) \<Rightarrow> string \<Rightarrow> 'a io" where
  "parse_dto from_json body = liftE (ebind (json_parse body) from_json)"

text \<open>
  \<^verbatim>\<open>try { for (x : xs) result.push_back(f(x)); } catch (sql::SQLException &) {}\<close>: the results up to
  the first failing element, and whether the loop came to its end.
\<close>

fun collect :: "('a \<Rightarrow> 'b io) \<Rightarrow> 'a list \<Rightarrow> ('b list \<times> bool) io" where
  "collect f [] = retE ([], True)"
| "collect f (x # xs) =
     bindE (catch_sql (bindE (f x) (\<lambda>y. retE (Some y))) (retE None)) (\<lambda>r.
     case r of
       None \<Rightarrow> retE ([], False)
     | Some y \<Rightarrow> bindE (collect f xs) (\<lambda>(ys, b). retE (y # ys, b)))"

definition nvl :: "'a \<Rightarrow> 'a option \<Rightarrow> 'a" where
  "nvl d v = (case v of None \<Rightarrow> d | Some x \<Rightarrow> x)"

definition stoiE :: "string \<Rightarrow> exn + int" where
  "stoiE s = (case stoi s of None \<Rightarrow> Inl (StdException ''stoi'') | Some i \<Rightarrow> Inr i)"

section \<open>Connections and transactions\<close>

definition fresh_conn :: conn where
  "fresh_conn = \<lparr>autocommit = True, work = None\<rparr>"

definition set_conn :: "nat \<Rightarrow> conn \<Rightarrow> world \<Rightarrow> world" where
  "set_conn c k w = w\<lparr>conns := (conns w)(c := k)\<rparr>"

text \<open>One call to the server: it takes a number, and fails if the environment says so.\<close>

definition db_call :: "env \<Rightarrow> 'a io \<Rightarrow> 'a io" where
  "db_call E m w =
     (if sql_fault E (tick w) then (Inl (SQLException (tick w)), w\<lparr>tick := Suc (tick w)\<rparr>)
      else m (w\<lparr>tick := Suc (tick w)\<rparr>))"

definition view :: "nat \<Rightarrow> world \<Rightarrow> tables" where
  "view c w =
     (if autocommit (conns w c) then committed w
      else case work (conns w c) of Some t \<Rightarrow> t | None \<Rightarrow> committed w)"

definition put_view :: "nat \<Rightarrow> tables \<Rightarrow> world \<Rightarrow> world" where
  "put_view c t w =
     (if autocommit (conns w c) then w\<lparr>committed := t\<rparr>
      else set_conn c ((conns w c)\<lparr>work := Some t\<rparr>) w)"

definition executeQuery :: "env \<Rightarrow> nat \<Rightarrow> (tables \<Rightarrow> 'a) \<Rightarrow> 'a io" where
  "executeQuery E c q = db_call E (\<lambda>w. (Inr (q (view c w)), w))"

text \<open>
  \<^verbatim>\<open>executeUpdate\<close>: the statement is a function on the tables that returns the row count, or
  nothing when the server rejects it (a duplicate key, a value out of range).
\<close>

definition executeUpdate :: "env \<Rightarrow> nat \<Rightarrow> (tables \<Rightarrow> (int \<times> tables) option) \<Rightarrow> int io" where
  "executeUpdate E c u = db_call E (\<lambda>w.
     (case u (view c w) of
        None \<Rightarrow> (Inl (SQLException (tick w - 1)), w)
      | Some (n, t) \<Rightarrow> (Inr n, put_view c t w)))"

definition prepareStatement :: "env \<Rightarrow> unit io" where
  "prepareStatement E = db_call E (retE ())"

definition commit_work :: "nat \<Rightarrow> world \<Rightarrow> world" where
  "commit_work c w =
     (case work (conns w c) of
        None \<Rightarrow> w
      | Some t \<Rightarrow> set_conn c ((conns w c)\<lparr>work := None\<rparr>) (w\<lparr>committed := t\<rparr>))"

definition commit :: "env \<Rightarrow> nat \<Rightarrow> unit io" where
  "commit E c = db_call E (modifyE (commit_work c))"

definition rollback :: "env \<Rightarrow> nat \<Rightarrow> unit io" where
  "rollback E c = db_call E (modifyE (\<lambda>w. set_conn c ((conns w c)\<lparr>work := None\<rparr>) w))"

text \<open>Switching autocommit on commits an open transaction.\<close>

definition setAutoCommit :: "env \<Rightarrow> nat \<Rightarrow> bool \<Rightarrow> unit io" where
  "setAutoCommit E c b = db_call E (modifyE (\<lambda>w.
     let w' = (if b then commit_work c w else w)
     in set_conn c ((conns w' c)\<lparr>autocommit := b\<rparr>) w'))"

text \<open>
  \<^verbatim>\<open>DBManager::getConnection\<close> and the deleter of the \<^verbatim>\<open>shared_ptr\<close> it returns: take the front of
  the pool (or wait), replace a connection that has died if reconnecting works, run the code
  that holds the connection, and put it at the back of the pool when that code is left.
\<close>

definition revalidate :: "env \<Rightarrow> nat \<Rightarrow> world \<Rightarrow> world" where
  "revalidate E c w =
     (if conn_dead E (tick w) then
        (if sql_fault E (tick w) then w\<lparr>tick := Suc (tick w)\<rparr>
         else set_conn c fresh_conn (w\<lparr>tick := Suc (tick w)\<rparr>))
      else w)"

definition pool_push :: "nat \<Rightarrow> world \<Rightarrow> world" where
  "pool_push c w = w\<lparr>pool := pool w @ [c]\<rparr>"

definition pool_pop :: "world \<Rightarrow> (nat \<times> world) option" where
  "pool_pop w = (case pool w of [] \<Rightarrow> None | c # cs \<Rightarrow> Some (c, w\<lparr>pool := cs\<rparr>))"

definition getConnection :: "env \<Rightarrow> (nat \<Rightarrow> 'a io) \<Rightarrow> 'a io" where
  "getConnection E f w =
     (case pool_pop w of
        None \<Rightarrow> (Inl Blocked, w)
      | Some (c, w1) \<Rightarrow>
          (case f c (revalidate E c w1) of
             (r, w2) \<Rightarrow> (r, if r = Inl Blocked then w2 else pool_push c w2)))"

interpretation conn_queue: fifo pool pool_push pool_pop
  by unfold_locales (auto simp: pool_push_def pool_pop_def)

text \<open>String comparison in a \<^verbatim>\<open>WHERE\<close> clause.\<close>

definition str_eq :: "env \<Rightarrow> string \<Rightarrow> string \<Rightarrow> bool" where
  "str_eq E a b \<longleftrightarrow> collate E a = collate E b"

lemma str_eq_refl [simp]: "str_eq E a a"
  by (simp add: str_eq_def)

lemma str_eq_sym: "str_eq E a b \<longleftrightarrow> str_eq E b a"
  by (auto simp: str_eq_def)

lemma str_eq_trans: "str_eq E a b \<Longrightarrow> str_eq E b c \<Longrightarrow> str_eq E a c"
  by (simp add: str_eq_def)

text \<open>The time of the running call, and the text of a \<^verbatim>\<open>TIMESTAMP\<close> column.\<close>

definition now :: "env \<Rightarrow> int io" where
  "now E = getsE (\<lambda>w. clock E (tick w))"

definition datetime_text :: "env \<Rightarrow> int \<Rightarrow> string" where
  "datetime_text E t = strftime E ''%Y-%m-%d %H:%M:%S'' t"

section \<open>Packets to sessions\<close>

text \<open>\<^verbatim>\<open>ClientSession::sendPacket\<close>: a value that cannot be dumped is dropped silently.\<close>

definition sendPacket :: "sess_ref \<Rightarrow> CmdID \<Rightarrow> json \<Rightarrow> unit io" where
  "sendPacket r cmd j = modifyE (\<lambda>w.
     (case json_dump j of Inl _ \<Rightarrow> w | Inr _ \<Rightarrow> w\<lparr>sent := sent w @ [(r, cmd, j)]\<rparr>))"

definition sendToUser :: "string \<Rightarrow> CmdID \<Rightarrow> json \<Rightarrow> bool io" where
  "sendToUser uid cmd j w =
     (case getSessionByUserId (sm w) uid of
        Some r \<Rightarrow> bindE (sendPacket r cmd j) (\<lambda>_. retE True) w
      | None \<Rightarrow> (Inr False, w))"

definition broadcastToRole :: "int \<Rightarrow> CmdID \<Rightarrow> json \<Rightarrow> unit io" where
  "broadcastToRole targetRole cmd j w =
     bindE (mapE (\<lambda>r. sendPacket r cmd j) (broadcast_targets (sm w) targetRole)) (\<lambda>_. retE ()) w"

definition session_field :: "(ClientSession \<Rightarrow> 'a) \<Rightarrow> sess_ref \<Rightarrow> 'a io" where
  "session_field f r = getsE (\<lambda>w. f (heap (sm w) r))"

definition sm_do :: "(SessionManager \<Rightarrow> SessionManager) \<Rightarrow> unit io" where
  "sm_do f = modifyE (\<lambda>w. w\<lparr>sm := f (sm w)\<rparr>)"

section \<open>Evaluation rules\<close>

lemmas io_defs = retE_def throwE_def bindE_def thenE_def catchE_def catch_sql_def liftE_def
  getsE_def modifyE_def whenE_def

lemma bindE_ret [io_simps, simp]: "bindE (retE x) f = f x"
  by (rule ext) (simp add: io_defs)

lemma bindE_lift [io_simps]: "bindE (liftE r) f = (case r of Inl e \<Rightarrow> throwE e | Inr x \<Rightarrow> f x)"
  by (rule ext) (simp add: io_defs split: sum.splits)

lemma bindE_throw [io_simps, simp]: "bindE (throwE e) f = throwE e"
  by (rule ext) (simp add: io_defs)

lemma bindE_assoc: "bindE (bindE m f) g = bindE m (\<lambda>x. bindE (f x) g)"
  by (rule ext) (auto simp: bindE_def split: sum.splits prod.splits)

section \<open>What an action leaves alone\<close>

text \<open>
  \<open>frame g m\<close>: the action \<open>m\<close> never changes the component \<open>g\<close> of the world, whether it
  returns, throws or blocks.
\<close>

definition frame :: "(world \<Rightarrow> 'b) \<Rightarrow> 'a io \<Rightarrow> bool" where
  "frame g m \<longleftrightarrow> (\<forall>w. g (snd (m w)) = g w)"

lemma frameD: "frame g m \<Longrightarrow> g (snd (m w)) = g w"
  by (simp add: frame_def)

lemma frame_ret [pres]: "frame g (retE x)"
  by (simp add: frame_def io_defs)

lemma frame_throw [pres]: "frame g (throwE e)"
  by (simp add: frame_def io_defs)

lemma frame_lift [pres]: "frame g (liftE r)"
  by (simp add: frame_def io_defs)

lemma frame_gets [pres]: "frame g (getsE f)"
  by (simp add: frame_def io_defs)

lemma frame_bind [pres]: "frame g m \<Longrightarrow> (\<And>x. frame g (f x)) \<Longrightarrow> frame g (bindE m f)"
  by (auto simp: frame_def bindE_def split: sum.splits prod.splits) (metis snd_conv)+

lemma frame_then [pres]: "frame g m \<Longrightarrow> frame g n \<Longrightarrow> frame g (thenE m n)"
  unfolding thenE_def by (rule frame_bind)

lemma frame_catch [pres]: "frame g m \<Longrightarrow> (\<And>e. frame g (h e)) \<Longrightarrow> frame g (catchE m h)"
  by (auto simp: frame_def catchE_def split: sum.splits prod.splits) (metis snd_conv)+

lemma frame_catch_sql [pres]: "frame g m \<Longrightarrow> frame g h \<Longrightarrow> frame g (catch_sql m h)"
  unfolding catch_sql_def by (auto intro!: frame_catch simp: frame_throw)

lemma frame_if [pres]: "(b \<Longrightarrow> frame g m) \<Longrightarrow> (\<not> b \<Longrightarrow> frame g n) \<Longrightarrow> frame g (if b then m else n)"
  by simp

lemma frame_option [pres]:
  "frame g m \<Longrightarrow> (\<And>x. frame g (f x)) \<Longrightarrow> frame g (case r of None \<Rightarrow> m | Some x \<Rightarrow> f x)"
  by (cases r) simp_all

lemma frame_let [pres]: "(\<And>x. frame g (f x)) \<Longrightarrow> frame g (let x = y in f x)"
  by (simp add: Let_def)

lemma frame_prod [pres]: "(\<And>x y. frame g (f x y)) \<Longrightarrow> frame g (case p of (x, y) \<Rightarrow> f x y)"
  by (cases p) simp

lemma frame_when [pres]: "frame g m \<Longrightarrow> frame g (whenE b m)"
  by (simp add: whenE_def frame_ret)

lemma frame_map [pres]: "(\<And>x. frame g (f x)) \<Longrightarrow> frame g (mapE f xs)"
  by (induction xs) (auto intro: frame_ret frame_bind)

lemma frame_collect [pres]: "(\<And>x. frame g (f x)) \<Longrightarrow> frame g (collect f xs)"
  by (induction xs) (auto intro!: frame_ret frame_bind frame_catch_sql frame_option frame_prod)

lemma frame_now [pres]: "frame g (now E)"
  by (simp add: now_def frame_gets)

lemma frame_parse_dto [pres]: "frame g (parse_dto fj body)"
  by (simp add: parse_dto_def frame_lift)

lemma frame_db_call: "(\<And>w n. g (w\<lparr>tick := n\<rparr>) = g w) \<Longrightarrow> frame g m \<Longrightarrow> frame g (db_call E m)"
  by (simp add: frame_def db_call_def)

lemma frame_getConnection:
  assumes "\<And>w n. g (w\<lparr>tick := n\<rparr>) = g w" "\<And>w p. g (w\<lparr>pool := p\<rparr>) = g w"
    "\<And>w k. g (w\<lparr>conns := k\<rparr>) = g w" "\<And>c. frame g (f c)"
  shows "frame g (getConnection E f)"
  using assms by (auto simp: frame_def getConnection_def pool_pop_def pool_push_def revalidate_def
      set_conn_def split: list.splits prod.splits) (metis assms snd_conv)+

lemma frame_executeQuery:
  "(\<And>w n. g (w\<lparr>tick := n\<rparr>) = g w) \<Longrightarrow> frame g (executeQuery E c q)"
  by (simp add: frame_def executeQuery_def db_call_def)

text \<open>Instances for the components of the world.\<close>

lemma frame_sm_executeUpdate [pres]: "frame sm (executeUpdate E c u)"
  and frame_crm_executeUpdate [pres]: "frame crm (executeUpdate E c u)"
  and frame_sent_executeUpdate [pres]: "frame sent (executeUpdate E c u)"
  by (auto simp: frame_def executeUpdate_def db_call_def put_view_def set_conn_def
    split: option.splits)

lemma frame_sm_sql [pres]: "frame sm (executeQuery E c q)" "frame sm (prepareStatement E)"
    "frame sm (commit E c)" "frame sm (rollback E c)" "frame sm (setAutoCommit E c b)"
  by (auto simp: frame_def executeQuery_def prepareStatement_def commit_def rollback_def
    setAutoCommit_def db_call_def commit_work_def set_conn_def io_defs Let_def split: option.splits)

lemma frame_crm_sql [pres]: "frame crm (executeQuery E c q)" "frame crm (prepareStatement E)"
    "frame crm (commit E c)" "frame crm (rollback E c)" "frame crm (setAutoCommit E c b)"
  by (auto simp: frame_def executeQuery_def prepareStatement_def commit_def rollback_def
    setAutoCommit_def db_call_def commit_work_def set_conn_def io_defs Let_def split: option.splits)

lemma frame_sent_sql [pres]: "frame sent (executeQuery E c q)" "frame sent (prepareStatement E)"
    "frame sent (commit E c)" "frame sent (rollback E c)" "frame sent (setAutoCommit E c b)"
  by (auto simp: frame_def executeQuery_def prepareStatement_def commit_def rollback_def
    setAutoCommit_def db_call_def commit_work_def set_conn_def io_defs Let_def split: option.splits)

lemma frame_committed_sql [pres]: "frame committed (executeQuery E c q)"
    "frame committed (prepareStatement E)" "frame committed (rollback E c)"
    "frame committed (setAutoCommit E c False)"
  by (auto simp: frame_def executeQuery_def prepareStatement_def rollback_def
    setAutoCommit_def db_call_def set_conn_def io_defs Let_def)

lemma frame_sendPacket [pres]: "frame sm (sendPacket r cmd j)" "frame crm (sendPacket r cmd j)"
    "frame committed (sendPacket r cmd j)" "frame conns (sendPacket r cmd j)"
    "frame pool (sendPacket r cmd j)"
  by (auto simp: frame_def sendPacket_def io_defs split: sum.splits)

lemma frame_sendToUser:
  assumes "\<And>r. frame g (sendPacket r cmd j)"
  shows "frame g (sendToUser uid cmd j)"
proof -
  have "frame g (bindE (sendPacket r cmd j) (\<lambda>_. retE True))" for r
    by (intro pres assms)
  then show ?thesis by (simp add: frame_def sendToUser_def split: option.splits)
qed

lemma frame_broadcastToRole:
  assumes "\<And>r. frame g (sendPacket r cmd j)"
  shows "frame g (broadcastToRole ro cmd j)"
proof -
  have "frame g (bindE (mapE (\<lambda>r. sendPacket r cmd j) rs) (\<lambda>_. retE ()))" for rs
    by (intro pres assms)
  then show ?thesis by (simp add: frame_def broadcastToRole_def)
qed

lemmas frame_sends [pres] =
  frame_sendToUser [where g = sm, OF frame_sendPacket(1)]
  frame_sendToUser [where g = crm, OF frame_sendPacket(2)]
  frame_sendToUser [where g = committed, OF frame_sendPacket(3)]
  frame_sendToUser [where g = conns, OF frame_sendPacket(4)]
  frame_broadcastToRole [where g = sm, OF frame_sendPacket(1)]
  frame_broadcastToRole [where g = crm, OF frame_sendPacket(2)]
  frame_broadcastToRole [where g = committed, OF frame_sendPacket(3)]
  frame_broadcastToRole [where g = conns, OF frame_sendPacket(4)]

lemma frame_session_field [pres]: "frame g (session_field f r)"
  by (simp add: session_field_def frame_gets)

lemma frame_sm_do [pres]: "frame crm (sm_do f)" "frame committed (sm_do f)" "frame sent (sm_do f)"
    "frame conns (sm_do f)"
  by (simp_all add: frame_def sm_do_def io_defs)

lemma frame_connections [pres]:
  "(\<And>c. frame sm (f c)) \<Longrightarrow> frame sm (getConnection E f)"
  "(\<And>c. frame crm (f c)) \<Longrightarrow> frame crm (getConnection E f)"
  "(\<And>c. frame sent (f c)) \<Longrightarrow> frame sent (getConnection E f)"
  "(\<And>c. frame committed (f c)) \<Longrightarrow> frame committed (getConnection E f)"
  by (rule frame_getConnection; simp)+

end
