(* ===== verification/Messages.thy ===== *)
theory Messages
  imports Prelude
begin

text \<open>
  The texts of the source that are not ASCII: each constant is one string literal, by its UTF-8
  bytes.  Their contents matter to the clients only; the proofs treat them as names, apart from
  the two membership grades, which the code compares.
\<close>

definition grade_normal :: string where
  "grade_normal = utf8
    [236, 157, 188, 235, 176, 152]"

definition grade_wow :: string where
  "grade_wow = utf8
    [236, 153, 128, 236, 154, 176]"

definition msg_signup_ok :: string where
  "msg_signup_ok = utf8
    [237, 154, 140, 236, 155, 144, 234, 176, 128, 236, 158, 133, 32, 236, 132, 177, 234,
     179, 181]"

definition msg_dup_id :: string where
  "msg_dup_id = utf8
    [236, 157, 180, 235, 175, 184, 32, 236, 130, 172, 236, 154, 169, 32, 236, 164, 145,
     236, 157, 184, 32, 236, 149, 132, 236, 157, 180, 235, 148, 148, 236, 158, 133, 235,
     139, 136, 235, 139, 164, 46]"

definition msg_dup_phone :: string where
  "msg_dup_phone = utf8
    [236, 157, 180, 235, 175, 184, 32, 235, 147, 177, 235, 161, 157, 235, 144, 156, 32,
     236, 160, 132, 237, 153, 148, 235, 178, 136, 237, 152, 184, 236, 158, 133, 235,
     139, 136, 235, 139, 164, 46]"

definition msg_signup_error :: string where
  "msg_signup_error = utf8
    [236, 132, 156, 235, 178, 132, 32, 235, 130, 180, 235, 182, 128, 32, 236, 152, 164,
     235, 165, 152, 32, 40, 68, 66, 32, 237, 152, 185, 236, 157, 128, 32, 235, 141, 176,
     236, 157, 180, 237, 132, 176, 32, 234, 183, 156, 234, 178, 169, 32, 237, 153, 149,
     236, 157, 184, 32, 237, 149, 132, 236, 154, 148, 41]"

definition msg_bad_format :: string where
  "msg_bad_format = utf8
    [235, 141, 176, 236, 157, 180, 237, 132, 176, 32, 237, 152, 149, 236, 139, 157, 236,
     157, 180, 32, 236, 158, 152, 235, 170, 187, 235, 144, 152, 236, 151, 136, 236, 138,
     181, 235, 139, 136, 235, 139, 164, 46]"

definition msg_login_ok :: string where
  "msg_login_ok = utf8
    [235, 161, 156, 234, 183, 184, 236, 157, 184, 32, 236, 132, 177, 234, 179, 181]"

definition msg_login_wrong :: string where
  "msg_login_wrong = utf8
    [236, 149, 132, 236, 157, 180, 235, 148, 148, 47, 235, 185, 132, 235, 176, 128, 235,
     178, 136, 237, 152, 184, 234, 176, 128, 32, 237, 139, 128, 235, 160, 184, 234, 177,
     176, 235, 130, 152, 32, 234, 182, 140, 237, 149, 156, 236, 157, 180, 32, 235, 167,
     158, 236, 167, 128, 32, 236, 149, 138, 236, 138, 181, 235, 139, 136, 235, 139, 164,
     46]"

definition msg_login_error :: string where
  "msg_login_error = utf8
    [235, 161, 156, 234, 183, 184, 236, 157, 184, 32, 236, 178, 152, 235, 166, 172, 32,
     236, 164, 145, 32, 236, 132, 156, 235, 178, 132, 32, 236, 152, 164, 235, 165, 152,
     234, 176, 128, 32, 235, 176, 156, 236, 131, 157, 237, 150, 136, 236, 138, 181, 235,
     139, 136, 235, 139, 164, 46]"

definition msg_id_taken :: string where
  "msg_id_taken = utf8
    [236, 157, 180, 235, 175, 184, 32, 236, 130, 172, 236, 154, 169, 32, 236, 164, 145,
     236, 157, 184, 32, 236, 149, 132, 236, 157, 180, 235, 148, 148, 236, 158, 133, 235,
     139, 136, 235, 139, 164, 46]"

definition msg_id_free :: string where
  "msg_id_free = utf8
    [236, 130, 172, 236, 154, 169, 32, 234, 176, 128, 235, 138, 165, 237, 149, 156, 32,
     236, 149, 132, 236, 157, 180, 235, 148, 148, 236, 158, 133, 235, 139, 136, 235,
     139, 164, 46]"

definition msg_bad_request :: string where
  "msg_bad_request = utf8
    [236, 158, 152, 235, 170, 187, 235, 144, 156, 32, 236, 154, 148, 236, 178, 173, 236,
     158, 133, 235, 139, 136, 235, 139, 164, 46]"

definition msg_phone_taken :: string where
  "msg_phone_taken = utf8
    [237, 149, 180, 235, 139, 185, 32, 236, 151, 173, 237, 149, 160, 235, 161, 156, 32,
     236, 157, 180, 235, 175, 184, 32, 234, 176, 128, 236, 158, 133, 235, 144, 156, 32,
     235, 178, 136, 237, 152, 184, 236, 158, 133, 235, 139, 136, 235, 139, 164, 46]"

definition msg_phone_free :: string where
  "msg_phone_free = utf8
    [236, 130, 172, 236, 154, 169, 32, 234, 176, 128, 235, 138, 165, 237, 149, 156, 32,
     235, 178, 136, 237, 152, 184, 236, 158, 133, 235, 139, 136, 235, 139, 164, 46]"

definition msg_biz_taken :: string where
  "msg_biz_taken = utf8
    [236, 157, 180, 235, 175, 184, 32, 235, 147, 177, 235, 161, 157, 235, 144, 156, 32,
     236, 130, 172, 236, 151, 133, 236, 158, 144, 32, 235, 178, 136, 237, 152, 184, 236,
     158, 133, 235, 139, 136, 235, 139, 164, 46]"

definition msg_biz_free :: string where
  "msg_biz_free = utf8
    [236, 130, 172, 236, 154, 169, 32, 234, 176, 128, 235, 138, 165, 237, 149, 156, 32,
     236, 130, 172, 236, 151, 133, 236, 158, 144, 32, 235, 178, 136, 237, 152, 184, 236,
     158, 133, 235, 139, 136, 235, 139, 164, 46]"

definition msg_bad_biz_request :: string where
  "msg_bad_biz_request = utf8
    [236, 158, 152, 235, 170, 187, 235, 144, 156, 32, 236, 154, 148, 236, 178, 173, 32,
     237, 152, 149, 236, 139, 157, 236, 158, 133, 235, 139, 136, 235, 139, 164, 46]"

definition msg_logout_ok :: string where
  "msg_logout_ok = utf8
    [236, 149, 136, 236, 160, 132, 237, 149, 152, 234, 178, 140, 32, 235, 161, 156, 234,
     183, 184, 236, 149, 132, 236, 155, 131, 32, 235, 144, 152, 236, 151, 136, 236, 138,
     181, 235, 139, 136, 235, 139, 164, 46]"

definition msg_internal_error :: string where
  "msg_internal_error = utf8
    [236, 132, 156, 235, 178, 132, 32, 235, 130, 180, 235, 182, 128, 32, 236, 152, 164,
     235, 165, 152]"

definition msg_empty_user_id :: string where
  "msg_empty_user_id = utf8
    [85, 115, 101, 114, 73, 100, 234, 176, 128, 32, 235, 185, 132, 236, 150, 180, 236,
     158, 136, 236, 138, 181, 235, 139, 136, 235, 139, 164, 46, 32, 74, 83, 79, 78, 32,
     237, 130, 164, 234, 176, 146, 236, 157, 132, 32, 237, 153, 149, 236, 157, 184, 237,
     149, 152, 236, 132, 184, 236, 154, 148, 46]"

definition msg_wow_joined :: string where
  "msg_wow_joined = utf8
    [235, 169, 164, 235, 178, 132, 236, 139, 173, 32, 234, 176, 128, 236, 158, 133, 236,
     157, 180, 32, 236, 153, 132, 235, 163, 140, 235, 144, 152, 236, 151, 136, 236, 138,
     181, 235, 139, 136, 235, 139, 164, 33, 32, 236, 157, 180, 236, 160, 156, 32, 235,
     176, 176, 235, 139, 172, 235, 185, 132, 234, 176, 128, 32, 48, 236, 155, 144, 236,
     158, 133, 235, 139, 136, 235, 139, 164, 46, 32, 240, 159, 142, 137]"

definition msg_wow_leaving :: string where
  "msg_wow_leaving = utf8
    [235, 169, 164, 235, 178, 132, 236, 139, 173, 32, 237, 149, 180, 236, 167, 128, 234,
     176, 128, 32, 236, 152, 136, 236, 149, 189, 235, 144, 152, 236, 151, 136, 236, 138,
     181, 235, 139, 136, 235, 139, 164, 46, 32, 236, 157, 180, 236, 154, 169, 32, 234,
     184, 176, 234, 176, 132, 32, 236, 162, 133, 235, 163, 140, 32, 237, 155, 132, 32,
     236, 157, 188, 235, 176, 152, 32, 235, 147, 177, 234, 184, 137, 236, 156, 188, 235,
     161, 156, 32, 235, 179, 128, 234, 178, 189, 235, 144, 169, 235, 139, 136, 235, 139,
     164, 46]"

definition msg_grade_error :: string where
  "msg_grade_error = utf8
    [236, 132, 156, 235, 178, 132, 32, 236, 152, 164, 235, 165, 152, 235, 161, 156, 32,
     235, 147, 177, 234, 184, 137, 32, 235, 179, 128, 234, 178, 189, 236, 151, 144, 32,
     236, 139, 164, 237, 140, 168, 237, 150, 136, 236, 138, 181, 235, 139, 136, 235,
     139, 164, 46]"

definition txt_address_unknown :: string where
  "txt_address_unknown = utf8
    [236, 163, 188, 236, 134, 140, 32, 235, 175, 184, 236, 131, 129]"

definition txt_unregistered :: string where
  "txt_unregistered = utf8
    [235, 175, 184, 235, 147, 177, 235, 161, 157]"

definition txt_store_name_unknown :: string where
  "txt_store_name_unknown = utf8
    [234, 176, 128, 234, 178, 140, 235, 170, 133, 32, 235, 175, 184, 236, 131, 129]"

definition txt_category_other :: string where
  "txt_category_other = utf8
    [234, 184, 176, 237, 131, 128]"

definition ddl_delivery_time_range :: string where
  "ddl_delivery_time_range = utf8
    [50, 48, 126, 51, 48, 235, 182, 132]"

definition ddl_pickup_time :: string where
  "ddl_pickup_time = utf8
    [49, 48, 126, 49, 53, 235, 182, 132]"

definition msg_accept_no_id :: string where
  "msg_accept_no_id = utf8
    [236, 163, 188, 235, 172, 184, 32, 235, 178, 136, 237, 152, 184, 234, 176, 128, 32,
     235, 136, 132, 235, 157, 189, 235, 144, 152, 236, 151, 136, 236, 138, 181, 235,
     139, 136, 235, 139, 164, 46]"

definition msg_accept_gone :: string where
  "msg_accept_gone = utf8
    [236, 157, 180, 235, 175, 184, 32, 236, 178, 152, 235, 166, 172, 235, 144, 152, 236,
     151, 136, 234, 177, 176, 235, 130, 152, 32, 236, 161, 180, 236, 158, 172, 237, 149,
     152, 236, 167, 128, 32, 236, 149, 138, 235, 138, 148, 32, 236, 163, 188, 235, 172,
     184, 236, 158, 133, 235, 139, 136, 235, 139, 164, 46]"

definition msg_accept_ok :: string where
  "msg_accept_ok = utf8
    [236, 163, 188, 235, 172, 184, 32, 236, 136, 152, 235, 157, 189, 236, 157, 180, 32,
     236, 153, 132, 235, 163, 140, 235, 144, 152, 236, 151, 136, 236, 138, 181, 235,
     139, 136, 235, 139, 164, 46]"

definition msg_cooking_started :: string where
  "msg_cooking_started = utf8
    [236, 130, 172, 236, 158, 165, 235, 139, 152, 236, 157, 180, 32, 236, 161, 176, 235,
     166, 172, 235, 165, 188, 32, 236, 139, 156, 236, 158, 145, 237, 150, 136, 236, 138,
     181, 235, 139, 136, 235, 139, 164, 33, 32, 40]"

definition msg_minutes_planned :: string where
  "msg_minutes_planned = utf8
    [235, 182, 132, 32, 236, 134, 140, 236, 154, 148, 32, 236, 152, 136, 236, 160, 149,
     41]"

definition msg_state_ok :: string where
  "msg_state_ok = utf8
    [236, 163, 188, 235, 172, 184, 32, 236, 131, 129, 237, 131, 156, 234, 176, 128, 32,
     236, 132, 177, 234, 179, 181, 236, 160, 129, 236, 156, 188, 235, 161, 156, 32, 235,
     179, 128, 234, 178, 189, 235, 144, 152, 236, 151, 136, 236, 138, 181, 235, 139,
     136, 235, 139, 164, 46]"

definition msg_state_cooked :: string where
  "msg_state_cooked = utf8
    [236, 163, 188, 235, 172, 184, 237, 149, 152, 236, 139, 160, 32, 236, 157, 140, 236,
     139, 157, 236, 157, 152, 32, 236, 161, 176, 235, 166, 172, 234, 176, 128, 32, 236,
     153, 132, 235, 163, 140, 235, 144, 152, 236, 151, 136, 236, 138, 181, 235, 139,
     136, 235, 139, 164, 33, 32, 240, 159, 141, 179]"

definition msg_state_picked :: string where
  "msg_state_picked = utf8
    [235, 157, 188, 236, 157, 180, 235, 141, 148, 235, 139, 152, 236, 157, 180, 32, 236,
     157, 140, 236, 139, 157, 236, 157, 132, 32, 237, 148, 189, 236, 151, 133, 237, 149,
     152, 236, 151, 172, 32, 235, 176, 176, 235, 139, 172, 236, 157, 132, 32, 236, 139,
     156, 236, 158, 145, 237, 150, 136, 236, 138, 181, 235, 139, 136, 235, 139, 164, 33,
     32, 240, 159, 155, 181, 240, 159, 146, 168]"

definition msg_state_delivered :: string where
  "msg_state_delivered = utf8
    [235, 176, 176, 235, 139, 172, 236, 157, 180, 32, 236, 153, 132, 235, 163, 140, 235,
     144, 152, 236, 151, 136, 236, 138, 181, 235, 139, 136, 235, 139, 164, 46, 32, 235,
     167, 155, 236, 158, 136, 234, 178, 140, 32, 235, 147, 156, 236, 132, 184, 236, 154,
     148, 33, 32, 240, 159, 152, 139]"

definition msg_state_changed :: string where
  "msg_state_changed = utf8
    [236, 163, 188, 235, 172, 184, 32, 236, 131, 129, 237, 131, 156, 234, 176, 128, 32,
     235, 179, 128, 234, 178, 189, 235, 144, 152, 236, 151, 136, 236, 138, 181, 235,
     139, 136, 235, 139, 164, 46]"

definition msg_state_not_found :: string where
  "msg_state_not_found = utf8
    [236, 163, 188, 235, 172, 184, 236, 157, 132, 32, 236, 176, 190, 236, 157, 132, 32,
     236, 136, 152, 32, 236, 151, 134, 234, 177, 176, 235, 130, 152, 32, 68, 66, 32,
     236, 151, 133, 235, 141, 176, 236, 157, 180, 237, 138, 184, 236, 151, 144, 32, 236,
     139, 164, 237, 140, 168, 237, 150, 136, 236, 138, 181, 235, 139, 136, 235, 139,
     164, 46]"

definition msg_state_error :: string where
  "msg_state_error = utf8
    [236, 131, 129, 237, 131, 156, 32, 235, 179, 128, 234, 178, 189, 32, 236, 164, 145,
     32, 236, 132, 156, 235, 178, 132, 32, 236, 152, 164, 235, 165, 152, 234, 176, 128,
     32, 235, 176, 156, 236, 131, 157, 237, 150, 136, 236, 138, 181, 235, 139, 136, 235,
     139, 164, 46]"

definition msg_no_storeId :: string where
  "msg_no_storeId = utf8
    [115, 116, 111, 114, 101, 73, 100, 234, 176, 128, 32, 236, 151, 134, 236, 138, 181,
     235, 139, 136, 235, 139, 164, 46]"

definition txt_and :: string where
  "txt_and = utf8
    [32, 236, 153, 184, 32]"

definition txt_more :: string where
  "txt_more = utf8
    [234, 177, 180]"

definition msg_query_ok :: string where
  "msg_query_ok = utf8
    [236, 161, 176, 237, 154, 140, 32, 236, 132, 177, 234, 179, 181]"

definition msg_order_created :: string where
  "msg_order_created = utf8
    [236, 163, 188, 235, 172, 184, 236, 157, 180, 32, 236, 132, 177, 234, 179, 181, 236,
     160, 129, 236, 156, 188, 235, 161, 156, 32, 236, 131, 157, 236, 132, 177, 235, 144,
     152, 236, 151, 136, 236, 138, 181, 235, 139, 136, 235, 139, 164, 46]"

definition txt_menu_no :: string where
  "txt_menu_no = utf8
    [235, 169, 148, 235, 137, 180, 32, 35]"

definition msg_cook_time_ok :: string where
  "msg_cook_time_ok = utf8
    [236, 161, 176, 235, 166, 172, 32, 236, 139, 156, 234, 176, 132, 236, 157, 180, 32,
     236, 132, 177, 234, 179, 181, 236, 160, 129, 236, 156, 188, 235, 161, 156, 32, 236,
     132, 164, 236, 160, 149, 235, 144, 152, 236, 151, 136, 236, 138, 181, 235, 139,
     136, 235, 139, 164, 46]"

definition msg_cook_started_about :: string where
  "msg_cook_started_about = utf8
    [236, 130, 172, 236, 158, 165, 235, 139, 152, 236, 157, 180, 32, 236, 161, 176, 235,
     166, 172, 235, 165, 188, 32, 236, 139, 156, 236, 158, 145, 237, 150, 136, 236, 138,
     181, 235, 139, 136, 235, 139, 164, 33, 32, 40, 236, 149, 189, 32]"

definition msg_minutes_arrival :: string where
  "msg_minutes_arrival = utf8
    [235, 182, 132, 32, 235, 130, 180, 32, 235, 143, 132, 236, 176, 169, 32, 236, 152,
     136, 236, 160, 149, 32, 240, 159, 155, 181, 41]"

definition txt_cook_left :: string where
  "txt_cook_left = utf8
    [236, 161, 176, 235, 166, 172, 32, 236, 153, 132, 235, 163, 140, 234, 185, 140, 236,
     167, 128, 32]"

definition txt_minutes_left :: string where
  "txt_minutes_left = utf8
    [235, 182, 132, 32, 235, 130, 168, 236, 157, 140]"

definition msg_cook_time_error :: string where
  "msg_cook_time_error = utf8
    [236, 132, 156, 235, 178, 132, 32, 235, 130, 180, 235, 182, 128, 32, 236, 152, 164,
     235, 165, 152, 235, 161, 156, 32, 236, 132, 164, 236, 160, 149, 236, 151, 144, 32,
     236, 139, 164, 237, 140, 168, 237, 150, 136, 236, 138, 181, 235, 139, 136, 235,
     139, 164, 46]"

definition msg_delivery_recorded :: string where
  "msg_delivery_recorded = utf8
    [235, 176, 176, 235, 139, 172, 32, 236, 153, 132, 235, 163, 140, 32, 236, 178, 152,
     235, 166, 172, 234, 176, 128, 32, 236, 160, 149, 236, 131, 129, 236, 160, 129, 236,
     156, 188, 235, 161, 156, 32, 234, 184, 176, 235, 161, 157, 235, 144, 152, 236, 151,
     136, 236, 138, 181, 235, 139, 136, 235, 139, 164, 46]"

definition msg_delivered :: string where
  "msg_delivered = utf8
    [235, 176, 176, 235, 139, 172, 236, 157, 180, 32, 236, 153, 132, 235, 163, 140, 235,
     144, 152, 236, 151, 136, 236, 138, 181, 235, 139, 136, 235, 139, 164, 46, 32, 235,
     167, 155, 236, 158, 136, 234, 178, 140, 32, 235, 147, 156, 236, 132, 184, 236, 154,
     148, 33, 32, 240, 159, 152, 139]"

definition txt_order_no :: string where
  "txt_order_no = utf8
    [236, 163, 188, 235, 172, 184, 32, 235, 178, 136, 237, 152, 184, 91]"

definition txt_order_delivered :: string where
  "txt_order_delivered = utf8
    [93, 32, 235, 176, 176, 235, 139, 172, 236, 157, 180, 32, 236, 153, 132, 235, 163,
     140, 235, 144, 152, 236, 151, 136, 236, 138, 181, 235, 139, 136, 235, 139, 164, 46]"

definition msg_delivery_error :: string where
  "msg_delivery_error = utf8
    [236, 132, 156, 235, 178, 132, 32, 236, 152, 164, 235, 165, 152, 235, 161, 156, 32,
     236, 153, 132, 235, 163, 140, 32, 236, 178, 152, 235, 166, 172, 236, 151, 144, 32,
     236, 139, 164, 237, 140, 168, 237, 150, 136, 236, 138, 181, 235, 139, 136, 235,
     139, 164, 46]"

definition msg_reject_no_id :: string where
  "msg_reject_no_id = utf8
    [236, 163, 188, 235, 172, 184, 32, 235, 178, 136, 237, 152, 184, 234, 176, 128, 32,
     235, 136, 132, 235, 157, 189, 235, 144, 152, 236, 151, 136, 236, 138, 181, 235,
     139, 136, 235, 139, 164, 46]"

definition msg_reject_ok :: string where
  "msg_reject_ok = utf8
    [236, 163, 188, 235, 172, 184, 32, 234, 177, 176, 236, 160, 136, 32, 236, 153, 132,
     235, 163, 140]"

definition msg_reject_notify :: string where
  "msg_reject_notify = utf8
    [236, 163, 132, 236, 134, 161, 237, 149, 169, 235, 139, 136, 235, 139, 164, 46, 32,
     236, 130, 172, 236, 158, 165, 235, 139, 152, 236, 157, 180, 32, 236, 163, 188, 235,
     172, 184, 236, 157, 132, 32, 234, 177, 176, 236, 160, 136, 237, 149, 152, 236, 152,
     128, 236, 138, 181, 235, 139, 136, 235, 139, 164, 46]"

definition msg_server_error :: string where
  "msg_server_error = utf8
    [236, 132, 156, 235, 178, 132, 32, 236, 152, 164, 235, 165, 152]"

definition msg_cancel_no_id :: string where
  "msg_cancel_no_id = utf8
    [236, 163, 188, 235, 172, 184, 32, 235, 178, 136, 237, 152, 184, 32, 235, 136, 132,
     235, 157, 189]"

definition msg_cancel_customer :: string where
  "msg_cancel_customer = utf8
    [234, 180, 128, 235, 166, 172, 236, 158, 144, 236, 151, 144, 32, 236, 157, 152, 237,
     149, 180, 32, 236, 163, 188, 235, 172, 184, 236, 157, 180, 32, 236, 183, 168, 236,
     134, 140, 47, 237, 153, 152, 235, 182, 136, 235, 144, 152, 236, 151, 136, 236, 138,
     181, 235, 139, 136, 235, 139, 164, 46]"

definition msg_cancel_owner :: string where
  "msg_cancel_owner = utf8
    [234, 180, 128, 235, 166, 172, 236, 158, 144, 234, 176, 128, 32, 236, 163, 188, 235,
     172, 184, 236, 157, 132, 32, 236, 183, 168, 236, 134, 140, 32, 236, 178, 152, 235,
     166, 172, 237, 150, 136, 236, 138, 181, 235, 139, 136, 235, 139, 164, 46]"

definition msg_cancel_error :: string where
  "msg_cancel_error = utf8
    [236, 183, 168, 236, 134, 140, 32, 236, 178, 152, 235, 166, 172, 32, 236, 164, 145,
     32, 236, 132, 156, 235, 178, 132, 32, 236, 152, 164, 235, 165, 152]"

definition msg_detail_no_id :: string where
  "msg_detail_no_id = utf8
    [236, 163, 188, 235, 172, 184, 32, 235, 178, 136, 237, 152, 184, 234, 176, 128, 32,
     235, 136, 132, 235, 157, 189, 235, 144, 152, 236, 151, 136, 236, 138, 181, 235,
     139, 136, 235, 139, 164, 46]"

definition txt_credit_card :: string where
  "txt_credit_card = utf8
    [236, 139, 160, 236, 154, 169, 236, 185, 180, 235, 147, 156, 40]"

definition txt_credit_card_pay :: string where
  "txt_credit_card_pay = utf8
    [236, 139, 160, 236, 154, 169, 236, 185, 180, 235, 147, 156, 32, 234, 178, 176, 236,
     160, 156]"

definition msg_detail_not_found :: string where
  "msg_detail_not_found = utf8
    [237, 149, 180, 235, 139, 185, 32, 236, 163, 188, 235, 172, 184, 236, 157, 132, 32,
     236, 176, 190, 236, 157, 132, 32, 236, 136, 152, 32, 236, 151, 134, 236, 138, 181,
     235, 139, 136, 235, 139, 164, 46]"

definition txt_no_menu_info :: string where
  "txt_no_menu_info = utf8
    [235, 169, 148, 235, 137, 180, 32, 236, 160, 149, 235, 179, 180, 32, 236, 151, 134,
     236, 157, 140]"

definition msg_quantity_limit :: string where
  "msg_quantity_limit = utf8
    [235, 169, 148, 235, 137, 180, 32, 236, 136, 152, 235, 159, 137, 236, 157, 128, 32,
     49, 234, 176, 156, 32, 236, 157, 180, 236, 131, 129, 32, 57, 57, 234, 176, 156, 32,
     236, 157, 180, 237, 149, 152, 235, 167, 140, 32, 234, 176, 128, 235, 138, 165, 237,
     149, 169, 235, 139, 136, 235, 139, 164, 46]"

definition msg_dao_created :: string where
  "msg_dao_created = utf8
    [236, 163, 188, 235, 172, 184, 236, 157, 180, 32, 236, 132, 177, 234, 179, 181, 236,
     160, 129, 236, 156, 188, 235, 161, 156, 32, 236, 131, 157, 236, 132, 177, 235, 144,
     152, 236, 151, 136, 236, 138, 181, 235, 139, 136, 235, 139, 164, 46]"

definition msg_dao_failed :: string where
  "msg_dao_failed = utf8
    [236, 132, 156, 235, 178, 132, 32, 236, 152, 164, 235, 165, 152, 235, 161, 156, 32,
     236, 163, 188, 235, 172, 184, 236, 151, 144, 32, 236, 139, 164, 237, 140, 168, 237,
     150, 136, 236, 138, 181, 235, 139, 136, 235, 139, 164, 46]"

definition txt_menu :: string where
  "txt_menu = utf8
    [235, 169, 148, 235, 137, 180]"

definition msg_no_orderId :: string where
  "msg_no_orderId = utf8
    [111, 114, 100, 101, 114, 73, 100, 234, 176, 128, 32, 236, 151, 134, 236, 138, 181,
     235, 139, 136, 235, 139, 164, 46]"

definition msg_rider_delivered_customer :: string where
  "msg_rider_delivered_customer = utf8
    [235, 176, 176, 235, 139, 172, 236, 157, 180, 32, 236, 153, 132, 235, 163, 140, 235,
     144, 152, 236, 151, 136, 236, 138, 181, 235, 139, 136, 235, 139, 164, 46, 32, 235,
     167, 155, 236, 158, 136, 234, 178, 140, 32, 235, 147, 156, 236, 132, 184, 236, 154,
     148, 33, 32, 240, 159, 152, 139]"

definition msg_rider_delivered_owner :: string where
  "msg_rider_delivered_owner = utf8
    [236, 163, 188, 235, 172, 184, 237, 149, 152, 236, 139, 160, 32, 236, 131, 129, 237,
     146, 136, 236, 157, 152, 32, 235, 176, 176, 235, 139, 172, 236, 157, 180, 32, 236,
     153, 132, 235, 163, 140, 235, 144, 152, 236, 151, 136, 236, 138, 181, 235, 139,
     136, 235, 139, 164, 33]"

definition msg_order_not_found :: string where
  "msg_order_not_found = utf8
    [237, 149, 180, 235, 139, 185, 32, 236, 163, 188, 235, 172, 184, 236, 157, 132, 32,
     236, 176, 190, 236, 157, 132, 32, 236, 136, 152, 32, 236, 151, 134, 236, 138, 181,
     235, 139, 136, 235, 139, 164, 46]"

definition msg_pickup_owner :: string where
  "msg_pickup_owner = utf8
    [235, 157, 188, 236, 157, 180, 235, 141, 148, 234, 176, 128, 32, 236, 157, 140, 236,
     139, 157, 236, 157, 132, 32, 237, 148, 189, 236, 151, 133, 237, 150, 136, 236, 138,
     181, 235, 139, 136, 235, 139, 164, 46, 32, 235, 176, 176, 235, 139, 172, 236, 157,
     132, 32, 236, 139, 156, 236, 158, 145, 237, 149, 169, 235, 139, 136, 235, 139, 164,
     33]"

definition msg_pickup_customer :: string where
  "msg_pickup_customer = utf8
    [235, 157, 188, 236, 157, 180, 235, 141, 148, 235, 139, 152, 236, 157, 180, 32, 236,
     157, 140, 236, 139, 157, 236, 157, 132, 32, 237, 148, 189, 236, 151, 133, 237, 149,
     152, 236, 151, 172, 32, 235, 176, 176, 235, 139, 172, 236, 157, 132, 32, 236, 139,
     156, 236, 158, 145, 237, 150, 136, 236, 138, 181, 235, 139, 136, 235, 139, 164, 33,
     32, 240, 159, 155, 181, 240, 159, 146, 168]"

definition msg_not_logged_in :: string where
  "msg_not_logged_in = utf8
    [235, 161, 156, 234, 183, 184, 236, 157, 184, 235, 144, 152, 236, 167, 128, 32, 236,
     149, 138, 236, 157, 128, 32, 236, 132, 184, 236, 133, 152, 236, 158, 133, 235, 139,
     136, 235, 139, 164, 46]"

definition txt_owner :: string where
  "txt_owner = utf8
    [236, 130, 172, 236, 158, 165, 235, 139, 152]"

definition txt_customer :: string where
  "txt_customer = utf8
    [234, 179, 160, 234, 176, 157, 235, 139, 152]"

definition msg_chat_requested :: string where
  "msg_chat_requested = utf8
    [93, 32, 235, 139, 152, 236, 157, 152, 32, 49, 58, 49, 32, 236, 177, 132, 237, 140,
     133, 32, 236, 154, 148, 236, 178, 173]"

definition msg_chat_waiting :: string where
  "msg_chat_waiting = utf8
    [236, 131, 129, 235, 139, 180, 236, 155, 144, 32, 236, 151, 176, 234, 178, 176, 236,
     157, 132, 32, 235, 140, 128, 234, 184, 176, 32, 236, 164, 145, 236, 158, 133, 235,
     139, 136, 235, 139, 164, 46, 46, 46]"

definition msg_room_created :: string where
  "msg_room_created = utf8
    [236, 177, 132, 237, 140, 133, 235, 176, 169, 32, 236, 131, 157, 236, 132, 177, 32,
     236, 153, 132, 235, 163, 140]"

definition msg_agent_connected :: string where
  "msg_agent_connected = utf8
    [236, 131, 129, 235, 139, 180, 236, 155, 144, 236, 157, 180, 32, 236, 151, 176, 234,
     178, 176, 235, 144, 152, 236, 151, 136, 236, 138, 181, 235, 139, 136, 235, 139,
     164, 46]"

definition msg_no_room :: string where
  "msg_no_room = utf8
    [236, 161, 180, 236, 158, 172, 237, 149, 152, 236, 167, 128, 32, 236, 149, 138, 235,
     138, 148, 32, 235, 176, 169, 236, 158, 133, 235, 139, 136, 235, 139, 164, 46]"

definition msg_chat_sent :: string where
  "msg_chat_sent = utf8
    [236, 160, 132, 236, 134, 161, 32, 236, 153, 132, 235, 163, 140]"

definition msg_room_closed_already :: string where
  "msg_room_closed_already = utf8
    [236, 157, 180, 235, 175, 184, 32, 236, 162, 133, 235, 163, 140, 235, 144, 152, 236,
     151, 136, 234, 177, 176, 235, 130, 152, 32, 236, 161, 180, 236, 158, 172, 237, 149,
     152, 236, 167, 128, 32, 236, 149, 138, 235, 138, 148, 32, 235, 176, 169, 236, 158,
     133, 235, 139, 136, 235, 139, 164, 46]"

definition txt_admin :: string where
  "txt_admin = utf8
    [234, 180, 128, 235, 166, 172, 236, 158, 144]"

definition txt_customer2 :: string where
  "txt_customer2 = utf8
    [234, 179, 160, 234, 176, 157, 235, 139, 152]"

definition msg_chat_ended :: string where
  "msg_chat_ended = utf8
    [236, 157, 180, 40, 234, 176, 128, 41, 32, 236, 177, 132, 237, 140, 133, 236, 157,
     132, 32, 236, 162, 133, 235, 163, 140, 237, 149, 152, 236, 152, 128, 236, 138, 181,
     235, 139, 136, 235, 139, 164, 46]"

definition msg_close_error :: string where
  "msg_close_error = utf8
    [236, 162, 133, 235, 163, 140, 32, 236, 178, 152, 235, 166, 172, 32, 236, 164, 145,
     32, 236, 152, 164, 235, 165, 152, 234, 176, 128, 32, 235, 176, 156, 236, 131, 157,
     237, 150, 136, 236, 138, 181, 235, 139, 136, 235, 139, 164, 46]"

definition msg_admin_ok :: string where
  "msg_admin_ok = utf8
    [234, 180, 128, 235, 166, 172, 236, 158, 144, 32, 234, 182, 140, 237, 149, 156, 236,
     157, 180, 32, 235, 182, 128, 236, 151, 172, 235, 144, 152, 236, 151, 136, 236, 138,
     181, 235, 139, 136, 235, 139, 164, 46]"

definition msg_store_not_found :: string where
  "msg_store_not_found = utf8
    [237, 149, 180, 235, 139, 185, 32, 235, 167, 164, 236, 158, 165, 236, 157, 132, 32,
     236, 176, 190, 236, 157, 132, 32, 236, 136, 152, 32, 236, 151, 134, 236, 138, 181,
     235, 139, 136, 235, 139, 164, 46]"

definition ddl_label_other :: string where
  "ddl_label_other = utf8
    [234, 184, 176, 237, 131, 128]"

definition txt_basic_menu :: string where
  "txt_basic_menu = utf8
    [234, 184, 176, 235, 179, 184, 32, 235, 169, 148, 235, 137, 180]"

definition txt_range_20_30 :: string where
  "txt_range_20_30 = utf8
    [50, 48, 126, 51, 48, 235, 182, 132]"

definition txt_pickup_10_15 :: string where
  "txt_pickup_10_15 = utf8
    [49, 48, 126, 49, 53, 235, 182, 132]"

definition txt_won :: string where
  "txt_won = utf8
    [236, 155, 144]"

definition txt_range_30_45 :: string where
  "txt_range_30_45 = utf8
    [51, 48, 126, 52, 53, 235, 182, 132]"

definition txt_no_info :: string where
  "txt_no_info = utf8
    [236, 160, 149, 235, 179, 180, 32, 236, 151, 134, 236, 157, 140]"

definition txt_deleted_menu :: string where
  "txt_deleted_menu = utf8
    [236, 130, 173, 236, 160, 156, 235, 144, 156, 32, 235, 169, 148, 235, 137, 180]"

definition msg_storeId_missing :: string where
  "msg_storeId_missing = utf8
    [115, 116, 111, 114, 101, 73, 100, 234, 176, 128, 32, 235, 136, 132, 235, 157, 189,
     235, 144, 152, 236, 151, 136, 236, 138, 181, 235, 139, 136, 235, 139, 164, 46]"

definition msg_nothing_changed :: string where
  "msg_nothing_changed = utf8
    [235, 179, 128, 234, 178, 189, 235, 144, 156, 32, 237, 149, 173, 235, 170, 169, 236,
     157, 180, 32, 236, 151, 134, 236, 138, 181, 235, 139, 136, 235, 139, 164, 46]"

definition msg_saved :: string where
  "msg_saved = utf8
    [236, 160, 128, 236, 158, 165, 32, 236, 153, 132, 235, 163, 140]"

definition msg_db_error :: string where
  "msg_db_error = utf8
    [68, 66, 32, 236, 152, 164, 235, 165, 152, 234, 176, 128, 32, 235, 176, 156, 236,
     131, 157, 237, 150, 136, 236, 138, 181, 235, 139, 136, 235, 139, 164, 46]"

definition msg_status_args :: string where
  "msg_status_args = utf8
    [115, 116, 111, 114, 101, 73, 100, 32, 235, 152, 144, 235, 138, 148, 32, 115, 116,
     97, 116, 117, 115, 234, 176, 128, 32, 236, 151, 134, 236, 138, 181, 235, 139, 136,
     235, 139, 164, 46]"

definition msg_status_changed :: string where
  "msg_status_changed = utf8
    [236, 152, 129, 236, 151, 133, 32, 236, 131, 129, 237, 131, 156, 234, 176, 128, 32,
     235, 179, 128, 234, 178, 189, 235, 144, 152, 236, 151, 136, 236, 138, 181, 235,
     139, 136, 235, 139, 164, 46]"

definition msg_menu_changed :: string where
  "msg_menu_changed = utf8
    [235, 169, 148, 235, 137, 180, 32, 235, 179, 128, 234, 178, 189, 32, 236, 153, 132,
     235, 163, 140]"

definition msg_bad_action :: string where
  "msg_bad_action = utf8
    [236, 158, 152, 235, 170, 187, 235, 144, 156, 32, 97, 99, 116, 105, 111, 110, 84,
     121, 112, 101]"

definition msg_soldout_changed :: string where
  "msg_soldout_changed = utf8
    [237, 146, 136, 236, 160, 136, 32, 236, 131, 129, 237, 131, 156, 32, 235, 179, 128,
     234, 178, 189, 32, 236, 153, 132, 235, 163, 140]"

definition msg_db_error_short :: string where
  "msg_db_error_short = utf8
    [68, 66, 32, 236, 152, 164, 235, 165, 152]"

definition msg_review_args :: string where
  "msg_review_args = utf8
    [115, 116, 111, 114, 101, 73, 100, 32, 235, 152, 144, 235, 138, 148, 32, 109, 101,
     110, 117, 73, 100, 234, 176, 128, 32, 237, 149, 132, 236, 154, 148, 237, 149, 169,
     235, 139, 136, 235, 139, 164, 46]"

definition msg_reply_args :: string where
  "msg_reply_args = utf8
    [114, 101, 118, 105, 101, 119, 73, 100, 44, 32, 115, 116, 111, 114, 101, 73, 100,
     44, 32, 111, 119, 110, 101, 114, 82, 101, 112, 108, 121, 32, 236, 164, 145, 32,
     235, 136, 132, 235, 157, 189, 235, 144, 156, 32, 234, 176, 146, 236, 157, 180, 32,
     236, 158, 136, 236, 138, 181, 235, 139, 136, 235, 139, 164, 46]"

definition msg_reply_ok :: string where
  "msg_reply_ok = utf8
    [235, 139, 181, 234, 184, 128, 32, 235, 147, 177, 235, 161, 157, 32, 236, 153, 132,
     235, 163, 140]"

definition msg_reply_not_found :: string where
  "msg_reply_not_found = utf8
    [237, 149, 180, 235, 139, 185, 32, 235, 166, 172, 235, 183, 176, 235, 165, 188, 32,
     236, 176, 190, 236, 157, 132, 32, 236, 136, 152, 32, 236, 151, 134, 234, 177, 176,
     235, 130, 152, 32, 234, 182, 140, 237, 149, 156, 236, 157, 180, 32, 236, 151, 134,
     236, 138, 181, 235, 139, 136, 235, 139, 164, 46]"

definition msg_menuId_args :: string where
  "msg_menuId_args = utf8
    [236, 160, 149, 237, 153, 149, 237, 149, 156, 32, 109, 101, 110, 117, 73, 100, 235,
     165, 188, 32, 236, 158, 133, 235, 160, 165, 237, 149, 180, 236, 163, 188, 236, 132,
     184, 236, 154, 148, 46]"

definition sql_convenience :: string where
  "sql_convenience = utf8
    [237, 142, 184, 236, 157, 152, 236, 160, 144]"

definition sql_mart :: string where
  "sql_mart = utf8
    [235, 167, 136, 237, 138, 184]"

lemma grade_wow_neq_normal: "grade_wow \<noteq> grade_normal"
proof
  assume "grade_wow = grade_normal"
  then have "(of_char (hd grade_wow) :: nat) = of_char (hd grade_normal)
      \<and> (of_char (grade_wow ! 1) :: nat) = of_char (grade_normal ! 1)" by simp
  then show False by (simp add: grade_wow_def grade_normal_def utf8_def of_char_of)
qed

end
