(* ===== verification/UserDAO.thy ===== *)
theory UserDAO
  imports World Messages Dto_Account
begin

text \<open>
  Account queries: \<^verbatim>\<open>server/src/database/UserDAO.cpp\<close>, \<^verbatim>\<open>AuthDAO.cpp\<close> and \<^verbatim>\<open>MembershipDAO.cpp\<close>.
  Inserts enforce the primary keys of the schema and the \<^verbatim>\<open>UNIQUE\<close> key on
  \<^verbatim>\<open>USERS.phone_number\<close>.  Where a query has \<^verbatim>\<open>LIMIT 1\<close> without an order, the first row in storage
  order is taken.
\<close>

section \<open>Statements\<close>

definition insert_USERS :: "env \<Rightarrow> USERS_row \<Rightarrow> tables \<Rightarrow> (int \<times> tables) option" where
  "insert_USERS E row t =
     (if \<exists>r\<in>set (USERS t). str_eq E (u_user_id r) (u_user_id row)
           \<or> str_eq E (u_phone_number r) (u_phone_number row)
      then None else Some (1, t\<lparr>USERS := USERS t @ [row]\<rparr>))"

definition insert_CUSTOMERS :: "env \<Rightarrow> CUSTOMERS_row \<Rightarrow> tables \<Rightarrow> (int \<times> tables) option" where
  "insert_CUSTOMERS E row t =
     (if \<exists>r\<in>set (CUSTOMERS t). str_eq E (c_user_id r) (c_user_id row)
      then None else Some (1, t\<lparr>CUSTOMERS := CUSTOMERS t @ [row]\<rparr>))"

definition insert_OWNERS :: "env \<Rightarrow> OWNERS_row \<Rightarrow> tables \<Rightarrow> (int \<times> tables) option" where
  "insert_OWNERS E row t =
     (if \<exists>r\<in>set (OWNERS t). str_eq E (ow_user_id r) (ow_user_id row)
      then None else Some (1, t\<lparr>OWNERS := OWNERS t @ [row]\<rparr>))"

definition new_store :: "int \<Rightarrow> string \<Rightarrow> string \<Rightarrow> string \<Rightarrow> string \<Rightarrow> STORES_row" where
  "new_store sid owner name category address =
     \<lparr>s_store_id = sid, s_owner_id = owner, s_store_name = name, s_category = category,
      s_brand_name = None, s_store_address = Some address, s_open_time = Some ''09:00'',
      s_close_time = Some ''22:00'', s_status = 1, s_cook_time = Some 30, s_image_url = None,
      s_min_order_amount = Some 0, s_rating = 0, s_review_count = 0,
      s_delivery_time_range = Some ddl_delivery_time_range, s_pickup_time = Some ddl_pickup_time,
      s_total_sales = 0, s_delivery_fee = 0, s_icon_name = Some ''default_icon'',
      s_popularity_score = 0\<rparr>"

definition insert_STORES :: "(int \<Rightarrow> STORES_row) \<Rightarrow> tables \<Rightarrow> (int \<times> tables) option" where
  "insert_STORES row t = Some (1, t\<lparr>STORES := STORES t @ [row (next_id s_store_id (STORES t))]\<rparr>)"

definition count_user_id :: "env \<Rightarrow> string \<Rightarrow> tables \<Rightarrow> int" where
  "count_user_id E uid t = count_where (\<lambda>r. str_eq E (u_user_id r) uid) (USERS t)"

definition count_phone_role :: "env \<Rightarrow> string \<Rightarrow> int \<Rightarrow> tables \<Rightarrow> int" where
  "count_phone_role E phone ro t =
     count_where (\<lambda>r. str_eq E (u_phone_number r) phone \<and> u_role r = ro) (USERS t)"

section \<open>\<^verbatim>\<open>UserDAO\<close>\<close>

definition existsById :: "env \<Rightarrow> string \<Rightarrow> bool io" where
  "existsById E uid =
     catchE (getConnection E (\<lambda>c.
       bindE (executeQuery E c (count_user_id E uid)) (\<lambda>n. retE (n > 0))))
     (\<lambda>_. retE False)"

definition existsByPhoneAndRole :: "env \<Rightarrow> string \<Rightarrow> int \<Rightarrow> bool io" where
  "existsByPhoneAndRole E phone ro =
     catchE (getConnection E (\<lambda>c.
       bindE (executeQuery E c (count_phone_role E phone ro)) (\<lambda>n. retE (n > 0))))
     (\<lambda>_. retE False)"

definition or_else :: "string \<Rightarrow> string \<Rightarrow> string" where
  "or_else s d = (if s = [] then d else s)"

definition insert_role_rows :: "env \<Rightarrow> nat \<Rightarrow> SignupReqDTO \<Rightarrow> unit io" where
  "insert_role_rows E c dto =
     (if SignupReq_role dto = 0 then
        bindE (executeUpdate E c (insert_CUSTOMERS E
          \<lparr>c_user_id = SignupReq_userId dto,
           c_address = Some (or_else (SignupReq_address dto) txt_address_unknown),
           c_point = Some 0, c_customer_grade = Some grade_normal, c_card_number = None,
           c_account_number = None\<rparr>)) (\<lambda>_. retE ())
      else if SignupReq_role dto = 1 then
        bindE (executeUpdate E c (insert_OWNERS E
          \<lparr>ow_user_id = SignupReq_userId dto,
           ow_business_number = Some (or_else (SignupReq_businessNumber dto) txt_unregistered),
           ow_account_number = Some (or_else (SignupReq_accountNumber dto) txt_unregistered),
           ow_approval_status = Some 0\<rparr>)) (\<lambda>_.
        bindE (executeUpdate E c (insert_STORES (\<lambda>sid. new_store sid (SignupReq_userId dto)
           (or_else (SignupReq_storeName dto) txt_store_name_unknown)
           (or_else (SignupReq_category dto) txt_category_other)
           (or_else (SignupReq_storeAddress dto) txt_address_unknown)))) (\<lambda>_. retE ()))
      else retE ())"

definition user_row :: "SignupReqDTO \<Rightarrow> USERS_row" where
  "user_row dto =
     \<lparr>u_user_id = SignupReq_userId dto, u_password_hash = SignupReq_password dto,
      u_user_name = SignupReq_userName dto, u_phone_number = SignupReq_phoneNumber dto,
      u_role = SignupReq_role dto, u_grade = Some grade_normal\<rparr>"

definition insertUser_tx :: "env \<Rightarrow> nat \<Rightarrow> SignupReqDTO \<Rightarrow> SignupResult io" where
  "insertUser_tx E c dto =
     bindE (executeQuery E c (count_user_id E (SignupReq_userId dto))) (\<lambda>n.
     if n > 0 then retE DUPLICATE_ID else
     bindE (executeQuery E c (count_phone_role E (SignupReq_phoneNumber dto) (SignupReq_role dto))) (\<lambda>k.
     if k > 0 then retE DUPLICATE_PHONE else
     thenE (setAutoCommit E c False) (
     bindE (executeUpdate E c (insert_USERS E (user_row dto))) (\<lambda>_.
     thenE (insert_role_rows E c dto) (
     thenE (commit E c) (
     thenE (setAutoCommit E c True) (
     retE SIGNUP_SUCCESS)))))))"

definition insertUser :: "env \<Rightarrow> SignupReqDTO \<Rightarrow> SignupResult io" where
  "insertUser E dto =
     getConnection E (\<lambda>c.
       catch_sql (insertUser_tx E c dto)
         (thenE (catch_sql (thenE (rollback E c) (setAutoCommit E c True)) (retE ()))
            (retE SIGNUP_SERVER_ERROR)))"

definition existsByBizNum :: "env \<Rightarrow> string \<Rightarrow> bool io" where
  "existsByBizNum E businessNum =
     catch_sql (getConnection E (\<lambda>c.
       bindE (executeQuery E c (\<lambda>t. count_where
           (\<lambda>r. \<exists>b. ow_business_number r = Some b \<and> str_eq E b businessNum) (OWNERS t)))
         (\<lambda>n. retE (n > 0))))
     (retE False)"

definition getUserGrade :: "env \<Rightarrow> string \<Rightarrow> string io" where
  "getUserGrade E uid =
     catch_sql (getConnection E (\<lambda>c.
       bindE (executeQuery E c (\<lambda>t. first_where (\<lambda>r. str_eq E (u_user_id r) uid) (USERS t))) (\<lambda>rs.
       retE (case rs of
           None \<Rightarrow> grade_normal
         | Some r \<Rightarrow> (case u_grade r of None \<Rightarrow> grade_normal | Some g \<Rightarrow> g)))))
     (retE grade_normal)"

section \<open>\<^verbatim>\<open>AuthDAO\<close>\<close>

record login_row =
  lg_user :: USERS_row
  lg_addr :: "USER_ADDRESSES_row option"
  lg_owner :: "OWNERS_row option"
  lg_store :: "STORES_row option"

definition login_query :: "env \<Rightarrow> string \<Rightarrow> int \<Rightarrow> tables \<Rightarrow> login_row option" where
  "login_query E uid ro t =
     (case first_where (\<lambda>u. str_eq E (u_user_id u) uid \<and> u_role u = ro) (USERS t) of
        None \<Rightarrow> None
      | Some u \<Rightarrow> Some
          \<lparr>lg_user = u,
           lg_addr = first_where (\<lambda>a. str_eq E (u_user_id u) (a_user_id a) \<and> a_is_default a = 1) (USER_ADDRESSES t),
           lg_owner = first_where (\<lambda>ow. str_eq E (u_user_id u) (ow_user_id ow)) (OWNERS t),
           lg_store = first_where (\<lambda>s. str_eq E (u_user_id u) (s_owner_id s)) (STORES t)\<rparr>)"

definition customer_address :: "login_row \<Rightarrow> string" where
  "customer_address l =
     (let mainAddr = (case lg_addr l of None \<Rightarrow> [] | Some a \<Rightarrow> a_address a);
          detailAddr = nvl [] (Option.bind (lg_addr l) a_detail)
      in if mainAddr \<noteq> [] \<and> detailAddr \<noteq> [] then mainAddr @ '' '' @ detailAddr else mainAddr)"

definition owner_fields :: "login_row \<Rightarrow> (string \<times> json) list" where
  "owner_fields l =
     [(''storeId'', JInt (nvl 0 (map_option s_store_id (lg_store l)))),
      (''storeName'', JStr (nvl [] (map_option s_store_name (lg_store l)))),
      (''category'', JStr (nvl [] (map_option s_category (lg_store l)))),
      (''storeAddress'', JStr (nvl [] (Option.bind (lg_store l) s_store_address))),
      (''cookTime'', JStr (nvl ''0'' (map_option to_string (Option.bind (lg_store l) s_cook_time)))),
      (''minOrderAmount'', JStr (nvl ''0'' (map_option to_string (Option.bind (lg_store l) s_min_order_amount)))),
      (''openTime'', JStr (nvl [] (Option.bind (lg_store l) s_open_time))),
      (''closeTime'', JStr (nvl [] (Option.bind (lg_store l) s_close_time))),
      (''accountNumber'', JStr (nvl [] (Option.bind (lg_owner l) ow_account_number))),
      (''businessNumber'', JStr (nvl [] (Option.bind (lg_owner l) ow_business_number))),
      (''approvalStatus'', JInt (nvl 0 (Option.bind (lg_owner l) ow_approval_status)))]"

definition user_info :: "string \<Rightarrow> login_row \<Rightarrow> json" where
  "user_info inputId l = JObj (
     [(''userId'', JStr inputId),
      (''userName'', JStr (u_user_name (lg_user l))),
      (''phoneNumber'', JStr (u_phone_number (lg_user l))),
      (''role'', JStr (to_string (u_role (lg_user l)))),
      (''grade'', JStr (nvl grade_normal (u_grade (lg_user l)))),
      (''status'', JInt 200),
      (''message'', JStr msg_login_ok),
      (''address'', JStr (if u_role (lg_user l) = 0 then customer_address l else []))]
     @ (if u_role (lg_user l) = 1 then owner_fields l else []))"

definition validateLogin :: "env \<Rightarrow> string \<Rightarrow> string \<Rightarrow> int \<Rightarrow> (LoginResult \<times> json) io" where
  "validateLogin E inputId inputPw ro =
     catch_sql (getConnection E (\<lambda>c.
       bindE (executeQuery E c (login_query E inputId ro)) (\<lambda>rs.
       retE (case rs of
           None \<Rightarrow> (ID_PASS_WRONG, JNull)
         | Some l \<Rightarrow>
             if u_password_hash (lg_user l) \<noteq> inputPw then (ID_PASS_WRONG, JNull)
             else (LOGIN_SUCCESS, user_info inputId l)))))
     (retE (LOGIN_SERVER_ERROR, JNull))"

section \<open>\<^verbatim>\<open>MembershipDAO\<close> and the grade update of \<^verbatim>\<open>UserHandler\<close>\<close>

definition update_user_grade :: "env \<Rightarrow> string \<Rightarrow> string \<Rightarrow> tables \<Rightarrow> (int \<times> tables) option" where
  "update_user_grade E grade uid t =
     (let p = (\<lambda>r. str_eq E (u_user_id r) uid)
      in Some (count_where p (USERS t),
           t\<lparr>USERS := update_where p (\<lambda>r. r\<lparr>u_grade := Some grade\<rparr>) (USERS t)\<rparr>))"

definition update_customer_grade :: "env \<Rightarrow> string \<Rightarrow> string \<Rightarrow> tables \<Rightarrow> (int \<times> tables) option" where
  "update_customer_grade E grade uid t =
     (let p = (\<lambda>r. str_eq E (c_user_id r) uid)
      in Some (count_where p (CUSTOMERS t),
           t\<lparr>CUSTOMERS := update_where p (\<lambda>r. r\<lparr>c_customer_grade := Some grade\<rparr>) (CUSTOMERS t)\<rparr>))"

definition updateMembershipGrade :: "env \<Rightarrow> string \<Rightarrow> string \<Rightarrow> int \<Rightarrow> bool io" where
  "updateMembershipGrade E uid targetGrade action =
     getConnection E (\<lambda>c.
       catch_sql
         (thenE (setAutoCommit E c False) (
          bindE (executeUpdate E c (update_user_grade E targetGrade uid)) (\<lambda>_.
          bindE (executeUpdate E c (update_customer_grade E targetGrade uid)) (\<lambda>_.
          thenE (commit E c) (
          thenE (setAutoCommit E c True) (
          retE True))))))
         (thenE (rollback E c) (
          thenE (setAutoCommit E c True) (
          retE False))))"

end
