(* ===== verification/UserHandler.thy ===== *)
theory UserHandler
  imports UserDAO Dto_Store
begin

text \<open>
  \<^verbatim>\<open>server/src/handler/UserHandler.cpp\<close>: signing up, logging in and out, the three
  availability checks and the change of the membership grade.  A handler takes the session
  that sent the request and the text of the request.
\<close>

definition signup_response :: "SignupReqDTO \<Rightarrow> SignupResult \<Rightarrow> AuthResDTO" where
  "signup_response req result =
     (case result of
        SIGNUP_SUCCESS \<Rightarrow> default_AuthResDTO
          \<lparr>AuthRes_status := 200, AuthRes_message := msg_signup_ok, AuthRes_userName := SignupReq_userName req\<rparr>
      | DUPLICATE_ID \<Rightarrow> default_AuthResDTO\<lparr>AuthRes_status := 409, AuthRes_message := msg_dup_id\<rparr>
      | DUPLICATE_PHONE \<Rightarrow> default_AuthResDTO\<lparr>AuthRes_status := 410, AuthRes_message := msg_dup_phone\<rparr>
      | SIGNUP_SERVER_ERROR \<Rightarrow> default_AuthResDTO\<lparr>AuthRes_status := 500, AuthRes_message := msg_signup_error\<rparr>)"

definition handleSignup :: "env \<Rightarrow> sess_ref \<Rightarrow> string \<Rightarrow> unit io" where
  "handleSignup E s body =
     bindE
       (catchE
         (bindE (parse_dto from_json_SignupReqDTO body) (\<lambda>req.
          bindE (insertUser E req) (\<lambda>result.
          retE (signup_response req result))))
         (\<lambda>_. retE (default_AuthResDTO\<lparr>AuthRes_status := 400, AuthRes_message := msg_bad_format\<rparr>)))
       (\<lambda>res. sendPacket s RES_SIGNUP (to_json_AuthResDTO res))"

text \<open>The reply to a successful login and the role the session gets.\<close>

definition login_base :: "json \<Rightarrow> exn + AuthResDTO" where
  "login_base u =
     ebind (j_value get_string u ''userId'' []) (\<lambda>uid.
     ebind (j_value get_string u ''userName'' []) (\<lambda>name.
     ebind (j_value get_string u ''address'' []) (\<lambda>addr.
     ebind (j_value get_string u ''phoneNumber'' []) (\<lambda>phone.
     ebind (j_value get_string u ''grade'' grade_normal) (\<lambda>grade.
     Inr (default_AuthResDTO
       \<lparr>AuthRes_status := 200, AuthRes_message := msg_login_ok, AuthRes_userId := uid,
        AuthRes_userName := name, AuthRes_address := addr, AuthRes_phoneNumber := phone,
        AuthRes_grade := grade\<rparr>))))))"

definition login_owner :: "json \<Rightarrow> AuthResDTO \<Rightarrow> exn + AuthResDTO" where
  "login_owner u res =
     ebind (j_value get_string u ''businessNumber'' []) (\<lambda>biz.
     ebind (j_value get_string u ''accountNumber'' []) (\<lambda>acc.
     ebind (j_value get_int u ''approvalStatus'' 0) (\<lambda>appr.
     ebind (j_value get_int u ''storeId'' 0) (\<lambda>sid.
     ebind (j_value get_string u ''storeName'' []) (\<lambda>sname.
     ebind (j_value get_string u ''category'' []) (\<lambda>cat.
     ebind (j_value get_string u ''storeAddress'' []) (\<lambda>saddr.
     ebind (j_value get_string u ''cookTime'' ''0'') (\<lambda>cook.
     ebind (j_value get_string u ''minOrderAmount'' ''0'') (\<lambda>minAmt.
     ebind (j_value get_string u ''openTime'' []) (\<lambda>opn.
     ebind (j_value get_string u ''closeTime'' []) (\<lambda>cls.
     ebind (j_value get_int u ''deliveryFee'' 0) (\<lambda>fee.
     Inr (res
       \<lparr>AuthRes_businessNumber := biz, AuthRes_accountNumber := acc, AuthRes_approvalStatus := appr,
        AuthRes_storeId := sid, AuthRes_storeName := sname, AuthRes_category := cat,
        AuthRes_storeAddress := saddr, AuthRes_cookTime := cook, AuthRes_minOrderAmount := minAmt,
        AuthRes_openTime := opn, AuthRes_closeTime := cls, AuthRes_deliveryFee := fee\<rparr>)))))))))))))"

definition login_response :: "json \<Rightarrow> exn + (AuthResDTO \<times> int)" where
  "login_response u =
     ebind (login_base u) (\<lambda>res.
     ebind (j_value get_string u ''role'' ''0'') (\<lambda>roleStr.
     ebind (stoiE roleStr) (\<lambda>dbRole.
     ebind (if dbRole = 1 then login_owner u (res\<lparr>AuthRes_role := roleStr\<rparr>)
            else Inr (res\<lparr>AuthRes_role := roleStr\<rparr>)) (\<lambda>res'.
     Inr (res', dbRole)))))"

definition login_failure :: "LoginResult \<Rightarrow> AuthResDTO" where
  "login_failure result =
     (if result = ID_PASS_WRONG
      then default_AuthResDTO\<lparr>AuthRes_status := 401, AuthRes_message := msg_login_wrong\<rparr>
      else default_AuthResDTO\<lparr>AuthRes_status := 500, AuthRes_message := msg_login_error\<rparr>)"

definition handleLogin :: "env \<Rightarrow> sess_ref \<Rightarrow> string \<Rightarrow> unit io" where
  "handleLogin E s body =
     catchE
       (bindE (parse_dto from_json_LoginReqDTO body) (\<lambda>req.
        bindE (validateLogin E (LoginReq_userId req) (LoginReq_password req) (LoginReq_role req))
         (\<lambda>(resultCode, userJson).
        if resultCode = LOGIN_SUCCESS then
          bindE (liftE (login_response userJson)) (\<lambda>(res, dbRole).
          thenE (sm_do (upd_session s (authenticate (AuthRes_userId res) dbRole))) (
          thenE (sm_do (registerUser (AuthRes_userId res) dbRole s)) (
          sendPacket s RES_LOGIN (to_json_AuthResDTO res))))
        else sendPacket s RES_LOGIN (to_json_AuthResDTO (login_failure resultCode)))))
       (\<lambda>_. retE ())"

definition handleAuthCheck :: "env \<Rightarrow> sess_ref \<Rightarrow> string \<Rightarrow> unit io" where
  "handleAuthCheck E s body =
     bindE
       (catchE
         (bindE (parse_dto from_json_AuthCheckReqDTO body) (\<lambda>req.
          bindE (existsById E (AuthCheckReq_userId req)) (\<lambda>exists.
          retE (if exists
            then \<lparr>AuthCheckRes_status = 409, AuthCheckRes_isAvailable = False, AuthCheckRes_message = msg_id_taken\<rparr>
            else \<lparr>AuthCheckRes_status = 200, AuthCheckRes_isAvailable = True, AuthCheckRes_message = msg_id_free\<rparr>))))
         (\<lambda>_. retE \<lparr>AuthCheckRes_status = 400, AuthCheckRes_isAvailable = False, AuthCheckRes_message = msg_bad_request\<rparr>))
       (\<lambda>res. sendPacket s RES_AUTH_CHECK (to_json_AuthCheckResDTO res))"

definition handlePhoneCheck :: "env \<Rightarrow> sess_ref \<Rightarrow> string \<Rightarrow> unit io" where
  "handlePhoneCheck E s body =
     bindE
       (catchE
         (bindE (parse_dto from_json_PhoneCheckReqDTO body) (\<lambda>req.
          bindE (existsByPhoneAndRole E (PhoneCheckReq_phoneNumber req) (PhoneCheckReq_role req)) (\<lambda>exists.
          retE (if exists
            then \<lparr>PhoneCheckRes_status = 409, PhoneCheckRes_isAvailable = False, PhoneCheckRes_message = msg_phone_taken\<rparr>
            else \<lparr>PhoneCheckRes_status = 200, PhoneCheckRes_isAvailable = True, PhoneCheckRes_message = msg_phone_free\<rparr>))))
         (\<lambda>_. retE \<lparr>PhoneCheckRes_status = 400, PhoneCheckRes_isAvailable = False, PhoneCheckRes_message = msg_bad_request\<rparr>))
       (\<lambda>res. sendPacket s RES_PHONE_CHECK (to_json_PhoneCheckResDTO res))"

definition handleBizNumCheck :: "env \<Rightarrow> sess_ref \<Rightarrow> string \<Rightarrow> unit io" where
  "handleBizNumCheck E s body =
     bindE
       (catchE
         (bindE (parse_dto from_json_BizNumCheckReqDTO body) (\<lambda>req.
          bindE (existsByBizNum E (BizNumCheckReq_businessNum req)) (\<lambda>exists.
          retE (if exists
            then \<lparr>BizNumCheckRes_status = 409, BizNumCheckRes_isAvailable = False, BizNumCheckRes_message = msg_biz_taken\<rparr>
            else \<lparr>BizNumCheckRes_status = 200, BizNumCheckRes_isAvailable = True, BizNumCheckRes_message = msg_biz_free\<rparr>))))
         (\<lambda>_. retE \<lparr>BizNumCheckRes_status = 400, BizNumCheckRes_isAvailable = False, BizNumCheckRes_message = msg_bad_biz_request\<rparr>))
       (\<lambda>res. sendPacket s RES_BUISNESS_NUM_CHECK (to_json_BizNumCheckResDTO res))"

text \<open>The body of \<^verbatim>\<open>handleLogout\<close> throws nothing, so its \<^verbatim>\<open>catch\<close> is never entered.\<close>

definition handleLogout :: "env \<Rightarrow> sess_ref \<Rightarrow> string \<Rightarrow> unit io" where
  "handleLogout E s body =
     catchE
       (bindE (session_field sess_userId s) (\<lambda>uid.
        thenE (whenE (uid \<noteq> [])
          (thenE (sm_do (removeUser uid)) (sm_do (upd_session s clearAuth)))) (
        sendPacket s RES_LOGOUT (JObj [(''status'', JInt 200), (''message'', JStr msg_logout_ok)]))))
       (\<lambda>_. sendPacket s RES_LOGOUT (JObj [(''status'', JInt 500), (''message'', JStr msg_internal_error)]))"

definition grade_of_action :: "int \<Rightarrow> string" where
  "grade_of_action action = (if action = 1 then grade_wow else grade_normal)"

definition grade_message :: "int \<Rightarrow> string" where
  "grade_message action = (if action = 1 then msg_wow_joined else if action = 2 then msg_wow_leaving else [])"

definition handleGradeUpdate :: "env \<Rightarrow> sess_ref \<Rightarrow> string \<Rightarrow> unit io" where
  "handleGradeUpdate E s body =
     getConnection E (\<lambda>c.
       catchE
         (bindE (parse_dto from_json_ReqGradeUpdateDTO body) (\<lambda>req.
          if ReqGradeUpdate_userId req = [] then throwE (RuntimeError msg_empty_user_id) else
          thenE (setAutoCommit E c False) (
          bindE (executeUpdate E c (update_user_grade E (grade_of_action (ReqGradeUpdate_action req)) (ReqGradeUpdate_userId req))) (\<lambda>_.
          bindE (executeUpdate E c (update_customer_grade E (grade_of_action (ReqGradeUpdate_action req)) (ReqGradeUpdate_userId req))) (\<lambda>_.
          thenE (commit E c) (
          thenE (setAutoCommit E c True) (
          sendPacket s RES_GRADE_UPDATE (to_json_ResGradeUpdateDTO
            (default_ResGradeUpdateDTO\<lparr>ResGradeUpdate_status := 200,
              ResGradeUpdate_message := grade_message (ReqGradeUpdate_action req)\<rparr>)))))))))
         (\<lambda>_.
          thenE (rollback E c) (
          thenE (setAutoCommit E c True) (
          sendPacket s RES_GRADE_UPDATE (to_json_ResGradeUpdateDTO
            (default_ResGradeUpdateDTO\<lparr>ResGradeUpdate_status := 500, ResGradeUpdate_message := msg_grade_error\<rparr>))))))"

end
