(* ===== verification/Frames.thy ===== *)
theory Frames
  imports World
begin

text \<open>
  What the effects of a handler leave alone.  \<open>quiet g\<close> says that the component \<open>g\<close> of the world
  is none of the bookkeeping every database access changes (call counter, connections, pool,
  packets sent); \<open>neutral g\<close> that it is not the committed data either.  Queries and packets
  frame quiet components, updates and transactions neutral ones.
\<close>

definition quiet :: "(world \<Rightarrow> 'b) \<Rightarrow> bool" where
  "quiet g \<longleftrightarrow> (\<forall>w n. g (w\<lparr>tick := n\<rparr>) = g w) \<and> (\<forall>w k. g (w\<lparr>conns := k\<rparr>) = g w) \<and>
     (\<forall>w p. g (w\<lparr>pool := p\<rparr>) = g w) \<and> (\<forall>w s. g (w\<lparr>sent := s\<rparr>) = g w)"

definition neutral :: "(world \<Rightarrow> 'b) \<Rightarrow> bool" where
  "neutral g \<longleftrightarrow> quiet g \<and> (\<forall>w t. g (w\<lparr>committed := t\<rparr>) = g w)"

lemma quiet_components [simp]: "quiet sm" "quiet crm" "quiet committed"
  by (simp_all add: quiet_def)

lemma neutral_components [simp]: "neutral sm" "neutral crm"
  by (simp_all add: neutral_def)

lemma neutral_quiet: "neutral g \<Longrightarrow> quiet g"
  by (simp add: neutral_def)

named_theorems framed

lemmas [framed] = frame_ret frame_throw frame_lift frame_gets frame_bind frame_then frame_catch
  frame_catch_sql frame_if frame_option frame_let frame_prod frame_when frame_map frame_collect
  frame_now frame_parse_dto frame_session_field

lemma quiet_query [framed]: "quiet g \<Longrightarrow> frame g (executeQuery E c q)"
  by (rule frame_executeQuery) (simp add: quiet_def)

lemma quiet_prepare [framed]: "quiet g \<Longrightarrow> frame g (prepareStatement E)"
  by (simp add: prepareStatement_def quiet_def frame_def db_call_def io_defs)

lemma quiet_getConnection [framed]: "quiet g \<Longrightarrow> (\<And>c. frame g (f c)) \<Longrightarrow> frame g (getConnection E f)"
  by (rule frame_getConnection) (simp_all add: quiet_def)

lemma quiet_sendPacket [framed]: "quiet g \<Longrightarrow> frame g (sendPacket r cmd j)"
  by (auto simp: frame_def sendPacket_def quiet_def io_defs split: sum.splits)

lemma quiet_sendToUser [framed]: "quiet g \<Longrightarrow> frame g (sendToUser uid cmd j)"
  by (rule frame_sendToUser) (rule quiet_sendPacket)

lemma quiet_broadcast [framed]: "quiet g \<Longrightarrow> frame g (broadcastToRole ro cmd j)"
  by (rule frame_broadcastToRole) (rule quiet_sendPacket)

lemma neutral_update [framed]: "neutral g \<Longrightarrow> frame g (executeUpdate E c u)"
  by (auto simp: frame_def executeUpdate_def db_call_def put_view_def set_conn_def neutral_def
    quiet_def split: option.splits)

lemma neutral_commit [framed]: "neutral g \<Longrightarrow> frame g (commit E c)"
  by (auto simp: frame_def commit_def db_call_def commit_work_def set_conn_def neutral_def quiet_def
    io_defs split: option.splits)

lemma neutral_rollback [framed]: "neutral g \<Longrightarrow> frame g (rollback E c)"
  by (auto simp: frame_def rollback_def db_call_def set_conn_def neutral_def quiet_def io_defs)

lemma neutral_setAutoCommit [framed]: "neutral g \<Longrightarrow> frame g (setAutoCommit E c b)"
  by (auto simp: frame_def setAutoCommit_def db_call_def commit_work_def set_conn_def neutral_def
    quiet_def io_defs Let_def split: option.splits)

text \<open>Code after an action, and its exception handler, when they leave a component alone.\<close>

lemma bind_tail: "(\<And>x. frame g (f x)) \<Longrightarrow> g (snd (bindE m f w)) = g (snd (m w))"
  by (auto simp: frame_def bindE_def split: sum.splits prod.splits)

lemma catch_tail: "(\<And>e. frame g (h e)) \<Longrightarrow> g (snd (catchE m h w)) = g (snd (m w))"
  by (auto simp: frame_def catchE_def split: sum.splits prod.splits)

end
