(* ===== verification/Transactions.thy ===== *)
theory Transactions
  imports Frames
begin

text \<open>
  Hoare triples for actions that may fail at any database call, and the states of a
  transaction on one connection.  \<open>txs c a t v\<close>: the committed data are \<open>t\<close>, connection \<open>c\<close> is held
  (not in the pool), its autocommit flag is \<open>a\<close> and it sees the data \<open>v\<close>.  The rules say what each
  call does to this state when it works and when it fails, for every schedule of failures.
\<close>

definition triple :: "(world \<Rightarrow> bool) \<Rightarrow> 'a io \<Rightarrow> ('a \<Rightarrow> world \<Rightarrow> bool) \<Rightarrow> (exn \<Rightarrow> world \<Rightarrow> bool) \<Rightarrow> bool" where
  "triple P m Q R \<longleftrightarrow>
     (\<forall>w. P w \<longrightarrow> (case m w of (Inr x, w') \<Rightarrow> Q x w' | (Inl e, w') \<Rightarrow> R e w'))"

definition txs :: "nat \<Rightarrow> bool \<Rightarrow> tables \<Rightarrow> tables \<Rightarrow> world \<Rightarrow> bool" where
  "txs c a t v w \<longleftrightarrow> c \<notin> set (pool w) \<and> committed w = t \<and> autocommit (conns w c) = a \<and>
     view c w = v \<and> (a \<longrightarrow> work (conns w c) = None)"

text \<open>The pool at rest: every connection is there once, outside a transaction.\<close>

definition pool_ok :: "world \<Rightarrow> bool" where
  "pool_ok w \<longleftrightarrow> distinct (pool w) \<and>
     (\<forall>c\<in>set (pool w). autocommit (conns w c) \<and> work (conns w c) = None)"

section \<open>Rules for the control flow\<close>

lemma tripleI:
  "(\<And>w x w'. P w \<Longrightarrow> m w = (Inr x, w') \<Longrightarrow> Q x w') \<Longrightarrow>
   (\<And>w e w'. P w \<Longrightarrow> m w = (Inl e, w') \<Longrightarrow> R e w') \<Longrightarrow> triple P m Q R"
  by (auto simp: triple_def split: sum.splits prod.splits)

lemma triple_weaken:
  "triple P m Q R \<Longrightarrow> (\<And>w. P' w \<Longrightarrow> P w) \<Longrightarrow> (\<And>x w. Q x w \<Longrightarrow> Q' x w) \<Longrightarrow>
   (\<And>e w. R e w \<Longrightarrow> R' e w) \<Longrightarrow> triple P' m Q' R'"
  by (fastforce simp: triple_def split: sum.splits prod.splits)

lemma triple_ret: "(\<And>w. P w \<Longrightarrow> Q x w) \<Longrightarrow> triple P (retE x) Q R"
  by (simp add: triple_def io_defs)

lemma triple_throw: "(\<And>w. P w \<Longrightarrow> R e w) \<Longrightarrow> triple P (throwE e) Q R"
  by (simp add: triple_def io_defs)

lemma triple_bind:
  "triple P m Q' R \<Longrightarrow> (\<And>x. triple (Q' x) (f x) Q R) \<Longrightarrow> triple P (bindE m f) Q R"
  by (fastforce simp: triple_def bindE_def split: sum.splits prod.splits)

lemma triple_then:
  "triple P m (\<lambda>_. Q') R \<Longrightarrow> triple Q' n Q R \<Longrightarrow> triple P (thenE m n) Q R"
  unfolding thenE_def by (rule triple_bind)

lemma triple_catch:
  "triple P m Q R' \<Longrightarrow> (\<And>w. R' Blocked w \<Longrightarrow> R Blocked w) \<Longrightarrow>
   (\<And>e. e \<noteq> Blocked \<Longrightarrow> triple (R' e) (h e) Q R) \<Longrightarrow> triple P (catchE m h) Q R"
  by (fastforce simp: triple_def catchE_def split: sum.splits prod.splits)

lemma triple_catch_sql:
  "triple P m Q R' \<Longrightarrow> (\<And>e w. \<not> is_sql e \<Longrightarrow> R' e w \<Longrightarrow> R e w) \<Longrightarrow>
   (\<And>e. is_sql e \<Longrightarrow> triple (R' e) h Q R) \<Longrightarrow> triple P (catch_sql m h) Q R"
  unfolding catch_sql_def
  by (rule triple_catch [where R' = R']) (auto intro: triple_throw)

lemma triple_lift: "(\<And>x w. P w \<Longrightarrow> r = Inr x \<Longrightarrow> Q x w) \<Longrightarrow> (\<And>e w. P w \<Longrightarrow> r = Inl e \<Longrightarrow> R e w) \<Longrightarrow> triple P (liftE r) Q R"
  by (simp add: triple_def io_defs split: sum.splits)

lemma triple_gets: "(\<And>w. P w \<Longrightarrow> Q (f w) w) \<Longrightarrow> triple P (getsE f) Q R"
  by (simp add: triple_def io_defs)

lemma triple_if:
  "(b \<Longrightarrow> triple P m Q R) \<Longrightarrow> (\<not> b \<Longrightarrow> triple P n Q R) \<Longrightarrow> triple P (if b then m else n) Q R"
  by simp

lemma triple_when:
  "(b \<Longrightarrow> triple P m Q R) \<Longrightarrow> (\<And>w. \<not> b \<Longrightarrow> P w \<Longrightarrow> Q () w) \<Longrightarrow> triple P (whenE b m) Q R"
  by (auto simp: whenE_def intro: triple_ret)

lemma triple_pre_ex:
  "(\<And>y. triple (P y) m Q R) \<Longrightarrow> triple (\<lambda>w. \<exists>y. P y w) m Q R"
  unfolding triple_def by (intro allI impI, elim exE) simp

lemma triple_pre_conj:
  "(b \<Longrightarrow> triple P m Q R) \<Longrightarrow> triple (\<lambda>w. b \<and> P w) m Q R"
  by (auto simp: triple_def)

lemma tripleD: "triple P m Q R \<Longrightarrow> P w \<Longrightarrow> (case m w of (Inr x, w') \<Rightarrow> Q x w' | (Inl e, w') \<Rightarrow> R e w')"
  by (simp add: triple_def)

lemma triple_same:
  assumes "triple P m (\<lambda>_. Q) (\<lambda>_. Q)" "P w"
  shows "Q (snd (m w))"
  using tripleD [OF assms] by (auto split: sum.splits prod.splits)

section \<open>Rules for the calls\<close>

lemma view_cong: "conns w' c = conns w c \<Longrightarrow> committed w' = committed w \<Longrightarrow> view c w' = view c w"
  by (cases "work (conns w c)") (simp_all add: view_def)

lemma view_tick [simp]: "view c (w\<lparr>tick := n\<rparr>) = view c w"
  by (cases "work (conns w c)") (simp_all add: view_def)

lemma tx_begin: "triple (txs c True t t) (setAutoCommit E c False) (\<lambda>_. txs c False t t) (\<lambda>_. txs c True t t)"
  by (rule tripleI) (auto simp: txs_def setAutoCommit_def db_call_def set_conn_def view_def io_defs split: if_splits)

lemma tx_end: "triple (txs c a t v) (setAutoCommit E c True) (\<lambda>_. txs c True v v) (\<lambda>_. txs c a t v)"
  by (rule tripleI)
    (auto simp: txs_def setAutoCommit_def db_call_def set_conn_def view_def commit_work_def io_defs
      split: if_splits option.splits)

lemma tx_update:
  "triple (txs c False t v) (executeUpdate E c u) (\<lambda>n w. \<exists>v'. u v = Some (n, v') \<and> txs c False t v' w)
     (\<lambda>_. txs c False t v)"
  by (rule tripleI)
    (auto simp: txs_def executeUpdate_def db_call_def put_view_def set_conn_def view_def
      split: if_splits option.splits)

lemma tx_auto_update:
  "triple (txs c True t t) (executeUpdate E c u) (\<lambda>n w. \<exists>t'. u t = Some (n, t') \<and> txs c True t' t' w)
     (\<lambda>_. txs c True t t)"
  by (rule tripleI)
    (auto simp: txs_def executeUpdate_def db_call_def put_view_def set_conn_def view_def
      split: if_splits option.splits)

lemma tx_query: "triple (txs c a t v) (executeQuery E c q) (\<lambda>x w. x = q v \<and> txs c a t v w) (\<lambda>_. txs c a t v)"
  by (rule tripleI) (auto simp: txs_def executeQuery_def db_call_def split: if_splits)

lemma tx_prepare: "triple (txs c a t v) (prepareStatement E) (\<lambda>_. txs c a t v) (\<lambda>_. txs c a t v)"
  by (rule tripleI) (auto simp: txs_def prepareStatement_def db_call_def io_defs split: if_splits)

lemma tx_commit: "triple (txs c False t v) (commit E c) (\<lambda>_. txs c False v v) (\<lambda>_. txs c False t v)"
  by (rule tripleI)
    (auto simp: txs_def commit_def db_call_def commit_work_def set_conn_def view_def io_defs
      split: if_splits option.splits)

lemma tx_rollback: "triple (txs c a t v) (rollback E c) (\<lambda>_. txs c a t t) (\<lambda>_. txs c a t v)"
  by (rule tripleI)
    (auto simp: txs_def rollback_def db_call_def set_conn_def view_def io_defs split: if_splits option.splits)

text \<open>
  \<open>rollback\<close> then \<open>setAutoCommit(true)\<close>, the clean-up of every \<^verbatim>\<open>catch\<close>: whatever fails, the committed
  data stay as they are.
\<close>

lemma tx_abort:
  "triple (txs c a t v) (thenE (rollback E c) (setAutoCommit E c True))
     (\<lambda>_. txs c True t t) (\<lambda>_ w. committed w = t)"
proof (rule triple_then)
  show "triple (txs c a t v) (rollback E c) (\<lambda>_. txs c a t t) (\<lambda>_ w. committed w = t)"
    by (rule triple_weaken [OF tx_rollback [of c a t v]]) (auto simp: txs_def)
  show "triple (txs c a t t) (setAutoCommit E c True) (\<lambda>_. txs c True t t) (\<lambda>_ w. committed w = t)"
    by (rule triple_weaken [OF tx_end [of c a t t]]) (auto simp: txs_def)
qed

section \<open>Actions that leave a held connection alone\<close>

definition keeps :: "nat \<Rightarrow> 'a io \<Rightarrow> bool" where
  "keeps c m \<longleftrightarrow> (\<forall>w. c \<notin> set (pool w) \<longrightarrow>
     c \<notin> set (pool (snd (m w))) \<and> conns (snd (m w)) c = conns w c \<and> committed (snd (m w)) = committed w)"

named_theorems keep_rules

lemma keepsI:
  "(\<And>w. c \<notin> set (pool w) \<Longrightarrow> c \<notin> set (pool (snd (m w))) \<and> conns (snd (m w)) c = conns w c
      \<and> committed (snd (m w)) = committed w) \<Longrightarrow> keeps c m"
  by (simp add: keeps_def)

lemma keeps_ret [keep_rules]: "keeps c (retE x)"
  and keeps_throw [keep_rules]: "keeps c (throwE e)"
  and keeps_lift [keep_rules]: "keeps c (liftE z)"
  and keeps_gets [keep_rules]: "keeps c (getsE f)"
  and keeps_query [keep_rules]: "keeps c (executeQuery E c' q)"
  and keeps_now [keep_rules]: "keeps c (now E)"
  and keeps_parse [keep_rules]: "keeps c (parse_dto fj body)"
  and keeps_field [keep_rules]: "keeps c (session_field fld r)"
  by (auto simp: keeps_def io_defs executeQuery_def db_call_def now_def parse_dto_def session_field_def)

lemma keeps_send [keep_rules]: "keeps c (sendPacket r cmd j)"
  by (auto simp: keeps_def sendPacket_def io_defs split: sum.splits)

lemma keeps_bind [keep_rules]: "keeps c m \<Longrightarrow> (\<And>x. keeps c (f x)) \<Longrightarrow> keeps c (bindE m f)"
  by (fastforce simp: keeps_def bindE_def split: sum.splits prod.splits)

lemma keeps_then [keep_rules]: "keeps c m \<Longrightarrow> keeps c n \<Longrightarrow> keeps c (thenE m n)"
  unfolding thenE_def by (rule keeps_bind)

lemma keeps_catch [keep_rules]: "keeps c m \<Longrightarrow> (\<And>e. keeps c (h e)) \<Longrightarrow> keeps c (catchE m h)"
  by (fastforce simp: keeps_def catchE_def split: sum.splits prod.splits)

lemma keeps_catch_sql [keep_rules]: "keeps c m \<Longrightarrow> keeps c h \<Longrightarrow> keeps c (catch_sql m h)"
  unfolding catch_sql_def by (auto intro!: keeps_catch keeps_throw)

lemma keeps_if [keep_rules]: "(b \<Longrightarrow> keeps c m) \<Longrightarrow> (\<not> b \<Longrightarrow> keeps c n) \<Longrightarrow> keeps c (if b then m else n)"
  by simp

lemma keeps_option [keep_rules]:
  "keeps c m \<Longrightarrow> (\<And>x. keeps c (f x)) \<Longrightarrow> keeps c (case r of None \<Rightarrow> m | Some x \<Rightarrow> f x)"
  by (cases r) simp_all

lemma keeps_when [keep_rules]: "keeps c m \<Longrightarrow> keeps c (whenE b m)"
  by (simp add: whenE_def keeps_ret)

lemma keeps_map [keep_rules]: "(\<And>x. keeps c (f x)) \<Longrightarrow> keeps c (mapE f xs)"
  by (induction xs) (auto intro: keeps_ret keeps_bind)

lemma keeps_sendToUser [keep_rules]: "keeps c (sendToUser uid cmd j)"
proof -
  have "keeps c (bindE (sendPacket r cmd j) (\<lambda>_. retE True))" for r
    by (intro keep_rules)
  then show ?thesis by (simp add: keeps_def sendToUser_def split: option.splits)
qed

lemma keeps_broadcast [keep_rules]: "keeps c (broadcastToRole ro cmd j)"
proof -
  have "keeps c (bindE (mapE (\<lambda>r. sendPacket r cmd j) rs) (\<lambda>_. retE ()))" for rs
    by (intro keep_rules)
  then show ?thesis by (simp add: keeps_def broadcastToRole_def)
qed

lemma revalidate_simps [simp]: "committed (revalidate E c w) = committed w" "pool (revalidate E c w) = pool w"
    "c' \<noteq> c \<Longrightarrow> conns (revalidate E c w) c' = conns w c'"
  by (auto simp: revalidate_def set_conn_def)

lemma keeps_getConnection [keep_rules]:
  assumes "\<And>c'. keeps c (f c')"
  shows "keeps c (getConnection E f)"
proof (rule keepsI)
  fix w :: world
  assume c: "c \<notin> set (pool w)"
  show "c \<notin> set (pool (snd (getConnection E f w))) \<and> conns (snd (getConnection E f w)) c = conns w c
      \<and> committed (snd (getConnection E f w)) = committed w"
  proof (cases "pool w")
    case (Cons c' cs)
    let ?w = "revalidate E c' (w\<lparr>pool := cs\<rparr>)"
    have "c \<notin> set (pool ?w)" "conns ?w c = conns w c" "committed ?w = committed w"
      using c Cons by auto
    moreover have "getConnection E f w = (fst (f c' ?w),
        if fst (f c' ?w) = Inl Blocked then snd (f c' ?w) else pool_push c' (snd (f c' ?w)))"
      by (simp add: getConnection_def pool_pop_def Cons split: prod.splits)
    ultimately show ?thesis
      using assms [of c', unfolded keeps_def, rule_format, of ?w] c Cons by (simp add: pool_push_def)
  qed (use c in \<open>simp add: getConnection_def pool_pop_def\<close>)
qed

lemma tx_keeps:
  assumes "keeps c m"
  shows "triple (txs c a t v) m (\<lambda>_. txs c a t v) (\<lambda>_. txs c a t v)"
proof (rule tripleI)
  have *: "txs c a t v w \<Longrightarrow> txs c a t v (snd (m w))" for w
    using assms [unfolded keeps_def, rule_format, of w] view_cong [of "snd (m w)" c w] by (auto simp: txs_def)
  show "txs c a t v w \<Longrightarrow> m w = (Inr x, w') \<Longrightarrow> txs c a t v w'" for w x w'
    using * [of w] by simp
  show "txs c a t v w \<Longrightarrow> m w = (Inl e, w') \<Longrightarrow> txs c a t v w'" for w e w'
    using * [of w] by simp
qed

lemma triple_framed:
  assumes "frame committed m"
  shows "triple (\<lambda>w. P (committed w)) m (\<lambda>_ w. P (committed w)) (\<lambda>_ w. P (committed w))"
proof (rule tripleI)
  show "P (committed w) \<Longrightarrow> m w = (Inr x, w') \<Longrightarrow> P (committed w')" for w x w'
    using frameD [OF assms, of w] by simp
  show "P (committed w) \<Longrightarrow> m w = (Inl e, w') \<Longrightarrow> P (committed w')" for w e w'
    using frameD [OF assms, of w] by simp
qed

section \<open>Stepping through a transaction\<close>

text \<open>One rule per call in front of the rest of the code; a failure leaves through \<open>R\<close>.\<close>

named_theorems tx_step

lemma triple_bind_weaken:
  "triple P m Q' R' \<Longrightarrow> (\<And>e w. R' e w \<Longrightarrow> R e w) \<Longrightarrow> (\<And>x. triple (Q' x) (f x) Q R) \<Longrightarrow>
   triple P (bindE m f) Q R"
  by (rule triple_bind [OF triple_weaken])

lemma triple_then_weaken:
  "triple P m (\<lambda>_. Q') R' \<Longrightarrow> (\<And>e w. R' e w \<Longrightarrow> R e w) \<Longrightarrow> triple Q' n Q R \<Longrightarrow> triple P (thenE m n) Q R"
  unfolding thenE_def by (rule triple_bind_weaken)

lemma begin_step [tx_step]:
  "triple (txs c False t t) n Q R \<Longrightarrow> (\<And>e w. txs c True t t w \<Longrightarrow> R e w) \<Longrightarrow>
   triple (txs c True t t) (thenE (setAutoCommit E c False) n) Q R"
  by (rule triple_then [OF triple_weaken [OF tx_begin]])

lemma end_step [tx_step]:
  "triple (txs c True v v) n Q R \<Longrightarrow> (\<And>e w. txs c a t v w \<Longrightarrow> R e w) \<Longrightarrow>
   triple (txs c a t v) (thenE (setAutoCommit E c True) n) Q R"
  by (rule triple_then [OF triple_weaken [OF tx_end]])

lemma end_last [tx_step]:
  "(\<And>w. txs c True v v w \<Longrightarrow> Q () w) \<Longrightarrow> (\<And>e w. txs c a t v w \<Longrightarrow> R e w) \<Longrightarrow>
   triple (txs c a t v) (setAutoCommit E c True) Q R"
  by (rule triple_weaken [OF tx_end]) auto

lemma update_step [tx_step]:
  "(\<And>n v'. u v = Some (n, v') \<Longrightarrow> triple (txs c False t v') (f n) Q R) \<Longrightarrow>
   (\<And>e w. txs c False t v w \<Longrightarrow> R e w) \<Longrightarrow>
   triple (txs c False t v) (bindE (executeUpdate E c u) f) Q R"
  by (rule triple_bind_weaken [OF tx_update]) (auto intro!: triple_pre_ex triple_pre_conj)

lemma auto_update_step [tx_step]:
  "(\<And>n t'. u t = Some (n, t') \<Longrightarrow> triple (txs c True t' t') (f n) Q R) \<Longrightarrow>
   (\<And>e w. txs c True t t w \<Longrightarrow> R e w) \<Longrightarrow>
   triple (txs c True t t) (bindE (executeUpdate E c u) f) Q R"
  by (rule triple_bind_weaken [OF tx_auto_update]) (auto intro!: triple_pre_ex triple_pre_conj)

lemma query_step [tx_step]:
  "triple (txs c a t v) (f (q v)) Q R \<Longrightarrow> (\<And>e w. txs c a t v w \<Longrightarrow> R e w) \<Longrightarrow>
   triple (txs c a t v) (bindE (executeQuery E c q) f) Q R"
  by (rule triple_bind_weaken [OF tx_query]) (auto intro!: triple_pre_conj)

lemma prepare_step [tx_step]:
  "triple (txs c a t v) n Q R \<Longrightarrow> (\<And>e w. txs c a t v w \<Longrightarrow> R e w) \<Longrightarrow>
   triple (txs c a t v) (thenE (prepareStatement E) n) Q R"
  by (rule triple_then [OF triple_weaken [OF tx_prepare]])

lemma commit_step [tx_step]:
  "triple (txs c False v v) n Q R \<Longrightarrow> (\<And>e w. txs c False t v w \<Longrightarrow> R e w) \<Longrightarrow>
   triple (txs c False t v) (thenE (commit E c) n) Q R"
  by (rule triple_then [OF triple_weaken [OF tx_commit]])

lemma rollback_step [tx_step]:
  "triple (txs c a t t) n Q R \<Longrightarrow> (\<And>e w. txs c a t v w \<Longrightarrow> R e w) \<Longrightarrow>
   triple (txs c a t v) (thenE (rollback E c) n) Q R"
  by (rule triple_then [OF triple_weaken [OF tx_rollback]])

lemma keeps_step:
  "keeps c m \<Longrightarrow> (\<And>x. triple (txs c a t v) (f x) Q R) \<Longrightarrow> (\<And>e w. txs c a t v w \<Longrightarrow> R e w) \<Longrightarrow>
   triple (txs c a t v) (bindE m f) Q R"
  by (rule triple_bind [OF triple_weaken [OF tx_keeps]])

lemma keeps_then_step:
  "keeps c m \<Longrightarrow> triple (txs c a t v) n Q R \<Longrightarrow> (\<And>e w. txs c a t v w \<Longrightarrow> R e w) \<Longrightarrow>
   triple (txs c a t v) (thenE m n) Q R"
  by (rule triple_then [OF triple_weaken [OF tx_keeps]])

lemma keeps_last:
  "keeps c m \<Longrightarrow> (\<And>x w. txs c a t v w \<Longrightarrow> Q x w) \<Longrightarrow> (\<And>e w. txs c a t v w \<Longrightarrow> R e w) \<Longrightarrow>
   triple (txs c a t v) m Q R"
  by (rule triple_weaken [OF tx_keeps])

lemma parse_step [tx_step]:
  "(\<And>x. ebind (json_parse body) fj = Inr x \<Longrightarrow> triple P (f x) Q R) \<Longrightarrow> (\<And>e w. P w \<Longrightarrow> R e w) \<Longrightarrow>
   triple P (bindE (parse_dto fj body) f) Q R"
  by (auto simp: triple_def parse_dto_def bindE_def liftE_def split: sum.splits)

lemma lift_step [tx_step]:
  "(\<And>x. r = Inr x \<Longrightarrow> triple P (f x) Q R) \<Longrightarrow> (\<And>e w. P w \<Longrightarrow> R e w) \<Longrightarrow>
   triple P (bindE (liftE r) f) Q R"
  by (auto simp: triple_def bindE_def liftE_def split: sum.splits)

lemma txsD: "txs c a t v w \<Longrightarrow> committed w = t"
  by (simp add: txs_def)

section \<open>Taking a connection from a pool at rest\<close>

lemma pool_ok_start:
  assumes "pool_ok w" "pool w = c # cs"
  shows "txs c True (committed w) (committed w) (revalidate E c (w\<lparr>pool := cs\<rparr>))"
  using assms by (auto simp: pool_ok_def txs_def view_def revalidate_def set_conn_def fresh_conn_def)

text \<open>
  The rule for a handler or DAO that takes one connection: it is enough to know what the code
  that holds the connection does to the committed data.
\<close>

lemma with_connection:
  assumes f: "\<And>c. triple (txs c True t t) (f c) (\<lambda>_ w. G (committed w)) (\<lambda>_ w. G (committed w))"
    and w: "pool_ok w" "committed w = t" and "G t"
  shows "G (committed (snd (getConnection E f w)))"
proof (cases "pool w")
  case Nil
  then show ?thesis using assms by (simp add: getConnection_def pool_pop_def)
next
  case (Cons c cs)
  have "G (committed (snd (f c (revalidate E c (w\<lparr>pool := cs\<rparr>)))))"
    using triple_same [OF f [of c], of "revalidate E c (w\<lparr>pool := cs\<rparr>)"] pool_ok_start [OF w(1) Cons] w(2) by simp
  then show ?thesis
    by (auto simp: getConnection_def pool_pop_def Cons pool_push_def split: prod.splits)
qed

lemma with_connection_result:
  assumes f: "\<And>c. triple (txs c True t t) (f c) (\<lambda>x w. Q x (committed w)) (\<lambda>e w. R e (committed w))"
    and w: "pool_ok w" "committed w = t" and "R Blocked t"
  shows "case getConnection E f w of (Inr x, w') \<Rightarrow> Q x (committed w') | (Inl e, w') \<Rightarrow> R e (committed w')"
proof (cases "pool w")
  case Nil
  then show ?thesis using assms by (simp add: getConnection_def pool_pop_def)
next
  case (Cons c cs)
  show ?thesis
    using tripleD [OF f [of c] pool_ok_start [OF w(1) Cons, unfolded w(2)], of E]
    by (auto simp: getConnection_def pool_pop_def Cons pool_push_def split: sum.splits prod.splits)
qed

text \<open>
  Handlers of the form \<^verbatim>\<open>auto conn = getConnection(); try { ... } catch (...) { rollback; autocommit; reply }\<close>:
  a property of the committed data that the body establishes in every state it can be left in
  holds in the end.
\<close>

definition committed_in :: "(tables \<Rightarrow> bool) \<Rightarrow> nat \<Rightarrow> world \<Rightarrow> bool" where
  "committed_in G c w \<longleftrightarrow> (\<exists>t a v. G t \<and> txs c a t v w)"

lemma committed_inI: "txs c a t v w \<Longrightarrow> G t \<Longrightarrow> committed_in G c w"
  by (auto simp: committed_in_def)

lemma committed_inD: "committed_in G c w \<Longrightarrow> G (committed w)"
  by (auto simp: committed_in_def dest: txsD)

lemma abort_committed:
  assumes "keeps c h"
  shows "triple (committed_in G c) (thenE (rollback E c) (thenE (setAutoCommit E c True) h))
    (\<lambda>_. committed_in G c) (\<lambda>_. committed_in G c)"
  unfolding committed_in_def
  by (intro triple_pre_ex triple_pre_conj tx_step keeps_last [OF assms]) auto

lemma tx_handler:
  assumes m: "\<And>c. triple (txs c True t t) (m c) (\<lambda>_. committed_in G c) (\<lambda>_. committed_in G c)"
    and h: "\<And>c e. keeps c (h e)"
    and "pool_ok w" "committed w = t" "G t"
  shows "G (committed (snd (getConnection E (\<lambda>c.
    catchE (m c) (\<lambda>e. thenE (rollback E c) (thenE (setAutoCommit E c True) (h e)))) w)))"
proof (rule with_connection [where G = G, OF _ assms(3-5)])
  show "triple (txs c True t t)
      (catchE (m c) (\<lambda>e. thenE (rollback E c) (thenE (setAutoCommit E c True) (h e))))
      (\<lambda>_ w. G (committed w)) (\<lambda>_ w. G (committed w))" for c
    by (rule triple_catch [where R' = "\<lambda>_. committed_in G c"])
      (auto intro: triple_weaken [OF m] triple_weaken [OF abort_committed [OF h]] dest: committed_inD)
qed

section \<open>Calls throw nothing but SQL exceptions\<close>

definition throws_sql :: "'a io \<Rightarrow> bool" where
  "throws_sql m \<longleftrightarrow> (\<forall>w e w'. m w = (Inl e, w') \<longrightarrow> is_sql e)"

lemma throws_sql_calls:
  "throws_sql (retE x)" "throws_sql (executeQuery E c q)" "throws_sql (executeUpdate E c u)"
  "throws_sql (commit E c)" "throws_sql (setAutoCommit E c b)"
  by (auto simp: throws_sql_def executeQuery_def executeUpdate_def commit_def setAutoCommit_def
    db_call_def io_defs Let_def split: option.splits if_splits)

lemma throws_sql_bind: "throws_sql m \<Longrightarrow> (\<And>x. throws_sql (f x)) \<Longrightarrow> throws_sql (bindE m f)"
  unfolding throws_sql_def bindE_def by (auto split: sum.splits prod.splits)

lemma throws_sql_flow:
  "throws_sql m \<Longrightarrow> throws_sql n \<Longrightarrow> throws_sql (thenE m n)"
  "throws_sql n \<Longrightarrow> throws_sql n' \<Longrightarrow> throws_sql (if b then n else n')"
  unfolding thenE_def by (auto intro: throws_sql_bind)

section \<open>What a whole handler leaves committed\<close>

text \<open>
  \<open>ends t G m\<close>: run on a pool at rest with committed data \<open>t\<close>, \<open>m\<close> leaves committed data that satisfy
  \<open>G\<close>, whether it returns, throws or blocks.
\<close>

definition ends :: "tables \<Rightarrow> (tables \<Rightarrow> bool) \<Rightarrow> 'a io \<Rightarrow> bool" where
  "ends t G m \<longleftrightarrow> (\<forall>w. pool_ok w \<and> committed w = t \<longrightarrow> G (committed (snd (m w))))"

named_theorems end_rules

lemma endsD: "ends (committed w) G m \<Longrightarrow> pool_ok w \<Longrightarrow> G (committed (snd (m w)))"
  by (simp add: ends_def)

lemma ends_lift [end_rules]:
  "(\<And>x. r = Inr x \<Longrightarrow> ends t G (f x)) \<Longrightarrow> G t \<Longrightarrow> ends t G (bindE (liftE r) f)"
  by (auto simp: ends_def io_defs split: sum.splits)

lemma ends_parse [end_rules]:
  "(\<And>x. ebind (json_parse body) fj = Inr x \<Longrightarrow> ends t G (f x)) \<Longrightarrow> G t \<Longrightarrow>
   ends t G (bindE (parse_dto fj body) f)"
  unfolding parse_dto_def by (rule ends_lift)

lemma ends_catch [end_rules]:
  assumes "ends t G m" "\<And>e. frame committed (h e)"
  shows "ends t G (catchE m h)"
proof -
  have "G (committed (snd (catchE m h w)))" if "pool_ok w" "committed w = t" for w
  proof (cases "m w")
    case (Pair r w')
    then have "G (committed w')" using assms(1) that by (auto simp: ends_def)
    then show ?thesis using Pair frameD [OF assms(2)] by (cases r) (auto simp: catchE_def)
  qed
  then show ?thesis by (simp add: ends_def)
qed

lemma ends_catch_sql [end_rules]:
  "ends t G m \<Longrightarrow> frame committed h \<Longrightarrow> ends t G (catch_sql m h)"
  unfolding catch_sql_def by (rule ends_catch) (auto simp: frame_throw)

lemma ends_then [end_rules]:
  assumes "ends t G m" "\<And>x. frame committed (f x)"
  shows "ends t G (bindE m f)"
proof -
  have "G (committed (snd (bindE m f w)))" if "pool_ok w" "committed w = t" for w
  proof (cases "m w")
    case (Pair r w')
    then have "G (committed w')" using assms(1) that by (auto simp: ends_def)
    then show ?thesis using Pair frameD [OF assms(2)] by (cases r) (auto simp: bindE_def)
  qed
  then show ?thesis by (simp add: ends_def)
qed

lemma ends_frame: "frame committed m \<Longrightarrow> G t \<Longrightarrow> ends t G m"
  by (simp add: ends_def frame_def)

lemma ends_if [end_rules]: "(b \<Longrightarrow> ends t G m) \<Longrightarrow> (\<not> b \<Longrightarrow> ends t G n) \<Longrightarrow> ends t G (if b then m else n)"
  by simp

lemma ends_connection:
  assumes "\<And>c. triple (txs c True t t) (f c) (\<lambda>_. committed_in G c) (\<lambda>_. committed_in G c)" "G t"
  shows "ends t G (getConnection E f)"
  unfolding ends_def
proof (intro allI impI)
  fix w assume w: "pool_ok w \<and> committed w = t"
  have "triple (txs c True t t) (f c) (\<lambda>_ w. G (committed w)) (\<lambda>_ w. G (committed w))" for c
    by (rule triple_weaken [OF assms(1) [of c]]) (auto dest: committed_inD)
  then show "G (committed (snd (getConnection E f w)))"
    using with_connection [of t f G w E] w assms(2) by simp
qed

lemma keeps_committed_in:
  "keeps c m \<Longrightarrow> triple (committed_in G c) m (\<lambda>_. committed_in G c) (\<lambda>_. committed_in G c)"
  unfolding committed_in_def
  by (intro triple_pre_ex triple_pre_conj) (rule triple_weaken [OF tx_keeps], auto)

text \<open>One statement outside a transaction, then code that leaves the connection alone.\<close>

lemma update_then_keeps:
  assumes "\<And>n t'. u t = Some (n, t') \<Longrightarrow> G t'" "G t" "\<And>n. keeps c (f n)"
  shows "triple (txs c True t t) (bindE (executeUpdate E c u) f) (\<lambda>_. committed_in G c) (\<lambda>_. committed_in G c)"
proof (rule triple_bind [where Q' = "\<lambda>_. committed_in G c"])
  show "triple (txs c True t t) (executeUpdate E c u) (\<lambda>_. committed_in G c) (\<lambda>_. committed_in G c)"
    using assms(1,2) by (intro triple_weaken [OF tx_auto_update]) (auto simp: committed_in_def)
qed (intro keeps_committed_in assms(3))

end
