(* ===== verification/Texts.thy ===== *)
theory Texts
  imports Messages JsonRoundtrip
begin

text \<open>
  Every text of the source is UTF-8, and so is every text of a request that was parsed: a reply
  that carries only these can be dumped.
\<close>

lemma utf8_ok_ascii_list: "(\<And>ch. ch \<in> set s \<Longrightarrow> (of_char ch :: nat) \<le> 0x7F) \<Longrightarrow> utf8_ok s"
  by (induction s) simp_all

lemma utf8_ok_append [simp]: "utf8_ok s \<Longrightarrow> utf8_ok t \<Longrightarrow> utf8_ok (s @ t)"
proof (induction s rule: utf8_ok.induct)
  case (2 c cs)
  then obtain rs bs r where n: "byte_ranges (of_char c) = Some rs" "next_byte_in_range rs cs = Some (bs, r)" "utf8_ok r"
    by (auto simp: utf8_ok.simps(2) split: option.splits)
  have "next_byte_in_range rs (bs @ r @ t) = Some (bs, r @ t)"
    using n(2) by (rule next_byte_in_range_rest)
  moreover have "cs = bs @ r" using n(2) by (rule next_byte_in_range_split)
  ultimately show ?case using n 2(1) [OF n(1,2) refl n(3)] 2(3) by (simp add: utf8_ok.simps(2))
qed simp

lemma utf8_ok_bytes:
  "b \<le> 0x7F \<Longrightarrow> utf8_ok (utf8 (b # bs)) = utf8_ok (utf8 bs)"
  "0xE1 \<le> b \<Longrightarrow> b \<le> 0xEC \<Longrightarrow> 0x80 \<le> c \<Longrightarrow> c \<le> 0xBF \<Longrightarrow> 0x80 \<le> d \<Longrightarrow> d \<le> 0xBF \<Longrightarrow>
   utf8_ok (utf8 (b # c # d # bs)) = utf8_ok (utf8 bs)"
  "b = 0xED \<Longrightarrow> 0x80 \<le> c \<Longrightarrow> c \<le> 0x9F \<Longrightarrow> 0x80 \<le> d \<Longrightarrow> d \<le> 0xBF \<Longrightarrow>
   utf8_ok (utf8 (b # c # d # bs)) = utf8_ok (utf8 bs)"
  "b = 0xF0 \<Longrightarrow> 0x90 \<le> c \<Longrightarrow> c \<le> 0xBF \<Longrightarrow> 0x80 \<le> d \<Longrightarrow> d \<le> 0xBF \<Longrightarrow> 0x80 \<le> e \<Longrightarrow> e \<le> 0xBF \<Longrightarrow>
   utf8_ok (utf8 (b # c # d # e # bs)) = utf8_ok (utf8 bs)"
  "utf8_ok (utf8 [])"
  by (simp_all add: utf8_def byte_ranges_def utf8_ok.simps(2))

lemma texts_utf8 [simp]:
  "utf8_ok grade_normal"
  "utf8_ok grade_wow"
  "utf8_ok msg_signup_ok"
  "utf8_ok msg_dup_id"
  "utf8_ok msg_dup_phone"
  "utf8_ok msg_signup_error"
  "utf8_ok msg_bad_format"
  "utf8_ok msg_login_ok"
  "utf8_ok msg_login_wrong"
  "utf8_ok msg_login_error"
  "utf8_ok msg_id_taken"
  "utf8_ok msg_id_free"
  "utf8_ok msg_bad_request"
  "utf8_ok msg_phone_taken"
  "utf8_ok msg_phone_free"
  "utf8_ok msg_biz_taken"
  "utf8_ok msg_biz_free"
  "utf8_ok msg_bad_biz_request"
  "utf8_ok msg_logout_ok"
  "utf8_ok msg_internal_error"
  "utf8_ok msg_empty_user_id"
  "utf8_ok msg_wow_joined"
  "utf8_ok msg_wow_leaving"
  "utf8_ok msg_grade_error"
  "utf8_ok txt_address_unknown"
  "utf8_ok txt_unregistered"
  "utf8_ok txt_store_name_unknown"
  "utf8_ok txt_category_other"
  "utf8_ok ddl_delivery_time_range"
  "utf8_ok ddl_pickup_time"
  "utf8_ok msg_accept_no_id"
  "utf8_ok msg_accept_gone"
  "utf8_ok msg_accept_ok"
  "utf8_ok msg_cooking_started"
  "utf8_ok msg_minutes_planned"
  "utf8_ok msg_state_ok"
  "utf8_ok msg_state_cooked"
  "utf8_ok msg_state_picked"
  "utf8_ok msg_state_delivered"
  "utf8_ok msg_state_changed"
  "utf8_ok msg_state_not_found"
  "utf8_ok msg_state_error"
  "utf8_ok msg_no_storeId"
  "utf8_ok txt_and"
  "utf8_ok txt_more"
  "utf8_ok msg_query_ok"
  "utf8_ok msg_order_created"
  "utf8_ok txt_menu_no"
  "utf8_ok msg_cook_time_ok"
  "utf8_ok msg_cook_started_about"
  "utf8_ok msg_minutes_arrival"
  "utf8_ok txt_cook_left"
  "utf8_ok txt_minutes_left"
  "utf8_ok msg_cook_time_error"
  "utf8_ok msg_delivery_recorded"
  "utf8_ok msg_delivered"
  "utf8_ok txt_order_no"
  "utf8_ok txt_order_delivered"
  "utf8_ok msg_delivery_error"
  "utf8_ok msg_reject_no_id"
  "utf8_ok msg_reject_ok"
  "utf8_ok msg_reject_notify"
  "utf8_ok msg_server_error"
  "utf8_ok msg_cancel_no_id"
  "utf8_ok msg_cancel_customer"
  "utf8_ok msg_cancel_owner"
  "utf8_ok msg_cancel_error"
  "utf8_ok msg_detail_no_id"
  "utf8_ok txt_credit_card"
  "utf8_ok txt_credit_card_pay"
  "utf8_ok msg_detail_not_found"
  "utf8_ok txt_no_menu_info"
  "utf8_ok msg_quantity_limit"
  "utf8_ok msg_dao_created"
  "utf8_ok msg_dao_failed"
  "utf8_ok txt_menu"
  "utf8_ok msg_no_orderId"
  "utf8_ok msg_rider_delivered_customer"
  "utf8_ok msg_rider_delivered_owner"
  "utf8_ok msg_order_not_found"
  "utf8_ok msg_pickup_owner"
  "utf8_ok msg_pickup_customer"
  "utf8_ok msg_not_logged_in"
  "utf8_ok txt_owner"
  "utf8_ok txt_customer"
  "utf8_ok msg_chat_requested"
  "utf8_ok msg_chat_waiting"
  "utf8_ok msg_room_created"
  "utf8_ok msg_agent_connected"
  "utf8_ok msg_no_room"
  "utf8_ok msg_chat_sent"
  "utf8_ok msg_room_closed_already"
  "utf8_ok txt_admin"
  "utf8_ok txt_customer2"
  "utf8_ok msg_chat_ended"
  "utf8_ok msg_close_error"
  "utf8_ok msg_admin_ok"
  "utf8_ok msg_store_not_found"
  "utf8_ok ddl_label_other"
  "utf8_ok txt_basic_menu"
  "utf8_ok txt_range_20_30"
  "utf8_ok txt_pickup_10_15"
  "utf8_ok txt_won"
  "utf8_ok txt_range_30_45"
  "utf8_ok txt_no_info"
  "utf8_ok txt_deleted_menu"
  "utf8_ok msg_storeId_missing"
  "utf8_ok msg_nothing_changed"
  "utf8_ok msg_saved"
  "utf8_ok msg_db_error"
  "utf8_ok msg_status_args"
  "utf8_ok msg_status_changed"
  "utf8_ok msg_menu_changed"
  "utf8_ok msg_bad_action"
  "utf8_ok msg_soldout_changed"
  "utf8_ok msg_db_error_short"
  "utf8_ok msg_review_args"
  "utf8_ok msg_reply_args"
  "utf8_ok msg_reply_ok"
  "utf8_ok msg_reply_not_found"
  "utf8_ok msg_menuId_args"
  "utf8_ok sql_convenience"
  "utf8_ok sql_mart"
  by (simp_all add: utf8_ok_bytes grade_normal_def grade_wow_def msg_signup_ok_def msg_dup_id_def msg_dup_phone_def msg_signup_error_def msg_bad_format_def msg_login_ok_def msg_login_wrong_def msg_login_error_def msg_id_taken_def msg_id_free_def msg_bad_request_def msg_phone_taken_def msg_phone_free_def msg_biz_taken_def msg_biz_free_def msg_bad_biz_request_def msg_logout_ok_def msg_internal_error_def msg_empty_user_id_def msg_wow_joined_def msg_wow_leaving_def msg_grade_error_def txt_address_unknown_def txt_unregistered_def txt_store_name_unknown_def txt_category_other_def ddl_delivery_time_range_def ddl_pickup_time_def msg_accept_no_id_def msg_accept_gone_def msg_accept_ok_def msg_cooking_started_def msg_minutes_planned_def msg_state_ok_def msg_state_cooked_def msg_state_picked_def msg_state_delivered_def msg_state_changed_def msg_state_not_found_def msg_state_error_def msg_no_storeId_def txt_and_def txt_more_def msg_query_ok_def msg_order_created_def txt_menu_no_def msg_cook_time_ok_def msg_cook_started_about_def msg_minutes_arrival_def txt_cook_left_def txt_minutes_left_def msg_cook_time_error_def msg_delivery_recorded_def msg_delivered_def txt_order_no_def txt_order_delivered_def msg_delivery_error_def msg_reject_no_id_def msg_reject_ok_def msg_reject_notify_def msg_server_error_def msg_cancel_no_id_def msg_cancel_customer_def msg_cancel_owner_def msg_cancel_error_def msg_detail_no_id_def txt_credit_card_def txt_credit_card_pay_def msg_detail_not_found_def txt_no_menu_info_def msg_quantity_limit_def msg_dao_created_def msg_dao_failed_def txt_menu_def msg_no_orderId_def msg_rider_delivered_customer_def msg_rider_delivered_owner_def msg_order_not_found_def msg_pickup_owner_def msg_pickup_customer_def msg_not_logged_in_def txt_owner_def txt_customer_def msg_chat_requested_def msg_chat_waiting_def msg_room_created_def msg_agent_connected_def msg_no_room_def msg_chat_sent_def msg_room_closed_already_def txt_admin_def txt_customer2_def msg_chat_ended_def msg_close_error_def msg_admin_ok_def msg_store_not_found_def ddl_label_other_def txt_basic_menu_def txt_range_20_30_def txt_pickup_10_15_def txt_won_def txt_range_30_45_def txt_no_info_def txt_deleted_menu_def msg_storeId_missing_def msg_nothing_changed_def msg_saved_def msg_db_error_def msg_status_args_def msg_status_changed_def msg_menu_changed_def msg_bad_action_def msg_soldout_changed_def msg_db_error_short_def msg_review_args_def msg_reply_args_def msg_reply_ok_def msg_reply_not_found_def msg_menuId_args_def sql_convenience_def sql_mart_def)

lemma utf8_ok_to_string [simp]: "utf8_ok (to_string i)"
proof -
  have "\<And>ch. ch \<in> set (show_nat n) \<Longrightarrow> (of_char ch :: nat) \<le> 0x7F" for n
    using show_nat_digits [of n] by (fastforce simp: is_digit_def list_all_iff)
  then show ?thesis by (auto simp: to_string_def intro!: utf8_ok_ascii_list)
qed

section \<open>Texts of a request\<close>

lemma parsed_utf8: "json_parse body = Inr j \<Longrightarrow> utf8_json j"
  using json_parse_ok by (auto simp: parsed_ok_def)

lemma utf8_string: "get_string j = Inr s \<Longrightarrow> utf8_json j \<Longrightarrow> utf8_ok s"
  by (cases j) auto

lemma utf8_member: "utf8_json (JObj kvs) \<Longrightarrow> map_of kvs k = Some v \<Longrightarrow> utf8_json v"
  by (fastforce dest: map_of_SomeD)

lemma utf8_field:
  "j_at get_string j k = Inr s \<Longrightarrow> utf8_json j \<Longrightarrow> utf8_ok s"
  "j_value get_string j k d = Inr s \<Longrightarrow> utf8_json j \<Longrightarrow> utf8_ok d \<Longrightarrow> utf8_ok s"
  "j_default get_string j k d = Inr s \<Longrightarrow> utf8_json j \<Longrightarrow> utf8_ok d \<Longrightarrow> utf8_ok s"
  by (auto simp: j_at_def j_value_def j_default_def simp del: utf8_json.simps(3) dest: utf8_member intro: utf8_string
    split: json.splits option.splits if_splits)

lemma continuation_bytes:
  assumes "byte_ranges b = Some rs" "next_byte_in_range rs cs = Some (bs, r)" "ch \<in> set bs"
  shows "0x80 \<le> (of_char ch :: nat)"
proof -
  have lo: "\<forall>(lo, hi) \<in> set rs. 0x80 \<le> lo"
    using assms(1) unfolding byte_ranges_def by (elim ifE) auto
  show ?thesis
    using assms(2,3) lo by (induction rs cs arbitrary: bs rule: next_byte_in_range.induct) (auto split: if_splits)
qed

lemma utf8_ok_prefix:
  assumes "utf8_ok (s @ [ch])" "(of_char ch :: nat) \<le> 0x7F"
  shows "utf8_ok s"
proof -
  have "utf8_ok t \<Longrightarrow> t = s @ [ch] \<Longrightarrow> utf8_ok s" for t
  proof (induction t arbitrary: s rule: utf8_ok.induct)
    case (2 c cs)
    show ?case
    proof (cases s)
      case (Cons c' s')
      then have cs: "cs = s' @ [ch]" "c' = c" using 2(3) by auto
      obtain rs bs r where n: "byte_ranges (of_char c) = Some rs" "next_byte_in_range rs cs = Some (bs, r)" "utf8_ok r"
        using 2(2) by (auto simp: utf8_ok.simps(2) split: option.splits)
      have r: "cs = bs @ r" using n(2) by (rule next_byte_in_range_split)
      show ?thesis
      proof (cases r rule: rev_cases)
        case Nil
        then have "ch \<in> set bs" using r cs(1) by auto
        then show ?thesis using continuation_bytes [OF n(1,2)] assms(2) by fastforce
      next
        case (snoc r' x)
        then have s': "s' = bs @ r'" "r = r' @ [ch]" using r cs(1) by auto
        have "utf8_ok r'" using 2(1) [OF n(1,2) refl n(3) s'(2)] .
        moreover have "next_byte_in_range rs (bs @ r') = Some (bs, r')" using n(2) by (rule next_byte_in_range_rest)
        ultimately show ?thesis using Cons cs(2) s'(1) n(1) by (simp add: utf8_ok.simps(2))
      qed
    qed simp
  qed simp
  then show ?thesis using assms(1) by blast
qed

section \<open>Neither waits\<close>

lemma json_not_blocked [decode_rules]: "json_parse body \<noteq> Inl Blocked" "json_dump j \<noteq> Inl Blocked"
    "json_dump_indent n j \<noteq> Inl Blocked"
  using json_parse_error by (fastforce simp: json_dump_def json_dump_indent_def split: option.splits)+

end
