(* ===== verification/Smooth.thy ===== *)
theory Smooth
  imports Transactions JsonRoundtrip Texts
begin

text \<open>
  Runs without failures: the database answers every call and pooled connections are alive.
  Then each action is a function of the world, given by the rules of the collection
  \<open>run_simps\<close>.  A packet whose value cannot be dumped, because a text in it is not UTF-8, is not
  sent; \<open>packet\<close> is what \<^verbatim>\<open>sendPacket\<close> adds to the packets sent.
\<close>

definition smooth :: "env \<Rightarrow> bool" where
  "smooth E \<longleftrightarrow> (\<forall>n. \<not> sql_fault E n) \<and> (\<forall>n. \<not> conn_dead E n)"

named_theorems run_simps

lemma run_query [run_simps]:
  "smooth E \<Longrightarrow> executeQuery E c q w = (Inr (q (view c w)), w\<lparr>tick := Suc (tick w)\<rparr>)"
  by (simp add: smooth_def executeQuery_def db_call_def)

lemma run_update [run_simps]:
  "smooth E \<Longrightarrow> u (view c w) = Some (n, t) \<Longrightarrow>
   executeUpdate E c u w = (Inr n, put_view c t (w\<lparr>tick := Suc (tick w)\<rparr>))"
  by (simp add: smooth_def executeUpdate_def db_call_def)

lemma run_begin [run_simps]:
  "smooth E \<Longrightarrow> setAutoCommit E c False w =
     (Inr (), set_conn c ((conns w c)\<lparr>autocommit := False\<rparr>) (w\<lparr>tick := Suc (tick w)\<rparr>))"
  by (simp add: smooth_def setAutoCommit_def db_call_def io_defs)

lemma run_end [run_simps]:
  "smooth E \<Longrightarrow> work (conns w c) = None \<Longrightarrow> setAutoCommit E c True w =
     (Inr (), set_conn c ((conns w c)\<lparr>autocommit := True\<rparr>) (w\<lparr>tick := Suc (tick w)\<rparr>))"
  by (simp add: smooth_def setAutoCommit_def db_call_def commit_work_def io_defs)

lemma run_commit [run_simps]:
  "smooth E \<Longrightarrow> work (conns w c) = Some t \<Longrightarrow> commit E c w =
     (Inr (), set_conn c ((conns w c)\<lparr>work := None\<rparr>) (w\<lparr>tick := Suc (tick w), committed := t\<rparr>))"
  by (simp add: smooth_def commit_def db_call_def commit_work_def set_conn_def io_defs)

lemma run_rollback [run_simps]:
  "smooth E \<Longrightarrow> rollback E c w =
     (Inr (), set_conn c ((conns w c)\<lparr>work := None\<rparr>) (w\<lparr>tick := Suc (tick w)\<rparr>))"
  by (simp add: smooth_def rollback_def db_call_def io_defs)

lemma run_prepare [run_simps]: "smooth E \<Longrightarrow> prepareStatement E w = (Inr (), w\<lparr>tick := Suc (tick w)\<rparr>)"
  by (simp add: smooth_def prepareStatement_def db_call_def io_defs)

definition dumpable :: "json \<Rightarrow> bool" where
  "dumpable j = (case json_dump j of Inl _ \<Rightarrow> False | Inr _ \<Rightarrow> True)"

definition packet :: "sess_ref \<Rightarrow> CmdID \<Rightarrow> json \<Rightarrow> (sess_ref \<times> CmdID \<times> json) list" where
  "packet r cmd j = (if dumpable j then [(r, cmd, j)] else [])"

lemma dumpable_utf8: "utf8_json j \<Longrightarrow> dumpable j"
  using dump_value_utf8 [of j False 0 0] by (auto simp: dumpable_def json_dump_def split: option.splits)

lemma packet_utf8 [simp]: "utf8_json j \<Longrightarrow> packet r cmd j = [(r, cmd, j)]"
  by (simp add: packet_def dumpable_utf8)

lemma run_send [run_simps]:
  "sendPacket r cmd j w = (Inr (), w\<lparr>sent := sent w @ packet r cmd j\<rparr>)"
  by (auto simp: packet_def dumpable_def sendPacket_def io_defs split: sum.splits)

lemma run_revalidate [run_simps]: "smooth E \<Longrightarrow> revalidate E c w = w"
  by (simp add: smooth_def revalidate_def)

lemma run_connection:
  "smooth E \<Longrightarrow> pool w = c # cs \<Longrightarrow> getConnection E f w =
     (case f c (w\<lparr>pool := cs\<rparr>) of (r, w2) \<Rightarrow> (r, if r = Inl Blocked then w2 else pool_push c w2))"
  by (simp add: getConnection_def pool_pop_def run_revalidate)

lemma idle_conn: "autocommit k \<Longrightarrow> work k = None \<Longrightarrow> k\<lparr>work := None, autocommit := True\<rparr> = k"
  by (cases k) simp

text \<open>The packet of \<^verbatim>\<open>sendToUser\<close>: one if the user has a session, none otherwise.\<close>

definition to_user :: "world \<Rightarrow> string \<Rightarrow> CmdID \<Rightarrow> json \<Rightarrow> (sess_ref \<times> CmdID \<times> json) list" where
  "to_user w uid cmd j =
     (case getSessionByUserId (sm w) uid of Some r \<Rightarrow> packet r cmd j | None \<Rightarrow> [])"

lemma run_sendToUser [run_simps]:
  "sendToUser uid cmd j w =
     (Inr (getSessionByUserId (sm w) uid \<noteq> None), w\<lparr>sent := sent w @ to_user w uid cmd j\<rparr>)"
  by (auto simp: sendToUser_def to_user_def run_simps io_defs split: option.splits)

text \<open>A DAO that runs one query on a connection of its own.\<close>

definition after_query :: "world \<Rightarrow> world" where
  "after_query w = w\<lparr>pool := tl (pool w) @ [hd (pool w)], tick := Suc (tick w)\<rparr>"

lemma run_query_dao:
  assumes "smooth E" "pool_ok w" "pool w \<noteq> []"
  shows "getConnection E (\<lambda>c. bindE (executeQuery E c q) (\<lambda>x. retE (f x))) w
    = (Inr (f (q (committed w))), after_query w)"
proof -
  obtain c cs where w: "pool w = c # cs" using assms(3) by (cases "pool w") auto
  then have "view c (w\<lparr>pool := cs\<rparr>) = committed w" using assms(2) by (simp add: pool_ok_def view_def)
  then show ?thesis
    using assms(1) w by (simp add: run_connection run_query bindE_def retE_def pool_push_def after_query_def)
qed

lemma after_query_simps [simp]: "committed (after_query w) = committed w" "sent (after_query w) = sent w"
    "sm (after_query w) = sm w" "crm (after_query w) = crm w" "conns (after_query w) = conns w"
    "to_user (after_query w) = to_user w"
  by (auto simp: after_query_def to_user_def fun_eq_iff)

lemma pool_ok_after_query: "pool_ok w \<Longrightarrow> pool w \<noteq> [] \<Longrightarrow> pool_ok (after_query w) \<and> pool (after_query w) \<noteq> []"
  by (cases "pool w") (auto simp: pool_ok_def after_query_def)

lemma catch_ok: "m w = (Inr x, w') \<Longrightarrow> catchE m h w = (Inr x, w')"
  by (simp add: catchE_def)

lemma catch_sql_ok: "m w = (Inr x, w') \<Longrightarrow> catch_sql m h w = (Inr x, w')"
  by (simp add: catch_sql_def catch_ok)

lemma bind_run: "m w = (Inr x, w') \<Longrightarrow> bindE m f w = f x w'"
  by (simp add: bindE_def)

lemma then_run: "m w = (Inr (), w') \<Longrightarrow> thenE m n w = n w'"
  by (simp add: thenE_def bind_run)

end
