(* ===== verification/Sample.thy ===== *)
theory Sample
  imports UserDAO Smooth
begin

text \<open>
  Concrete data for the witnesses: an environment in which nothing fails, a small database with a customer, an owner, a store, a menu and a new order, and
  a world with a given number of pooled connections.  The body of a request is the text of its
  JSON value.
\<close>

definition text_of :: "json \<Rightarrow> string" where
  "text_of j = (case json_dump j of Inl _ \<Rightarrow> [] | Inr s \<Rightarrow> s)"

definition sample_env :: env where
  "sample_env =
     \<lparr>sql_fault = (\<lambda>_. False), conn_dead = (\<lambda>_. False),
      sql_what = (\<lambda>_. []), json_what = (\<lambda>_. []), collate = (\<lambda>s. s), sql_like = (=),
      sql_int = stoi, clock = int, clock_ms = int, strftime = (\<lambda>_ _. []), rand_value = (\<lambda>_. 7),
      indet = 0\<rparr>"

definition sample_user :: "string \<Rightarrow> int \<Rightarrow> USERS_row" where
  "sample_user uid ro =
     \<lparr>u_user_id = uid, u_password_hash = ''pw'', u_user_name = uid, u_phone_number = uid,
      u_role = ro, u_grade = None\<rparr>"

definition sample_order :: ORDERS_row where
  "sample_order =
     \<lparr>o_order_id = ''O1'', o_user_id = ''alice'', o_store_id = 1, o_total_price = 9000,
      o_order_status = 0, o_delivery_address = ''here'', o_reject_reason = None, o_created_at = 5,
      o_store_request = None, o_rider_request = None, o_delivery_fee = 0, o_wow_discount = 0\<rparr>"

definition sample_menu :: MENUS_row where
  "sample_menu =
     \<lparr>m_menu_id = 3, m_store_id = 1, m_menu_name = ''noodles'', m_base_price = 9000, m_menu_options = None,
      m_is_sold_out = 0, m_description = None, m_image_url = None, m_menu_category = None, m_is_popular = 0\<rparr>"

definition sample_address :: "int \<Rightarrow> int \<Rightarrow> USER_ADDRESSES_row" where
  "sample_address aid dflt =
     \<lparr>a_address_id = aid, a_user_id = ''alice'', a_address = ''here'', a_detail = None, a_guide = None,
      a_label = None, a_is_default = dflt\<rparr>"

definition sample_tables :: tables where
  "sample_tables = empty_tables
     \<lparr>USERS := [sample_user ''alice'' 0, sample_user ''bob'' 1],
      CUSTOMERS := [\<lparr>c_user_id = ''alice'', c_address = None, c_point = None, c_customer_grade = Some grade_wow,
        c_card_number = None, c_account_number = None\<rparr>],
      STORES := [new_store 1 ''bob'' ''shop'' ''food'' ''there''],
      MENUS := [sample_menu],
      ORDERS := [sample_order],
      USER_ADDRESSES := [sample_address 5 1, sample_address 6 0],
      SEARCH_HISTORY := [\<lparr>h_history_id = 1, h_user_id = ''alice'', h_keyword = ''noodles'', h_search_date = 3, h_is_visible = 1\<rparr>],
      CATEGORIES := [\<lparr>cat_category_id = 2, cat_name = ''food'', cat_icon_name = None, cat_sort_order = 1, cat_popularity_score = 4\<rparr>],
      REVIEWS := [\<lparr>rv_review_id = 1, rv_order_id = ''O0'', rv_user_id = ''alice'', rv_store_id = 1, rv_menu_id = Some 3,
        rv_rating = 5, rv_content = ''good'', rv_image_url = None, rv_owner_reply = None, rv_created_at = 2\<rparr>]\<rparr>"

definition sample_world :: "nat \<Rightarrow> world" where
  "sample_world n =
     \<lparr>committed = sample_tables, conns = (\<lambda>_. fresh_conn), pool = [0..<n],
      sm = registerUser ''alice'' 0 0 (createSession 4 init_SessionManager),
      crm = init_ChatRoomManager, sent = [], tick = 0\<rparr>"

lemma smooth_sample [simp]: "smooth sample_env"
  by (simp add: smooth_def sample_env_def)

lemma pool_ok_sample [simp]: "pool_ok (sample_world n)"
  by (simp add: pool_ok_def sample_world_def fresh_conn_def)

lemma sample_simps [simp]: "committed (sample_world n) = sample_tables" "pool (sample_world n) = [0..<n]"
    "collate sample_env = (\<lambda>s. s)" 
    "sent (sample_world n) = []"
    "sm (sample_world n) = registerUser ''alice'' 0 0 (createSession 4 init_SessionManager)"
    "crm (sample_world n) = init_ChatRoomManager"
  by (simp_all add: sample_world_def sample_env_def)

lemma parse_text [simp]:
  assumes "utf8_json j" "numbers_ok j" "is_canon j"
  shows "json_parse (text_of j) = Inr j"
proof -
  obtain tx where "json_dump j = Inr tx"
    using dumpable_utf8 [OF assms(1)] by (auto simp: dumpable_def split: sum.splits)
  then show ?thesis using parse_dump assms by (simp add: text_of_def canon_id)
qed

lemma parse_empty [simp]: "json_parse [] = Inl (JsonException 101)"
  by code_simp

lemma str_eq_sample [simp]: "str_eq sample_env a b \<longleftrightarrow> a = b"
  by (simp add: str_eq_def)

lemmas sample_defs = sample_tables_def sample_user_def sample_order_def sample_menu_def
  sample_address_def empty_tables_def new_store_def

text \<open>Running an action on sample data with \<open>simp\<close>.\<close>

lemmas eval_simps = getConnection_def pool_pop_def pool_push_def revalidate_def executeQuery_def
  executeUpdate_def prepareStatement_def commit_def rollback_def setAutoCommit_def commit_work_def
  db_call_def view_def put_view_def set_conn_def fresh_conn_def io_defs Let_def run_send
  run_sendToUser parse_dto_def now_def str_eq_def first_where_def update_where_def
  count_where_def getSessionByUserId_def registerUser_def upd_session_def createSession_def
  init_SessionManager_def sample_env_def sample_world_def sample_defs upt_rec to_int32_id

end
