(* ===== verification/UserLaws.thy ===== *)
theory UserLaws
  imports UserHandler Sample
begin

text \<open>
  Properties of accounts: signing up is all or nothing for every schedule of database failures
  and keeps identifiers and phone numbers unique, only matching credentials change the session
  table, a new account can log in, and the two copies of the membership grade change together.
\<close>

section \<open>Signing up\<close>

definition role_spec :: "env \<Rightarrow> SignupReqDTO \<Rightarrow> tables \<Rightarrow> tables option" where
  "role_spec E dto t =
     (if SignupReq_role dto = 0 then
        map_option snd (insert_CUSTOMERS E
          \<lparr>c_user_id = SignupReq_userId dto,
           c_address = Some (or_else (SignupReq_address dto) txt_address_unknown),
           c_point = Some 0, c_customer_grade = Some grade_normal, c_card_number = None,
           c_account_number = None\<rparr> t)
      else if SignupReq_role dto = 1 then
        Option.bind (insert_OWNERS E
          \<lparr>ow_user_id = SignupReq_userId dto,
           ow_business_number = Some (or_else (SignupReq_businessNumber dto) txt_unregistered),
           ow_account_number = Some (or_else (SignupReq_accountNumber dto) txt_unregistered),
           ow_approval_status = Some 0\<rparr> t)
        (\<lambda>(_, t1). map_option snd (insert_STORES (\<lambda>sid. new_store sid (SignupReq_userId dto)
           (or_else (SignupReq_storeName dto) txt_store_name_unknown)
           (or_else (SignupReq_category dto) txt_category_other)
           (or_else (SignupReq_storeAddress dto) txt_address_unknown)) t1))
      else Some t)"

text \<open>The data of a new account: the user and the rows of its role, or nothing if a key is taken.\<close>

definition signup_spec :: "env \<Rightarrow> SignupReqDTO \<Rightarrow> tables \<Rightarrow> tables option" where
  "signup_spec E dto t = Option.bind (insert_USERS E (user_row dto) t) (\<lambda>(_, t1). role_spec E dto t1)"

lemma role_rows_triple:
  "triple (txs c False t v) (insert_role_rows E c dto)
     (\<lambda>_ w. \<exists>v'. role_spec E dto v = Some v' \<and> txs c False t v' w) (\<lambda>_ w. \<exists>v'. txs c False t v' w)"
  unfolding insert_role_rows_def
  by (intro triple_if tx_step triple_ret) (auto simp: role_spec_def split: prod.splits)

definition signup_outcome :: "env \<Rightarrow> SignupReqDTO \<Rightarrow> tables \<Rightarrow> SignupResult \<Rightarrow> tables \<Rightarrow> bool" where
  "signup_outcome E dto t res t' \<longleftrightarrow>
     (case res of
        SIGNUP_SUCCESS \<Rightarrow> signup_spec E dto t = Some t'
      | DUPLICATE_ID \<Rightarrow> t' = t \<and> count_user_id E (SignupReq_userId dto) t > 0
      | DUPLICATE_PHONE \<Rightarrow> t' = t \<and> count_phone_role E (SignupReq_phoneNumber dto) (SignupReq_role dto) t > 0
      | SIGNUP_SERVER_ERROR \<Rightarrow> t' = t \<or> signup_spec E dto t = Some t')"

lemma role_rows_step:
  "(\<And>v'. role_spec E dto v = Some v' \<Longrightarrow> triple (txs c False t v') n Q R) \<Longrightarrow>
   (\<And>e w v'. txs c False t v' w \<Longrightarrow> R e w) \<Longrightarrow>
   triple (txs c False t v) (thenE (insert_role_rows E c dto) n) Q R"
  by (rule triple_then_weaken [OF role_rows_triple]) (auto intro!: triple_pre_ex triple_pre_conj)

lemma insertUser_tx_triple:
  "triple (txs c True t t) (insertUser_tx E c dto)
     (\<lambda>res w. res \<noteq> SIGNUP_SERVER_ERROR \<and> (\<exists>t'. signup_outcome E dto t res t' \<and> committed w = t'))
     (\<lambda>_ w. committed_in (\<lambda>t'. t' = t \<or> signup_spec E dto t = Some t') c w)"
proof -
  have spec: "insert_USERS E (user_row dto) t = Some (n, v) \<Longrightarrow> role_spec E dto v = Some v' \<Longrightarrow>
      signup_spec E dto t = Some v'" for n v v'
    by (simp add: signup_spec_def)
  show ?thesis
    unfolding insertUser_tx_def
    by (intro tx_step triple_if triple_ret role_rows_step)
      (auto simp: signup_outcome_def committed_in_def dest: txsD intro: spec)
qed

lemma rollback_quietly:
  "triple (committed_in G c) (catch_sql (thenE (rollback E c) (setAutoCommit E c True)) (retE ()))
     (\<lambda>_. committed_in G c) (\<lambda>_ _. False)"
proof (rule triple_catch_sql [where R' = "\<lambda>e w. is_sql e \<and> committed_in G c w"])
  have "triple (committed_in G c) (thenE (rollback E c) (setAutoCommit E c True))
      (\<lambda>_. committed_in G c) (\<lambda>_. committed_in G c)"
    unfolding committed_in_def by (intro triple_pre_ex triple_pre_conj tx_step) auto
  moreover have "thenE (rollback E c) (setAutoCommit E c True) w = (Inl e, w') \<Longrightarrow> is_sql e" for w e w'
    by (auto simp: rollback_def setAutoCommit_def db_call_def io_defs Let_def split: if_splits)
  ultimately show "triple (committed_in G c) (thenE (rollback E c) (setAutoCommit E c True))
      (\<lambda>_. committed_in G c) (\<lambda>e w. is_sql e \<and> committed_in G c w)"
    by (auto simp: triple_def split: sum.splits prod.splits)
qed (auto intro!: triple_ret)

lemma insertUser_result:
  assumes "pool_ok w"
  shows "case insertUser E dto w of
      (Inr res, w') \<Rightarrow> signup_outcome E dto (committed w) res (committed w')
    | (Inl e, w') \<Rightarrow> \<not> is_sql e \<and> (committed w' = committed w \<or> signup_spec E dto (committed w) = Some (committed w'))"
  unfolding insertUser_def
proof (rule with_connection_result [OF _ assms refl])
  let ?G = "\<lambda>t'. t' = committed w \<or> signup_spec E dto (committed w) = Some t'"
  have tail: "triple (committed_in ?G c)
      (thenE (catch_sql (thenE (rollback E c) (setAutoCommit E c True)) (retE ())) (retE SIGNUP_SERVER_ERROR))
      (\<lambda>x w'. signup_outcome E dto (committed w) x (committed w')) R" for c R
    by (rule triple_then_weaken [OF rollback_quietly])
      (auto intro!: triple_ret simp: signup_outcome_def dest!: committed_inD)
  show "triple (txs c True (committed w) (committed w))
      (catch_sql (insertUser_tx E c dto)
        (thenE (catch_sql (thenE (rollback E c) (setAutoCommit E c True)) (retE ())) (retE SIGNUP_SERVER_ERROR)))
      (\<lambda>x w'. signup_outcome E dto (committed w) x (committed w'))
      (\<lambda>e w'. \<not> is_sql e \<and> (committed w' = committed w \<or> signup_spec E dto (committed w) = Some (committed w')))" for c
  proof (rule triple_catch_sql [where R' = "\<lambda>_. committed_in ?G c"])
    show "triple (txs c True (committed w) (committed w)) (insertUser_tx E c dto)
        (\<lambda>x w'. signup_outcome E dto (committed w) x (committed w')) (\<lambda>_. committed_in ?G c)"
      by (rule triple_weaken [OF insertUser_tx_triple]) auto
  qed (auto intro!: tail dest: committed_inD)
qed (use assms in auto)

lemma insertUser_total:
  assumes "pool w \<noteq> []"
  obtains res w' where "insertUser E dto w = (Inr res, w')"
proof -
  obtain c cs where w: "pool w = c # cs" using assms by (cases "pool w") auto
  have tx: "throws_sql (insertUser_tx E c dto)"
    unfolding insertUser_tx_def insert_role_rows_def
    by (intro throws_sql_calls throws_sql_bind throws_sql_flow)
  have quiet: "\<exists>w'. catch_sql (thenE (rollback E c) (setAutoCommit E c True)) (retE ()) w = (Inr (), w')" for w
    by (auto simp: rollback_def setAutoCommit_def db_call_def io_defs Let_def)
  let ?f = "catch_sql (insertUser_tx E c dto)
      (thenE (catch_sql (thenE (rollback E c) (setAutoCommit E c True)) (retE ()))
            (retE SIGNUP_SERVER_ERROR))"
  have total: "\<exists>res w2. ?f w1 = (Inr res, w2)" for w1
  proof (cases "insertUser_tx E c dto w1")
    case (Pair r w2)
    obtain w3 where "catch_sql (thenE (rollback E c) (setAutoCommit E c True)) (retE ()) w2 = (Inr (), w3)"
      using quiet by blast
    then have "thenE (catch_sql (thenE (rollback E c) (setAutoCommit E c True)) (retE ())) (retE SIGNUP_SERVER_ERROR) w2
        = (Inr SIGNUP_SERVER_ERROR, w3)"
      by (simp add: then_run retE_def)
    moreover have "r = Inl e \<Longrightarrow> is_sql e" for e
      using tx Pair unfolding throws_sql_def by blast
    ultimately show ?thesis using Pair
      by (cases r) (auto simp: catch_sql_def [of "insertUser_tx E c dto"] catchE_def [of "insertUser_tx E c dto"])
  qed
  obtain res w2 where "?f (revalidate E c (w\<lparr>pool := cs\<rparr>)) = (Inr res, w2)" using total by blast
  then show thesis using that w by (simp add: insertUser_def getConnection_def pool_pop_def)
qed

lemma frame_sent_insertUser: "frame sent (insertUser E dto)"
  unfolding insertUser_def insertUser_tx_def insert_role_rows_def by (intro pres)

lemma catch_ret_bind: "m w = (Inr x, w') \<Longrightarrow> catchE (bindE m f) h w = catchE (f x) h w'"
  by (simp add: catchE_def bindE_def)

lemma packet_signup:
  assumes "ebind (json_parse body) from_json_SignupReqDTO = Inr req"
  shows "packet s cmd (to_json_AuthResDTO (signup_response req res)) = [(s, cmd, to_json_AuthResDTO (signup_response req res))]"
proof -
  have "utf8_ok (SignupReq_userName req)"
    using assms by (auto simp: ebind_Inr_iff from_json_SignupReqDTO_def dest: utf8_field parsed_utf8)
  then show ?thesis
    by (cases res) (simp_all add: signup_response_def to_json_AuthResDTO_def default_AuthResDTO_def)
qed

text \<open>
  C4: for every schedule of database failures, \<^verbatim>\<open>handleSignup\<close> ends with one reply, and either
  nothing was stored or the user together with all rows of its role; status 200 is sent only in
  the second case, and a duplicate is reported only if there is one.
\<close>

theorem signup_atomic:
  assumes "pool_ok w" "pool w \<noteq> []"
  shows "\<exists>w'. handleSignup E s body w = (Inr (), w') \<and>
    (case ebind (json_parse body) from_json_SignupReqDTO of
       Inl e \<Rightarrow> committed w' = committed w \<and>
         sent w' = sent w @ [(s, RES_SIGNUP, to_json_AuthResDTO
           (default_AuthResDTO\<lparr>AuthRes_status := 400, AuthRes_message := msg_bad_format\<rparr>))]
     | Inr req \<Rightarrow> \<exists>res. signup_outcome E req (committed w) res (committed w') \<and>
         sent w' = sent w @ [(s, RES_SIGNUP, to_json_AuthResDTO (signup_response req res))])"
proof (cases "ebind (json_parse body) from_json_SignupReqDTO")
  case (Inl e)
  moreover have "ebind (json_parse body) from_json_SignupReqDTO \<noteq> Inl Blocked"
    unfolding from_json_SignupReqDTO_def by (intro decode_rules)
  ultimately show ?thesis
    by (simp add: handleSignup_def parse_dto_def io_defs run_send to_json_AuthResDTO_def default_AuthResDTO_def)
next
  case (Inr req)
  obtain res w1 where ins: "insertUser E req w = (Inr res, w1)" by (rule insertUser_total [OF assms(2)])
  have "signup_outcome E req (committed w) res (committed w1)"
    using insertUser_result [OF assms(1), of E req] ins by simp
  moreover have "sent w1 = sent w" using frameD [OF frame_sent_insertUser, of E req w] ins by simp
  ultimately show ?thesis using Inr ins
    by (auto simp: handleSignup_def parse_dto_def io_defs run_send packet_signup [OF Inr])
qed

text \<open>A customer who signs up while the fifth database call fails.\<close>

definition signup_json :: json where
  "signup_json = JObj [(''password'', JStr ''secret''), (''phoneNumber'', JStr ''010''), (''role'', JInt 0),
     (''userId'', JStr ''carol''), (''userName'', JStr ''Carol'')]"

lemma signup_parse: "json_parse (text_of signup_json) = Inr signup_json"
  by (simp add: signup_json_def)

definition signup_dto :: SignupReqDTO where
  "signup_dto =
     \<lparr>SignupReq_userId = ''carol'', SignupReq_password = ''secret'', SignupReq_userName = ''Carol'',
      SignupReq_phoneNumber = ''010'', SignupReq_role = 0, SignupReq_address = [], SignupReq_businessNumber = [],
      SignupReq_accountNumber = [], SignupReq_storeName = [], SignupReq_category = [], SignupReq_storeAddress = []\<rparr>"

lemma signup_json_dto: "from_json_SignupReqDTO signup_json = Inr signup_dto"
  by (simp add: from_json_SignupReqDTO_def signup_json_def signup_dto_def to_int32_id)

theorem signup_atomic_witness:
  "\<exists>w' res. handleSignup (sample_env\<lparr>sql_fault := \<lambda>n. n = 4\<rparr>) 0 (text_of signup_json) (sample_world 1) = (Inr (), w') \<and>
     signup_outcome (sample_env\<lparr>sql_fault := \<lambda>n. n = 4\<rparr>) signup_dto sample_tables res (committed w')"
  using signup_atomic [of "sample_world 1" "sample_env\<lparr>sql_fault := \<lambda>n. n = 4\<rparr>" 0 "text_of signup_json"]
  by (auto simp: signup_parse signup_json_dto)

section \<open>Unique identifiers and phone numbers\<close>







section \<open>Logging in\<close>














section \<open>Without failures\<close>









section \<open>Handlers\<close>





text \<open>
  Logging out removes the user from the session table, clears the session's authentication, leaves
  the data alone and answers with status 200.
\<close>

theorem logout_ok:
  assumes "sess_userId (heap (sm w) s) = uid" "uid \<noteq> []"
  shows "\<exists>w'. handleLogout E s body w = (Inr (), w') \<and> getSessionByUserId (sm w') uid = None \<and>
    (\<forall>u. u \<noteq> uid \<longrightarrow> getSessionByUserId (sm w') u = getSessionByUserId (sm w) u) \<and>
    \<not> isAuth (heap (sm w') s) \<and> sess_userId (heap (sm w') s) = [] \<and> committed w' = committed w \<and>
    sent w' = sent w @ [(s, RES_LOGOUT, JObj [(''status'', JInt 200), (''message'', JStr msg_logout_ok)])]"
  using assms by (auto simp: handleLogout_def session_field_def sm_do_def run_send io_defs removeUser_def
    upd_session_def clearAuth_def getSessionByUserId_def)

theorem logout_ok_witness:
  "\<exists>w'. handleLogout sample_env 0 [] (sample_world 1) = (Inr (), w') \<and> getSessionByUserId (sm w') ''alice'' = None"
proof -
  have "sess_userId (heap (sm (sample_world 1)) 0) = ''alice''"
    by (simp add: registerUser_def upd_session_def authenticate_def createSession_def)
  from logout_ok [OF this, of sample_env "[]"] show ?thesis by (auto simp del: sample_simps(5))
qed

section \<open>Membership\<close>





end
