(* ===== verification/OrderDAO.thy ===== *)
theory OrderDAO
  imports World Messages Dto_Order
begin

text \<open>
  \<^verbatim>\<open>server/src/database/OrderDAO.cpp\<close>: creating an order with its items in one transaction, and
  the lookups by order number that the handlers use to find whom to notify.
\<close>

section \<open>Statements\<close>

definition insert_ORDERS :: "env \<Rightarrow> ORDERS_row \<Rightarrow> tables \<Rightarrow> (int \<times> tables) option" where
  "insert_ORDERS E row t =
     (if \<exists>r\<in>set (ORDERS t). str_eq E (o_order_id r) (o_order_id row)
      then None else Some (1, t\<lparr>ORDERS := ORDERS t @ [row]\<rparr>))"

definition insert_ORDER_ITEMS :: "ORDER_ITEMS_row \<Rightarrow> tables \<Rightarrow> (int \<times> tables) option" where
  "insert_ORDER_ITEMS row t = Some (1, t\<lparr>ORDER_ITEMS := ORDER_ITEMS t @ [row]\<rparr>)"

text \<open>\<^verbatim>\<open>UPDATE ORDERS SET order_status = st WHERE order_id = oid\<close>\<close>

definition set_order_status :: "env \<Rightarrow> string \<Rightarrow> int \<Rightarrow> tables \<Rightarrow> (int \<times> tables) option" where
  "set_order_status E oid st t =
     (let p = (\<lambda>r. str_eq E (o_order_id r) oid)
      in Some (count_where p (ORDERS t),
           t\<lparr>ORDERS := update_where p (\<lambda>r. r\<lparr>o_order_status := st\<rparr>) (ORDERS t)\<rparr>))"

definition find_order :: "env \<Rightarrow> string \<Rightarrow> tables \<Rightarrow> ORDERS_row option" where
  "find_order E oid t = first_where (\<lambda>r. str_eq E (o_order_id r) oid) (ORDERS t)"

section \<open>\<^verbatim>\<open>OrderDAO\<close>\<close>

record OrderResult =
  isSuccess :: bool
  or_message :: string
  or_orderId :: string

definition generateOrderId :: "env \<Rightarrow> string io" where
  "generateOrderId E = getsE (\<lambda>w. ''ORD-'' @ to_string (clock_ms E (tick w)))"

definition new_order_row :: "OrderCreateReqDTO \<Rightarrow> string \<Rightarrow> int \<Rightarrow> ORDERS_row" where
  "new_order_row req oid t =
     \<lparr>o_order_id = oid, o_user_id = OrderCreateReq_userId req, o_store_id = OrderCreateReq_storeId req,
      o_total_price = OrderCreateReq_totalPrice req, o_order_status = 0,
      o_delivery_address = OrderCreateReq_deliveryAddress req, o_reject_reason = None,
      o_created_at = t, o_store_request = Some [], o_rider_request = Some [],
      o_delivery_fee = 0, o_wow_discount = 0\<rparr>"

definition quantity_ok :: "OrderItemDTO \<Rightarrow> bool" where
  "quantity_ok item \<longleftrightarrow> \<not> (OrderItem_quantity item > 99 \<or> OrderItem_quantity item \<le> 0)"

definition createOrder_tx :: "env \<Rightarrow> nat \<Rightarrow> OrderCreateReqDTO \<Rightarrow> OrderResult io" where
  "createOrder_tx E c req =
     (if \<not> list_all quantity_ok (OrderCreateReq_items req)
      then retE \<lparr>isSuccess = False, or_message = msg_quantity_limit, or_orderId = []\<rparr> else
      bindE (generateOrderId E) (\<lambda>oid.
      thenE (setAutoCommit E c False) (
      bindE (now E) (\<lambda>t.
      bindE (executeUpdate E c (insert_ORDERS E (new_order_row req oid t))) (\<lambda>_.
      thenE (prepareStatement E) (
      bindE (mapE (\<lambda>item.
          bindE (liftE (json_dump (OrderItem_selectedOptions item))) (\<lambda>opts.
          executeUpdate E c (insert_ORDER_ITEMS
            \<lparr>oi_order_id = oid, oi_menu_id = OrderItem_menuId item, oi_quantity = OrderItem_quantity item,
             oi_unit_price = OrderItem_unitPrice item, oi_selected_options = Some opts\<rparr>)))
        (OrderCreateReq_items req)) (\<lambda>_.
      thenE (commit E c) (
      thenE (setAutoCommit E c True) (
      retE \<lparr>isSuccess = True, or_message = msg_dao_created, or_orderId = oid\<rparr>)))))))))"

definition createOrder :: "env \<Rightarrow> OrderCreateReqDTO \<Rightarrow> OrderResult io" where
  "createOrder E req =
     getConnection E (\<lambda>c.
       catch_sql (createOrder_tx E c req)
         (thenE (catch_sql (thenE (rollback E c) (setAutoCommit E c True)) (retE ()))
            (retE \<lparr>isSuccess = False, or_message = msg_dao_failed, or_orderId = []\<rparr>)))"

definition updateOrderStatus :: "env \<Rightarrow> string \<Rightarrow> int \<Rightarrow> bool io" where
  "updateOrderStatus E orderId status =
     catch_sql (getConnection E (\<lambda>c.
       bindE (executeUpdate E c (set_order_status E orderId status)) (\<lambda>n. retE (n > 0))))
     (retE False)"

definition getCustomerIdByOrderId :: "env \<Rightarrow> string \<Rightarrow> string io" where
  "getCustomerIdByOrderId E orderId =
     catch_sql (getConnection E (\<lambda>c.
       bindE (executeQuery E c (find_order E orderId)) (\<lambda>rs.
       retE (case rs of Some r \<Rightarrow> o_user_id r | None \<Rightarrow> []))))
     (retE [])"

definition menu_summary :: "string list \<Rightarrow> string \<Rightarrow> string" where
  "menu_summary names none =
     (if length names > 1 then hd names @ txt_and @ to_string (int (length names) - 1) @ txt_more
      else if length names = 1 then hd names else none)"

definition order_item_names :: "env \<Rightarrow> string \<Rightarrow> tables \<Rightarrow> string list" where
  "order_item_names E oid t =
     map (\<lambda>(oi, m). m_menu_name m)
       (filter (\<lambda>(oi, m). str_eq E (oi_order_id oi) oid)
         (inner_join (\<lambda>oi m. oi_menu_id oi = m_menu_id m) (ORDER_ITEMS t) (MENUS t)))"

definition history_query :: "env \<Rightarrow> string \<Rightarrow> string \<Rightarrow> tables \<Rightarrow> (ORDERS_row \<times> STORES_row) list" where
  "history_query E userId keyword t =
     order_by_desc (\<lambda>(ord, s). o_created_at ord)
       (filter (\<lambda>(ord, s). str_eq E (o_user_id ord) userId
            \<and> (keyword = [] \<or> sql_like E (''%'' @ keyword @ ''%'') (s_store_name s)))
         (inner_join (\<lambda>ord s. o_store_id ord = s_store_id s) (ORDERS t) (STORES t)))"

definition history_item :: "env \<Rightarrow> ORDERS_row \<Rightarrow> STORES_row \<Rightarrow> string list \<Rightarrow> OrderHistoryItemDTO" where
  "history_item E ord s names =
     \<lparr>OrderHistoryItem_orderId = o_order_id ord, OrderHistoryItem_storeId = o_store_id ord,
      OrderHistoryItem_storeName = s_store_name s,
      OrderHistoryItem_menuName = (if names = [] \<or> hd names = [] then txt_no_menu_info else hd names),
      OrderHistoryItem_totalPrice = o_total_price ord, OrderHistoryItem_status = o_order_status ord,
      OrderHistoryItem_menuSummary = menu_summary names txt_no_menu_info,
      OrderHistoryItem_createdAt = datetime_text E (o_created_at ord),
      OrderHistoryItem_deliveryPhotoUrl = []\<rparr>"

definition getOrderHistory :: "env \<Rightarrow> string \<Rightarrow> string \<Rightarrow> OrderHistoryItemDTO list io" where
  "getOrderHistory E userId keyword =
     catch_sql (getConnection E (\<lambda>c.
       bindE (executeQuery E c (history_query E userId keyword)) (\<lambda>rows.
       bindE (collect (\<lambda>(ord, s).
           bindE (executeQuery E c (order_item_names E (o_order_id ord))) (\<lambda>names.
           retE (history_item E ord s names))) rows) (\<lambda>(items, _).
       retE items))))
     (retE [])"

definition getStoreIdByOrderId :: "env \<Rightarrow> string \<Rightarrow> int io" where
  "getStoreIdByOrderId E orderId =
     getConnection E (\<lambda>c.
       bindE (executeQuery E c (find_order E orderId)) (\<lambda>rs.
       retE (case rs of Some r \<Rightarrow> o_store_id r | None \<Rightarrow> - 1)))"

definition getDeliveryAddressByOrderId :: "env \<Rightarrow> string \<Rightarrow> string io" where
  "getDeliveryAddressByOrderId E orderId =
     getConnection E (\<lambda>c.
       bindE (executeQuery E c (find_order E orderId)) (\<lambda>rs.
       retE (case rs of Some r \<Rightarrow> o_delivery_address r | None \<Rightarrow> [])))"

end
