(* ===== verification/StoreDAO.thy ===== *)
theory StoreDAO
  imports World Messages Dto_Account Dto_Store
begin

text \<open>
  \<^verbatim>\<open>server/src/database/StoreDAO.cpp\<close> and \<^verbatim>\<open>CategoryDAO.cpp\<close>: the store lists (all stores, one
  category, the best seller of each category), the page of one store, and single columns.
  A query that fails leaves the result with what had been read so far.
\<close>

definition find_store :: "int \<Rightarrow> tables \<Rightarrow> STORES_row option" where
  "find_store storeId t = first_where (\<lambda>s. s_store_id s = storeId) (STORES t)"

section \<open>Lists\<close>

text \<open>\<^verbatim>\<open>ROW_NUMBER() OVER (PARTITION BY category ORDER BY total_sales DESC) = 1\<close>\<close>

definition best_of_category :: "env \<Rightarrow> STORES_row list \<Rightarrow> STORES_row \<Rightarrow> bool" where
  "best_of_category E rows s \<longleftrightarrow>
     map_option s_store_id
       (first_where (\<lambda>s'. str_eq E (s_category s') (s_category s)) (order_by_desc s_total_sales rows))
     = Some (s_store_id s)"

definition stores_with_category :: "env \<Rightarrow> (STORES_row \<Rightarrow> CATEGORIES_row \<Rightarrow> bool) \<Rightarrow> tables \<Rightarrow> (STORES_row \<times> CATEGORIES_row) list" where
  "stores_with_category E p t =
     order_by_desc (\<lambda>(s, ct). s_total_sales s)
       (filter (\<lambda>(s, ct). p s ct)
         (inner_join (\<lambda>s ct. str_eq E (s_category s) (cat_name ct)) (STORES t) (CATEGORIES t)))"

definition top_store_info :: "STORES_row \<times> CATEGORIES_row \<Rightarrow> TopStoreInfo" where
  "top_store_info = (\<lambda>(s, ct). default_TopStoreInfo
     \<lparr>TopStoreInfo_storeId := s_store_id s, TopStoreInfo_storeName := s_store_name s,
      TopStoreInfo_category := s_category s, TopStoreInfo_iconPath := nvl [] (cat_icon_name ct),
      TopStoreInfo_deliveryTimeRange := nvl [] (s_delivery_time_range s),
      TopStoreInfo_rating := s_rating s, TopStoreInfo_reviewCount := s_review_count s,
      TopStoreInfo_minOrderAmount := nvl 0 (s_min_order_amount s),
      TopStoreInfo_deliveryFee := s_delivery_fee s\<rparr>)"

definition category_store_info :: "STORES_row \<times> CATEGORIES_row \<Rightarrow> TopStoreInfo" where
  "category_store_info = (\<lambda>(s, ct). (top_store_info (s, ct))
     \<lparr>TopStoreInfo_brandName := nvl [] (s_brand_name s),
      TopStoreInfo_deliveryTimeRange := nvl txt_range_20_30 (s_delivery_time_range s)\<rparr>)"

definition getTopStoresByCategory :: "env \<Rightarrow> TopStoreInfo list io" where
  "getTopStoresByCategory E =
     catch_sql (getConnection E (\<lambda>c.
       bindE (executeQuery E c (\<lambda>t. stores_with_category E (\<lambda>s ct. best_of_category E (STORES t) s) t)) (\<lambda>rows.
       retE (map top_store_info rows))))
     (retE [])"

text \<open>The parameter \<^verbatim>\<open>brandName\<close> is not used by the query.\<close>

definition getStoresByCategory :: "env \<Rightarrow> int \<Rightarrow> string \<Rightarrow> TopStoreInfo list io" where
  "getStoresByCategory E categoryId brandName =
     catch_sql (getConnection E (\<lambda>c.
       bindE (executeQuery E c (stores_with_category E (\<lambda>s ct. cat_category_id ct = categoryId \<and> s_status s = 1))) (\<lambda>rows.
       retE (map category_store_info rows))))
     (retE [])"

definition getAllStores :: "env \<Rightarrow> TopStoreInfo list io" where
  "getAllStores E =
     catch_sql (getConnection E (\<lambda>c.
       bindE (executeQuery E c (stores_with_category E (\<lambda>s ct. True))) (\<lambda>rows.
       retE (map top_store_info rows))))
     (retE [])"

definition getAllCategories :: "env \<Rightarrow> CategoryItem list io" where
  "getAllCategories E =
     catch_sql (getConnection E (\<lambda>c.
       bindE (executeQuery E c (\<lambda>t. order_by_asc cat_sort_order (CATEGORIES t))) (\<lambda>rows.
       retE (map (\<lambda>ct. \<lparr>CategoryItem_id = cat_category_id ct, CategoryItem_name = cat_name ct,
         CategoryItem_iconPath = nvl [] (cat_icon_name ct)\<rparr>) rows))))
     (retE [])"

section \<open>The page of a store\<close>

record detail_row =
  dt_store :: STORES_row
  dt_user :: "USERS_row option"
  dt_owner :: "OWNERS_row option"

definition detail_query :: "env \<Rightarrow> int \<Rightarrow> tables \<Rightarrow> detail_row option" where
  "detail_query E storeId t =
     map_option (\<lambda>s.
       \<lparr>dt_store = s,
        dt_user = first_where (\<lambda>u. str_eq E (s_owner_id s) (u_user_id u)) (USERS t),
        dt_owner = first_where (\<lambda>ow. str_eq E (s_owner_id s) (ow_user_id ow)) (OWNERS t)\<rparr>)
     (find_store storeId t)"

definition store_data :: "detail_row \<Rightarrow> StoreDataDTO" where
  "store_data d = (let s = dt_store d in
     \<lparr>StoreData_storeId = s_store_id s, StoreData_storeName = s_store_name s,
      StoreData_storeAddress = nvl [] (s_store_address s),
      StoreData_operatingHours = nvl [] (s_open_time s) @ '' ~ '' @ nvl [] (s_close_time s),
      StoreData_deliveryFees = to_string (s_delivery_fee s) @ txt_won,
      StoreData_isOpen = True, StoreData_imageUrl = nvl [] (s_image_url s),
      StoreData_minOrderAmount = nvl 0 (s_min_order_amount s), StoreData_rating = s_rating s,
      StoreData_reviewCount = s_review_count s,
      StoreData_deliveryTimeRange = nvl txt_range_30_45 (s_delivery_time_range s),
      StoreData_pickupTime = nvl txt_pickup_10_15 (s_pickup_time s),
      StoreData_brandName = nvl [] (s_brand_name s), StoreData_category = s_category s,
      StoreData_phoneNumber = nvl txt_no_info (map_option u_phone_number (dt_user d)),
      StoreData_representativeName = nvl txt_no_info (map_option u_user_name (dt_user d)),
      StoreData_businessNumber = nvl txt_no_info (Option.bind (dt_owner d) ow_business_number)\<rparr>)"

text \<open>\<^verbatim>\<open>try { x = json::parse(s); } catch (...) { x = json::array(); }\<close>\<close>

definition parse_or_array :: "string \<Rightarrow> json" where
  "parse_or_array s = (case json_parse s of Inr j \<Rightarrow> j | Inl _ \<Rightarrow> JArr [])"

definition menu_data :: "int \<Rightarrow> MENUS_row \<Rightarrow> MenuDataDTO" where
  "menu_data storeId m =
     \<lparr>MenuData_menuId = m_menu_id m, MenuData_storeId = storeId, MenuData_menuName = m_menu_name m,
      MenuData_basePrice = m_base_price m, MenuData_isSoldOut = (m_is_sold_out m \<noteq> 0),
      MenuData_description = nvl [] (m_description m), MenuData_imageUrl = nvl [] (m_image_url m),
      MenuData_menuCategory = nvl txt_basic_menu (m_menu_category m),
      MenuData_isPopular = (m_is_popular m \<noteq> 0),
      MenuData_optionGroups = parse_or_array (nvl ''[]'' (m_menu_options m)),
      MenuData_reviewContent = []\<rparr>"

definition store_reviews :: "int \<Rightarrow> tables \<Rightarrow> (REVIEWS_row \<times> MENUS_row option) list" where
  "store_reviews storeId t =
     order_by_desc (\<lambda>(r, m). rv_created_at r)
       (map (\<lambda>r. (r, first_where (\<lambda>m. rv_menu_id r = Some (m_menu_id m)) (MENUS t)))
         (filter (\<lambda>r. rv_store_id r = storeId) (REVIEWS t)))"

definition review_data :: "env \<Rightarrow> REVIEWS_row \<times> MENUS_row option \<Rightarrow> ReviewDTO" where
  "review_data E = (\<lambda>(r, m).
     \<lparr>Review_reviewId = rv_review_id r, Review_orderId = rv_order_id r, Review_userId = rv_user_id r,
      Review_storeId = rv_store_id r, Review_menuId = nvl 0 (rv_menu_id r),
      Review_menuName = nvl txt_deleted_menu (map_option m_menu_name m),
      Review_rating = rv_rating r, Review_content = rv_content r,
      Review_imageUrl = nvl [] (rv_image_url r), Review_ownerReply = nvl [] (rv_owner_reply r),
      Review_createdAt = datetime_text E (rv_created_at r)\<rparr>)"

text \<open>\<^verbatim>\<open>ResStoreDetailDTO result; result.status = 404;\<close> leaves the numbers uninitialised.\<close>

definition detail_not_found :: "env \<Rightarrow> ResStoreDetailDTO" where
  "detail_not_found E = default_ResStoreDetailDTO
     \<lparr>ResStoreDetail_status := 404,
      ResStoreDetail_storeData := default_StoreDataDTO
        \<lparr>StoreData_storeId := indet E, StoreData_isOpen := (indet E \<noteq> 0),
         StoreData_minOrderAmount := indet E, StoreData_rating := of_int (indet E),
         StoreData_reviewCount := indet E\<rparr>\<rparr>"

definition getStoreDetail :: "env \<Rightarrow> int \<Rightarrow> ResStoreDetailDTO io" where
  "getStoreDetail E storeId =
     getConnection E (\<lambda>c.
       catch_sql
         (bindE (executeQuery E c (detail_query E storeId)) (\<lambda>rs.
          case rs of
            None \<Rightarrow> retE (detail_not_found E)
          | Some d \<Rightarrow>
              let res = (detail_not_found E)\<lparr>ResStoreDetail_status := 200, ResStoreDetail_storeData := store_data d\<rparr> in
              catch_sql
                (bindE (executeQuery E c (\<lambda>t. filter (\<lambda>m. m_store_id m = storeId) (MENUS t))) (\<lambda>ms.
                 let res' = res\<lparr>ResStoreDetail_menuList := map (menu_data storeId) ms\<rparr> in
                 catch_sql
                   (bindE (executeQuery E c (store_reviews storeId)) (\<lambda>rvs.
                    retE (res'\<lparr>ResStoreDetail_reviewList := map (review_data E) rvs\<rparr>)))
                   (retE res')))
                (retE res)))
         (retE (detail_not_found E)))"

section \<open>Single statements\<close>

text \<open>
  \<^verbatim>\<open>StoreDAO::executeUpdate\<close> and \<^verbatim>\<open>UserDAO::executeUpdate\<close> run a statement given as text; here the
  statement is the function it denotes.
\<close>

definition dao_executeUpdate :: "env \<Rightarrow> (tables \<Rightarrow> (int \<times> tables) option) \<Rightarrow> bool io" where
  "dao_executeUpdate E stmt =
     catch_sql (getConnection E (\<lambda>c. bindE (executeUpdate E c stmt) (\<lambda>_. retE True))) (retE False)"

definition getDeliveryFee :: "env \<Rightarrow> int \<Rightarrow> int io" where
  "getDeliveryFee E storeId =
     getConnection E (\<lambda>c.
       catch_sql (bindE (executeQuery E c (find_store storeId)) (\<lambda>rs.
         retE (case rs of Some s \<Rightarrow> s_delivery_fee s | None \<Rightarrow> 0)))
       (retE 0))"

definition getOwnerIdByStoreId :: "env \<Rightarrow> int \<Rightarrow> string io" where
  "getOwnerIdByStoreId E storeId =
     getConnection E (\<lambda>c.
       bindE (executeQuery E c (find_store storeId)) (\<lambda>rs.
       retE (case rs of Some s \<Rightarrow> s_owner_id s | None \<Rightarrow> [])))"

end
