(* ===== verification/MenuDAO.thy ===== *)
theory MenuDAO
  imports World Messages Dto_Store "HOL-Library.Char_ord" "HOL-Library.List_Lexorder"
begin

text \<open>
  \<^verbatim>\<open>server/src/database/MenuDAO.cpp\<close>: menus with their option groups, and the lookups of names and
  prices.  The options of a menu are stored twice: as JSON text in \<^verbatim>\<open>MENUS.menu_options\<close> and in two
  tables of their own; both readers are modelled.  \<^verbatim>\<open>std::sort\<close> by \<^verbatim>\<open>displayOrder\<close> is a stable sort
  here (the order of equal keys is unspecified in the source).
\<close>

definition menus_of_store :: "int \<Rightarrow> tables \<Rightarrow> MENUS_row list" where
  "menus_of_store storeId t = filter (\<lambda>m. m_store_id m = storeId) (MENUS t)"

definition find_menu :: "int \<Rightarrow> tables \<Rightarrow> MENUS_row option" where
  "find_menu menuId t = first_where (\<lambda>m. m_menu_id m = menuId) (MENUS t)"

definition option_item :: "MENU_OPTIONS_row \<Rightarrow> OptionItem" where
  "option_item r =
     \<lparr>OptionItem_optionId = op_option_id r, OptionItem_optionName = op_option_name r,
      OptionItem_additionalPrice = op_additional_price r, OptionItem_displayOrder = op_display_order r\<rparr>"

definition option_group :: "MENU_OPTION_GROUPS_row \<Rightarrow> MENU_OPTIONS_row list \<Rightarrow> OptionGroup" where
  "option_group g ops =
     \<lparr>OptionGroup_groupId = g_group_id g, OptionGroup_groupName = g_group_name g,
      OptionGroup_isRequired = (g_is_required g \<noteq> 0), OptionGroup_maxCount = g_max_count g,
      OptionGroup_displayOrder = g_display_order g,
      OptionGroup_options = sort_key OptionItem_displayOrder (map option_item ops)\<rparr>"

definition getOptionGroupsByMenuId :: "env \<Rightarrow> int \<Rightarrow> OptionGroup list io" where
  "getOptionGroupsByMenuId E menuId =
     catch_sql (getConnection E (\<lambda>c.
       bindE (executeQuery E c (\<lambda>t. filter (\<lambda>g. g_menu_id g = menuId) (MENU_OPTION_GROUPS t))) (\<lambda>groups.
       bindE (collect (\<lambda>g.
           bindE (executeQuery E c (\<lambda>t. filter (\<lambda>r. op_group_id r = g_group_id g) (MENU_OPTIONS t))) (\<lambda>ops.
           retE (option_group g ops))) groups) (\<lambda>(gs, finished).
       retE (if finished then sort_key OptionGroup_displayOrder gs else gs)))))
     (retE [])"

definition getMenusByStoreId :: "env \<Rightarrow> int \<Rightarrow> MenuDTO list io" where
  "getMenusByStoreId E storeId =
     catch_sql (getConnection E (\<lambda>c.
       bindE (executeQuery E c (menus_of_store storeId)) (\<lambda>rows.
       mapE (\<lambda>m.
         bindE (getOptionGroupsByMenuId E (m_menu_id m)) (\<lambda>gs.
         retE \<lparr>Menu_menuId = m_menu_id m, Menu_menuName = m_menu_name m,
           Menu_basePrice = m_base_price m, Menu_isSoldOut = (m_is_sold_out m \<noteq> 0),
           Menu_description = nvl [] (m_description m), Menu_imageUrl = nvl [] (m_image_url m),
           Menu_menuCategory = nvl txt_basic_menu (m_menu_category m),
           Menu_isPopular = (m_is_popular m \<noteq> 0), Menu_optionGroups = gs\<rparr>)) rows)))
     (retE [])"

record MenuBasicInfo =
  mb_storeId :: int
  mb_basePrice :: int

definition getMenuBasicInfo :: "env \<Rightarrow> int \<Rightarrow> MenuBasicInfo io" where
  "getMenuBasicInfo E menuId =
     catch_sql (getConnection E (\<lambda>c.
       bindE (executeQuery E c (find_menu menuId)) (\<lambda>rs.
       retE (case rs of
           Some m \<Rightarrow> \<lparr>mb_storeId = m_store_id m, mb_basePrice = m_base_price m\<rparr>
         | None \<Rightarrow> \<lparr>mb_storeId = 0, mb_basePrice = 0\<rparr>))))
     (retE \<lparr>mb_storeId = 0, mb_basePrice = 0\<rparr>)"

definition getOptionPrice :: "env \<Rightarrow> int \<Rightarrow> int io" where
  "getOptionPrice E optionId =
     catch_sql (getConnection E (\<lambda>c.
       bindE (executeQuery E c (\<lambda>t. first_where (\<lambda>r. op_option_id r = optionId) (MENU_OPTIONS t))) (\<lambda>rs.
       retE (case rs of Some r \<Rightarrow> op_additional_price r | None \<Rightarrow> 0))))
     (retE 0)"

definition getMenuBasePrice :: "env \<Rightarrow> int \<Rightarrow> int io" where
  "getMenuBasePrice E menuId =
     catchE (getConnection E (\<lambda>c.
       bindE (executeQuery E c (find_menu menuId)) (\<lambda>rs.
       retE (case rs of Some m \<Rightarrow> m_base_price m | None \<Rightarrow> - 1))))
     (\<lambda>_. retE (- 1))"

definition getMenuOptionsParsed :: "env \<Rightarrow> int \<Rightarrow> OptionGroup list io" where
  "getMenuOptionsParsed E menuId =
     catchE (getConnection E (\<lambda>c.
       bindE (executeQuery E c (find_menu menuId)) (\<lambda>rs.
       case rs of
         None \<Rightarrow> retE []
       | Some m \<Rightarrow> parse_dto (get_vector from_json_OptionGroup) (nvl ''[]'' (m_menu_options m)))))
     (\<lambda>_. retE [])"

definition getMenuName :: "env \<Rightarrow> int \<Rightarrow> string io" where
  "getMenuName E menuId =
     getConnection E (\<lambda>c.
       catch_sql (bindE (executeQuery E c (find_menu menuId)) (\<lambda>rs.
         retE (case rs of Some m \<Rightarrow> m_menu_name m | None \<Rightarrow> [])))
       (retE []))"

text \<open>
  A range \<^verbatim>\<open>for\<close> over a JSON value: the elements of an array, the members of an object in the order
  of their keys, nothing for null and the value itself otherwise.
\<close>

fun json_elems :: "json \<Rightarrow> json list" where
  "json_elems (JArr xs) = xs"
| "json_elems (JObj kvs) = map snd (sort_key fst kvs)"
| "json_elems JNull = []"
| "json_elems j = [j]"

fun find_option :: "int \<Rightarrow> json list \<Rightarrow> exn + string option" where
  "find_option optionId [] = Inr None"
| "find_option optionId (opt # opts) =
     ebind (j_value get_int opt ''optionId'' 0) (\<lambda>i.
     if i = optionId then ebind (j_value get_string opt ''optionName'' []) (\<lambda>s. Inr (Some s))
     else find_option optionId opts)"

fun find_option_in_groups :: "int \<Rightarrow> json list \<Rightarrow> exn + string option" where
  "find_option_in_groups optionId [] = Inr None"
| "find_option_in_groups optionId (grp # grps) =
     ebind (j_value get_json grp ''options'' (JArr [])) (\<lambda>opts.
     ebind (find_option optionId (json_elems opts)) (\<lambda>r.
     case r of Some s \<Rightarrow> Inr (Some s) | None \<Rightarrow> find_option_in_groups optionId grps))"

definition option_name_in :: "int \<Rightarrow> string \<Rightarrow> exn + string" where
  "option_name_in optionId jsonStr =
     (if jsonStr = [] then Inr [] else
      ebind (json_parse jsonStr) (\<lambda>groups.
      case groups of
        JArr gs \<Rightarrow> ebind (find_option_in_groups optionId gs) (\<lambda>r. Inr (nvl [] r))
      | _ \<Rightarrow> Inr []))"

definition getOptionName :: "env \<Rightarrow> int \<Rightarrow> int \<Rightarrow> string io" where
  "getOptionName E menuId optionId =
     getConnection E (\<lambda>c.
       catchE (bindE (executeQuery E c (find_menu menuId)) (\<lambda>rs.
         case rs of
           None \<Rightarrow> retE []
         | Some m \<Rightarrow> liftE (option_name_in optionId (nvl [] (m_menu_options m)))))
       (\<lambda>_. retE []))"

end
