(* ===== verification/OrderHandler.thy ===== *)
theory OrderHandler
  imports OrderDAO StoreDAO MenuDAO
begin

text \<open>
  \<^verbatim>\<open>server/src/handler/OrderHandler.cpp\<close>: the life of an order from its creation to its delivery,
  cancellation or rejection, the order lists and the receipt.  \<^verbatim>\<open>if (!id.empty()) sendToUser(id, ...)\<close>
  is \<open>notify_user\<close>.  \<^verbatim>\<open>int\<close> arithmetic keeps the low 32 bits.
\<close>

definition notify_user :: "string \<Rightarrow> json \<Rightarrow> unit io" where
  "notify_user uid j =
     whenE (uid \<noteq> []) (bindE (sendToUser uid NOTIFY_ORDER_STATE j) (\<lambda>_. retE ()))"

definition order_state_json :: "string \<Rightarrow> int \<Rightarrow> string \<Rightarrow> json" where
  "order_state_json oid st msg = to_json_NotifyOrderStateDTO
     \<lparr>NotifyOrderState_orderId = oid, NotifyOrderState_state = st, NotifyOrderState_message = msg\<rparr>"

definition status_json :: "int \<Rightarrow> string \<Rightarrow> json" where
  "status_json st msg = JObj [(''status'', JInt st), (''message'', JStr msg)]"

section \<open>Accepting an order\<close>

definition is_blank :: "char \<Rightarrow> bool" where
  "is_blank ch \<longleftrightarrow> of_char ch \<in> {32, 9, 13, 10 :: nat}"

definition trim :: "string \<Rightarrow> string" where
  "trim s = rev (dropWhile is_blank (rev (dropWhile is_blank s)))"

definition accept_order :: "env \<Rightarrow> string \<Rightarrow> tables \<Rightarrow> (int \<times> tables) option" where
  "accept_order E oid t =
     (let p = (\<lambda>r. str_eq E (o_order_id r) oid \<and> o_order_status r = 0)
      in Some (count_where p (ORDERS t),
           t\<lparr>ORDERS := update_where p (\<lambda>r. r\<lparr>o_order_status := 1\<rparr>) (ORDERS t)\<rparr>))"

definition add_sales :: "env \<Rightarrow> string \<Rightarrow> tables \<Rightarrow> (int \<times> tables) option" where
  "add_sales E oid t =
     (case find_order E oid t of
        None \<Rightarrow> Some (0, t)
      | Some ord \<Rightarrow>
          (let p = (\<lambda>s. s_store_id s = o_store_id ord);
               new = (\<lambda>s. s_total_sales s + o_total_price ord)
           in if \<exists>s\<in>set (STORES t). p s \<and> \<not> in_int (new s) then None
              else Some (count_where p (STORES t),
                t\<lparr>STORES := update_where p (\<lambda>s. s\<lparr>s_total_sales := new s\<rparr>) (STORES t)\<rparr>)))"

definition accept_tx :: "env \<Rightarrow> nat \<Rightarrow> string \<Rightarrow> unit io" where
  "accept_tx E c oid =
     thenE (setAutoCommit E c False) (
     bindE (executeUpdate E c (accept_order E oid)) (\<lambda>affected.
     if affected = 0 then throwE (RuntimeError msg_accept_gone) else
     bindE (executeUpdate E c (add_sales E oid)) (\<lambda>_.
     thenE (commit E c) (
     setAutoCommit E c True))))"

definition accept_res :: "int \<Rightarrow> string \<Rightarrow> string \<Rightarrow> json" where
  "accept_res st msg oid = to_json_OrderAcceptResDTO
     \<lparr>OrderAcceptRes_status = st, OrderAcceptRes_message = msg, OrderAcceptRes_orderId = oid\<rparr>"

definition handleOrderAccept :: "env \<Rightarrow> sess_ref \<Rightarrow> string \<Rightarrow> unit io" where
  "handleOrderAccept E s body =
     getConnection E (\<lambda>c.
       catchE
         (bindE (parse_dto from_json_OrderAcceptReqDTO body) (\<lambda>req.
          if OrderAcceptReq_orderId req = [] then throwE (RuntimeError msg_accept_no_id) else
          let oid = trim (OrderAcceptReq_orderId req) in
          thenE (accept_tx E c oid) (
          thenE (sendPacket s RES_ORDER_ACCEPT (accept_res 200 msg_accept_ok oid)) (
          bindE (getCustomerIdByOrderId E oid) (\<lambda>customerId.
          notify_user customerId (order_state_json oid 1
            (msg_cooking_started @ to_string (OrderAcceptReq_estimatedTime req) @ msg_minutes_planned)))))))
         (\<lambda>e.
          thenE (rollback E c) (
          thenE (setAutoCommit E c True) (
          sendPacket s RES_ORDER_ACCEPT (accept_res 500 (exn_what E e) [])))))"

section \<open>Changing the state of an order\<close>

definition state_message :: "int \<Rightarrow> string" where
  "state_message newState =
     (if newState = 2 then msg_state_cooked
      else if newState = 3 then msg_state_picked
      else if newState = 4 then msg_state_delivered
      else msg_state_changed)"

definition change_state_res :: "int \<Rightarrow> string \<Rightarrow> json" where
  "change_state_res st msg = to_json_ResChangeOrderStateDTO
     \<lparr>ResChangeOrderState_status = st, ResChangeOrderState_message = msg\<rparr>"

definition handleChangeOrderState :: "env \<Rightarrow> sess_ref \<Rightarrow> string \<Rightarrow> unit io" where
  "handleChangeOrderState E s body =
     getConnection E (\<lambda>c.
       catchE
         (bindE (parse_dto from_json_ReqChangeOrderStateDTO body) (\<lambda>req.
          let oid = ReqChangeOrderState_orderId req; newState = ReqChangeOrderState_newState req in
          bindE (executeUpdate E c (set_order_status E oid newState)) (\<lambda>affected.
          if affected > 0 then
            thenE (sendPacket s RES_CHANGE_ORDER_STATE (change_state_res 200 msg_state_ok)) (
            bindE (getCustomerIdByOrderId E oid) (\<lambda>customerId.
            notify_user customerId (order_state_json oid newState (state_message newState))))
          else throwE (RuntimeError msg_state_not_found))))
         (\<lambda>_. sendPacket s RES_CHANGE_ORDER_STATE (change_state_res 500 msg_state_error)))"

section \<open>The order list of a store\<close>

definition order_list_query :: "int \<Rightarrow> tables \<Rightarrow> ORDERS_row list" where
  "order_list_query storeId t =
     order_by_desc o_created_at
       (filter (\<lambda>r. o_store_id r = storeId \<and> o_order_status r \<in> {0, 1, 2, 3, 4, 9}) (ORDERS t))"

definition order_details :: "env \<Rightarrow> string \<Rightarrow> tables \<Rightarrow> ORDER_DETAILS_row list" where
  "order_details E oid t = filter (\<lambda>r. str_eq E (od_order_id r) oid) (ORDER_DETAILS t)"

definition options_array :: "string option \<Rightarrow> json" where
  "options_array col =
     (case json_parse (nvl ''[]'' col) of Inr (JArr xs) \<Rightarrow> JArr xs | _ \<Rightarrow> JArr [])"

definition detail_json :: "ORDER_DETAILS_row \<Rightarrow> json" where
  "detail_json r = JObj
     [(''menuId'', JInt (od_menu_id r)), (''menuName'', JStr (od_menu_name r)),
      (''quantity'', JInt (od_quantity r)), (''unitPrice'', JInt (od_price r)),
      (''options'', options_array (od_selected_options r))]"

definition order_json :: "env \<Rightarrow> ORDERS_row \<Rightarrow> ORDER_DETAILS_row list \<Rightarrow> json" where
  "order_json E ord items = JObj
     [(''orderId'', JStr (o_order_id ord)), (''totalPrice'', JInt (o_total_price ord)),
      (''state'', JInt (o_order_status ord)), (''deliveryAddress'', JStr (o_delivery_address ord)),
      (''createdAt'', JStr (datetime_text E (o_created_at ord))),
      (''storeRequest'', JStr (nvl [] (o_store_request ord))),
      (''riderRequest'', JStr (nvl [] (o_rider_request ord))),
      (''rejectReason'', JStr (nvl [] (o_reject_reason ord))),
      (''menuSummary'', JStr (menu_summary (map od_menu_name items) [])),
      (''items'', JArr (map detail_json items))]"

definition handleOrderList :: "env \<Rightarrow> sess_ref \<Rightarrow> string \<Rightarrow> unit io" where
  "handleOrderList E s body =
     bindE (liftE (json_parse body)) (\<lambda>req.
     catchE
       (bindE (liftE (j_value get_int req ''storeId'' 0)) (\<lambda>storeId.
        if storeId = 0 then sendPacket s RES_ORDER_LIST (status_json 400 msg_no_storeId) else
        getConnection E (\<lambda>c.
          bindE (executeQuery E c (order_list_query storeId)) (\<lambda>rows.
          bindE (mapE (\<lambda>ord.
              bindE (executeQuery E c (order_details E (o_order_id ord))) (\<lambda>items.
              retE (order_json E ord items))) rows) (\<lambda>orders.
          sendPacket s RES_ORDER_LIST (JObj
            [(''status'', JInt 200), (''message'', JStr msg_query_ok), (''orders'', JArr orders)]))))))
       (\<lambda>_. sendPacket s RES_ORDER_LIST (status_json 500 msg_internal_error)))"

section \<open>The order history of a customer\<close>

definition history_res :: "int \<Rightarrow> OrderHistoryItemDTO list \<Rightarrow> json" where
  "history_res st items = to_json_ResOrderHistoryDTO
     \<lparr>ResOrderHistory_status = st, ResOrderHistory_historyList = items\<rparr>"

definition handleOrderHistory :: "env \<Rightarrow> sess_ref \<Rightarrow> string \<Rightarrow> unit io" where
  "handleOrderHistory E s body =
     catchE
       (bindE (parse_dto from_json_ReqOrderHistoryDTO body) (\<lambda>req.
        bindE (getOrderHistory E (ReqOrderHistory_userId req) []) (\<lambda>items.
        sendPacket s RES_ORDER_HISTORY (history_res 0 items))))
       (\<lambda>_. sendPacket s RES_ORDER_HISTORY (history_res 1 []))"

definition handleOrderHistorySearch :: "env \<Rightarrow> sess_ref \<Rightarrow> string \<Rightarrow> unit io" where
  "handleOrderHistorySearch E s body =
     catchE
       (bindE (parse_dto from_json_ReqOrderHistorySearchDTO body) (\<lambda>req.
        bindE (getOrderHistory E (ReqOrderHistorySearch_userId req) (ReqOrderHistorySearch_keyword req)) (\<lambda>items.
        sendPacket s RES_ORDER_HISTORY_SEARCH (history_res 0 items))))
       (\<lambda>_. sendPacket s RES_ORDER_HISTORY_SEARCH (history_res 500 []))"

section \<open>Creating an order\<close>

definition item_sum :: "OrderItemDTO list \<Rightarrow> int" where
  "item_sum items = fold (\<lambda>i n. to_int32 (n + to_int32 (OrderItem_unitPrice i * OrderItem_quantity i))) items 0"

definition price_mismatch :: "OrderCreateReqDTO \<Rightarrow> int \<Rightarrow> bool" where
  "price_mismatch req fee \<longleftrightarrow>
     to_int32 (item_sum (OrderCreateReq_items req) + fee) \<noteq> OrderCreateReq_totalPrice req"

text \<open>\<^verbatim>\<open>sprintf("%03d", n)\<close>\<close>

definition pad3 :: "int \<Rightarrow> string" where
  "pad3 n = (let d = to_string n in replicate (3 - length d) CHR ''0'' @ d)"

definition new_order_id :: "env \<Rightarrow> int \<Rightarrow> int \<Rightarrow> string \<Rightarrow> string" where
  "new_order_id E t randomNum uid =
     ''ORD-'' @ strftime E ''%Y%m%d%H%M%S'' t @ ''-'' @ pad3 randomNum @ ''-'' @ uid"

definition created_row :: "OrderCreateReqDTO \<Rightarrow> string \<Rightarrow> int \<Rightarrow> ORDERS_row" where
  "created_row req oid t = (new_order_row req oid t)
     \<lparr>o_store_request := Some (OrderCreateReq_storeRequest req),
      o_rider_request := Some (OrderCreateReq_riderRequest req)\<rparr>"

definition insert_ORDER_DETAILS :: "ORDER_DETAILS_row \<Rightarrow> tables \<Rightarrow> (int \<times> tables) option" where
  "insert_ORDER_DETAILS row t = Some (1, t\<lparr>ORDER_DETAILS := ORDER_DETAILS t @ [row]\<rparr>)"

fun int_options :: "json \<Rightarrow> int list" where
  "int_options (JArr xs) = concat (map (\<lambda>x. case x of JInt i \<Rightarrow> [to_int32 i] | _ \<Rightarrow> []) xs)"
| "int_options _ = []"

definition item_option_names :: "env \<Rightarrow> OrderItemDTO \<Rightarrow> string list io" where
  "item_option_names E item =
     bindE (mapE (getOptionName E (OrderItem_menuId item)) (int_options (OrderItem_selectedOptions item))) (\<lambda>names.
     retE (filter (\<lambda>n. n \<noteq> []) names))"

definition item_menu_name :: "env \<Rightarrow> OrderItemDTO \<Rightarrow> string io" where
  "item_menu_name E item =
     bindE (getMenuName E (OrderItem_menuId item)) (\<lambda>name.
     retE (if name = [] then txt_menu_no @ to_string (OrderItem_menuId item) else name))"

definition detail_row_of :: "string \<Rightarrow> OrderItemDTO \<Rightarrow> string \<Rightarrow> string \<Rightarrow> ORDER_DETAILS_row" where
  "detail_row_of oid item name opts =
     \<lparr>od_order_id = oid, od_menu_id = OrderItem_menuId item, od_menu_name = name,
      od_quantity = OrderItem_quantity item, od_price = OrderItem_unitPrice item,
      od_selected_options = Some opts\<rparr>"

text \<open>One round of the loop over the items: the menu name and the item of the owner's notice.\<close>

definition insert_item :: "env \<Rightarrow> nat \<Rightarrow> string \<Rightarrow> OrderItemDTO \<Rightarrow> (string \<times> json) io" where
  "insert_item E c oid item =
     bindE (item_menu_name E item) (\<lambda>name.
     bindE (item_option_names E item) (\<lambda>optNames.
     bindE (liftE (json_dump (JArr (map JStr optNames)))) (\<lambda>opts.
     bindE (executeUpdate E c (insert_ORDER_DETAILS (detail_row_of oid item name opts))) (\<lambda>_.
     retE (name, JObj
       [(''menuId'', JInt (OrderItem_menuId item)), (''menuName'', JStr name),
        (''quantity'', JInt (OrderItem_quantity item)), (''unitPrice'', JInt (OrderItem_unitPrice item)),
        (''options'', JArr (map JStr optNames))])))))"

definition new_order_notice :: "env \<Rightarrow> OrderCreateReqDTO \<Rightarrow> string \<Rightarrow> int \<Rightarrow> (string \<times> json) list \<Rightarrow> json" where
  "new_order_notice E req oid t items = JObj
     [(''orderId'', JStr oid), (''deliveryAddress'', JStr (OrderCreateReq_deliveryAddress req)),
      (''totalPrice'', JInt (OrderCreateReq_totalPrice req)), (''state'', JInt 0),
      (''createdAt'', JStr (strftime E ''%Y-%m-%d %H:%M:%S'' t)),
      (''storeRequest'', JStr (OrderCreateReq_storeRequest req)),
      (''riderRequest'', JStr (OrderCreateReq_riderRequest req)),
      (''menuSummary'', JStr (menu_summary (map fst items) [])),
      (''items'', JArr (map snd items))]"

definition create_tx :: "env \<Rightarrow> nat \<Rightarrow> OrderCreateReqDTO \<Rightarrow> string \<Rightarrow> int \<Rightarrow> (string \<times> json) list io" where
  "create_tx E c req oid t =
     bindE (executeUpdate E c (insert_ORDERS E (created_row req oid t))) (\<lambda>_.
     thenE (prepareStatement E) (
     bindE (mapE (insert_item E c oid) (OrderCreateReq_items req)) (\<lambda>items.
     thenE (commit E c) (
     thenE (setAutoCommit E c True) (
     retE items)))))"

definition create_res :: "int \<Rightarrow> string \<Rightarrow> string \<Rightarrow> json" where
  "create_res st msg oid = to_json_OrderCreateResDTO
     \<lparr>OrderCreateRes_status = st, OrderCreateRes_message = msg, OrderCreateRes_orderId = oid\<rparr>"

text \<open>A price mismatch is only written to \<^verbatim>\<open>std::cerr\<close>.\<close>

definition handleCreateOrder :: "env \<Rightarrow> sess_ref \<Rightarrow> string \<Rightarrow> unit io" where
  "handleCreateOrder E s body =
     getConnection E (\<lambda>c.
       catchE
         (bindE (parse_dto from_json_OrderCreateReqDTO body) (\<lambda>req.
          bindE (getDeliveryFee E (OrderCreateReq_storeId req)) (\<lambda>fee.
          thenE (whenE (price_mismatch req fee) (retE ())) (
          thenE (setAutoCommit E c False) (
          bindE (now E) (\<lambda>t.
          bindE (getsE (\<lambda>w. rand_value E (tick w) mod 1000)) (\<lambda>randomNum.
          let oid = new_order_id E t randomNum (OrderCreateReq_userId req) in
          bindE (create_tx E c req oid t) (\<lambda>items.
          thenE (sendPacket s RES_ORDER_CREATE (create_res 0 msg_order_created oid)) (
          bindE (getOwnerIdByStoreId E (OrderCreateReq_storeId req)) (\<lambda>ownerId.
          whenE (ownerId \<noteq> [])
            (bindE (sendToUser ownerId NOTIFY_NEW_ORDER (new_order_notice E req oid t items)) (\<lambda>_. retE ()))))))))))))
         (\<lambda>e.
          thenE (rollback E c) (
          thenE (setAutoCommit E c True) (
          sendPacket s RES_ORDER_CREATE (create_res 1 (exn_what E e) [])))))"

section \<open>Cooking time\<close>

text \<open>The matches of the regular expression \<^verbatim>\<open>\d+\<close>, and the largest number among them.\<close>

function digit_runs :: "string \<Rightarrow> string list" where
  "digit_runs [] = []"
| "digit_runs (ch # chs) =
     (if is_digit ch then (ch # takeWhile is_digit chs) # digit_runs (dropWhile is_digit chs)
      else digit_runs chs)"
  by pat_completeness auto

termination digit_runs
  by (relation "measure length") (auto simp: less_Suc_eq_le length_dropWhile_le)

fun max_stoi :: "string list \<Rightarrow> int \<Rightarrow> exn + int" where
  "max_stoi [] m = Inr m"
| "max_stoi (r # rs) m = ebind (stoiE r) (\<lambda>v. max_stoi rs (if v > m then v else m))"

definition net_delivery_time :: "STORES_row option \<Rightarrow> exn + int" where
  "net_delivery_time rs =
     (case rs of
        None \<Rightarrow> Inr 15
      | Some st \<Rightarrow>
          ebind (max_stoi (digit_runs (nvl [] (s_delivery_time_range st))) 0) (\<lambda>maxTotalTime.
          let net = (if maxTotalTime > 0 then to_int32 (maxTotalTime - nvl 30 (s_cook_time st)) else 15)
          in Inr (if net < 10 then 15 else net)))"

definition store_of_order :: "env \<Rightarrow> string \<Rightarrow> tables \<Rightarrow> STORES_row option" where
  "store_of_order E oid t =
     map_option fst (first_where (\<lambda>(st, ord). str_eq E (o_order_id ord) oid)
       (inner_join (\<lambda>st ord. s_store_id st = o_store_id ord) (STORES t) (ORDERS t)))"

definition ROLE_RIDER :: int where
  "ROLE_RIDER = 2"

definition cook_res :: "int \<Rightarrow> string \<Rightarrow> json" where
  "cook_res st msg = to_json_ResCookTimeSetDTO \<lparr>ResCookTimeSet_status = st, ResCookTimeSet_message = msg\<rparr>"

definition delivery_call :: "env \<Rightarrow> string \<Rightarrow> int \<Rightarrow> string \<Rightarrow> string \<Rightarrow> json" where
  "delivery_call E oid cookTime pickup addr = to_json_NotifyDeliveryCallDTO (default_NotifyDeliveryCallDTO
     \<lparr>NotifyDeliveryCall_orderId := oid, NotifyDeliveryCall_pickupAddress := pickup,
      NotifyDeliveryCall_deliveryAddress := addr, NotifyDeliveryCall_deliveryFee := 3500,
      NotifyDeliveryCall_menuSummary := txt_cook_left @ to_string cookTime @ txt_minutes_left,
      NotifyDeliveryCall_totalPrice := indet E\<rparr>)"

definition handleCookTimeSet :: "env \<Rightarrow> sess_ref \<Rightarrow> string \<Rightarrow> unit io" where
  "handleCookTimeSet E s body =
     catchE
       (bindE (parse_dto from_json_ReqCookTimeSetDTO body) (\<lambda>req.
        let oid = ReqCookTimeSet_orderId req; cookTime = ReqCookTimeSet_cookTime req in
        getConnection E (\<lambda>c.
          bindE (executeQuery E c (store_of_order E oid)) (\<lambda>rs.
          bindE (liftE (net_delivery_time rs)) (\<lambda>netDeliveryTime.
          thenE (sendPacket s RES_COOK_TIME_SET (cook_res 200 msg_cook_time_ok)) (
          bindE (getCustomerIdByOrderId E oid) (\<lambda>customerId.
          thenE (notify_user customerId (order_state_json oid 1
            (msg_cook_started_about @ to_string (to_int32 (cookTime + netDeliveryTime)) @ msg_minutes_arrival))) (
          bindE (getStoreIdByOrderId E oid) (\<lambda>storeId.
          bindE (getStoreDetail E storeId) (\<lambda>detail.
          bindE (getDeliveryAddressByOrderId E oid) (\<lambda>addr.
          broadcastToRole ROLE_RIDER NOTIFY_DELIVERY_CALL
            (delivery_call E oid cookTime (ResStoreDetail_storeAddress detail) addr)))))))))))) 
       (\<lambda>_. sendPacket s RES_COOK_TIME_SET (cook_res 500 msg_cook_time_error))"

section \<open>Delivery (a handler the dispatcher does not use), checkout\<close>

definition delivery_res :: "int \<Rightarrow> string \<Rightarrow> json" where
  "delivery_res st msg = to_json_ResDeliveryCompleteDTO
     \<lparr>ResDeliveryComplete_status = st, ResDeliveryComplete_message = msg\<rparr>"

definition handleDeliveryComplete_order :: "env \<Rightarrow> sess_ref \<Rightarrow> string \<Rightarrow> unit io" where
  "handleDeliveryComplete_order E s body =
     getConnection E (\<lambda>c.
       catchE
         (bindE (parse_dto from_json_ReqDeliveryCompleteDTO body) (\<lambda>req.
          let oid = ReqDeliveryComplete_orderId req in
          bindE (executeUpdate E c (set_order_status E oid 4)) (\<lambda>affected.
          whenE (affected > 0) (
            thenE (sendPacket s RES_DELIVERY_COMPLETE (delivery_res 200 msg_delivery_recorded)) (
            bindE (getCustomerIdByOrderId E oid) (\<lambda>customerId.
            thenE (notify_user customerId (order_state_json oid 4 msg_delivered)) (
            bindE (getStoreIdByOrderId E oid) (\<lambda>storeId.
            bindE (getOwnerIdByStoreId E storeId) (\<lambda>ownerId.
            notify_user ownerId (order_state_json oid 4 (txt_order_no @ oid @ txt_order_delivered)))))))))))
         (\<lambda>_. sendPacket s RES_DELIVERY_COMPLETE (delivery_res 500 msg_delivery_error)))"

definition checkout_user :: "CUSTOMERS_row option \<Rightarrow> ResCheckoutInfoDTO \<Rightarrow> ResCheckoutInfoDTO" where
  "checkout_user rs res =
     (case rs of
        None \<Rightarrow> res
      | Some cu \<Rightarrow> res
          \<lparr>ResCheckoutInfo_customerGrade := nvl grade_normal (c_customer_grade cu),
           ResCheckoutInfo_cardNumber := nvl [] (c_card_number cu),
           ResCheckoutInfo_accountNumber := nvl [] (c_account_number cu),
           ResCheckoutInfo_userPoint := nvl 0 (c_point cu),
           ResCheckoutInfo_userAddress := nvl txt_address_unknown (c_address cu)\<rparr>)"

definition checkout_store :: "STORES_row option \<Rightarrow> ResCheckoutInfoDTO \<Rightarrow> ResCheckoutInfoDTO" where
  "checkout_store rs res =
     (case rs of
        None \<Rightarrow> res
      | Some st \<Rightarrow> res
          \<lparr>ResCheckoutInfo_minOrderAmount := nvl 0 (s_min_order_amount st),
           ResCheckoutInfo_deliveryFee := s_delivery_fee st,
           ResCheckoutInfo_storeAddress := nvl [] (s_store_address st),
           ResCheckoutInfo_pickupTime := nvl [] (s_pickup_time st)\<rparr>)"

definition checkout_fee :: "ResCheckoutInfoDTO \<Rightarrow> ResCheckoutInfoDTO" where
  "checkout_fee res = res\<lparr>ResCheckoutInfo_appliedDeliveryFee :=
     (if ResCheckoutInfo_customerGrade res = grade_wow then 0 else ResCheckoutInfo_deliveryFee res)\<rparr>"

definition checkout_error :: "env \<Rightarrow> ResCheckoutInfoDTO" where
  "checkout_error E = default_ResCheckoutInfoDTO
     \<lparr>ResCheckoutInfo_status := 500, ResCheckoutInfo_userPoint := indet E,
      ResCheckoutInfo_appliedDeliveryFee := indet E, ResCheckoutInfo_minOrderAmount := indet E,
      ResCheckoutInfo_deliveryFee := indet E, ResCheckoutInfo_totalPrice := indet E\<rparr>"

definition find_customer :: "env \<Rightarrow> string \<Rightarrow> tables \<Rightarrow> CUSTOMERS_row option" where
  "find_customer E uid t = first_where (\<lambda>r. str_eq E (c_user_id r) uid) (CUSTOMERS t)"

definition handleCheckoutInfo :: "env \<Rightarrow> sess_ref \<Rightarrow> string \<Rightarrow> unit io" where
  "handleCheckoutInfo E s body =
     catchE
       (bindE (parse_dto from_json_ReqCheckoutInfoDTO body) (\<lambda>req.
        getConnection E (\<lambda>c.
          bindE (executeQuery E c (find_customer E (ReqCheckoutInfo_userId req))) (\<lambda>rsUser.
          bindE (executeQuery E c (find_store (ReqCheckoutInfo_storeId req))) (\<lambda>rsStore.
          sendPacket s RES_CHECKOUT_INFO (to_json_ResCheckoutInfoDTO
            (checkout_fee (checkout_store rsStore (checkout_user rsUser
              (default_ResCheckoutInfoDTO\<lparr>ResCheckoutInfo_status := 200\<rparr>))))))))))
       (\<lambda>_. sendPacket s RES_CHECKOUT_INFO (to_json_ResCheckoutInfoDTO (checkout_error E)))"

section \<open>Rejecting and cancelling\<close>

definition reject_res :: "int \<Rightarrow> string \<Rightarrow> string \<Rightarrow> json" where
  "reject_res st msg oid = to_json_ResOrderRejectDTO
     \<lparr>ResOrderReject_status = st, ResOrderReject_message = msg, ResOrderReject_orderId = oid\<rparr>"

definition handleOrderReject :: "env \<Rightarrow> sess_ref \<Rightarrow> string \<Rightarrow> unit io" where
  "handleOrderReject E s body =
     catchE
       (bindE (liftE (json_parse body)) (\<lambda>j.
        bindE (liftE (j_value get_string j ''orderId'' [])) (\<lambda>oid.
        if oid = [] then throwE (RuntimeError msg_reject_no_id) else
        getConnection E (\<lambda>c.
          bindE (executeUpdate E c (set_order_status E oid 9)) (\<lambda>_.
          thenE (sendPacket s RES_ORDER_REJECT (reject_res 0 msg_reject_ok oid)) (
          bindE (getCustomerIdByOrderId E oid) (\<lambda>customerId.
          notify_user customerId (order_state_json oid 9 msg_reject_notify))))))))
       (\<lambda>_. sendPacket s RES_ORDER_REJECT (reject_res 1 msg_server_error []))"

definition state_notice :: "string \<Rightarrow> int \<Rightarrow> string \<Rightarrow> json" where
  "state_notice oid st msg =
     JObj [(''orderId'', JStr oid), (''state'', JInt st), (''message'', JStr msg)]"

definition handleCancel :: "env \<Rightarrow> sess_ref \<Rightarrow> string \<Rightarrow> unit io" where
  "handleCancel E s body =
     catchE
       (bindE (liftE (json_parse body)) (\<lambda>req.
        bindE (liftE (j_value get_string req ''orderId'' [])) (\<lambda>oid.
        if oid = [] then throwE (RuntimeError msg_cancel_no_id) else
        getConnection E (\<lambda>c.
          bindE (executeUpdate E c (set_order_status E oid 9)) (\<lambda>affected.
          whenE (affected > 0) (
            thenE (sendPacket s RES_CANCEL (JObj [(''status'', JInt 200), (''orderId'', JStr oid)])) (
            bindE (getCustomerIdByOrderId E oid) (\<lambda>customerId.
            thenE (notify_user customerId (state_notice oid 9 msg_cancel_customer)) (
            bindE (getStoreIdByOrderId E oid) (\<lambda>storeId.
            bindE (getOwnerIdByStoreId E storeId) (\<lambda>ownerId.
            notify_user ownerId (state_notice oid 9 msg_cancel_owner))))))))))))
       (\<lambda>_. sendPacket s RES_CANCEL (status_json 500 msg_cancel_error))"

section \<open>The receipt\<close>

definition receipt_query :: "env \<Rightarrow> string \<Rightarrow> tables \<Rightarrow> ((ORDERS_row \<times> STORES_row) \<times> CUSTOMERS_row) option" where
  "receipt_query E oid t =
     first_where (\<lambda>((ord, st), cu). str_eq E (o_order_id ord) oid)
       (inner_join (\<lambda>(ord, st) cu. str_eq E (o_user_id ord) (c_user_id cu))
         (inner_join (\<lambda>ord st. o_store_id ord = s_store_id st) (ORDERS t) (STORES t))
         (CUSTOMERS t))"

definition receipt_items_query :: "env \<Rightarrow> string \<Rightarrow> tables \<Rightarrow> (ORDER_ITEMS_row \<times> MENUS_row) list" where
  "receipt_items_query E oid t =
     filter (\<lambda>(oi, m). str_eq E (oi_order_id oi) oid)
       (inner_join (\<lambda>oi m. oi_menu_id oi = m_menu_id m) (ORDER_ITEMS t) (MENUS t))"

definition payment_method :: "CUSTOMERS_row \<Rightarrow> string" where
  "payment_method cu =
     (let cardNum = nvl [] (c_card_number cu)
      in if length cardNum \<ge> 4 then txt_credit_card @ drop (length cardNum - 4) cardNum @ '')''
         else txt_credit_card_pay)"

definition receipt_item :: "env \<Rightarrow> ORDER_ITEMS_row \<times> MENUS_row \<Rightarrow> OrderItemDTO" where
  "receipt_item E = (\<lambda>(oi, m).
     \<lparr>OrderItem_menuId = oi_menu_id oi, OrderItem_quantity = oi_quantity oi,
      OrderItem_unitPrice = oi_unit_price oi,
      OrderItem_selectedOptions = parse_or_array (nvl ''[]'' (oi_selected_options oi)),
      OrderItem_menuName = m_menu_name m, OrderItem_options = []\<rparr>)"

definition receipt :: "env \<Rightarrow> string \<Rightarrow> ((ORDERS_row \<times> STORES_row) \<times> CUSTOMERS_row) \<Rightarrow> OrderItemDTO list \<Rightarrow> ResOrderDetailDTO" where
  "receipt E oid = (\<lambda>((ord, st), cu) items.
     \<lparr>ResOrderDetail_status = 0, ResOrderDetail_orderId = oid, ResOrderDetail_storeName = s_store_name st,
      ResOrderDetail_createdAt = datetime_text E (o_created_at ord),
      ResOrderDetail_paymentMethod = payment_method cu,
      ResOrderDetail_deliveryAddress = o_delivery_address ord,
      ResOrderDetail_totalMenuPrice = item_sum items, ResOrderDetail_deliveryFee = o_delivery_fee ord,
      ResOrderDetail_couponDiscount = 0, ResOrderDetail_wowDiscount = o_wow_discount ord,
      ResOrderDetail_totalPrice = o_total_price ord, ResOrderDetail_items = items\<rparr>)"

definition receipt_error :: "env \<Rightarrow> ResOrderDetailDTO" where
  "receipt_error E = default_ResOrderDetailDTO
     \<lparr>ResOrderDetail_status := 1, ResOrderDetail_totalMenuPrice := indet E,
      ResOrderDetail_deliveryFee := indet E, ResOrderDetail_couponDiscount := indet E,
      ResOrderDetail_wowDiscount := indet E, ResOrderDetail_totalPrice := indet E\<rparr>"

definition handleOrderDetail :: "env \<Rightarrow> sess_ref \<Rightarrow> string \<Rightarrow> unit io" where
  "handleOrderDetail E s body =
     catchE
       (bindE (liftE (json_parse body)) (\<lambda>req.
        bindE (liftE (j_value get_string req ''orderId'' [])) (\<lambda>oid.
        if oid = [] then throwE (RuntimeError msg_detail_no_id) else
        getConnection E (\<lambda>c.
          bindE (executeQuery E c (receipt_query E oid)) (\<lambda>rsOrder.
          case rsOrder of
            None \<Rightarrow> throwE (RuntimeError msg_detail_not_found)
          | Some row \<Rightarrow>
              bindE (executeQuery E c (receipt_items_query E oid)) (\<lambda>rsItems.
              sendPacket s RES_ORDER_DETAIL (to_json_ResOrderDetailDTO
                (receipt E oid row (map (receipt_item E) rsItems)))))))))
       (\<lambda>_. sendPacket s RES_ORDER_DETAIL (to_json_ResOrderDetailDTO (receipt_error E)))"

end
