(* ===== verification/RiderHandler.thy ===== *)
theory RiderHandler
  imports OrderHandler
begin

text \<open>
  \<^verbatim>\<open>server/src/handler/RiderHandler.cpp\<close>: the list of orders being cooked, pick-up and delivery.
\<close>

definition rider_query :: "tables \<Rightarrow> ORDERS_row list" where
  "rider_query t = order_by_desc o_created_at (filter (\<lambda>r. o_order_status r = 1) (ORDERS t))"

definition count_items :: "env \<Rightarrow> string \<Rightarrow> tables \<Rightarrow> int" where
  "count_items E oid t = count_where (\<lambda>r. str_eq E (oi_order_id r) oid) (ORDER_ITEMS t)"

definition first_item_name :: "env \<Rightarrow> string \<Rightarrow> tables \<Rightarrow> string option" where
  "first_item_name E oid t =
     (case order_item_names E oid t of [] \<Rightarrow> None | n # _ \<Rightarrow> Some n)"

definition rider_summary :: "string option \<Rightarrow> int \<Rightarrow> string" where
  "rider_summary name cnt =
     (case name of
        None \<Rightarrow> txt_menu
      | Some n \<Rightarrow> if cnt > 1 then n @ txt_and @ to_string (cnt - 1) @ txt_more else n)"

definition rider_order_json :: "env \<Rightarrow> ORDERS_row \<Rightarrow> string \<Rightarrow> json" where
  "rider_order_json E ord summary = JObj
     [(''orderId'', JStr (o_order_id ord)), (''totalPrice'', JInt (o_total_price ord)),
      (''deliveryAddress'', JStr (o_delivery_address ord)),
      (''createdAt'', JStr (datetime_text E (o_created_at ord))), (''menuSummary'', JStr summary)]"

definition handleRiderOrderList :: "env \<Rightarrow> sess_ref \<Rightarrow> string \<Rightarrow> unit io" where
  "handleRiderOrderList E s body =
     catchE
       (getConnection E (\<lambda>c.
          bindE (executeQuery E c rider_query) (\<lambda>rows.
          bindE (mapE (\<lambda>ord.
              bindE (executeQuery E c (first_item_name E (o_order_id ord))) (\<lambda>name.
              bindE (executeQuery E c (count_items E (o_order_id ord))) (\<lambda>cnt.
              retE (rider_order_json E ord (rider_summary name cnt))))) rows) (\<lambda>orders.
          sendPacket s RES_RIDER_ORDER_LIST (JObj
            [(''status'', JInt 200), (''message'', JStr msg_query_ok), (''orders'', JArr orders)])))))
       (\<lambda>_. sendPacket s RES_RIDER_ORDER_LIST (status_json 500 msg_internal_error))"

text \<open>
  The reply is built up in \<^verbatim>\<open>res\<close>; when a lookup fails after the update, the reply has status 500
  and keeps the order number.
\<close>

definition notify_delivered :: "env \<Rightarrow> string \<Rightarrow> unit io" where
  "notify_delivered E oid =
     bindE (getCustomerIdByOrderId E oid) (\<lambda>customerId.
     thenE (notify_user customerId (state_notice oid 3 msg_rider_delivered_customer)) (
     bindE (getStoreIdByOrderId E oid) (\<lambda>storeId.
     bindE (getOwnerIdByStoreId E storeId) (\<lambda>ownerId.
     notify_user ownerId (state_notice oid 3 msg_rider_delivered_owner)))))"

definition handleDeliveryComplete :: "env \<Rightarrow> sess_ref \<Rightarrow> string \<Rightarrow> unit io" where
  "handleDeliveryComplete E s body =
     catchE
       (bindE (liftE (json_parse body)) (\<lambda>req.
        bindE (liftE (j_value get_string req ''orderId'' [])) (\<lambda>oid.
        if oid = [] then sendPacket s RES_DELIVERY_COMPLETE (status_json 400 msg_no_orderId) else
        getConnection E (\<lambda>c.
          bindE (executeUpdate E c (set_order_status E oid 3)) (\<lambda>affected.
          if affected > 0 then
            catchE
              (thenE (notify_delivered E oid) (
               sendPacket s RES_DELIVERY_COMPLETE (JObj [(''status'', JInt 200), (''orderId'', JStr oid)])))
              (\<lambda>_. sendPacket s RES_DELIVERY_COMPLETE (JObj
                [(''status'', JInt 500), (''orderId'', JStr oid), (''message'', JStr msg_internal_error)]))
          else sendPacket s RES_DELIVERY_COMPLETE (status_json 404 msg_order_not_found))))))
       (\<lambda>_. sendPacket s RES_DELIVERY_COMPLETE (status_json 500 msg_internal_error))"

definition handlePickup :: "env \<Rightarrow> sess_ref \<Rightarrow> string \<Rightarrow> unit io" where
  "handlePickup E s body =
     catchE
       (bindE (liftE (json_parse body)) (\<lambda>req.
        bindE (liftE (j_value get_string req ''orderId'' [])) (\<lambda>oid.
        getConnection E (\<lambda>c.
          bindE (executeUpdate E c (set_order_status E oid 2)) (\<lambda>_.
          thenE (sendPacket s RES_PICKUP (JObj [(''status'', JInt 200), (''orderId'', JStr oid)])) (
          bindE (getStoreIdByOrderId E oid) (\<lambda>storeId.
          bindE (getOwnerIdByStoreId E storeId) (\<lambda>ownerId.
          thenE (notify_user ownerId (state_notice oid 2 msg_pickup_owner)) (
          bindE (getCustomerIdByOrderId E oid) (\<lambda>customerId.
          notify_user customerId (state_notice oid 2 msg_pickup_customer)))))))))))
       (\<lambda>_. retE ())"

end
