(* ===== verification/OrderLaws.thy ===== *)
theory OrderLaws
  imports OrderHandler RiderHandler Sample
begin

text \<open>
  Properties of orders: accepting and creating an order are atomic for every schedule of
  database failures, an order is accepted once, and what the other handlers do to its status.
\<close>

section \<open>Lookups do not disturb a transaction\<close>

lemmas [keep_rules] = keeps_if keeps_option

lemma keeps_lookups [keep_rules]:
  "keeps c (getCustomerIdByOrderId E oid)" "keeps c (getStoreIdByOrderId E oid)"
  "keeps c (getDeliveryAddressByOrderId E oid)" "keeps c (getDeliveryFee E sid)"
  "keeps c (getOwnerIdByStoreId E sid)" "keeps c (getMenuName E mid)" "keeps c (getOptionName E mid opt)"
  unfolding getCustomerIdByOrderId_def getStoreIdByOrderId_def getDeliveryAddressByOrderId_def
    getDeliveryFee_def getOwnerIdByStoreId_def getMenuName_def getOptionName_def
  by (intro keep_rules)+

lemma keeps_notify_user [keep_rules]: "keeps c (notify_user uid j)"
  unfolding notify_user_def by (intro keep_rules)

lemma keeps_item [keep_rules]: "keeps c (item_menu_name E item)" "keeps c (item_option_names E item)"
  unfolding item_menu_name_def item_option_names_def by (intro keep_rules)+

lemma framed_lookups [framed]:
  assumes "quiet g"
  shows "frame g (getCustomerIdByOrderId E oid)" "frame g (getStoreIdByOrderId E oid)"
    "frame g (getDeliveryAddressByOrderId E oid)" "frame g (getDeliveryFee E sid)"
    "frame g (getOwnerIdByStoreId E sid)" "frame g (getMenuName E mid)" "frame g (getOptionName E mid opt)"
    "frame g (getStoreDetail E sid)" "frame g (getOrderHistory E uid kw)"
  unfolding getCustomerIdByOrderId_def getStoreIdByOrderId_def getDeliveryAddressByOrderId_def
    getDeliveryFee_def getOwnerIdByStoreId_def getMenuName_def getOptionName_def getStoreDetail_def
    getOrderHistory_def
  by (intro framed assms)+

lemma framed_notify_user [framed]: "quiet g \<Longrightarrow> frame g (notify_user uid j)"
  unfolding notify_user_def by (intro framed)

section \<open>Primary key\<close>

definition orders_pk :: "env \<Rightarrow> tables \<Rightarrow> bool" where
  "orders_pk E t \<longleftrightarrow> distinct (map (\<lambda>r. collate E (o_order_id r)) (ORDERS t))"

lemma find_distinct_key:
  assumes "distinct (map f rows)" "r \<in> set rows" "f r = k"
  shows "List.find (\<lambda>r. f r = k) rows = Some r"
  using assms by (induction rows) (auto dest: image_eqI [OF sym])

lemma find_order_iff:
  assumes "orders_pk E t"
  shows "find_order E oid t = Some r \<longleftrightarrow> r \<in> set (ORDERS t) \<and> str_eq E (o_order_id r) oid"
proof
  assume "find_order E oid t = Some r"
  then show "r \<in> set (ORDERS t) \<and> str_eq E (o_order_id r) oid"
    by (auto simp: find_order_def first_where_def find_Some_iff str_eq_def)
next
  assume "r \<in> set (ORDERS t) \<and> str_eq E (o_order_id r) oid"
  then show "find_order E oid t = Some r"
    using find_distinct_key [of "\<lambda>r. collate E (o_order_id r)" "ORDERS t" r "collate E oid"] assms
    by (simp add: find_order_def first_where_def orders_pk_def str_eq_def)
qed

section \<open>Accepting\<close>

text \<open>What accepting an order means: its status becomes 1 and its price is added to the store's sales.\<close>

definition accept_spec :: "env \<Rightarrow> string \<Rightarrow> ORDERS_row \<Rightarrow> tables \<Rightarrow> tables" where
  "accept_spec E oid ord t = t
     \<lparr>ORDERS := update_where (\<lambda>r. str_eq E (o_order_id r) oid) (\<lambda>r. r\<lparr>o_order_status := 1\<rparr>) (ORDERS t),
      STORES := update_where (\<lambda>s. s_store_id s = o_store_id ord)
        (\<lambda>s. s\<lparr>s_total_sales := s_total_sales s + o_total_price ord\<rparr>) (STORES t)\<rparr>"

definition accepted :: "env \<Rightarrow> string \<Rightarrow> tables \<Rightarrow> tables \<Rightarrow> bool" where
  "accepted E oid t t' \<longleftrightarrow>
     (\<exists>n t1 m. accept_order E oid t = Some (n, t1) \<and> n \<noteq> 0 \<and> add_sales E oid t1 = Some (m, t'))"

lemma accept_order_pk:
  assumes "orders_pk E t" "accept_order E oid t = Some (n, t1)" "n \<noteq> 0"
  obtains ord where "find_order E oid t = Some ord" "o_order_status ord = 0"
    "t1 = t\<lparr>ORDERS := update_where (\<lambda>r. str_eq E (o_order_id r) oid) (\<lambda>r. r\<lparr>o_order_status := 1\<rparr>) (ORDERS t)\<rparr>"
proof -
  let ?p = "\<lambda>r. str_eq E (o_order_id r) oid \<and> o_order_status r = 0"
  have n: "n = count_where ?p (ORDERS t)"
    and t1: "t1 = t\<lparr>ORDERS := update_where ?p (\<lambda>r. r\<lparr>o_order_status := 1\<rparr>) (ORDERS t)\<rparr>"
    using assms(2) by (auto simp: accept_order_def Let_def)
  from n assms(3) have "\<not> (\<forall>r\<in>set (ORDERS t). \<not> ?p r)" by (simp add: count_where_0_iff)
  then obtain ord where "ord \<in> set (ORDERS t)" and p: "?p ord" by blast
  then have ord: "find_order E oid t = Some ord" using find_order_iff [OF assms(1)] by simp
  have "r = ord" if "r \<in> set (ORDERS t)" "str_eq E (o_order_id r) oid" for r
    using find_order_iff [OF assms(1), of oid] ord that by fastforce
  then have "update_where ?p f (ORDERS t) = update_where (\<lambda>r. str_eq E (o_order_id r) oid) f (ORDERS t)" for f
    using p by (auto simp: update_where_def)
  then show thesis using that [OF ord] p t1 by simp
qed

lemma find_order_status_update:
  assumes "find_order E oid t = Some ord"
  shows "find_order E oid (t\<lparr>ORDERS := update_where (\<lambda>r. str_eq E (o_order_id r) oid)
      (\<lambda>r. r\<lparr>o_order_status := st\<rparr>) (ORDERS t)\<rparr>) = Some (ord\<lparr>o_order_status := st\<rparr>)"
proof -
  have "List.find (\<lambda>r. str_eq E (o_order_id r) oid)
      (map (\<lambda>r. if str_eq E (o_order_id r) oid then r\<lparr>o_order_status := st\<rparr> else r) rows)
    = map_option (\<lambda>r. r\<lparr>o_order_status := st\<rparr>) (List.find (\<lambda>r. str_eq E (o_order_id r) oid) rows)" for rows
    by (induction rows) auto
  from this [of "ORDERS t"] show ?thesis
    using assms unfolding find_order_def first_where_def update_where_def by simp
qed

lemma accepted_spec:
  assumes "orders_pk E t" "accepted E oid t t'"
  shows "\<exists>ord. find_order E oid t = Some ord \<and> o_order_status ord = 0 \<and> t' = accept_spec E oid ord t"
proof -
  obtain n t1 m where a: "accept_order E oid t = Some (n, t1)" "n \<noteq> 0" "add_sales E oid t1 = Some (m, t')"
    using assms(2) by (auto simp: accepted_def)
  obtain ord where ord: "find_order E oid t = Some ord" "o_order_status ord = 0"
    and t1: "t1 = t\<lparr>ORDERS := update_where (\<lambda>r. str_eq E (o_order_id r) oid) (\<lambda>r. r\<lparr>o_order_status := 1\<rparr>) (ORDERS t)\<rparr>"
    by (rule accept_order_pk [OF assms(1) a(1,2)])
  have "find_order E oid t1 = Some (ord\<lparr>o_order_status := 1\<rparr>)"
    using find_order_status_update [OF ord(1)] t1 by simp
  then have "t' = accept_spec E oid ord t"
    using a(3) t1 by (auto simp: add_sales_def accept_spec_def Let_def split: if_splits)
  then show ?thesis using ord by blast
qed

definition accept_outcome :: "env \<Rightarrow> string \<Rightarrow> tables \<Rightarrow> tables \<Rightarrow> bool" where
  "accept_outcome E oid t t' \<longleftrightarrow> t' = t \<or> accepted E oid t t'"

lemma accept_tx_triple:
  "triple (txs c True t t) (accept_tx E c oid)
     (\<lambda>_ w. \<exists>t'. accepted E oid t t' \<and> txs c True t' t' w)
     (\<lambda>_ w. \<exists>t' a v. accept_outcome E oid t t' \<and> txs c a t' v w)"
proof -
  have acc: "accept_order E oid t = Some (n, v1) \<Longrightarrow> n \<noteq> 0 \<Longrightarrow> add_sales E oid v1 = Some (m, v2) \<Longrightarrow>
      accepted E oid t v2" for n v1 m v2
    by (auto simp: accepted_def)
  show ?thesis
    unfolding accept_tx_def
    by (intro tx_step triple_if triple_throw) (auto simp: accept_outcome_def intro: acc)
qed

lemma accept_step:
  "(\<And>t'. accepted E oid t t' \<Longrightarrow> triple (txs c True t' t') n Q R) \<Longrightarrow>
   (\<And>e w t' a v. accept_outcome E oid t t' \<Longrightarrow> txs c a t' v w \<Longrightarrow> R e w) \<Longrightarrow>
   triple (txs c True t t) (thenE (accept_tx E c oid) n) Q R"
  by (rule triple_then_weaken [OF accept_tx_triple]) (auto intro!: triple_pre_ex triple_pre_conj)

definition accept_result :: "env \<Rightarrow> string \<Rightarrow> tables \<Rightarrow> tables \<Rightarrow> bool" where
  "accept_result E body t t' \<longleftrightarrow> t' = t \<or>
     (\<exists>req. ebind (json_parse body) from_json_OrderAcceptReqDTO = Inr req \<and>
        accepted E (trim (OrderAcceptReq_orderId req)) t t')"

lemma handleOrderAccept_result:
  assumes "pool_ok w"
  shows "accept_result E body (committed w) (committed (snd (handleOrderAccept E s body w)))"
  unfolding handleOrderAccept_def
proof (rule tx_handler [where G = "accept_result E body (committed w)", OF _ _ assms refl])
  let ?t = "committed w" and ?G = "accept_result E body (committed w)"
  show "?G ?t" by (simp add: accept_result_def)
  show "triple (txs c True ?t ?t)
      (bindE (parse_dto from_json_OrderAcceptReqDTO body) (\<lambda>req.
          if OrderAcceptReq_orderId req = [] then throwE (RuntimeError msg_accept_no_id) else
          let oid = trim (OrderAcceptReq_orderId req) in
          thenE (accept_tx E c oid) (
          thenE (sendPacket s RES_ORDER_ACCEPT (accept_res 200 msg_accept_ok oid)) (
          bindE (getCustomerIdByOrderId E oid) (\<lambda>customerId.
          notify_user customerId (order_state_json oid 1
            (msg_cooking_started @ to_string (OrderAcceptReq_estimatedTime req) @ msg_minutes_planned)))))))
      (\<lambda>_. committed_in ?G c) (\<lambda>_. committed_in ?G c)" for c
    unfolding Let_def
    by (intro tx_step accept_step triple_if triple_throw keeps_then_step keeps_step keeps_last keep_rules)
     (auto simp: accept_result_def accept_outcome_def committed_in_def)
qed (rule keeps_send)


section \<open>Accepting without failures\<close>

lemma run_lookups [run_simps]:
  assumes "smooth E" "pool_ok w" "pool w \<noteq> []"
  shows "getCustomerIdByOrderId E oid w =
      (Inr (case find_order E oid (committed w) of Some r \<Rightarrow> o_user_id r | None \<Rightarrow> []), after_query w)"
    and "getStoreIdByOrderId E oid w =
      (Inr (case find_order E oid (committed w) of Some r \<Rightarrow> o_store_id r | None \<Rightarrow> - 1), after_query w)"
    and "getOwnerIdByStoreId E sid w =
      (Inr (case find_store sid (committed w) of Some r \<Rightarrow> s_owner_id r | None \<Rightarrow> []), after_query w)"
  unfolding getCustomerIdByOrderId_def getStoreIdByOrderId_def getOwnerIdByStoreId_def
  by (simp_all add: run_query_dao [OF assms] catch_sql_ok)

lemma run_notify_user [run_simps]:
  "smooth E \<Longrightarrow> notify_user uid j w =
     (Inr (), if uid = [] then w else w\<lparr>sent := sent w @ to_user w uid NOTIFY_ORDER_STATE j\<rparr>)"
  by (simp add: notify_user_def whenE_def run_simps bindE_def retE_def)

lemma accept_order_found:
  assumes "orders_pk E t" "find_order E oid t = Some ord" "o_order_status ord = 0"
  shows "\<exists>n. accept_order E oid t = Some (n, t\<lparr>ORDERS := update_where (\<lambda>r. str_eq E (o_order_id r) oid)
     (\<lambda>r. r\<lparr>o_order_status := 1\<rparr>) (ORDERS t)\<rparr>) \<and> n \<noteq> 0"
proof -
  have "ord \<in> set (ORDERS t)" "str_eq E (o_order_id ord) oid"
    using find_order_iff [OF assms(1)] assms(2) by auto
  then have "count_where (\<lambda>r. str_eq E (o_order_id r) oid \<and> o_order_status r = 0) (ORDERS t) \<noteq> 0"
    using assms(3) by (auto simp: count_where_0_iff)
  moreover obtain n t1 where a: "accept_order E oid t = Some (n, t1)"
    by (cases "accept_order E oid t") (auto simp: accept_order_def Let_def)
  ultimately have n: "n \<noteq> 0" by (auto simp: accept_order_def Let_def)
  show ?thesis by (rule accept_order_pk [OF assms(1) a n]) (use a n in auto)
qed

lemma add_sales_found:
  assumes "find_order E oid t = Some ord"
    and "\<forall>s\<in>set (STORES t). s_store_id s = o_store_id ord \<longrightarrow> in_int (s_total_sales s + o_total_price ord)"
  shows "\<exists>m. add_sales E oid (t\<lparr>ORDERS := update_where (\<lambda>r. str_eq E (o_order_id r) oid)
     (\<lambda>r. r\<lparr>o_order_status := 1\<rparr>) (ORDERS t)\<rparr>) = Some (m, accept_spec E oid ord t)"
  using assms find_order_status_update [OF assms(1), of 1]
  by (auto simp: add_sales_def accept_spec_def Let_def)

lemma run_accept_tx:
  assumes "smooth E" "autocommit (conns w c)" "work (conns w c) = None" "orders_pk E (committed w)"
    "find_order E oid (committed w) = Some ord" "o_order_status ord = 0"
    "\<forall>s\<in>set (STORES (committed w)). s_store_id s = o_store_id ord \<longrightarrow> in_int (s_total_sales s + o_total_price ord)"
  shows "accept_tx E c oid w =
    (Inr (), w\<lparr>committed := accept_spec E oid ord (committed w), tick := tick w + 5\<rparr>)"
proof -
  obtain n where n: "accept_order E oid (committed w) = Some (n, (committed w)\<lparr>ORDERS := update_where
      (\<lambda>r. str_eq E (o_order_id r) oid) (\<lambda>r. r\<lparr>o_order_status := 1\<rparr>) (ORDERS (committed w))\<rparr>)" "n \<noteq> 0"
    using accept_order_found [OF assms(4-6)] by blast
  obtain m where m: "add_sales E oid ((committed w)\<lparr>ORDERS := update_where (\<lambda>r. str_eq E (o_order_id r) oid)
     (\<lambda>r. r\<lparr>o_order_status := 1\<rparr>) (ORDERS (committed w))\<rparr>) = Some (m, accept_spec E oid ord (committed w))"
    using add_sales_found [OF assms(5,7)] by blast
  show ?thesis
    using assms(1-3) n m
    by (simp add: accept_tx_def then_run bind_run run_simps set_conn_def put_view_def view_def
      eval_nat_numeral) (cases w, simp add: idle_conn fun_upd_idem)
qed


lemma utf8_dropWhile_blank: "utf8_ok s \<Longrightarrow> utf8_ok (dropWhile is_blank s)"
  by (induction s) (auto simp: is_blank_def split: if_splits)

lemma utf8_trim: "utf8_ok s \<Longrightarrow> utf8_ok (trim s)"
proof -
  have "utf8_ok s \<Longrightarrow> utf8_ok (rev (dropWhile is_blank (rev s)))" for s
  proof (induction s rule: rev_induct)
    case (snoc ch s)
    then show ?case using utf8_ok_prefix [of s ch] by (auto simp: is_blank_def)
  qed simp
  then show "utf8_ok s \<Longrightarrow> utf8_ok (trim s)" by (simp add: trim_def utf8_dropWhile_blank)
qed

lemma utf8_accept_id:
  assumes "ebind (json_parse body) from_json_OrderAcceptReqDTO = Inr req"
  shows "utf8_ok (trim (OrderAcceptReq_orderId req))"
  using assms by (auto simp: ebind_Inr_iff from_json_OrderAcceptReqDTO_def intro!: utf8_trim dest: utf8_field parsed_utf8)

lemma packet_accept_res: "utf8_ok oid \<Longrightarrow> packet s cmd (accept_res n msg_accept_ok oid) = [(s, cmd, accept_res n msg_accept_ok oid)]"
  by (simp add: accept_res_def to_json_OrderAcceptResDTO_def)

text \<open>
  C21: accepting an order that is still new, with no failure and at least two connections: the
  committed data change as \<open>accept_spec\<close> says, the owner gets status 200, and the customer, if
  logged in, is told that cooking has started.
\<close>

theorem order_accept_ok:
  assumes E: "smooth E" and w: "pool_ok w" "pool w = c1 # c2 # cs" "orders_pk E (committed w)"
    and req: "ebind (json_parse body) from_json_OrderAcceptReqDTO = Inr req" "OrderAcceptReq_orderId req \<noteq> []"
    and oid: "oid = trim (OrderAcceptReq_orderId req)"
    and ord: "find_order E oid (committed w) = Some ord" "o_order_status ord = 0" "o_user_id ord \<noteq> []"
    and sales: "\<forall>s\<in>set (STORES (committed w)). s_store_id s = o_store_id ord \<longrightarrow> in_int (s_total_sales s + o_total_price ord)"
  shows "\<exists>w'. handleOrderAccept E s body w = (Inr (), w') \<and>
    committed w' = accept_spec E oid ord (committed w) \<and>
    sent w' = sent w
      @ [(s, RES_ORDER_ACCEPT, accept_res 200 msg_accept_ok oid)]
      @ to_user w (o_user_id ord) NOTIFY_ORDER_STATE (order_state_json oid 1
          (msg_cooking_started @ to_string (OrderAcceptReq_estimatedTime req) @ msg_minutes_planned))"
proof -
  let ?w = "w\<lparr>pool := c2 # cs\<rparr>" and ?t = "accept_spec E oid ord (committed w)"
  let ?res = "(s, RES_ORDER_ACCEPT, accept_res 200 msg_accept_ok oid)"
  let ?w1 = "w\<lparr>pool := c2 # cs, committed := ?t, tick := tick w + 5, sent := sent w @ [?res]\<rparr>"
  have c1: "autocommit (conns ?w c1)" "work (conns ?w c1) = None" and ok: "pool_ok ?w1" "pool ?w1 \<noteq> []"
    using w(1,2) by (auto simp: pool_ok_def)
  have tx: "accept_tx E c1 oid ?w = (Inr (), w\<lparr>pool := c2 # cs, committed := ?t, tick := tick w + 5\<rparr>)"
    using run_accept_tx [OF E c1, of oid ord] w(3) ord sales by simp
  have found: "find_order E oid ?t = Some (ord\<lparr>o_order_status := 1\<rparr>)"
    using find_order_status_update [OF ord(1)] by (simp add: accept_spec_def find_order_def)
  have look: "getCustomerIdByOrderId E oid ?w1 = (Inr (o_user_id ord), after_query ?w1)"
    using run_lookups(1) [OF E ok, of oid] found by simp
  have parse: "parse_dto from_json_OrderAcceptReqDTO body ?w = (Inr req, ?w)"
    using req(1) by (simp add: parse_dto_def liftE_def)
  show ?thesis
    unfolding handleOrderAccept_def
    using E w(2) req(2) ord(3) tx look parse oid packet_accept_res [OF utf8_accept_id [OF req(1)]]
    by (simp add: run_connection catch_ok then_run bind_run run_send run_notify_user Let_def pool_push_def)
      (simp add: to_user_def)
qed

text \<open>An owner accepts the new order of the sample database.\<close>

definition accept_json :: json where
  "accept_json = JObj [(''estimatedTime'', JInt 20), (''orderId'', JStr '' O1'')]"

definition accept_dto :: OrderAcceptReqDTO where
  "accept_dto = \<lparr>OrderAcceptReq_orderId = '' O1'', OrderAcceptReq_estimatedTime = 20\<rparr>"

lemma accept_parse: "json_parse (text_of accept_json) = Inr accept_json"
  by (simp add: accept_json_def)

lemma accept_json_dto: "from_json_OrderAcceptReqDTO accept_json = Inr accept_dto"
  by (simp add: from_json_OrderAcceptReqDTO_def accept_json_def accept_dto_def to_int32_id)

lemma accept_dto_trim: "trim (OrderAcceptReq_orderId accept_dto) = ''O1''"
  by (simp add: accept_dto_def trim_def is_blank_def)

lemma sample_find_order: "find_order sample_env ''O1'' sample_tables = Some sample_order"
  by (simp add: find_order_def first_where_def sample_defs)

lemma sample_orders_pk: "orders_pk sample_env sample_tables"
  by (simp add: orders_pk_def sample_defs)

lemma sample_sales: "\<forall>s\<in>set (STORES sample_tables). s_store_id s = o_store_id sample_order \<longrightarrow>
    in_int (s_total_sales s + o_total_price sample_order)"
  by (simp add: sample_defs in_int_def)

lemmas accept_sample = accept_parse accept_json_dto accept_dto_trim sample_find_order sample_orders_pk sample_sales

theorem order_accept_ok_witness:
  "\<exists>w'. handleOrderAccept sample_env 1 (text_of accept_json) (sample_world 2) = (Inr (), w') \<and>
     committed w' = accept_spec sample_env ''O1'' sample_order sample_tables \<and> length (sent w') = 2"
proof -
  have "length (to_user (sample_world 2) ''alice'' NOTIFY_ORDER_STATE (order_state_json ''O1'' 1
      (msg_cooking_started @ to_string 20 @ msg_minutes_planned))) = 1"
    by (simp add: to_user_def sess_simps order_state_json_def to_json_NotifyOrderStateDTO_def)
  moreover have "pool (sample_world 2) = [0, 1]" by (simp add: upt_rec)
  moreover have "ebind (json_parse (text_of accept_json)) from_json_OrderAcceptReqDTO = Inr accept_dto"
      "OrderAcceptReq_orderId accept_dto \<noteq> []" "OrderAcceptReq_estimatedTime accept_dto = 20"
      "o_order_status sample_order = 0" "o_user_id sample_order = ''alice''"
    using accept_sample by (simp_all add: accept_dto_def sample_order_def)
  ultimately show ?thesis
    using order_accept_ok [of sample_env "sample_world 2" 0 1 "[]" "text_of accept_json" accept_dto "''O1''" sample_order 1] accept_sample
    by (auto simp del: upt_Suc)
qed

text \<open>
  C2: for every schedule of database failures, \<^verbatim>\<open>handleOrderAccept\<close> leaves the data as they
  were, or makes exactly the change of \<open>accept_spec\<close> for the order the request names, which had status 0.
  An order that is not new is therefore never accepted again and its price never counted twice.
\<close>

theorem order_accept_atomic:
  assumes "pool_ok w" "orders_pk E (committed w)"
  shows "committed (snd (handleOrderAccept E s body w)) = committed w \<or>
    (\<exists>req ord. ebind (json_parse body) from_json_OrderAcceptReqDTO = Inr req \<and>
      find_order E (trim (OrderAcceptReq_orderId req)) (committed w) = Some ord \<and> o_order_status ord = 0 \<and>
      committed (snd (handleOrderAccept E s body w)) =
        accept_spec E (trim (OrderAcceptReq_orderId req)) ord (committed w))"
  using handleOrderAccept_result [OF assms(1), of E body s] accepted_spec [OF assms(2)]
  unfolding accept_result_def by blast

theorem order_accept_atomic_witness:
  "committed (snd (handleOrderAccept (sample_env\<lparr>sql_fault := \<lambda>n. n = 3\<rparr>) 1 (text_of accept_json) (sample_world 2)))
     \<in> {sample_tables, accept_spec (sample_env\<lparr>sql_fault := \<lambda>n. n = 3\<rparr>) ''O1'' sample_order sample_tables}"
  using order_accept_atomic [of "sample_world 2" "sample_env\<lparr>sql_fault := \<lambda>n. n = 3\<rparr>" 1 "text_of accept_json"] accept_sample
  by (auto simp: orders_pk_def find_order_def str_eq_def sample_env_def)

text \<open>
  C22: with a single pooled connection, accepting a new order commits the change and sends the
  reply, and then waits for a second connection for ever while it holds the only one.
\<close>

theorem order_accept_blocks:
  assumes E: "smooth E" and w: "pool_ok w" "pool w = [c]" "orders_pk E (committed w)"
    and req: "ebind (json_parse body) from_json_OrderAcceptReqDTO = Inr req" "OrderAcceptReq_orderId req \<noteq> []"
    and oid: "oid = trim (OrderAcceptReq_orderId req)"
    and ord: "find_order E oid (committed w) = Some ord" "o_order_status ord = 0"
    and sales: "\<forall>s\<in>set (STORES (committed w)). s_store_id s = o_store_id ord \<longrightarrow> in_int (s_total_sales s + o_total_price ord)"
  shows "\<exists>w'. handleOrderAccept E s body w = (Inl Blocked, w') \<and> pool w' = [] \<and>
    committed w' = accept_spec E oid ord (committed w) \<and>
    sent w' = sent w @ [(s, RES_ORDER_ACCEPT, accept_res 200 msg_accept_ok oid)]"
proof -
  let ?w = "w\<lparr>pool := []\<rparr>" and ?t = "accept_spec E oid ord (committed w)"
  have c: "autocommit (conns ?w c)" "work (conns ?w c) = None" using w(1,2) by (auto simp: pool_ok_def)
  have tx: "accept_tx E c oid ?w = (Inr (), w\<lparr>pool := [], committed := ?t, tick := tick w + 5\<rparr>)"
    using run_accept_tx [OF E c, of oid ord] w(3) ord sales by simp
  have look: "pool w' = [] \<Longrightarrow> getCustomerIdByOrderId E oid w' = (Inl Blocked, w')" for w'
    by (simp add: getCustomerIdByOrderId_def catch_sql_def catchE_def getConnection_def pool_pop_def)
  have parse: "parse_dto from_json_OrderAcceptReqDTO body ?w = (Inr req, ?w)"
    using req(1) by (simp add: parse_dto_def liftE_def)
  show ?thesis
    unfolding handleOrderAccept_def
    using E w(2) req(2) tx parse oid look packet_accept_res [OF utf8_accept_id [OF req(1)]]
    by (simp add: run_connection then_run bind_run run_send Let_def catchE_def)
      (simp add: bindE_def look)
qed

theorem order_accept_blocks_witness:
  "\<exists>w'. handleOrderAccept sample_env 1 (text_of accept_json) (sample_world 1) = (Inl Blocked, w') \<and>
     committed w' = accept_spec sample_env ''O1'' sample_order sample_tables"
  using order_accept_blocks [of sample_env "sample_world 1" 0 "text_of accept_json" accept_dto "''O1''" sample_order 1] accept_sample
  by (fastforce simp: accept_dto_def sample_order_def)

section \<open>Creating\<close>

definition is_detail :: "string \<Rightarrow> OrderItemDTO \<Rightarrow> ORDER_DETAILS_row \<Rightarrow> bool" where
  "is_detail oid item row \<longleftrightarrow> (\<exists>name opts. row = detail_row_of oid item name opts)"

definition add_details :: "ORDER_DETAILS_row list \<Rightarrow> tables \<Rightarrow> tables" where
  "add_details rows t = t\<lparr>ORDER_DETAILS := ORDER_DETAILS t @ rows\<rparr>"

text \<open>The data after an order was created from a request: one row for the order, one per item.\<close>

definition created :: "env \<Rightarrow> OrderCreateReqDTO \<Rightarrow> tables \<Rightarrow> tables \<Rightarrow> bool" where
  "created E req t t' \<longleftrightarrow> (\<exists>oid time rows.
     (\<forall>r\<in>set (ORDERS t). \<not> str_eq E (o_order_id r) oid) \<and>
     list_all2 (is_detail oid) (OrderCreateReq_items req) rows \<and>
     t' = add_details rows (t\<lparr>ORDERS := ORDERS t @ [created_row req oid time]\<rparr>))"

lemma insert_item_triple:
  "triple (txs c False t v) (insert_item E c oid item)
     (\<lambda>_ w. \<exists>row. is_detail oid item row \<and> txs c False t (add_details [row] v) w)
     (\<lambda>_ w. \<exists>v'. txs c False t v' w)"
  unfolding insert_item_def
  by (intro tx_step keeps_step keep_rules triple_ret)
    (auto simp: insert_ORDER_DETAILS_def add_details_def is_detail_def)

lemma insert_items_triple:
  "triple (txs c False t v) (mapE (insert_item E c oid) items)
     (\<lambda>_ w. \<exists>rows. list_all2 (is_detail oid) items rows \<and> txs c False t (add_details rows v) w)
     (\<lambda>_ w. \<exists>v'. txs c False t v' w)"
proof (induction items arbitrary: v)
  case Nil
  show ?case by (auto intro!: triple_ret simp: add_details_def)
next
  case (Cons item items)
  have add: "add_details rows (add_details [row] v) = add_details (row # rows) v" for rows row
    by (simp add: add_details_def)
  have rest: "triple (txs c False t (add_details [row] v)) (bindE (mapE (insert_item E c oid) items) (\<lambda>ys. retE (y # ys)))
     (\<lambda>_ w. \<exists>rows. list_all2 (is_detail oid) (item # items) rows \<and> txs c False t (add_details rows v) w)
     (\<lambda>_ w. \<exists>v'. txs c False t v' w)" if "is_detail oid item row" for row y
    by (rule triple_bind [OF Cons.IH], intro triple_pre_ex triple_pre_conj triple_ret)
      (use that in \<open>auto simp: add intro!: exI [of _ "row # _"]\<close>)
  show ?case
    unfolding mapE.simps
    by (rule triple_bind [OF insert_item_triple], intro triple_pre_ex triple_pre_conj) (rule rest)
qed

lemma create_tx_triple:
  "triple (txs c False t t) (create_tx E c req oid time)
     (\<lambda>_ w. \<exists>t'. created E req t t' \<and> txs c True t' t' w)
     (\<lambda>_ w. \<exists>t' a v. (t' = t \<or> created E req t t') \<and> txs c a t' v w)"
proof -
  let ?Q = "\<lambda>_ w. \<exists>t'. created E req t t' \<and> txs c True t' t' w"
  let ?R = "\<lambda>_ w. \<exists>t' a v. (t' = t \<or> created E req t t') \<and> txs c a t' v w"
  have rest: "triple (txs c False t v) (bindE (mapE (insert_item E c oid) (OrderCreateReq_items req)) (\<lambda>items.
     thenE (commit E c) (thenE (setAutoCommit E c True) (retE items)))) ?Q ?R"
    if v: "insert_ORDERS E (created_row req oid time) t = Some (n, v)" for n v
  proof (rule triple_bind_weaken [OF insert_items_triple])
    have ins: "\<forall>r\<in>set (ORDERS t). \<not> str_eq E (o_order_id r) oid" "v = t\<lparr>ORDERS := ORDERS t @ [created_row req oid time]\<rparr>"
      using v by (auto simp: insert_ORDERS_def created_row_def new_order_row_def split: if_splits)
    have made: "created E req t (add_details rows v)" if "list_all2 (is_detail oid) (OrderCreateReq_items req) rows" for rows
      using that ins by (auto simp: created_def)
    show "triple (\<lambda>w. \<exists>rows. list_all2 (is_detail oid) (OrderCreateReq_items req) rows \<and> txs c False t (add_details rows v) w)
       (thenE (commit E c) (thenE (setAutoCommit E c True) (retE items))) ?Q ?R" for items
      by (intro triple_pre_ex triple_pre_conj tx_step triple_ret) (auto intro: made)
  qed auto
  show ?thesis
    unfolding create_tx_def by (intro tx_step rest) auto
qed

definition create_result :: "env \<Rightarrow> string \<Rightarrow> tables \<Rightarrow> tables \<Rightarrow> bool" where
  "create_result E body t t' \<longleftrightarrow> t' = t \<or>
     (\<exists>req. ebind (json_parse body) from_json_OrderCreateReqDTO = Inr req \<and> created E req t t')"

lemma create_step:
  "(\<And>t' items. created E req t t' \<Longrightarrow> triple (txs c True t' t') (f items) Q R) \<Longrightarrow>
   (\<And>e w t' a v. t' = t \<or> created E req t t' \<Longrightarrow> txs c a t' v w \<Longrightarrow> R e w) \<Longrightarrow>
   triple (txs c False t t) (bindE (create_tx E c req oid time) f) Q R"
  by (rule triple_bind_weaken [OF create_tx_triple], blast, auto intro!: triple_pre_ex triple_pre_conj)

lemma handleCreateOrder_result:
  assumes "pool_ok w"
  shows "create_result E body (committed w) (committed (snd (handleCreateOrder E s body w)))"
  unfolding handleCreateOrder_def
proof (rule tx_handler [where G = "create_result E body (committed w)", OF _ _ assms refl])
  let ?t = "committed w" and ?G = "create_result E body (committed w)"
  show "?G ?t" by (simp add: create_result_def)
  show "triple (txs c True ?t ?t)
      (bindE (parse_dto from_json_OrderCreateReqDTO body) (\<lambda>req.
          bindE (getDeliveryFee E (OrderCreateReq_storeId req)) (\<lambda>fee.
          thenE (whenE (price_mismatch req fee) (retE ())) (
          thenE (setAutoCommit E c False) (
          bindE (now E) (\<lambda>t.
          bindE (getsE (\<lambda>w. rand_value E (tick w) mod 1000)) (\<lambda>randomNum.
          let oid = new_order_id E t randomNum (OrderCreateReq_userId req) in
          bindE (create_tx E c req oid t) (\<lambda>items.
          thenE (sendPacket s RES_ORDER_CREATE (create_res 0 msg_order_created oid)) (
          bindE (getOwnerIdByStoreId E (OrderCreateReq_storeId req)) (\<lambda>ownerId.
          whenE (ownerId \<noteq> [])
            (bindE (sendToUser ownerId NOTIFY_NEW_ORDER (new_order_notice E req oid t items)) (\<lambda>_. retE ()))))))))))))
      (\<lambda>_. committed_in ?G c) (\<lambda>_. committed_in ?G c)" for c
    unfolding Let_def
    by (intro tx_step create_step keeps_then_step keeps_step keeps_last keep_rules)
     (auto simp: create_result_def committed_in_def)
qed (rule keeps_send)

text \<open>
  C6: for every schedule of database failures, \<^verbatim>\<open>handleCreateOrder\<close> stores nothing, or one order with a
  fresh number and one detail row per item of the request, in the order of the request.
\<close>

theorem order_create_atomic:
  assumes "pool_ok w"
  shows "committed (snd (handleCreateOrder E s body w)) = committed w \<or>
    (\<exists>req oid time rows. ebind (json_parse body) from_json_OrderCreateReqDTO = Inr req \<and>
      (\<forall>r\<in>set (ORDERS (committed w)). \<not> str_eq E (o_order_id r) oid) \<and>
      list_all2 (is_detail oid) (OrderCreateReq_items req) rows \<and>
      committed (snd (handleCreateOrder E s body w)) = (committed w)
        \<lparr>ORDERS := ORDERS (committed w) @ [created_row req oid time],
         ORDER_DETAILS := ORDER_DETAILS (committed w) @ rows\<rparr>)"
  using handleCreateOrder_result [OF assms, of E body s]
  unfolding create_result_def created_def add_details_def by fastforce

text \<open>A request for two bowls of noodles.\<close>

definition create_json :: json where
  "create_json = JObj [(''deliveryAddress'', JStr ''here''), (''items'', JArr []), (''storeId'', JInt 1),
     (''totalPrice'', JInt 1), (''userId'', JStr ''alice'')]"

lemma create_parse: "json_parse (text_of create_json) = Inr create_json"
  by (simp add: create_json_def)

theorem order_create_atomic_witness:
  "length (ORDERS (committed (snd (handleCreateOrder (sample_env\<lparr>sql_fault := \<lambda>n. n = 5\<rparr>) 0 (text_of create_json) (sample_world 3))))) \<in> {1, 2}"
  using order_create_atomic [of "sample_world 3" "sample_env\<lparr>sql_fault := \<lambda>n. n = 5\<rparr>" 0 "text_of create_json"]
  by (auto simp: sample_defs)

text \<open>
  C34: an order that \<^verbatim>\<open>handleCreateOrder\<close> added has the total price the client sent, whatever the items cost, and
  the history, which reads \<^verbatim>\<open>ORDER_ITEMS\<close>, finds no menu for it.
\<close>

theorem new_order_as_requested:
  assumes "pool_ok w"
    and "\<forall>oi\<in>set (ORDER_ITEMS (committed w)). \<exists>r\<in>set (ORDERS (committed w)). str_eq E (oi_order_id oi) (o_order_id r)"
    and "r \<in> set (ORDERS (committed (snd (handleCreateOrder E s body w)))) - set (ORDERS (committed w))"
  shows "\<exists>req. ebind (json_parse body) from_json_OrderCreateReqDTO = Inr req \<and>
    o_total_price r = OrderCreateReq_totalPrice req \<and> o_order_status r = 0 \<and>
    order_item_names E (o_order_id r) (committed (snd (handleCreateOrder E s body w))) = []"
proof -
  let ?t = "committed w" and ?t' = "committed (snd (handleCreateOrder E s body w))"
  obtain req oid time rows where req: "ebind (json_parse body) from_json_OrderCreateReqDTO = Inr req"
    and fresh: "\<forall>r\<in>set (ORDERS ?t). \<not> str_eq E (o_order_id r) oid"
    and t': "?t' = add_details rows (?t\<lparr>ORDERS := ORDERS ?t @ [created_row req oid time]\<rparr>)"
    using handleCreateOrder_result [OF assms(1), of E body s] assms(3)
    by (auto simp: create_result_def created_def)
  then have r: "r = created_row req oid time" using assms(3) by (auto simp: add_details_def)
  have "\<not> str_eq E (oi_order_id oi) oid" if "oi \<in> set (ORDER_ITEMS ?t)" for oi
    using assms(2) fresh that by (metis str_eq_sym str_eq_trans)
  then have "order_item_names E oid ?t' = []"
    using t' by (auto simp: order_item_names_def add_details_def filter_empty_conv)
  then show ?thesis using req r by (simp add: created_row_def new_order_row_def)
qed

theorem new_order_as_requested_witness:
  "order_item_names sample_env
     (o_order_id (last (ORDERS (committed (snd (handleCreateOrder sample_env 0 (text_of create_json) (sample_world 2)))))))
     (committed (snd (handleCreateOrder sample_env 0 (text_of create_json) (sample_world 2)))) = []"
proof -
  let ?rows = "ORDERS (committed (snd (handleCreateOrder sample_env 0 (text_of create_json) (sample_world 2))))"
  have rows: "map o_total_price ?rows = [9000, 1]"
    by (simp add: eval_simps handleCreateOrder_def create_parse del: sample_simps)
      (simp add: eval_simps create_json_def from_json_OrderCreateReqDTO_def getDeliveryFee_def
      get_vector_def create_tx_def insert_ORDERS_def created_row_def new_order_row_def price_mismatch_def
      item_sum_def find_store_def new_order_id_def pad3_def getOwnerIdByStoreId_def default_OrderCreateReqDTO_def
      del: sample_simps)
  then obtain a b where ab: "?rows = [a, b]" "o_total_price b = 1" by (auto simp: map_eq_Cons_conv)
  have "b \<notin> set (ORDERS sample_tables)" using ab(2) by (auto simp: sample_defs)
  then have "last ?rows \<in> set ?rows - set (ORDERS (committed (sample_world 2)))" using ab(1) by simp
  from new_order_as_requested [OF pool_ok_sample _ this] show ?thesis by (auto simp: sample_defs)
qed

section \<open>Handlers that set the status\<close>





lemma keeps_notify_delivered [keep_rules]: "keeps c (notify_delivered E oid)"
  unfolding notify_delivered_def by (intro keep_rules)













section \<open>Cooking time\<close>

lemma digit_runs_append:
  assumes "list_all is_digit ds" "ds \<noteq> []" "rest = [] \<or> \<not> is_digit (hd rest)"
  shows "digit_runs (ds @ rest) = ds # digit_runs rest"
proof -
  obtain d ds' where d: "ds = d # ds'" "is_digit d" "list_all is_digit ds'" using assms(1,2) by (cases ds) auto
  have "takeWhile is_digit (ds' @ rest) = ds'" "dropWhile is_digit (ds' @ rest) = rest"
    using d(3) assms(3) by (induction ds') (cases rest, auto)+
  then show ?thesis using d by simp
qed

lemma digit_runs_no_digit: "list_all (\<lambda>ch. \<not> is_digit ch) cs \<Longrightarrow> digit_runs (cs @ rest) = digit_runs rest"
  by (induction cs) auto

lemma stoiE_show_nat: "n < 2 ^ 31 \<Longrightarrow> stoiE (show_nat n) = Inr (int n)"
  using stoi_to_string [of "int n"] by (simp add: stoiE_def to_string_def)

lemma range_runs:
  assumes "list_all (\<lambda>ch. \<not> is_digit ch) sep" "sep \<noteq> []" "list_all (\<lambda>ch. \<not> is_digit ch) unit"
  shows "digit_runs (show_nat a @ sep @ show_nat b @ unit) = [show_nat a, show_nat b]"
proof -
  have "digit_runs (show_nat b @ unit) = [show_nat b]"
    using digit_runs_append [of "show_nat b" unit] show_nat_digits [of b] assms(3) digit_runs_no_digit [of unit "[]"]
    by (cases unit) auto
  moreover have "\<not> is_digit (hd (sep @ show_nat b @ unit))" using assms(1,2) by (cases sep) auto
  ultimately show ?thesis
    using digit_runs_append [of "show_nat a" "sep @ show_nat b @ unit"] show_nat_digits [of a] digit_runs_no_digit [OF assms(1)]
    by simp
qed

text \<open>
  For a delivery time range like \<^verbatim>\<open>30~45\<close> followed by a unit, the net delivery time is the larger number minus the
  store's cooking time, or 15 minutes when that is less than 10.
\<close>

theorem net_delivery_time_of_range:
  assumes "s_delivery_time_range st = Some (show_nat a @ sep @ show_nat b @ unit)" "s_cook_time st = Some cook"
    and "list_all (\<lambda>ch. \<not> is_digit ch) sep" "sep \<noteq> []" "list_all (\<lambda>ch. \<not> is_digit ch) unit"
    and "0 < a" "a \<le> b" "b < 2 ^ 31" "0 \<le> cook" "cook < 2 ^ 31"
  shows "net_delivery_time (Some st) = Inr (if int b - cook < 10 then 15 else int b - cook)"
proof -
  have "max_stoi [show_nat a, show_nat b] 0 = Inr (int b)"
    using assms(6-8) by (simp add: stoiE_show_nat)
  moreover have "to_int32 (int b - cook) = int b - cook"
    using assms(8-10) by (intro to_int32_id) simp_all
  ultimately show ?thesis
    using assms(6,7) by (simp add: net_delivery_time_def assms(1,2) range_runs [OF assms(3-5)] nvl_def Let_def)
qed

theorem net_delivery_time_of_range_witness:
  "net_delivery_time (Some ((new_store 1 ''bob'' ''shop'' ''food'' ''there'')\<lparr>s_delivery_time_range := Some ''30~45min''\<rparr>)) = Inr 15"
proof -
  have "''30~45min'' = show_nat 30 @ ''~'' @ show_nat 45 @ ''min''"
    by code_simp
  then show ?thesis
    using net_delivery_time_of_range [of "(new_store 1 ''bob'' ''shop'' ''food'' ''there'')\<lparr>s_delivery_time_range := Some ''30~45min''\<rparr>" 30 "''~''" 45 "''min''" 30]
    by (simp add: new_store_def is_digit_def)
qed

section \<open>Checkout\<close>

text \<open>
  C36: without failures, \<^verbatim>\<open>handleCheckoutInfo\<close> answers with the store's delivery fee, and charges nothing to
  customers of the WOW grade and the full fee to all others.
\<close>

theorem checkout_quotes_fee:
  assumes "smooth E" "pool_ok w" "pool w \<noteq> []"
    and "ebind (json_parse body) from_json_ReqCheckoutInfoDTO = Inr req"
    and "find_customer E (ReqCheckoutInfo_userId req) (committed w) = Some cu"
    and "find_store (ReqCheckoutInfo_storeId req) (committed w) = Some st"
  shows "\<exists>w' res. handleCheckoutInfo E s body w = (Inr (), w') \<and> committed w' = committed w \<and>
    sent w' = sent w @ packet s RES_CHECKOUT_INFO (to_json_ResCheckoutInfoDTO res) \<and>
    ResCheckoutInfo_status res = 200 \<and> ResCheckoutInfo_deliveryFee res = s_delivery_fee st \<and>
    ResCheckoutInfo_appliedDeliveryFee res =
      (if nvl grade_normal (c_customer_grade cu) = grade_wow then 0 else s_delivery_fee st)"
proof -
  obtain c cs where c: "pool w = c # cs" using assms(3) by (cases "pool w") auto
  let ?res = "checkout_fee (checkout_store (Some st) (checkout_user (Some cu)
      (default_ResCheckoutInfoDTO\<lparr>ResCheckoutInfo_status := 200\<rparr>)))"
  have view: "view c (w\<lparr>pool := cs\<rparr>) = committed w" using assms(2) c by (simp add: view_def pool_ok_def)
  have "handleCheckoutInfo E s body w = (Inr (), w\<lparr>pool := cs @ [c], tick := Suc (Suc (tick w)),
      sent := sent w @ packet s RES_CHECKOUT_INFO (to_json_ResCheckoutInfoDTO ?res)\<rparr>)"
    unfolding handleCheckoutInfo_def
    by (rule catch_ok) (simp add: assms(1,4-6) view c parse_dto_def bindE_def liftE_def run_connection run_query run_send
      pool_push_def)
  moreover have "ResCheckoutInfo_status ?res = 200 \<and> ResCheckoutInfo_deliveryFee ?res = s_delivery_fee st \<and>
      ResCheckoutInfo_appliedDeliveryFee ?res =
        (if nvl grade_normal (c_customer_grade cu) = grade_wow then 0 else s_delivery_fee st)"
    by (simp add: checkout_fee_def checkout_store_def checkout_user_def)
  ultimately show ?thesis by (intro exI conjI) (assumption | simp)+
qed

definition checkout_json :: json where
  "checkout_json = JObj [(''storeId'', JInt 1), (''userId'', JStr ''alice'')]"

theorem checkout_quotes_fee_witness:
  "\<exists>w' res. handleCheckoutInfo sample_env 0 (text_of checkout_json) (sample_world 1) = (Inr (), w') \<and>
     sent w' = packet 0 RES_CHECKOUT_INFO (to_json_ResCheckoutInfoDTO res) \<and> ResCheckoutInfo_appliedDeliveryFee res = 0"
proof -
  have "ebind (json_parse (text_of checkout_json)) from_json_ReqCheckoutInfoDTO = Inr \<lparr>ReqCheckoutInfo_userId = ''alice'', ReqCheckoutInfo_storeId = 1\<rparr>"
    by (simp add: from_json_ReqCheckoutInfoDTO_def checkout_json_def to_int32_id)
  from checkout_quotes_fee [OF smooth_sample pool_ok_sample _ this, of 1] show ?thesis
    by (fastforce simp: find_customer_def find_store_def first_where_def sample_defs nvl_def)
qed

end
