(* ===== verification/AddressHandler.thy ===== *)
theory AddressHandler
  imports World Messages Dto_Misc
begin

text \<open>
  \<^verbatim>\<open>server/src/database/AddressDAO.cpp\<close> and \<^verbatim>\<open>handler/AddressHandler.cpp\<close>: the delivery addresses of a
  user, one of which is the default and is copied to \<^verbatim>\<open>CUSTOMERS.address\<close>.
\<close>

section \<open>Statements\<close>

definition reset_default :: "env \<Rightarrow> string \<Rightarrow> tables \<Rightarrow> (int \<times> tables) option" where
  "reset_default E uid t =
     (let p = (\<lambda>a. str_eq E (a_user_id a) uid)
      in Some (count_where p (USER_ADDRESSES t),
           t\<lparr>USER_ADDRESSES := update_where p (\<lambda>a. a\<lparr>a_is_default := 0\<rparr>) (USER_ADDRESSES t)\<rparr>))"

definition insert_USER_ADDRESSES :: "ReqAddressSaveDTO \<Rightarrow> tables \<Rightarrow> (int \<times> tables) option" where
  "insert_USER_ADDRESSES dto t =
     Some (1, t\<lparr>USER_ADDRESSES := USER_ADDRESSES t @
       [\<lparr>a_address_id = next_id a_address_id (USER_ADDRESSES t), a_user_id = ReqAddressSave_userId dto,
         a_address = ReqAddressSave_address dto, a_detail = Some (ReqAddressSave_detail dto),
         a_guide = Some (ReqAddressSave_guide dto), a_label = Some (ReqAddressSave_label dto),
         a_is_default = 1\<rparr>]\<rparr>)"

text \<open>\<^verbatim>\<open>SELECT LAST_INSERT_ID()\<close> right after that insert\<close>

definition last_address_id :: "tables \<Rightarrow> int" where
  "last_address_id t = a_address_id (last (USER_ADDRESSES t))"

definition set_customer_address :: "env \<Rightarrow> string \<Rightarrow> string \<Rightarrow> tables \<Rightarrow> (int \<times> tables) option" where
  "set_customer_address E uid addr t =
     (let p = (\<lambda>r. str_eq E (c_user_id r) uid)
      in Some (count_where p (CUSTOMERS t),
           t\<lparr>CUSTOMERS := update_where p (\<lambda>r. r\<lparr>c_address := Some addr\<rparr>) (CUSTOMERS t)\<rparr>))"

definition own_address :: "env \<Rightarrow> string \<Rightarrow> int \<Rightarrow> USER_ADDRESSES_row \<Rightarrow> bool" where
  "own_address E uid addressId a \<longleftrightarrow> str_eq E (a_user_id a) uid \<and> a_address_id a = addressId"

definition set_default :: "env \<Rightarrow> string \<Rightarrow> int \<Rightarrow> tables \<Rightarrow> (int \<times> tables) option" where
  "set_default E uid addressId t =
     Some (count_where (own_address E uid addressId) (USER_ADDRESSES t),
       t\<lparr>USER_ADDRESSES := update_where (own_address E uid addressId) (\<lambda>a. a\<lparr>a_is_default := 1\<rparr>) (USER_ADDRESSES t)\<rparr>)"

definition delete_address :: "env \<Rightarrow> string \<Rightarrow> int \<Rightarrow> tables \<Rightarrow> (int \<times> tables) option" where
  "delete_address E uid addressId t =
     Some (count_where (own_address E uid addressId) (USER_ADDRESSES t),
       t\<lparr>USER_ADDRESSES := filter (\<lambda>a. \<not> own_address E uid addressId a) (USER_ADDRESSES t)\<rparr>)"

definition update_address :: "env \<Rightarrow> ReqAddressUpdateDTO \<Rightarrow> tables \<Rightarrow> (int \<times> tables) option" where
  "update_address E req t =
     (let p = own_address E (ReqAddressUpdate_userId req) (ReqAddressUpdate_addressId req)
      in Some (count_where p (USER_ADDRESSES t),
           t\<lparr>USER_ADDRESSES := update_where p (\<lambda>a. a\<lparr>a_detail := Some (ReqAddressUpdate_detail req),
              a_guide := Some (ReqAddressUpdate_guide req), a_label := Some (ReqAddressUpdate_label req)\<rparr>)
              (USER_ADDRESSES t)\<rparr>))"

section \<open>\<^verbatim>\<open>AddressDAO\<close>\<close>

definition saveAddress_tx :: "env \<Rightarrow> nat \<Rightarrow> ReqAddressSaveDTO \<Rightarrow> int io" where
  "saveAddress_tx E c dto =
     thenE (setAutoCommit E c False) (
     bindE (executeUpdate E c (reset_default E (ReqAddressSave_userId dto))) (\<lambda>_.
     bindE (executeUpdate E c (insert_USER_ADDRESSES dto)) (\<lambda>_.
     bindE (executeQuery E c last_address_id) (\<lambda>newId.
     bindE (executeUpdate E c (set_customer_address E (ReqAddressSave_userId dto)
       (ReqAddressSave_address dto @ '' '' @ ReqAddressSave_detail dto))) (\<lambda>_.
     thenE (commit E c) (
     thenE (setAutoCommit E c True) (
     retE newId)))))))"

definition saveAddress :: "env \<Rightarrow> ReqAddressSaveDTO \<Rightarrow> int io" where
  "saveAddress E dto =
     getConnection E (\<lambda>c.
       catchE (saveAddress_tx E c dto)
         (\<lambda>_. thenE (rollback E c) (
              thenE (setAutoCommit E c True) (
              retE (- 1)))))"

definition address_list_query :: "env \<Rightarrow> string \<Rightarrow> tables \<Rightarrow> USER_ADDRESSES_row list" where
  "address_list_query E uid t =
     order_by_desc a_is_default (order_by_desc a_address_id
       (filter (\<lambda>a. str_eq E (a_user_id a) uid) (USER_ADDRESSES t)))"

definition getAddressList :: "env \<Rightarrow> string \<Rightarrow> AddressItemDTO list io" where
  "getAddressList E uid =
     catch_sql (getConnection E (\<lambda>c.
       bindE (executeQuery E c (address_list_query E uid)) (\<lambda>rows.
       retE (map (\<lambda>a. \<lparr>AddressItem_addressId = a_address_id a, AddressItem_address = a_address a,
         AddressItem_detail = nvl [] (a_detail a), AddressItem_guide = nvl [] (a_guide a),
         AddressItem_label = nvl [] (a_label a), AddressItem_isDefault = (a_is_default a = 1)\<rparr>) rows))))
     (retE [])"

definition deleteAddress :: "env \<Rightarrow> string \<Rightarrow> int \<Rightarrow> bool io" where
  "deleteAddress E uid addressId =
     catch_sql (getConnection E (\<lambda>c.
       bindE (executeQuery E c (\<lambda>t. first_where (own_address E uid addressId) (USER_ADDRESSES t))) (\<lambda>rs.
       case rs of
         None \<Rightarrow> retE False
       | Some a \<Rightarrow>
           if a_is_default a = 1 then retE False
           else bindE (executeUpdate E c (delete_address E uid addressId)) (\<lambda>rows. retE (rows > 0)))))
     (retE False)"

definition setDefaultAddress :: "env \<Rightarrow> string \<Rightarrow> int \<Rightarrow> bool io" where
  "setDefaultAddress E uid addressId =
     catch_sql (getConnection E (\<lambda>c.
       bindE (executeUpdate E c (reset_default E uid)) (\<lambda>_.
       bindE (executeUpdate E c (set_default E uid addressId)) (\<lambda>rows.
       thenE (whenE (rows > 0)
         (bindE (executeQuery E c (\<lambda>t. first_where (\<lambda>a. a_address_id a = addressId) (USER_ADDRESSES t))) (\<lambda>rs.
          bindE (executeUpdate E c (set_customer_address E uid (nvl [] (map_option a_address rs)))) (\<lambda>_.
          retE ()))))
       (retE (rows > 0))))))
     (retE False)"

definition updateAddress :: "env \<Rightarrow> ReqAddressUpdateDTO \<Rightarrow> bool io" where
  "updateAddress E req =
     catch_sql (getConnection E (\<lambda>c.
       bindE (executeUpdate E c (update_address E req)) (\<lambda>rows. retE (rows > 0))))
     (retE False)"

section \<open>\<^verbatim>\<open>AddressHandler\<close>\<close>

definition push_address_list :: "env \<Rightarrow> sess_ref \<Rightarrow> string \<Rightarrow> unit io" where
  "push_address_list E s uid =
     bindE (getAddressList E uid) (\<lambda>addresses.
     sendPacket s RES_ADDRESS_LIST (to_json_ResAddressListDTO
       \<lparr>ResAddressList_status = 200, ResAddressList_addresses = addresses\<rparr>))"

definition address_save_res :: "int \<Rightarrow> int \<Rightarrow> json" where
  "address_save_res st aid = to_json_ResAddressSaveDTO
     \<lparr>ResAddressSave_status = st, ResAddressSave_addressId = aid\<rparr>"

definition handleAddressSave :: "env \<Rightarrow> sess_ref \<Rightarrow> string \<Rightarrow> unit io" where
  "handleAddressSave E s body =
     catchE
       (bindE (parse_dto from_json_ReqAddressSaveDTO body) (\<lambda>req.
        bindE (saveAddress E req) (\<lambda>newAddressId.
        if newAddressId > 0 then
          thenE (sendPacket s RES_ADDRESS_SAVE (address_save_res 200 newAddressId))
            (push_address_list E s (ReqAddressSave_userId req))
        else sendPacket s RES_ADDRESS_SAVE (address_save_res 500 0))))
       (\<lambda>_. sendPacket s RES_ADDRESS_SAVE (address_save_res 500 0))"

definition handleAddressList :: "env \<Rightarrow> sess_ref \<Rightarrow> string \<Rightarrow> unit io" where
  "handleAddressList E s body =
     catchE
       (bindE (parse_dto from_json_ReqAddressListDTO body) (\<lambda>req.
        push_address_list E s (ReqAddressList_userId req)))
       (\<lambda>_. sendPacket s RES_ADDRESS_LIST (to_json_ResAddressListDTO
         \<lparr>ResAddressList_status = 500, ResAddressList_addresses = []\<rparr>))"

definition handleAddressDelete :: "env \<Rightarrow> sess_ref \<Rightarrow> string \<Rightarrow> unit io" where
  "handleAddressDelete E s body =
     catchE
       (bindE (parse_dto from_json_ReqAddressDeleteDTO body) (\<lambda>req.
        bindE (deleteAddress E (ReqAddressDelete_userId req) (ReqAddressDelete_addressId req)) (\<lambda>success.
        thenE (sendPacket s RES_ADDRESS_DELETE (to_json_ResAddressDeleteDTO
          \<lparr>ResAddressDelete_status = (if success then 200 else 400)\<rparr>))
          (whenE success (push_address_list E s (ReqAddressDelete_userId req))))))
       (\<lambda>_. sendPacket s RES_ADDRESS_DELETE (to_json_ResAddressDeleteDTO \<lparr>ResAddressDelete_status = 500\<rparr>))"

definition handleAddressUpdate :: "env \<Rightarrow> sess_ref \<Rightarrow> string \<Rightarrow> unit io" where
  "handleAddressUpdate E s body =
     catchE
       (bindE (parse_dto from_json_ReqAddressUpdateDTO body) (\<lambda>req.
        bindE (updateAddress E req) (\<lambda>success.
        thenE (sendPacket s RES_ADDRESS_UPDATE (to_json_ResAddressUpdateDTO
          \<lparr>ResAddressUpdate_status = (if success then 200 else 400)\<rparr>))
          (whenE success (push_address_list E s (ReqAddressUpdate_userId req))))))
       (\<lambda>_. sendPacket s RES_ADDRESS_UPDATE (to_json_ResAddressUpdateDTO \<lparr>ResAddressUpdate_status = 500\<rparr>))"

definition handleAddressDefault :: "env \<Rightarrow> sess_ref \<Rightarrow> string \<Rightarrow> unit io" where
  "handleAddressDefault E s body =
     catchE
       (bindE (parse_dto from_json_ReqAddressDefaultDTO body) (\<lambda>req.
        bindE (setDefaultAddress E (ReqAddressDefault_userId req) (ReqAddressDefault_addressId req)) (\<lambda>success.
        thenE (sendPacket s RES_ADDRESS_DEFAULT (to_json_ResAddressDefaultDTO
          \<lparr>ResAddressDefault_status = (if success then 200 else 400)\<rparr>))
          (whenE success (push_address_list E s (ReqAddressDefault_userId req))))))
       (\<lambda>_. sendPacket s RES_ADDRESS_DEFAULT (to_json_ResAddressDefaultDTO \<lparr>ResAddressDefault_status = 500\<rparr>))"

end
