(* ===== verification/AddressLaws.thy ===== *)
theory AddressLaws
  imports AddressHandler Sample
begin

text \<open>
  Properties of delivery addresses: for every schedule of database failures the handlers keep
  address numbers unique and at most one default address per user, saving an address is all or
  nothing, and a default address is never deleted.
\<close>

section \<open>Invariant\<close>

definition is_default :: "USER_ADDRESSES_row \<Rightarrow> bool" where
  "is_default a \<longleftrightarrow> a_is_default a = 1"

definition address_owner :: "env \<Rightarrow> USER_ADDRESSES_row \<Rightarrow> string" where
  "address_owner E a = collate E (a_user_id a)"

definition addr_ok :: "env \<Rightarrow> tables \<Rightarrow> bool" where
  "addr_ok E t \<longleftrightarrow> distinct (map a_address_id (USER_ADDRESSES t)) \<and>
     distinct (map (address_owner E) (filter is_default (USER_ADDRESSES t)))"

definition no_default :: "env \<Rightarrow> string \<Rightarrow> tables \<Rightarrow> bool" where
  "no_default E uid t \<longleftrightarrow> (\<forall>a\<in>set (USER_ADDRESSES t). str_eq E (a_user_id a) uid \<longrightarrow> \<not> is_default a)"

lemma filter_update_reset:
  "filter is_default (update_where p (\<lambda>a. a\<lparr>a_is_default := 0\<rparr>) rows) = filter (\<lambda>a. is_default a \<and> \<not> p a) rows"
  by (induction rows) (auto simp: update_where_def is_default_def)

lemma distinct_map_filter_conj: "distinct (map f (filter P rows)) \<Longrightarrow> distinct (map f (filter (\<lambda>a. P a \<and> Q a) rows))"
  by (induction rows) (auto split: if_splits)

lemma reset_default_ok:
  assumes "addr_ok E t" "reset_default E uid t = Some (n, t')"
  shows "addr_ok E t'" "no_default E uid t'"
  using assms distinct_map_filter_conj [of "address_owner E" is_default "USER_ADDRESSES t" "\<lambda>a. \<not> str_eq E (a_user_id a) uid"]
  by (auto simp: reset_default_def addr_ok_def no_default_def map_update_where filter_update_reset Let_def)
    (auto simp: set_update_where is_default_def split: if_splits)

lemma set_default_distinct:
  assumes "distinct (map a_address_id rows)" "distinct (map (address_owner E) (filter is_default rows))"
    and "\<forall>a\<in>set rows. str_eq E (a_user_id a) uid \<longrightarrow> \<not> is_default a"
  shows "distinct (map (address_owner E) (filter is_default
    (update_where (own_address E uid aid) (\<lambda>a. a\<lparr>a_is_default := 1\<rparr>) rows)))"
  using assms
proof (induction rows)
  case (Cons a rows)
  show ?case
  proof (cases "own_address E uid aid a")
    case True
    then have "\<forall>b\<in>set rows. \<not> own_address E uid aid b" using Cons.prems(1)
      by (auto simp: own_address_def) (metis image_eqI)
    then have "update_where (own_address E uid aid) (\<lambda>a. a\<lparr>a_is_default := 1\<rparr>) rows = rows"
      by (intro update_where_none) blast
    then show ?thesis using True Cons.prems
      by (auto simp: update_where_def own_address_def address_owner_def str_eq_def)
  next
    case False
    have "\<forall>b\<in>set rows. is_default a \<longrightarrow> own_address E uid aid b \<longrightarrow> address_owner E a \<noteq> address_owner E b"
      using Cons.prems(3) by (auto simp: own_address_def address_owner_def str_eq_def)
    then show ?thesis using False Cons
      by (auto simp: update_where_def address_owner_def split: if_splits)
  qed
qed (simp add: update_where_def)

lemma set_default_ok:
  assumes "addr_ok E t" "no_default E uid t" "set_default E uid aid t = Some (n, t')"
  shows "addr_ok E t'"
  using assms set_default_distinct [of "USER_ADDRESSES t" E uid aid]
  by (auto simp: set_default_def addr_ok_def no_default_def map_update_where)

lemma insert_address_ok:
  assumes "addr_ok E t" "no_default E (ReqAddressSave_userId dto) t" "insert_USER_ADDRESSES dto t = Some (n, t')"
  shows "addr_ok E t'"
proof -
  have "next_id a_address_id (USER_ADDRESSES t) \<notin> a_address_id ` set (USER_ADDRESSES t)"
    using next_id_greater [of _ "USER_ADDRESSES t" a_address_id] by force
  then show ?thesis using assms
    by (auto simp: insert_USER_ADDRESSES_def addr_ok_def no_default_def is_default_def address_owner_def str_eq_def)
qed

lemma set_customer_address_ok:
  "addr_ok E t \<Longrightarrow> set_customer_address E uid addr t = Some (n, t') \<Longrightarrow> addr_ok E t'"
  by (auto simp: set_customer_address_def addr_ok_def Let_def)

lemma delete_address_ok:
  assumes "addr_ok E t" "delete_address E uid aid t = Some (n, t')"
  shows "addr_ok E t'"
  using assms distinct_map_filter_conj [of "address_owner E" is_default "USER_ADDRESSES t" "\<lambda>a. \<not> own_address E uid aid a"]
  by (auto simp: delete_address_def addr_ok_def distinct_map_filter conj_commute)

lemma update_address_ok: "addr_ok E t \<Longrightarrow> update_address E req t = Some (n, t') \<Longrightarrow> addr_ok E t'"
proof -
  have "filter is_default (update_where p (\<lambda>a. a\<lparr>a_detail := x, a_guide := y, a_label := z\<rparr>) rows)
      = update_where p (\<lambda>a. a\<lparr>a_detail := x, a_guide := y, a_label := z\<rparr>) (filter is_default rows)" for p x y z rows
    by (induction rows) (auto simp: update_where_def is_default_def)
  then show "addr_ok E t \<Longrightarrow> update_address E req t = Some (n, t') \<Longrightarrow> addr_ok E t'"
    by (auto simp: update_address_def addr_ok_def Let_def map_update_where address_owner_def)
qed


section \<open>The handlers keep the invariant\<close>

lemma reset_then_set_ok:
  "addr_ok E t \<Longrightarrow> reset_default E uid t = Some (n, t1) \<Longrightarrow> set_default E uid aid t1 = Some (m, t2) \<Longrightarrow> addr_ok E t2"
  using reset_default_ok set_default_ok by blast

lemma frame_address_list: "frame committed (getAddressList E uid)" "frame committed (push_address_list E s uid)"
  unfolding getAddressList_def push_address_list_def by (intro framed; simp)+

lemma customer_copy_ok:
  assumes "addr_ok E t"
  shows "triple (txs c True t t)
     (thenE (whenE b (bindE (executeQuery E c q) (\<lambda>rs.
        bindE (executeUpdate E c (set_customer_address E uid (g rs))) (\<lambda>_. retE ())))) (retE x))
     (\<lambda>_. committed_in (addr_ok E) c) (\<lambda>_. committed_in (addr_ok E) c)"
proof (rule triple_then [where Q' = "committed_in (addr_ok E) c"])
  show "triple (txs c True t t)
      (whenE b (bindE (executeQuery E c q) (\<lambda>rs. bindE (executeUpdate E c (set_customer_address E uid (g rs))) (\<lambda>_. retE ()))))
      (\<lambda>_. committed_in (addr_ok E) c) (\<lambda>_. committed_in (addr_ok E) c)"
    by (intro triple_when query_step update_then_keeps assms keep_rules)
      (auto intro: set_customer_address_ok [OF assms] committed_inI assms)
qed (rule triple_ret)

lemma setDefaultAddress_ok:
  assumes "addr_ok E t"
  shows "ends t (addr_ok E) (setDefaultAddress E uid aid)"
proof -
  have "triple (txs c True t t)
     (bindE (executeUpdate E c (reset_default E uid)) (\<lambda>_. bindE (executeUpdate E c (set_default E uid aid)) (\<lambda>rows.
       thenE (whenE (rows > 0) (bindE (executeQuery E c (\<lambda>t. first_where (\<lambda>a. a_address_id a = aid) (USER_ADDRESSES t))) (\<lambda>rs.
          bindE (executeUpdate E c (set_customer_address E uid (nvl [] (map_option a_address rs)))) (\<lambda>_. retE ()))))
       (retE (rows > 0)))))
     (\<lambda>_. committed_in (addr_ok E) c) (\<lambda>_. committed_in (addr_ok E) c)" for c
    by (intro auto_update_step customer_copy_ok)
      (auto intro: committed_inI assms reset_default_ok [OF assms] reset_then_set_ok [OF assms])
  then show ?thesis unfolding setDefaultAddress_def
    by (intro end_rules ends_connection assms frame_ret)
qed

lemma updateAddress_ok: "addr_ok E t \<Longrightarrow> ends t (addr_ok E) (updateAddress E req)"
  unfolding updateAddress_def
  by (intro end_rules ends_connection update_then_keeps keep_rules frame_ret) (auto intro: update_address_ok)

text \<open>Deleting removes at most one address, and not the default.\<close>

definition deleted :: "env \<Rightarrow> string \<Rightarrow> int \<Rightarrow> tables \<Rightarrow> tables \<Rightarrow> bool" where
  "deleted E uid aid t t' \<longleftrightarrow> t' = t \<or>
     (t' = t\<lparr>USER_ADDRESSES := filter (\<lambda>a. \<not> own_address E uid aid a) (USER_ADDRESSES t)\<rparr> \<and>
      (\<exists>a. first_where (own_address E uid aid) (USER_ADDRESSES t) = Some a \<and> \<not> is_default a))"

lemma deleteAddress_spec: "ends t (deleted E uid aid t) (deleteAddress E uid aid)"
proof -
  have "triple (txs c True t t)
       (bindE (executeQuery E c (\<lambda>t. first_where (own_address E uid aid) (USER_ADDRESSES t))) (\<lambda>rs.
       case rs of
         None \<Rightarrow> retE False
       | Some a \<Rightarrow>
           if a_is_default a = 1 then retE False
           else bindE (executeUpdate E c (delete_address E uid aid)) (\<lambda>rows. retE (rows > 0))))
     (\<lambda>_. committed_in (deleted E uid aid t) c) (\<lambda>_. committed_in (deleted E uid aid t) c)" for c
    by (rule query_step; cases "first_where (own_address E uid aid) (USER_ADDRESSES t)")
      (auto intro!: triple_ret update_then_keeps keep_rules
        intro: committed_inI simp: deleted_def delete_address_def is_default_def)
  then show ?thesis unfolding deleteAddress_def
    by (intro end_rules ends_connection frame_ret) (simp_all add: deleted_def)
qed

lemma deleted_ok: "addr_ok E t \<Longrightarrow> deleted E uid aid t t' \<Longrightarrow> addr_ok E t'"
  using delete_address_ok by (auto simp: deleted_def delete_address_def)

section \<open>Saving\<close>

definition save_spec :: "env \<Rightarrow> ReqAddressSaveDTO \<Rightarrow> tables \<Rightarrow> tables option" where
  "save_spec E dto t =
     Option.bind (reset_default E (ReqAddressSave_userId dto) t) (\<lambda>(_, t1).
     Option.bind (insert_USER_ADDRESSES dto t1) (\<lambda>(_, t2).
     Option.bind (set_customer_address E (ReqAddressSave_userId dto)
       (ReqAddressSave_address dto @ '' '' @ ReqAddressSave_detail dto) t2) (\<lambda>(_, t3). Some t3)))"

definition saved :: "env \<Rightarrow> ReqAddressSaveDTO \<Rightarrow> tables \<Rightarrow> tables \<Rightarrow> bool" where
  "saved E dto t t' \<longleftrightarrow> t' = t \<or> save_spec E dto t = Some t'"

lemma saveAddress_spec: "ends t (saved E dto t) (saveAddress E dto)"
proof -
  have "triple (txs c True t t) (saveAddress_tx E c dto)
      (\<lambda>_. committed_in (saved E dto t) c) (\<lambda>_. committed_in (saved E dto t) c)" for c
    unfolding saveAddress_tx_def
    by (intro tx_step triple_ret) (auto intro!: committed_inI simp: saved_def save_spec_def)
  then have "pool_ok w \<Longrightarrow> saved E dto (committed w) (committed (snd (saveAddress E dto w)))" if "committed w = t" for w
    using that unfolding saveAddress_def
    by (intro tx_handler [where G = "saved E dto (committed w)"] keep_rules) (auto simp: saved_def)
  then show ?thesis by (auto simp: ends_def)
qed

lemma saved_ok: "addr_ok E t \<Longrightarrow> saved E dto t t' \<Longrightarrow> addr_ok E t'"
  by (auto simp: saved_def save_spec_def split: Option.bind_splits)
    (metis insert_address_ok reset_default_ok set_customer_address_ok)

section \<open>Properties\<close>

lemma address_handlers:
  "addr_ok E t \<Longrightarrow> ends t (addr_ok E) (handleAddressDefault E s body)"
  "addr_ok E t \<Longrightarrow> ends t (addr_ok E) (handleAddressUpdate E s body)"
  unfolding handleAddressDefault_def handleAddressUpdate_def
  by (intro end_rules framed frame_address_list; simp add: setDefaultAddress_ok updateAddress_ok)+

definition save_result :: "env \<Rightarrow> string \<Rightarrow> tables \<Rightarrow> tables \<Rightarrow> bool" where
  "save_result E body t t' \<longleftrightarrow> t' = t \<or>
     (\<exists>req. ebind (json_parse body) from_json_ReqAddressSaveDTO = Inr req \<and> save_spec E req t = Some t')"

lemma handleAddressSave_result: "ends t (save_result E body t) (handleAddressSave E s body)"
  unfolding handleAddressSave_def
proof (intro ends_catch ends_parse)
  fix req assume "ebind (json_parse body) from_json_ReqAddressSaveDTO = Inr req"
  then have "ends t (save_result E body t) (saveAddress E req)"
    using saveAddress_spec [of t E req] by (auto simp: ends_def save_result_def saved_def)
  then show "ends t (save_result E body t) (bindE (saveAddress E req) (\<lambda>newAddressId. if newAddressId > 0
      then thenE (sendPacket s RES_ADDRESS_SAVE (address_save_res 200 newAddressId))
        (push_address_list E s (ReqAddressSave_userId req))
      else sendPacket s RES_ADDRESS_SAVE (address_save_res 500 0)))"
    by (intro ends_then framed frame_address_list) simp_all
qed (auto simp: save_result_def intro: framed)

definition delete_result :: "env \<Rightarrow> string \<Rightarrow> tables \<Rightarrow> tables \<Rightarrow> bool" where
  "delete_result E body t t' \<longleftrightarrow> t' = t \<or>
     (\<exists>req. ebind (json_parse body) from_json_ReqAddressDeleteDTO = Inr req \<and>
        deleted E (ReqAddressDelete_userId req) (ReqAddressDelete_addressId req) t t')"

lemma handleAddressDelete_result: "ends t (delete_result E body t) (handleAddressDelete E s body)"
  unfolding handleAddressDelete_def
proof (intro ends_catch ends_parse ends_then framed frame_address_list)
  fix req assume "ebind (json_parse body) from_json_ReqAddressDeleteDTO = Inr req"
  then show "ends t (delete_result E body t)
      (deleteAddress E (ReqAddressDelete_userId req) (ReqAddressDelete_addressId req))"
    using deleteAddress_spec [of t E "ReqAddressDelete_userId req" "ReqAddressDelete_addressId req"]
    by (auto simp: ends_def delete_result_def)
qed (simp_all add: delete_result_def)

text \<open>
  C26: whatever fails, the address handlers keep address numbers unique and at most one default
  address per user (under the collation of the database).
\<close>

theorem addresses_keep_one_default:
  assumes "pool_ok w" "addr_ok E (committed w)"
    and "h \<in> {handleAddressSave, handleAddressList, handleAddressDelete, handleAddressUpdate, handleAddressDefault}"
  shows "addr_ok E (committed (snd (h E s body w)))"
proof -
  have "frame committed (handleAddressList E s body)"
    unfolding handleAddressList_def by (intro framed frame_address_list; simp)
  then have "addr_ok E (committed (snd (handleAddressList E s body w)))"
    using frameD assms(2) by metis
  moreover have "addr_ok E (committed (snd (handleAddressSave E s body w)))"
    using endsD [OF handleAddressSave_result assms(1), of E body s] saved_ok [OF assms(2)] assms(2)
    by (auto simp: save_result_def saved_def)
  moreover have "addr_ok E (committed (snd (handleAddressDelete E s body w)))"
    using endsD [OF handleAddressDelete_result assms(1), of E body s] deleted_ok [OF assms(2)] assms(2)
    by (auto simp: delete_result_def)
  moreover note endsD [OF address_handlers(1) [OF assms(2)] assms(1), of s body]
    endsD [OF address_handlers(2) [OF assms(2)] assms(1), of s body]
  ultimately show ?thesis using assms(3) by auto
qed

lemma addr_ok_sample: "addr_ok sample_env sample_tables"
  by (simp add: addr_ok_def sample_defs is_default_def)

theorem addresses_keep_one_default_witness:
  "addr_ok sample_env (committed (snd (handleAddressDefault sample_env 0 [] (sample_world 1))))"
  by (rule addresses_keep_one_default) (simp_all add: addr_ok_sample)

text \<open>
  C28: a request to delete an address, whatever fails, changes no other table, never removes a default
  address and never one that the request does not name by number and owner.
\<close>

theorem default_address_not_deleted:
  assumes "pool_ok w" "addr_ok E (committed w)" "a \<in> set (USER_ADDRESSES (committed w))"
    and "a_is_default a = 1 \<or> ebind (json_parse body) from_json_ReqAddressDeleteDTO = Inr req \<and>
      \<not> own_address E (ReqAddressDelete_userId req) (ReqAddressDelete_addressId req) a"
  shows "a \<in> set (USER_ADDRESSES (committed (snd (handleAddressDelete E s body w)))) \<and>
    committed (snd (handleAddressDelete E s body w)) \<in> range (\<lambda>rows. (committed w)\<lparr>USER_ADDRESSES := rows\<rparr>)"
proof -
  have first: "b = a" if "first_where (own_address E uid aid) (USER_ADDRESSES (committed w)) = Some b"
      "own_address E uid aid a" for uid aid b
    using that assms(2,3)
    by (auto simp: addr_ok_def own_address_def distinct_map first_where_def find_Some_iff dest: inj_onD)
  show ?thesis
    using endsD [OF handleAddressDelete_result assms(1), of E body s] assms(3,4)
    by (auto dest: first simp: delete_result_def deleted_def is_default_def intro: range_eqI [where x = "USER_ADDRESSES (committed w)"])
qed

definition delete_json :: json where
  "delete_json = JObj [(''addressId'', JInt 5), (''userId'', JStr ''alice'')]"

theorem default_address_not_deleted_witness:
  "sample_address 5 1 \<in> set (USER_ADDRESSES (committed (snd
     (handleAddressDelete sample_env 0 (text_of delete_json) (sample_world 1)))))"
proof -
  have "sample_address 5 1 \<in> set (USER_ADDRESSES (committed (sample_world 1)))" "a_is_default (sample_address 5 1) = 1"
    by (simp_all add: sample_tables_def sample_address_def)
  then show ?thesis
    using default_address_not_deleted [of "sample_world 1" sample_env] addr_ok_sample by auto
qed

lemma save_spec_rows:
  assumes spec: "save_spec E req t = Some t'"
  shows "\<exists>a. a \<in> set (USER_ADDRESSES t') \<and> a_user_id a = ReqAddressSave_userId req \<and> a_address a = ReqAddressSave_address req \<and>
    a_address_id a \<notin> a_address_id ` set (USER_ADDRESSES t) \<and>
    filter (\<lambda>b. str_eq E (a_user_id b) (ReqAddressSave_userId req) \<and> is_default b) (USER_ADDRESSES t') = [a] \<and>
    filter (\<lambda>b. \<not> str_eq E (a_user_id b) (ReqAddressSave_userId req)) (USER_ADDRESSES t') =
      filter (\<lambda>b. \<not> str_eq E (a_user_id b) (ReqAddressSave_userId req)) (USER_ADDRESSES t) \<and>
    (\<forall>r\<in>set (CUSTOMERS t'). str_eq E (c_user_id r) (ReqAddressSave_userId req) \<longrightarrow>
      c_address r = Some (ReqAddressSave_address req @ '' '' @ ReqAddressSave_detail req))"
proof -
  let ?u = "ReqAddressSave_userId req"
  let ?rows = "update_where (\<lambda>a. str_eq E (a_user_id a) ?u) (\<lambda>a. a\<lparr>a_is_default := 0\<rparr>) (USER_ADDRESSES t)"
  obtain a where rows: "USER_ADDRESSES t' = ?rows @ [a]" and a: "a_user_id a = ?u" "a_address a = ReqAddressSave_address req"
      "a_address_id a = next_id a_address_id ?rows" "is_default a"
    and cust: "\<forall>r\<in>set (CUSTOMERS t'). str_eq E (c_user_id r) ?u \<longrightarrow>
      c_address r = Some (ReqAddressSave_address req @ '' '' @ ReqAddressSave_detail req)"
    using spec by (auto simp: save_spec_def reset_default_def insert_USER_ADDRESSES_def set_customer_address_def
      ball_update_where is_default_def Let_def)
  have "a_address_id a \<notin> a_address_id ` set (USER_ADDRESSES t)"
    unfolding a(3) by (rule next_id_fresh) (simp add: map_update_where)
  moreover have "filter (\<lambda>b. str_eq E (a_user_id b) ?u \<and> is_default b) ?rows = []"
    by (simp add: filter_empty_conv ball_update_where is_default_def)
  moreover have "filter (\<lambda>b. \<not> str_eq E (a_user_id b) ?u) ?rows = filter (\<lambda>b. \<not> str_eq E (a_user_id b) ?u) (USER_ADDRESSES t)"
    by (rule filter_update_others) simp
  ultimately show ?thesis using rows a cust by (intro exI [of _ a]) auto
qed

lemma run_saveAddress_tx:
  assumes "smooth E" "autocommit (conns w c)" "work (conns w c) = None" "save_spec E dto (committed w) = Some t"
  shows "\<exists>n aid. saveAddress_tx E c dto w = (Inr aid, w\<lparr>committed := t, tick := n\<rparr>)"
  using assms
  by (auto simp: saveAddress_tx_def save_spec_def then_run bind_run run_simps set_conn_def put_view_def view_def retE_def
    reset_default_def insert_USER_ADDRESSES_def set_customer_address_def Let_def)
   (cases w, auto simp: idle_conn fun_upd_idem)

lemma run_handleAddressSave:
  assumes "smooth E" "pool_ok w" "pool w \<noteq> []" "ebind (json_parse body) from_json_ReqAddressSaveDTO = Inr dto"
    and "save_spec E dto (committed w) = Some t"
  shows "committed (snd (handleAddressSave E s body w)) = t"
proof -
  obtain c cs where c: "pool w = c # cs" using assms(3) by (cases "pool w") auto
  obtain n aid where "saveAddress_tx E c dto (w\<lparr>pool := cs\<rparr>) = (Inr aid, w\<lparr>pool := cs, committed := t, tick := n\<rparr>)"
    using run_saveAddress_tx [of E "w\<lparr>pool := cs\<rparr>" c dto t] assms c by (auto simp: pool_ok_def)
  then have "committed (snd (saveAddress E dto w)) = t"
    using assms(1) c by (simp add: saveAddress_def run_connection catch_ok pool_push_def)
  then show ?thesis
    using assms(4) by (simp add: handleAddressSave_def catch_tail bind_tail framed frame_address_list parse_dto_def bindE_lift)
qed

text \<open>
  C27: saving an address adds one address with a new number that becomes the only default of its user, leaves the
  addresses of all other users as they were, and copies the text to the customer; if a failure prevents it, nothing changes.
\<close>

theorem address_save_atomic:
  assumes "pool_ok w" "ebind (json_parse body) from_json_ReqAddressSaveDTO = Inr req"
    and "committed (snd (handleAddressSave E s body w)) = t'"
  shows "(t' = committed w \<and> \<not> (smooth E \<and> pool w \<noteq> [])) \<or>
    (\<exists>a. a \<in> set (USER_ADDRESSES t') \<and> a_user_id a = ReqAddressSave_userId req \<and> a_address a = ReqAddressSave_address req \<and>
      a_address_id a \<notin> a_address_id ` set (USER_ADDRESSES (committed w)) \<and>
      filter (\<lambda>b. str_eq E (a_user_id b) (ReqAddressSave_userId req) \<and> is_default b) (USER_ADDRESSES t') = [a] \<and>
      filter (\<lambda>b. \<not> str_eq E (a_user_id b) (ReqAddressSave_userId req)) (USER_ADDRESSES t') =
        filter (\<lambda>b. \<not> str_eq E (a_user_id b) (ReqAddressSave_userId req)) (USER_ADDRESSES (committed w)) \<and>
      (\<forall>r\<in>set (CUSTOMERS t'). str_eq E (c_user_id r) (ReqAddressSave_userId req) \<longrightarrow>
        c_address r = Some (ReqAddressSave_address req @ '' '' @ ReqAddressSave_detail req)))"
proof -
  obtain t where t: "save_spec E req (committed w) = Some t"
    by (simp add: save_spec_def reset_default_def insert_USER_ADDRESSES_def set_customer_address_def Let_def)
  have "smooth E \<Longrightarrow> pool w \<noteq> [] \<Longrightarrow> save_spec E req (committed w) = Some t'"
    using run_handleAddressSave [OF _ assms(1) _ assms(2) t] t assms(3) by simp
  moreover have "t' = committed w \<or> save_spec E req (committed w) = Some t'"
    using endsD [OF handleAddressSave_result assms(1), of E body s] assms(2,3) by (auto simp: save_result_def)
  ultimately show ?thesis using save_spec_rows by blast
qed

definition save_json :: json where
  "save_json = JObj [(''address'', JStr ''road''), (''detail'', JStr ''2F''), (''guide'', JStr ''bell''),
     (''label'', JStr ''home''), (''userId'', JStr ''alice'')]"

theorem address_save_atomic_witness:
  "\<exists>a. filter (\<lambda>b. a_user_id b = ''alice'' \<and> is_default b) (USER_ADDRESSES (committed (snd
     (handleAddressSave sample_env 0 (text_of save_json) (sample_world 1))))) = [a] \<and> a_address a = ''road''"
proof -
  have req: "ebind (json_parse (text_of save_json)) from_json_ReqAddressSaveDTO = Inr \<lparr>ReqAddressSave_userId = ''alice'',
      ReqAddressSave_address = ''road'', ReqAddressSave_detail = ''2F'', ReqAddressSave_guide = ''bell'', ReqAddressSave_label = ''home''\<rparr>"
    by (simp add: from_json_ReqAddressSaveDTO_def save_json_def)
  from address_save_atomic [OF pool_ok_sample req refl, of sample_env 0 1] show ?thesis by auto
qed

text \<open>
  C40: making an address the default that the user does not have leaves the user without a default
  address, although the reply is 400.
\<close>

theorem unknown_default_clears:
  assumes "smooth E" "pool_ok w" "pool w \<noteq> []"
    and "ebind (json_parse body) from_json_ReqAddressDefaultDTO = Inr req"
    and none: "\<not> list_ex (own_address E (ReqAddressDefault_userId req) (ReqAddressDefault_addressId req)) (USER_ADDRESSES (committed w))"
  shows "\<exists>w'. handleAddressDefault E s body w = (Inr (), w') \<and> no_default E (ReqAddressDefault_userId req) (committed w') \<and>
    sent w' = sent w @ [(s, RES_ADDRESS_DEFAULT, to_json_ResAddressDefaultDTO \<lparr>ResAddressDefault_status = 400\<rparr>)]"
proof -
  let ?u = "ReqAddressDefault_userId req"
  let ?rows = "update_where (\<lambda>a. str_eq E (a_user_id a) ?u) (\<lambda>a. a\<lparr>a_is_default := 0\<rparr>) (USER_ADDRESSES (committed w))"
  obtain c cs where c: "pool w = c # cs" using assms(3) by (cases "pool w") auto
  have auto: "autocommit (conns w c)" using assms(2) c by (simp add: pool_ok_def)
  have "\<not> own_address E ?u (ReqAddressDefault_addressId req) a" if "a \<in> set ?rows" for a
    using that none by (auto simp: update_where_def own_address_def list_ex_iff)
  then have set: "count_where (own_address E ?u (ReqAddressDefault_addressId req)) ?rows = 0"
    "update_where (own_address E ?u (ReqAddressDefault_addressId req)) (\<lambda>a. a\<lparr>a_is_default := 1\<rparr>) ?rows = ?rows"
    by (auto simp: count_where_def filter_empty_conv intro: update_where_none)
  have "handleAddressDefault E s body w = (Inr (), w\<lparr>pool := cs @ [c], tick := Suc (Suc (tick w)),
      committed := (committed w)\<lparr>USER_ADDRESSES := ?rows\<rparr>,
      sent := sent w @ [(s, RES_ADDRESS_DEFAULT, to_json_ResAddressDefaultDTO \<lparr>ResAddressDefault_status = 400\<rparr>)]\<rparr>)"
    unfolding handleAddressDefault_def
    by (rule catch_ok) (simp add: assms(1,4) c auto set parse_dto_def bindE_def liftE_def run_connection run_update run_send
      setDefaultAddress_def catch_sql_def catchE_def thenE_def whenE_def retE_def reset_default_def set_default_def view_def
      put_view_def pool_push_def Let_def to_json_ResAddressDefaultDTO_def)
  moreover have "no_default E ?u ((committed w)\<lparr>USER_ADDRESSES := ?rows\<rparr>)"
    by (simp add: no_default_def ball_update_where is_default_def)
  ultimately show ?thesis by simp
qed

definition default_json :: json where
  "default_json = JObj [(''addressId'', JInt 9), (''userId'', JStr ''alice'')]"

theorem unknown_default_clears_witness:
  "\<exists>w'. handleAddressDefault sample_env 0 (text_of default_json) (sample_world 1) = (Inr (), w') \<and>
     no_default sample_env ''alice'' (committed w') \<and>
     \<not> no_default sample_env ''alice'' sample_tables"
proof -
  have "ebind (json_parse (text_of default_json)) from_json_ReqAddressDefaultDTO = Inr \<lparr>ReqAddressDefault_userId = ''alice'', ReqAddressDefault_addressId = 9\<rparr>"
    by (simp add: from_json_ReqAddressDefaultDTO_def default_json_def to_int32_id)
  from unknown_default_clears [OF smooth_sample pool_ok_sample _ this, of 1] show ?thesis
    by (fastforce simp: own_address_def no_default_def is_default_def sample_defs)
qed

end
