(* ===== verification/StoreHandler.thy ===== *)
theory StoreHandler
  imports OrderHandler
begin

text \<open>
  \<^verbatim>\<open>server/src/handler/StoreHandler.cpp\<close> and \<^verbatim>\<open>MenuHandler.cpp\<close>: store lists and pages, and the changes
  an owner makes to a store or its menus.  A statement the source assembles from the members
  of the request is a list of column changes here.
\<close>

section \<open>Lists and pages\<close>

definition store_list_res :: "int \<Rightarrow> TopStoreInfo list \<Rightarrow> json" where
  "store_list_res st stores = to_json_StoreListResDTO
     \<lparr>StoreListRes_status = st, StoreListRes_message = [], StoreListRes_stores = stores\<rparr>"

text \<open>The reply is also dumped to the log, which fails if it cannot be dumped.\<close>

definition handleStoreListRequest :: "env \<Rightarrow> sess_ref \<Rightarrow> string \<Rightarrow> unit io" where
  "handleStoreListRequest E s body =
     catchE
       (bindE (parse_dto from_json_StoreListReqDTO body) (\<lambda>req.
        bindE (if StoreListReq_categoryId req = 0 \<and> StoreListReq_brandName req = []
               then getAllStores E
               else getStoresByCategory E (StoreListReq_categoryId req) (StoreListReq_brandName req)) (\<lambda>stores.
        bindE (liftE (json_dump_indent 4 (store_list_res 200 stores))) (\<lambda>_.
        sendPacket s RES_STORE_LIST (store_list_res 200 stores)))))
       (\<lambda>_. sendPacket s RES_STORE_LIST (store_list_res 500 []))"

definition handleStoreDetailReq :: "env \<Rightarrow> sess_ref \<Rightarrow> string \<Rightarrow> unit io" where
  "handleStoreDetailReq E s body =
     catchE
       (bindE (parse_dto from_json_ReqStoreDetailDTO body) (\<lambda>req.
        if ReqStoreDetail_storeId req = 0
        then sendPacket s RES_STORE_DETAIL (status_json 400 msg_storeId_missing) else
        bindE (getStoreDetail E (ReqStoreDetail_storeId req)) (\<lambda>detail.
        sendPacket s RES_STORE_DETAIL (to_json_ResStoreDetailDTO detail))))
       (\<lambda>_. sendPacket s RES_STORE_DETAIL (status_json 500 msg_internal_error))"

section \<open>Changing a store\<close>

datatype store_change =
    SetStoreName string
  | SetCategory string
  | SetStoreAddress string
  | SetCookTime string
  | SetDeliveryFee int
  | SetMinOrderAmountInt int
  | SetMinOrderAmountText string
  | SetOpenTime string
  | SetCloseTime string

datatype user_change =
    SetUserName string
  | SetPhoneNumber string

text \<open>\<^verbatim>\<open>if (req.contains(key)) { ... push_back(f(req[key])) }\<close>\<close>

definition change_if :: "json \<Rightarrow> string \<Rightarrow> (json \<Rightarrow> exn + 'a) \<Rightarrow> exn + 'a list" where
  "change_if req key f =
     (case req of
        JObj kvs \<Rightarrow> (case map_of kvs key of None \<Rightarrow> Inr [] | Some v \<Rightarrow> ebind (f v) (\<lambda>x. Inr [x]))
      | _ \<Rightarrow> Inr [])"

definition str_change :: "(string \<Rightarrow> 'a) \<Rightarrow> json \<Rightarrow> exn + 'a" where
  "str_change f v = ebind (get_string v) (\<lambda>x. Inr (f x))"

fun min_order_change :: "json \<Rightarrow> exn + store_change" where
  "min_order_change (JInt i) = Inr (SetMinOrderAmountInt (to_int32 i))"
| "min_order_change (JFloat x) = Inr (SetMinOrderAmountInt (to_int32 (trunc_rat x)))"
| "min_order_change v = str_change SetMinOrderAmountText v"

definition econcat :: "(exn + 'a list) list \<Rightarrow> exn + 'a list" where
  "econcat xs = ebind (emap (\<lambda>x. x) xs) (\<lambda>ys. Inr (concat ys))"

definition store_changes :: "json \<Rightarrow> exn + store_change list" where
  "store_changes req = econcat
     [change_if req ''storeName'' (str_change SetStoreName),
      change_if req ''category'' (str_change SetCategory),
      change_if req ''storeAddress'' (str_change SetStoreAddress),
      change_if req ''cookTime'' (str_change SetCookTime),
      change_if req ''deliveryFee'' (\<lambda>v. ebind (get_int v) (\<lambda>i. Inr (SetDeliveryFee i))),
      change_if req ''minOrderAmount'' min_order_change,
      change_if req ''openTime'' (str_change SetOpenTime),
      change_if req ''closeTime'' (str_change SetCloseTime)]"

definition user_changes :: "json \<Rightarrow> exn + user_change list" where
  "user_changes req = econcat
     [change_if req ''ownerName'' (str_change SetUserName),
      change_if req ''ownerPhone'' (str_change SetPhoneNumber)]"

definition owner_changes :: "json \<Rightarrow> exn + string list" where
  "owner_changes req = change_if req ''accountNumber'' get_string"

fun change_store :: "env \<Rightarrow> store_change \<Rightarrow> STORES_row \<Rightarrow> STORES_row option" where
  "change_store E (SetStoreName x) s = Some (s\<lparr>s_store_name := x\<rparr>)"
| "change_store E (SetCategory x) s = Some (s\<lparr>s_category := x\<rparr>)"
| "change_store E (SetStoreAddress x) s = Some (s\<lparr>s_store_address := Some x\<rparr>)"
| "change_store E (SetCookTime x) s = map_option (\<lambda>i. s\<lparr>s_cook_time := Some i\<rparr>) (sql_int E x)"
| "change_store E (SetDeliveryFee i) s = Some (s\<lparr>s_delivery_fee := i\<rparr>)"
| "change_store E (SetMinOrderAmountInt i) s = Some (s\<lparr>s_min_order_amount := Some i\<rparr>)"
| "change_store E (SetMinOrderAmountText x) s = map_option (\<lambda>i. s\<lparr>s_min_order_amount := Some i\<rparr>) (sql_int E x)"
| "change_store E (SetOpenTime x) s = Some (s\<lparr>s_open_time := Some x\<rparr>)"
| "change_store E (SetCloseTime x) s = Some (s\<lparr>s_close_time := Some x\<rparr>)"

fun change_user :: "user_change \<Rightarrow> USERS_row \<Rightarrow> USERS_row" where
  "change_user (SetUserName x) u = u\<lparr>u_user_name := x\<rparr>"
| "change_user (SetPhoneNumber x) u = u\<lparr>u_phone_number := x\<rparr>"

fun change_all :: "('c \<Rightarrow> 'r \<Rightarrow> 'r option) \<Rightarrow> 'c list \<Rightarrow> 'r \<Rightarrow> 'r option" where
  "change_all f [] r = Some r"
| "change_all f (x # xs) r = Option.bind (f x r) (change_all f xs)"

definition update_store :: "env \<Rightarrow> store_change list \<Rightarrow> int \<Rightarrow> tables \<Rightarrow> (int \<times> tables) option" where
  "update_store E chs storeId t =
     (let p = (\<lambda>s. s_store_id s = storeId)
      in if \<exists>s\<in>set (STORES t). p s \<and> change_all (change_store E) chs s = None then None
         else Some (count_where p (STORES t),
           t\<lparr>STORES := update_where p (\<lambda>s. nvl s (change_all (change_store E) chs s)) (STORES t)\<rparr>))"

text \<open>A phone number that another user has violates the \<^verbatim>\<open>UNIQUE\<close> key.\<close>

definition update_user :: "env \<Rightarrow> user_change list \<Rightarrow> string \<Rightarrow> tables \<Rightarrow> (int \<times> tables) option" where
  "update_user E chs uid t =
     (let p = (\<lambda>u. str_eq E (u_user_id u) uid);
          f = fold change_user chs
      in if \<exists>u\<in>set (USERS t). \<exists>u'\<in>set (USERS t). p u \<and> \<not> p u' \<and> str_eq E (u_phone_number (f u)) (u_phone_number u')
         then None
         else Some (count_where p (USERS t), t\<lparr>USERS := update_where p f (USERS t)\<rparr>))"

definition update_owner :: "env \<Rightarrow> string list \<Rightarrow> string \<Rightarrow> tables \<Rightarrow> (int \<times> tables) option" where
  "update_owner E accs uid t =
     (let p = (\<lambda>ow. str_eq E (ow_user_id ow) uid)
      in Some (count_where p (OWNERS t),
           t\<lparr>OWNERS := update_where p (fold (\<lambda>x ow. ow\<lparr>ow_account_number := Some x\<rparr>) accs) (OWNERS t)\<rparr>))"

text \<open>Three statements, each committed on its own, up to the first that fails.\<close>

definition store_info_update :: "env \<Rightarrow> sess_ref \<Rightarrow> int \<Rightarrow> store_change list \<Rightarrow> user_change list \<Rightarrow> string list \<Rightarrow> bool io" where
  "store_info_update E s storeId stores users owners =
     bindE (if stores \<noteq> [] then dao_executeUpdate E (update_store E stores storeId) else retE True) (\<lambda>ok1.
     bindE (session_field sess_userId s) (\<lambda>uid.
     bindE (if ok1 \<and> users \<noteq> [] then dao_executeUpdate E (update_user E users uid) else retE ok1) (\<lambda>ok2.
     if ok2 \<and> owners \<noteq> [] then dao_executeUpdate E (update_owner E owners uid) else retE ok2)))"

definition handleStoreInfoUpdateReq :: "env \<Rightarrow> sess_ref \<Rightarrow> string \<Rightarrow> unit io" where
  "handleStoreInfoUpdateReq E s body =
     catchE
       (bindE (liftE (json_parse body)) (\<lambda>req.
        bindE (liftE (j_value get_int req ''storeId'' 0)) (\<lambda>storeId.
        if storeId = 0 then sendPacket s RES_STORE_INFO_UPDATE (status_json 400 msg_no_storeId) else
        bindE (liftE (store_changes req)) (\<lambda>stores.
        bindE (liftE (user_changes req)) (\<lambda>users.
        bindE (liftE (owner_changes req)) (\<lambda>owners.
        if stores = [] \<and> users = [] \<and> owners = []
        then sendPacket s RES_STORE_INFO_UPDATE (status_json 400 msg_nothing_changed) else
        bindE (store_info_update E s storeId stores users owners) (\<lambda>success.
        sendPacket s RES_STORE_INFO_UPDATE
          (if success then status_json 200 msg_saved else status_json 500 msg_db_error))))))))
       (\<lambda>_. sendPacket s RES_STORE_INFO_UPDATE (status_json 500 msg_internal_error))"

definition set_store_status :: "int \<Rightarrow> int \<Rightarrow> tables \<Rightarrow> (int \<times> tables) option" where
  "set_store_status storeId status t =
     (let p = (\<lambda>s. s_store_id s = storeId)
      in Some (count_where p (STORES t), t\<lparr>STORES := update_where p (\<lambda>s. s\<lparr>s_status := status\<rparr>) (STORES t)\<rparr>))"

definition handleStoreStatusSet :: "env \<Rightarrow> sess_ref \<Rightarrow> string \<Rightarrow> unit io" where
  "handleStoreStatusSet E s body =
     catchE
       (bindE (liftE (json_parse body)) (\<lambda>req.
        bindE (liftE (j_value get_int req ''storeId'' 0)) (\<lambda>storeId.
        bindE (liftE (j_value get_int req ''status'' (- 1))) (\<lambda>status.
        if storeId = 0 \<or> status = - 1 then sendPacket s RES_STORE_STATUS_SET (status_json 400 msg_status_args) else
        bindE (dao_executeUpdate E (set_store_status storeId status)) (\<lambda>success.
        sendPacket s RES_STORE_STATUS_SET
          (if success then status_json 200 msg_status_changed else status_json 500 msg_db_error))))))
       (\<lambda>_. sendPacket s RES_STORE_STATUS_SET (status_json 500 msg_internal_error))"

section \<open>\<^verbatim>\<open>MenuHandler\<close>\<close>

definition menu_json :: "MENUS_row \<Rightarrow> json" where
  "menu_json m = JObj
     [(''menuId'', JInt (m_menu_id m)), (''menuName'', JStr (m_menu_name m)),
      (''basePrice'', JInt (m_base_price m)), (''isSoldOut'', JBool (m_is_sold_out m \<noteq> 0)),
      (''menuCategory'', JStr (nvl [] (m_menu_category m))), (''isPopular'', JBool (m_is_popular m \<noteq> 0)),
      (''description'', JStr (nvl [] (m_description m))), (''imageUrl'', JStr (nvl [] (m_image_url m))),
      (''optionGroups'', parse_or_array (nvl ''[]'' (m_menu_options m)))]"

definition handleMenuListRequest :: "env \<Rightarrow> sess_ref \<Rightarrow> string \<Rightarrow> unit io" where
  "handleMenuListRequest E s body =
     bindE (liftE (json_parse body)) (\<lambda>req.
     catchE
       (bindE (liftE (j_value get_int req ''storeId'' 0)) (\<lambda>storeId.
        getConnection E (\<lambda>c.
          bindE (executeQuery E c (menus_of_store storeId)) (\<lambda>rows.
          sendPacket s RES_MENU_LIST (JObj
            [(''status'', JInt 200), (''message'', JStr msg_query_ok), (''storeId'', JInt storeId),
             (''menus'', JArr (map menu_json rows))])))))
       (\<lambda>_. sendPacket s RES_MENU_LIST (status_json 500 msg_internal_error)))"

record menu_input =
  mi_name :: string
  mi_price :: int
  mi_category :: string
  mi_popular :: bool
  mi_description :: string
  mi_sold_out :: bool
  mi_options :: string

text \<open>\<^verbatim>\<open>menuData.contains("optionGroups") ? menuData["optionGroups"].dump() : "[]"\<close>\<close>

definition dumped_options :: "json \<Rightarrow> exn + string" where
  "dumped_options md =
     (case md of
        JObj kvs \<Rightarrow> (case map_of kvs ''optionGroups'' of Some v \<Rightarrow> json_dump v | None \<Rightarrow> Inr ''[]'')
      | _ \<Rightarrow> Inr ''[]'')"

definition menu_input_of :: "bool \<Rightarrow> json \<Rightarrow> exn + menu_input" where
  "menu_input_of with_sold_out md =
     ebind (j_value get_string md ''menuName'' []) (\<lambda>name.
     ebind (j_value get_int md ''basePrice'' 0) (\<lambda>price.
     ebind (j_value get_string md ''menuCategory'' txt_basic_menu) (\<lambda>cat.
     ebind (j_value get_bool md ''isPopular'' False) (\<lambda>pop.
     ebind (j_value get_string md ''description'' []) (\<lambda>descr.
     ebind (if with_sold_out then j_value get_bool md ''isSoldOut'' False else Inr False) (\<lambda>sold.
     ebind (dumped_options md) (\<lambda>opts.
     Inr \<lparr>mi_name = name, mi_price = price, mi_category = cat, mi_popular = pop,
          mi_description = descr, mi_sold_out = sold, mi_options = opts\<rparr>)))))))"

definition int_of_bool :: "bool \<Rightarrow> int" where
  "int_of_bool b = (if b then 1 else 0)"

definition insert_MENUS :: "int \<Rightarrow> menu_input \<Rightarrow> tables \<Rightarrow> (int \<times> tables) option" where
  "insert_MENUS storeId i t =
     Some (1, t\<lparr>MENUS := MENUS t @
       [\<lparr>m_menu_id = next_id m_menu_id (MENUS t), m_store_id = storeId, m_menu_name = mi_name i,
         m_base_price = mi_price i, m_menu_options = Some (mi_options i), m_is_sold_out = 0,
         m_description = Some (mi_description i), m_image_url = None,
         m_menu_category = Some (mi_category i), m_is_popular = int_of_bool (mi_popular i)\<rparr>]\<rparr>)"

definition own_menu :: "int \<Rightarrow> int \<Rightarrow> MENUS_row \<Rightarrow> bool" where
  "own_menu menuId storeId m \<longleftrightarrow> m_menu_id m = menuId \<and> m_store_id m = storeId"

definition update_MENUS :: "int \<Rightarrow> int \<Rightarrow> menu_input \<Rightarrow> tables \<Rightarrow> (int \<times> tables) option" where
  "update_MENUS menuId storeId i t =
     Some (count_where (own_menu menuId storeId) (MENUS t),
       t\<lparr>MENUS := update_where (own_menu menuId storeId) (\<lambda>m. m
         \<lparr>m_menu_name := mi_name i, m_base_price := mi_price i, m_menu_category := Some (mi_category i),
          m_is_popular := int_of_bool (mi_popular i), m_description := Some (mi_description i),
          m_is_sold_out := int_of_bool (mi_sold_out i), m_menu_options := Some (mi_options i)\<rparr>) (MENUS t)\<rparr>)"

definition delete_MENUS :: "int \<Rightarrow> int \<Rightarrow> tables \<Rightarrow> (int \<times> tables) option" where
  "delete_MENUS menuId storeId t =
     Some (count_where (own_menu menuId storeId) (MENUS t),
       t\<lparr>MENUS := filter (\<lambda>m. \<not> own_menu menuId storeId m) (MENUS t)\<rparr>)"

definition menu_edit :: "env \<Rightarrow> nat \<Rightarrow> int \<Rightarrow> int \<Rightarrow> json \<Rightarrow> bool io" where
  "menu_edit E c storeId actionType md =
     (if actionType = 0 then
        bindE (liftE (menu_input_of False md)) (\<lambda>i.
        bindE (executeUpdate E c (insert_MENUS storeId i)) (\<lambda>_. retE True))
      else if actionType = 1 then
        bindE (liftE (j_value get_int md ''menuId'' 0)) (\<lambda>menuId.
        bindE (liftE (menu_input_of True md)) (\<lambda>i.
        bindE (executeUpdate E c (update_MENUS menuId storeId i)) (\<lambda>_. retE True)))
      else if actionType = 2 then
        bindE (liftE (j_value get_int md ''menuId'' 0)) (\<lambda>menuId.
        bindE (executeUpdate E c (delete_MENUS menuId storeId)) (\<lambda>_. retE True))
      else retE False)"

definition handleMenuEdit :: "env \<Rightarrow> sess_ref \<Rightarrow> string \<Rightarrow> unit io" where
  "handleMenuEdit E s body =
     bindE (liftE (json_parse body)) (\<lambda>req.
     catchE
       (bindE (liftE (j_value get_int req ''storeId'' 0)) (\<lambda>storeId.
        bindE (liftE (j_value get_int req ''actionType'' (- 1))) (\<lambda>actionType.
        bindE (liftE (j_value get_json req ''menuData'' JNull)) (\<lambda>md.
        getConnection E (\<lambda>c.
          bindE (menu_edit E c storeId actionType md) (\<lambda>ok.
          sendPacket s RES_MENU_EDIT
            (if ok then status_json 200 msg_menu_changed else status_json 400 msg_bad_action)))))))
       (\<lambda>_. sendPacket s RES_MENU_EDIT (status_json 500 msg_internal_error)))"

definition set_sold_out :: "int \<Rightarrow> bool \<Rightarrow> tables \<Rightarrow> (int \<times> tables) option" where
  "set_sold_out menuId b t =
     (let p = (\<lambda>m. m_menu_id m = menuId)
      in Some (count_where p (MENUS t), t\<lparr>MENUS := update_where p (\<lambda>m. m\<lparr>m_is_sold_out := int_of_bool b\<rparr>) (MENUS t)\<rparr>))"

definition handleMenuSoldOut :: "env \<Rightarrow> sess_ref \<Rightarrow> string \<Rightarrow> unit io" where
  "handleMenuSoldOut E s body =
     bindE (liftE (json_parse body)) (\<lambda>req.
     catchE
       (bindE (liftE (j_value get_int req ''menuId'' 0)) (\<lambda>menuId.
        bindE (liftE (j_value get_bool req ''isSoldOut'' False)) (\<lambda>isSoldOut.
        bindE (dao_executeUpdate E (set_sold_out menuId isSoldOut)) (\<lambda>ok.
        sendPacket s RES_MENU_SOLD_OUT
          (if ok then status_json 200 msg_soldout_changed else status_json 500 msg_db_error_short)))))
       (\<lambda>_. sendPacket s RES_MENU_SOLD_OUT (status_json 500 msg_internal_error)))"

definition menu_option_res :: "int \<Rightarrow> int \<Rightarrow> OptionGroup list \<Rightarrow> json" where
  "menu_option_res st menuId groups = to_json_ResMenuOptionDTO
     \<lparr>ResMenuOption_status = st, ResMenuOption_menuId = menuId, ResMenuOption_optionGroups = groups\<rparr>"

definition handleMenuOption :: "env \<Rightarrow> sess_ref \<Rightarrow> string \<Rightarrow> unit io" where
  "handleMenuOption E s body =
     catchE
       (bindE (parse_dto from_json_ReqMenuOptionDTO body) (\<lambda>req.
        bindE (getMenuOptionsParsed E (ReqMenuOption_menuId req)) (\<lambda>groups.
        sendPacket s RES_MENU_OPTION (menu_option_res 200 (ReqMenuOption_menuId req) groups))))
       (\<lambda>_. sendPacket s RES_MENU_OPTION (menu_option_res 500 0 []))"

end
