(* ===== verification/ReviewHandler.thy ===== *)
theory ReviewHandler
  imports OrderHandler
begin

text \<open>
  \<^verbatim>\<open>server/src/handler/ReviewHandler.cpp\<close>: the reviews of a store or of a menu, newest first, and the
  owner's reply to a review.
\<close>

definition review_json :: "env \<Rightarrow> REVIEWS_row \<Rightarrow> json" where
  "review_json E r = JObj
     [(''reviewId'', JInt (rv_review_id r)), (''userId'', JStr (rv_user_id r)),
      (''rating'', JInt (rv_rating r)), (''content'', JStr (rv_content r)),
      (''ownerReply'', JStr (nvl [] (rv_owner_reply r))),
      (''createdAt'', JStr (datetime_text E (rv_created_at r)))]"

definition menu_reviews :: "env \<Rightarrow> int \<Rightarrow> tables \<Rightarrow> REVIEWS_row list" where
  "menu_reviews E menuId t =
     map fst (filter (\<lambda>(r, oi). oi_menu_id oi = menuId)
       (inner_join (\<lambda>r oi. str_eq E (rv_order_id r) (oi_order_id oi)) (REVIEWS t) (ORDER_ITEMS t)))"

definition review_query :: "env \<Rightarrow> int \<Rightarrow> int \<Rightarrow> tables \<Rightarrow> REVIEWS_row list" where
  "review_query E storeId menuId t =
     order_by_desc rv_created_at
       (if menuId > 0 then menu_reviews E menuId t
        else if storeId > 0 \<and> menuId = 0 then filter (\<lambda>r. rv_store_id r = storeId) (REVIEWS t)
        else REVIEWS t)"

definition handleReviewList :: "env \<Rightarrow> sess_ref \<Rightarrow> string \<Rightarrow> unit io" where
  "handleReviewList E s body =
     bindE (liftE (json_parse body)) (\<lambda>req.
     catchE
       (bindE (liftE (j_value get_int req ''storeId'' 0)) (\<lambda>storeId.
        bindE (liftE (j_value get_int req ''menuId'' 0)) (\<lambda>menuId.
        if storeId = 0 \<and> menuId = 0 then sendPacket s RES_REVIEW_LIST (status_json 400 msg_review_args) else
        getConnection E (\<lambda>c.
          bindE (executeQuery E c (review_query E storeId menuId)) (\<lambda>rows.
          sendPacket s RES_REVIEW_LIST (JObj
            [(''status'', JInt 200), (''message'', JStr msg_query_ok), (''storeId'', JInt storeId),
             (''menuId'', JInt menuId), (''reviews'', JArr (map (review_json E) rows))]))))))
       (\<lambda>_. sendPacket s RES_REVIEW_LIST (status_json 500 msg_internal_error)))"

definition set_owner_reply :: "string \<Rightarrow> int \<Rightarrow> int \<Rightarrow> tables \<Rightarrow> (int \<times> tables) option" where
  "set_owner_reply reply reviewId storeId t =
     (let p = (\<lambda>r. rv_review_id r = reviewId \<and> rv_store_id r = storeId)
      in Some (count_where p (REVIEWS t),
           t\<lparr>REVIEWS := update_where p (\<lambda>r. r\<lparr>rv_owner_reply := Some reply\<rparr>) (REVIEWS t)\<rparr>))"

text \<open>
  The reply is dumped to the log before it is sent; its texts are constants, so this does not
  fail.
\<close>

definition handleReviewReply :: "env \<Rightarrow> sess_ref \<Rightarrow> string \<Rightarrow> unit io" where
  "handleReviewReply E s body =
     bindE (liftE (json_parse body)) (\<lambda>req.
     catchE
       (bindE (liftE (j_value get_int req ''reviewId'' 0)) (\<lambda>reviewId.
        bindE (liftE (j_value get_int req ''storeId'' 0)) (\<lambda>storeId.
        bindE (liftE (j_value get_string req ''ownerReply'' [])) (\<lambda>ownerReply.
        if reviewId = 0 \<or> storeId = 0 \<or> ownerReply = []
        then sendPacket s RES_REVIEW_REPLY (status_json 400 msg_reply_args) else
        getConnection E (\<lambda>c.
          bindE (executeUpdate E c (set_owner_reply ownerReply reviewId storeId)) (\<lambda>affected.
          sendPacket s RES_REVIEW_REPLY
            (if affected > 0 then status_json 200 msg_reply_ok else status_json 404 msg_reply_not_found)))))))
       (\<lambda>_. sendPacket s RES_REVIEW_REPLY (status_json 500 msg_internal_error)))"

definition handleMenuReviewList :: "env \<Rightarrow> sess_ref \<Rightarrow> string \<Rightarrow> unit io" where
  "handleMenuReviewList E s body =
     bindE (liftE (json_parse body)) (\<lambda>req.
     catchE
       (bindE (liftE (j_value get_int req ''menuId'' 0)) (\<lambda>menuId.
        if menuId = 0 then sendPacket s RES_MENU_REVIEW_LIST (status_json 400 msg_menuId_args) else
        getConnection E (\<lambda>c.
          bindE (executeQuery E c (\<lambda>t. order_by_desc rv_created_at (menu_reviews E menuId t))) (\<lambda>rows.
          sendPacket s RES_MENU_REVIEW_LIST (JObj
            [(''status'', JInt 200), (''message'', JStr msg_query_ok), (''menuId'', JInt menuId),
             (''reviews'', JArr (map (review_json E) rows))])))))
       (\<lambda>_. sendPacket s RES_MENU_REVIEW_LIST (JObj [(''status'', JInt 500)])))"

end
