(* ===== verification/SearchHandler.thy ===== *)
theory SearchHandler
  imports World Messages Dto_Misc Dto_Account
begin

text \<open>
  \<^verbatim>\<open>server/src/database/SearchDAO.cpp\<close>, \<^verbatim>\<open>util/TimeUtil.cpp\<close> and \<^verbatim>\<open>handler/SearchHandler.cpp\<close>: the search history of a user
  (rows are hidden, never deleted), the popularity scores a search raises, and the search for
  stores.
\<close>

section \<open>\<^verbatim>\<open>SearchDAO\<close>\<close>

definition popular_keywords :: "int \<Rightarrow> CATEGORIES_row list \<Rightarrow> PopularKeyword list" where
  "popular_keywords limit rows =
     (let top = take (nat limit) (order_by_desc cat_popularity_score rows)
      in map (\<lambda>(i, ct). \<lparr>PopularKeyword_rank = int i + 1, PopularKeyword_keyword = cat_name ct\<rparr>)
           (zip [0..<length top] top))"

definition getPopularCategories :: "env \<Rightarrow> int \<Rightarrow> PopularKeyword list io" where
  "getPopularCategories E limit =
     catch_sql (getConnection E (\<lambda>c.
       bindE (executeQuery E c (\<lambda>t. popular_keywords limit (CATEGORIES t))) retE))
     (retE [])"

definition insert_SEARCH_HISTORY :: "string \<Rightarrow> string \<Rightarrow> int \<Rightarrow> tables \<Rightarrow> (int \<times> tables) option" where
  "insert_SEARCH_HISTORY uid keyword time t =
     Some (1, t\<lparr>SEARCH_HISTORY := SEARCH_HISTORY t @
       [\<lparr>h_history_id = next_id h_history_id (SEARCH_HISTORY t), h_user_id = uid, h_keyword = keyword,
         h_search_date = time, h_is_visible = 1\<rparr>]\<rparr>)"

definition insertSearchHistory :: "env \<Rightarrow> string \<Rightarrow> string \<Rightarrow> bool io" where
  "insertSearchHistory E uid keyword =
     catch_sql (getConnection E (\<lambda>c.
       bindE (now E) (\<lambda>t.
       bindE (executeUpdate E c (insert_SEARCH_HISTORY uid keyword t)) (\<lambda>_. retE True))))
     (retE False)"

definition bump_category :: "env \<Rightarrow> string \<Rightarrow> tables \<Rightarrow> (int \<times> tables) option" where
  "bump_category E name t =
     (let p = (\<lambda>ct. str_eq E (cat_name ct) name)
      in if \<exists>ct\<in>set (CATEGORIES t). p ct \<and> \<not> in_int (cat_popularity_score ct + 1) then None
         else Some (count_where p (CATEGORIES t),
           t\<lparr>CATEGORIES := update_where p (\<lambda>ct. ct\<lparr>cat_popularity_score := cat_popularity_score ct + 1\<rparr>) (CATEGORIES t)\<rparr>))"

definition bump_store :: "env \<Rightarrow> string \<Rightarrow> tables \<Rightarrow> (int \<times> tables) option" where
  "bump_store E name t =
     (let p = (\<lambda>s. str_eq E (s_store_name s) name)
      in if \<exists>s\<in>set (STORES t). p s \<and> \<not> in_int (s_popularity_score s + 1) then None
         else Some (count_where p (STORES t),
           t\<lparr>STORES := update_where p (\<lambda>s. s\<lparr>s_popularity_score := s_popularity_score s + 1\<rparr>) (STORES t)\<rparr>))"

text \<open>The category of the first menu whose name contains the keyword.\<close>

definition menu_category_of :: "env \<Rightarrow> string \<Rightarrow> tables \<Rightarrow> string option" where
  "menu_category_of E keyword t =
     map_option (\<lambda>(m, s). s_category s)
       (first_where (\<lambda>(m, s). sql_like E (''%'' @ keyword @ ''%'') (m_menu_name m))
         (inner_join (\<lambda>m s. m_store_id m = s_store_id s) (MENUS t) (STORES t)))"

definition bump_menu_category :: "env \<Rightarrow> string \<Rightarrow> tables \<Rightarrow> (int \<times> tables) option" where
  "bump_menu_category E keyword t =
     (case menu_category_of E keyword t of None \<Rightarrow> Some (0, t) | Some name \<Rightarrow> bump_category E name t)"

definition applySearchScore :: "env \<Rightarrow> string \<Rightarrow> bool io" where
  "applySearchScore E keyword =
     catch_sql (getConnection E (\<lambda>c.
       bindE (executeUpdate E c (bump_category E keyword)) (\<lambda>direct.
       if direct > 0 then retE True else
       bindE (executeUpdate E c (bump_store E keyword)) (\<lambda>rows.
       if rows > 0 then retE True else
       bindE (executeUpdate E c (bump_menu_category E keyword)) (\<lambda>_. retE True)))))
     (retE False)"

definition search_query :: "env \<Rightarrow> string \<Rightarrow> tables \<Rightarrow> STORES_row list" where
  "search_query E keyword t =
     (let pat = ''%'' @ keyword @ ''%''
      in filter (\<lambda>s. sql_like E pat (s_store_name s) \<or> sql_like E pat (s_category s)) (STORES t))"

definition found_store :: "STORES_row \<Rightarrow> TopStoreInfo" where
  "found_store s = default_TopStoreInfo
     \<lparr>TopStoreInfo_storeId := s_store_id s, TopStoreInfo_storeName := s_store_name s,
      TopStoreInfo_category := s_category s, TopStoreInfo_rating := s_rating s,
      TopStoreInfo_reviewCount := s_review_count s,
      TopStoreInfo_minOrderPrice := nvl 0 (s_min_order_amount s),
      TopStoreInfo_deliveryTime := nvl [] (s_delivery_time_range s),
      TopStoreInfo_deliveryFee := s_delivery_fee s, TopStoreInfo_iconPath := nvl [] (s_image_url s)\<rparr>"

definition searchStoresByKeyword :: "env \<Rightarrow> string \<Rightarrow> TopStoreInfo list io" where
  "searchStoresByKeyword E keyword =
     catch_sql (getConnection E (\<lambda>c.
       bindE (executeQuery E c (search_query E keyword)) (\<lambda>rows. retE (map found_store rows))))
     (retE [])"

text \<open>
  Hiding a row changes it, so \<^verbatim>\<open>ON UPDATE CURRENT_TIMESTAMP\<close> also sets its date, unless it was
  hidden already.
\<close>

definition hide_history :: "(SEARCH_HISTORY_row \<Rightarrow> bool) \<Rightarrow> int \<Rightarrow> tables \<Rightarrow> (int \<times> tables) option" where
  "hide_history p time t =
     Some (count_where p (SEARCH_HISTORY t),
       t\<lparr>SEARCH_HISTORY := update_where p (\<lambda>h.
          if h_is_visible h = 0 then h else h\<lparr>h_is_visible := 0, h_search_date := time\<rparr>) (SEARCH_HISTORY t)\<rparr>)"

definition deleteRecentSearch :: "env \<Rightarrow> string \<Rightarrow> int \<Rightarrow> bool io" where
  "deleteRecentSearch E uid historyId =
     catch_sql (getConnection E (\<lambda>c.
       bindE (now E) (\<lambda>t.
       bindE (executeUpdate E c (hide_history (\<lambda>h. str_eq E (h_user_id h) uid \<and> h_history_id h = historyId) t)) (\<lambda>_.
       retE True))))
     (retE False)"

definition deleteAllRecentSearches :: "env \<Rightarrow> string \<Rightarrow> bool io" where
  "deleteAllRecentSearches E uid =
     catch_sql (getConnection E (\<lambda>c.
       bindE (now E) (\<lambda>t.
       bindE (executeUpdate E c (hide_history (\<lambda>h. str_eq E (h_user_id h) uid) t)) (\<lambda>_.
       retE True))))
     (retE False)"

definition recent_query :: "env \<Rightarrow> string \<Rightarrow> tables \<Rightarrow> SEARCH_HISTORY_row list" where
  "recent_query E uid t =
     take 10 (order_by_desc h_search_date
       (filter (\<lambda>h. str_eq E (h_user_id h) uid \<and> h_is_visible h = 1) (SEARCH_HISTORY t)))"

definition getRecentSearches :: "env \<Rightarrow> string \<Rightarrow> RecentSearch list io" where
  "getRecentSearches E uid =
     catch_sql (getConnection E (\<lambda>c.
       bindE (executeQuery E c (recent_query E uid)) (\<lambda>rows.
       retE (map (\<lambda>h. \<lparr>RecentSearch_historyId = h_history_id h, RecentSearch_keyword = h_keyword h,
         RecentSearch_searchDate = strftime E ''%m.%d'' (h_search_date h)\<rparr>) rows))))
     (retE [])"

section \<open>\<^verbatim>\<open>TimeUtil\<close>\<close>

definition getCurrentDateTime :: "env \<Rightarrow> string io" where
  "getCurrentDateTime E = bindE (now E) (\<lambda>t. retE (strftime E ''%Y-%m-%d %H:%M:%S'' t))"

definition getExpiryDate :: "env \<Rightarrow> string io" where
  "getExpiryDate E = bindE (now E) (\<lambda>t. retE (strftime E ''%Y-%m-%d %H:%M:%S'' (t + 24 * 30 * 3600)))"

definition getCurrentDate :: "env \<Rightarrow> string io" where
  "getCurrentDate E = bindE (now E) (\<lambda>t. retE (strftime E ''%Y-%m-%d'' t))"

section \<open>\<^verbatim>\<open>SearchHandler\<close>\<close>

definition handleSearchWidgetReq :: "env \<Rightarrow> sess_ref \<Rightarrow> string \<Rightarrow> unit io" where
  "handleSearchWidgetReq E s body =
     catchE
       (bindE (parse_dto from_json_ReqResearchWidgetDTO body) (\<lambda>req.
        bindE (getCurrentDate E) (\<lambda>date.
        bindE (getPopularCategories E 10) (\<lambda>popular.
        bindE (getRecentSearches E (ReqResearchWidget_userId req)) (\<lambda>recent.
        sendPacket s RES_RESEARCH_WIDGET (to_json_ResResearchWidgetDTO
          \<lparr>ResResearchWidget_status = 200, ResResearchWidget_popularKeywords = popular,
           ResResearchWidget_recentSearches = recent,
           ResResearchWidget_searchDate = date\<rparr>))))))
       (\<lambda>_. retE ())"

definition handleSearchAddReq :: "env \<Rightarrow> sess_ref \<Rightarrow> string \<Rightarrow> unit io" where
  "handleSearchAddReq E s body =
     catchE
       (bindE (parse_dto from_json_ReqResearchAddDTO body) (\<lambda>req.
        bindE (insertSearchHistory E (ReqResearchAdd_userId req) (ReqResearchAdd_keyword req)) (\<lambda>_.
        bindE (applySearchScore E (ReqResearchAdd_keyword req)) (\<lambda>_.
        sendPacket s RES_RESEARCH_ADD (to_json_ResResearchAddDTO \<lparr>ResResearchAdd_status = 200\<rparr>)))))
       (\<lambda>_. retE ())"

definition handleSearchDeleteReq :: "env \<Rightarrow> sess_ref \<Rightarrow> string \<Rightarrow> unit io" where
  "handleSearchDeleteReq E s body =
     catchE
       (bindE (parse_dto from_json_ReqResearchDeleteDTO body) (\<lambda>req.
        bindE (deleteRecentSearch E (ReqResearchDelete_userId req) (ReqResearchDelete_historyId req)) (\<lambda>_.
        sendPacket s RES_RESEARCH_DELETE (to_json_ResResearchDeleteDTO \<lparr>ResResearchDelete_status = 200\<rparr>))))
       (\<lambda>_. retE ())"

definition handleSearchDelAllReq :: "env \<Rightarrow> sess_ref \<Rightarrow> string \<Rightarrow> unit io" where
  "handleSearchDelAllReq E s body =
     catchE
       (bindE (parse_dto from_json_ReqResearchDelAllDTO body) (\<lambda>req.
        bindE (deleteAllRecentSearches E (ReqResearchDelAll_userId req)) (\<lambda>_.
        sendPacket s RES_RESEARCH_DEL_ALL (to_json_ResResearchDelAllDTO \<lparr>ResResearchDelAll_status = 200\<rparr>))))
       (\<lambda>_. retE ())"

definition handleSearchStoreReq :: "env \<Rightarrow> sess_ref \<Rightarrow> string \<Rightarrow> unit io" where
  "handleSearchStoreReq E s body =
     catchE
       (bindE (parse_dto from_json_ReqSearchStoreDTO body) (\<lambda>req.
        bindE (searchStoresByKeyword E (ReqSearchStore_keyword req)) (\<lambda>stores.
        sendPacket s RES_SEARCH_STORE (to_json_ResSearchStoreDTO
          \<lparr>ResSearchStore_status = (if stores = [] then 404 else 200),
           ResSearchStore_storeList = stores\<rparr>))))
       (\<lambda>_. retE ())"

end
