(* ===== verification/StoreLaws.thy ===== *)
theory StoreLaws
  imports StoreHandler ReviewHandler SearchHandler Sample
begin

text \<open>
  Properties of the owner's handlers and of the search history: a change an owner makes
  touches rows of one store only, and hiding the search history touches rows of one user only, for
  every schedule of database failures.
\<close>

section \<open>Changes of one store\<close>

definition only_store :: "int \<Rightarrow> tables \<Rightarrow> tables \<Rightarrow> bool" where
  "only_store sid t t' \<longleftrightarrow>
     filter (\<lambda>m. m_store_id m \<noteq> sid) (MENUS t') = filter (\<lambda>m. m_store_id m \<noteq> sid) (MENUS t) \<and>
     filter (\<lambda>r. rv_store_id r \<noteq> sid) (REVIEWS t') = filter (\<lambda>r. rv_store_id r \<noteq> sid) (REVIEWS t) \<and>
     filter (\<lambda>s. s_store_id s \<noteq> sid) (STORES t') = filter (\<lambda>s. s_store_id s \<noteq> sid) (STORES t) \<and>
     t' = t\<lparr>MENUS := MENUS t', REVIEWS := REVIEWS t', STORES := STORES t'\<rparr>"

lemma only_store_refl: "only_store sid t t"
  by (simp add: only_store_def)

lemma filter_update_where:
  "(\<And>r. p r \<Longrightarrow> \<not> q r \<and> \<not> q (f r)) \<Longrightarrow> filter q (update_where p f rows) = filter q rows"
  by (induction rows) (auto simp: update_where_def)

lemma store_updates:
  "insert_MENUS sid i t = Some (n, t') \<Longrightarrow> only_store sid t t'"
  "update_MENUS mid sid i t = Some (n, t') \<Longrightarrow> only_store sid t t'"
  "set_owner_reply reply rid sid t = Some (n, t') \<Longrightarrow> only_store sid t t'"
  "set_store_status sid st t = Some (n, t') \<Longrightarrow> only_store sid t t'"
  by (auto simp: insert_MENUS_def update_MENUS_def set_owner_reply_def set_store_status_def own_menu_def only_store_def Let_def
    intro!: filter_update_where)

lemma menu_deletion: "delete_MENUS mid sid t = Some (n, t') \<Longrightarrow> only_store sid t t'"
proof -
  have "filter (\<lambda>m. m_store_id m \<noteq> sid) (filter (\<lambda>m. \<not> own_menu mid sid m) ms) = filter (\<lambda>m. m_store_id m \<noteq> sid) ms" for ms
    by (induction ms) (auto simp: own_menu_def)
  then show "delete_MENUS mid sid t = Some (n, t') \<Longrightarrow> only_store sid t t'"
    by (auto simp: delete_MENUS_def only_store_def simp del: filter_filter)
qed

lemmas store_statements = store_updates menu_deletion

lemma menu_edit_scoped:
  "triple (txs c True t t) (bindE (menu_edit E c sid a md) f) (\<lambda>_. committed_in (only_store sid t) c)
     (\<lambda>_. committed_in (only_store sid t) c)" if "\<And>b. keeps c (f b)"
proof (rule triple_bind [where Q' = "\<lambda>_. committed_in (only_store sid t) c"])
  show "triple (txs c True t t) (menu_edit E c sid a md) (\<lambda>_. committed_in (only_store sid t) c) (\<lambda>_. committed_in (only_store sid t) c)"
    unfolding menu_edit_def
    by (intro triple_if lift_step update_then_keeps keep_rules triple_ret)
      (auto intro: store_statements only_store_refl committed_inI)
qed (intro keeps_committed_in that)

lemma owner_handlers:
  assumes "json_parse body = Inr req" "j_value get_int req ''storeId'' 0 = Inr sid"
  shows "ends t (only_store sid t) (handleMenuEdit E s body)"
    "ends t (only_store sid t) (handleReviewReply E s body)"
    "ends t (only_store sid t) (handleStoreStatusSet E s body)"
proof -
  show "ends t (only_store sid t) (handleMenuEdit E s body)"
    unfolding handleMenuEdit_def
    by (intro ends_lift ends_catch ends_connection)
      (auto simp: assms intro!: menu_edit_scoped keep_rules only_store_refl framed)
  show "ends t (only_store sid t) (handleReviewReply E s body)"
    unfolding handleReviewReply_def
    by (intro ends_lift ends_catch ends_if ends_connection ends_frame [OF frame_sendPacket(3)])
      (auto simp: assms intro!: update_then_keeps keep_rules only_store_refl framed dest: store_statements)
  show "ends t (only_store sid t) (handleStoreStatusSet E s body)"
    unfolding handleStoreStatusSet_def dao_executeUpdate_def
    by (intro ends_lift ends_catch ends_if ends_then ends_catch_sql ends_connection ends_frame [OF frame_sendPacket(3)])
      (auto simp: assms intro!: update_then_keeps keep_rules only_store_refl framed dest: store_statements)
qed

text \<open>
  C31: editing a menu, answering a review and opening or closing a store change, whatever fails, no other table and
  no row of a store other than the one the request names.
\<close>

theorem owner_changes_scoped:
  assumes "pool_ok w" "json_parse body = Inr req" "j_value get_int req ''storeId'' 0 = Inr sid"
    and "h \<in> {handleMenuEdit, handleReviewReply, handleStoreStatusSet}"
  shows "only_store sid (committed w) (committed (snd (h E s body w)))"
  using assms(4) endsD [OF owner_handlers(1) assms(1), OF assms(2,3)] endsD [OF owner_handlers(2) assms(1), OF assms(2,3)]
    endsD [OF owner_handlers(3) assms(1), OF assms(2,3)] by blast

theorem owner_changes_scoped_witness:
  "only_store 2 sample_tables (committed (snd (handleMenuEdit
     sample_env 0 (text_of (JObj [(''actionType'', JInt 2), (''menuData'', JObj [(''menuId'', JInt 3)]), (''storeId'', JInt 2)])) (sample_world 1))))"
  using owner_changes_scoped [of "sample_world 1" "text_of (JObj [(''actionType'', JInt 2), (''menuData'', JObj [(''menuId'', JInt 3)]), (''storeId'', JInt 2)])" _ 2 handleMenuEdit sample_env 0]
  by (simp add: j_value_def to_int32_id)

section \<open>The search history\<close>

definition hidden :: "env \<Rightarrow> string \<Rightarrow> tables \<Rightarrow> tables \<Rightarrow> bool" where
  "hidden E uid t t' \<longleftrightarrow> t' = t \<or> (\<exists>n time. hide_history (\<lambda>h. str_eq E (h_user_id h) uid) time t = Some (n, t'))"

lemma deleteAll_spec: "ends t (hidden E uid t) (deleteAllRecentSearches E uid)"
  unfolding deleteAllRecentSearches_def
  by (intro ends_catch_sql ends_connection keeps_step update_then_keeps keep_rules frame_ret) (auto simp: hidden_def intro: committed_inI)

lemma run_deleteAll:
  assumes "smooth E" "pool_ok w" "pool w \<noteq> []"
  shows "\<exists>n time. hide_history (\<lambda>h. str_eq E (h_user_id h) uid) time (committed w) =
    Some (n, committed (snd (deleteAllRecentSearches E uid w)))"
proof -
  obtain c cs where c: "pool w = c # cs" using assms(3) by (cases "pool w") auto
  then have "autocommit (conns w c)" using assms(2) by (simp add: pool_ok_def)
  then show ?thesis
    using assms(1) c
    by (auto simp: deleteAllRecentSearches_def catch_sql_def catchE_def run_connection run_update now_def getsE_def bindE_def retE_def
      hide_history_def view_def put_view_def pool_push_def)
qed

lemma hidden_rows:
  assumes "hide_history (\<lambda>h. str_eq E (h_user_id h) uid) time t = Some (n, t')"
  shows "recent_query E uid t' = []" "map h_history_id (SEARCH_HISTORY t') = map h_history_id (SEARCH_HISTORY t)"
    "filter (\<lambda>h. \<not> str_eq E (h_user_id h) uid) (SEARCH_HISTORY t') = filter (\<lambda>h. \<not> str_eq E (h_user_id h) uid) (SEARCH_HISTORY t)"
    "t' = t\<lparr>SEARCH_HISTORY := SEARCH_HISTORY t'\<rparr>"
proof -
  have t': "t' = t\<lparr>SEARCH_HISTORY := update_where (\<lambda>h. str_eq E (h_user_id h) uid)
      (\<lambda>h. if h_is_visible h = 0 then h else h\<lparr>h_is_visible := 0, h_search_date := time\<rparr>) (SEARCH_HISTORY t)\<rparr>"
    using assms by (simp add: hide_history_def)
  have "filter (\<lambda>h. str_eq E (h_user_id h) uid \<and> h_is_visible h = 1) (SEARCH_HISTORY t') = []"
    unfolding t' by (simp add: filter_empty_conv ball_update_where)
  then show "recent_query E uid t' = []" by (simp add: recent_query_def order_by_desc_def)
  show "map h_history_id (SEARCH_HISTORY t') = map h_history_id (SEARCH_HISTORY t)"
    unfolding t' by (simp add: map_update_where)
  show "filter (\<lambda>h. \<not> str_eq E (h_user_id h) uid) (SEARCH_HISTORY t') = filter (\<lambda>h. \<not> str_eq E (h_user_id h) uid) (SEARCH_HISTORY t)"
    unfolding t' by (simp add: filter_update_others)
  show "t' = t\<lparr>SEARCH_HISTORY := SEARCH_HISTORY t'\<rparr>" unfolding t' by simp
qed

text \<open>
  Clearing the search history of a user leaves the user's list of recent searches empty, unless a failure
  prevents it and nothing changes; no row is deleted and the rows of other users stay as they are.
\<close>

theorem search_history_hidden:
  assumes "pool_ok w" "ebind (json_parse body) from_json_ReqResearchDelAllDTO = Inr req"
    and "committed (snd (handleSearchDelAllReq E s body w)) = t'"
  shows "(recent_query E (ReqResearchDelAll_userId req) t' = [] \<or> t' = committed w \<and> \<not> (smooth E \<and> pool w \<noteq> [])) \<and>
    t' = (committed w)\<lparr>SEARCH_HISTORY := SEARCH_HISTORY t'\<rparr> \<and>
    map h_history_id (SEARCH_HISTORY t') = map h_history_id (SEARCH_HISTORY (committed w)) \<and>
    filter (\<lambda>h. \<not> str_eq E (h_user_id h) (ReqResearchDelAll_userId req)) (SEARCH_HISTORY t') =
      filter (\<lambda>h. \<not> str_eq E (h_user_id h) (ReqResearchDelAll_userId req)) (SEARCH_HISTORY (committed w))"
proof -
  let ?u = "ReqResearchDelAll_userId req"
  have "ends t (hidden E ?u t) (handleSearchDelAllReq E s body)" for t
    unfolding handleSearchDelAllReq_def using assms(2)
    by (intro ends_catch ends_parse ends_then framed) (auto simp: deleteAll_spec, auto simp: hidden_def)
  then have "hidden E ?u (committed w) t'" using endsD assms(1,3) by blast
  moreover have "\<exists>n time. hide_history (\<lambda>h. str_eq E (h_user_id h) ?u) time (committed w) = Some (n, t')" if "smooth E" "pool w \<noteq> []"
    using run_deleteAll [OF that(1) assms(1) that(2), of ?u] assms(2,3)
    by (simp add: handleSearchDelAllReq_def catch_tail bind_tail framed parse_dto_def bindE_lift)
  ultimately show ?thesis using hidden_rows [of E ?u] by (auto simp: hidden_def)
qed

theorem search_history_hidden_witness:
  "recent_query sample_env ''alice'' (committed (snd (handleSearchDelAllReq
     sample_env 0 (text_of (JObj [(''userId'', JStr ''alice'')])) (sample_world 1)))) = []"
  using search_history_hidden [of "sample_world 1" "text_of (JObj [(''userId'', JStr ''alice'')])"
      "\<lparr>ReqResearchDelAll_userId = ''alice''\<rparr>" sample_env 0 _, OF _ _ refl]
  by (simp add: from_json_ReqResearchDelAllDTO_def sample_defs)

end
