(* ===== verification/ChatHandler.thy ===== *)
theory ChatHandler
  imports World Messages Dto_Chat
begin

text \<open>
  \<^verbatim>\<open>server/src/handler/ChatHandler.cpp\<close>, \<^verbatim>\<open>AdminHandler.cpp\<close> and \<^verbatim>\<open>database/AdminDAO.cpp\<close>: a chat is
  requested from the administrators, one of them opens a room, messages are relayed between
  the two members and either may close it.
\<close>

definition crm_do :: "(ChatRoomManager \<Rightarrow> 'a \<times> ChatRoomManager) \<Rightarrow> 'a io" where
  "crm_do f w = (case f (crm w) of (x, m) \<Rightarrow> (Inr x, w\<lparr>crm := m\<rparr>))"

definition find_room :: "int \<Rightarrow> ChatRoom option io" where
  "find_room roomId = getsE (\<lambda>w. getRoom (crm w) roomId)"

definition send_to :: "string \<Rightarrow> CmdID \<Rightarrow> json \<Rightarrow> unit io" where
  "send_to uid cmd j = bindE (sendToUser uid cmd j) (\<lambda>_. retE ())"

section \<open>\<^verbatim>\<open>ChatHandler\<close>\<close>

definition chat_request_notice :: "string \<Rightarrow> int \<Rightarrow> int \<Rightarrow> json" where
  "chat_request_notice uid storeId ro = JObj
     [(''userId'', JStr uid), (''storeId'', JInt storeId), (''role'', JInt ro),
      (''message'', JStr ((if ro = 1 then txt_owner else txt_customer) @ '' ['' @ uid @ msg_chat_requested))]"

definition chat_connect_res :: "int \<Rightarrow> string \<Rightarrow> json" where
  "chat_connect_res roomId msg = to_json_ResChatConnectDTO
     \<lparr>ResChatConnect_status = 0, ResChatConnect_roomId = roomId, ResChatConnect_message = msg\<rparr>"

definition handleChatRequest :: "env \<Rightarrow> sess_ref \<Rightarrow> string \<Rightarrow> unit io" where
  "handleChatRequest E s body =
     catchE
       (bindE (parse_dto from_json_ReqChatConnectDTO body) (\<lambda>req.
        bindE (session_field sess_userId s) (\<lambda>actualUserId.
        if actualUserId = [] then throwE (RuntimeError msg_not_logged_in) else
        bindE (session_field sess_role s) (\<lambda>ro.
        thenE (broadcastToRole 3 NOTIFY_NEW_CHAT_REQUEST
          (chat_request_notice actualUserId (ReqChatConnect_storeId req) ro)) (
        sendPacket s RES_CHAT_CONNECT (chat_connect_res (- 1) msg_chat_waiting))))))
       (\<lambda>_. retE ())"

definition handleChatAccept :: "env \<Rightarrow> sess_ref \<Rightarrow> string \<Rightarrow> unit io" where
  "handleChatAccept E s body =
     catchE
       (bindE (parse_dto from_json_ReqChatAcceptDTO body) (\<lambda>req.
        bindE (session_field sess_userId s) (\<lambda>uid.
        let adminId = (if uid = [] then ''admin'' else uid) in
        whenE (ReqChatAccept_result req = ''ACCEPT'') (
          bindE (crm_do (createRoom (ReqChatAccept_requesterId req) adminId 0)) (\<lambda>roomId.
          thenE (sendPacket s RES_REQUEST_OK (chat_connect_res roomId msg_room_created)) (
          send_to (ReqChatAccept_requesterId req) NOTIFY_CHAT_ROOM_OPENED (JObj
            [(''roomId'', JInt roomId), (''adminId'', JStr adminId), (''message'', JStr msg_agent_connected)])))))))
       (\<lambda>_. retE ())"

definition chat_target :: "ChatRoom \<Rightarrow> string \<Rightarrow> string" where
  "chat_target room senderId = (if senderId = cr_adminId room then cr_customerId room else cr_adminId room)"

definition chat_cmd :: "ChatRoom \<Rightarrow> string \<Rightarrow> CmdID" where
  "chat_cmd room target = (if target = cr_adminId room then NOTIFY_MSG_TO_ADMIN else NOTIFY_MSG_TO_USER)"

definition handleChatSend :: "env \<Rightarrow> sess_ref \<Rightarrow> string \<Rightarrow> unit io" where
  "handleChatSend E s body =
     catchE
       (bindE (parse_dto from_json_ReqChatSendDTO body) (\<lambda>req.
        bindE (find_room (ReqChatSend_roomId req)) (\<lambda>r.
        case r of
          None \<Rightarrow> throwE (RuntimeError msg_no_room)
        | Some room \<Rightarrow>
            bindE (now E) (\<lambda>t.
            let target = chat_target room (ReqChatSend_senderId req) in
            thenE (send_to target (chat_cmd room target) (to_json_NotifyChatRecvDTO
              \<lparr>NotifyChatRecv_roomId = ReqChatSend_roomId req, NotifyChatRecv_senderId = ReqChatSend_senderId req,
               NotifyChatRecv_content = ReqChatSend_content req, NotifyChatRecv_sendTime = strftime E ''%H:%M'' t\<rparr>)) (
            sendPacket s RES_CHAT_SEND (to_json_ResChatSendDTO
              \<lparr>ResChatSend_status = 200, ResChatSend_message = msg_chat_sent\<rparr>))))))
       (\<lambda>_. retE ())"

definition chat_exit_notice :: "ChatRoom \<Rightarrow> string \<Rightarrow> int \<Rightarrow> json" where
  "chat_exit_notice room requesterId roomId = JObj
     [(''roomId'', JInt roomId),
      (''message'', JStr ((if requesterId = cr_adminId room then txt_admin else txt_customer2) @ msg_chat_ended))]"

definition handleChatClose :: "env \<Rightarrow> sess_ref \<Rightarrow> string \<Rightarrow> unit io" where
  "handleChatClose E s body =
     catchE
       (bindE (liftE (json_parse body)) (\<lambda>req.
        bindE (liftE (j_value get_int req ''roomId'' (- 1))) (\<lambda>roomId.
        bindE (session_field sess_userId s) (\<lambda>requesterId.
        bindE (find_room roomId) (\<lambda>r.
        case r of
          None \<Rightarrow> throwE (RuntimeError msg_room_closed_already)
        | Some room \<Rightarrow>
            let notice = chat_exit_notice room requesterId roomId in
            thenE (send_to (cr_customerId room) NOTIFY_CHAT_EXIT notice) (
            thenE (send_to (cr_adminId room) NOTIFY_CHAT_EXIT notice) (
            crm_do (\<lambda>m. ((), removeRoom roomId m))))))))) 
       (\<lambda>_. sendPacket s NOTIFY_CHAT_EXIT (JObj [(''status'', JInt 1), (''message'', JStr msg_close_error)]))"

section \<open>\<^verbatim>\<open>AdminHandler\<close> and \<^verbatim>\<open>AdminDAO\<close>\<close>

text \<open>The identifier and the role are taken from the request.\<close>

definition handleAdminInit :: "env \<Rightarrow> sess_ref \<Rightarrow> string \<Rightarrow> unit io" where
  "handleAdminInit E s body =
     catchE
       (bindE (liftE (json_parse body)) (\<lambda>req.
        bindE (liftE (j_value get_string req ''adminId'' ''admin'')) (\<lambda>adminId.
        bindE (liftE (j_value get_int req ''role'' 3)) (\<lambda>ro.
        thenE (sm_do (upd_session s (authenticate adminId ro))) (
        thenE (sm_do (registerUser adminId ro s)) (
        sendPacket s RES_ADMIN_INIT (JObj [(''status'', JInt 200), (''message'', JStr msg_admin_ok)])))))))
       (\<lambda>_. retE ())"

text \<open>
  With a keyword but an unknown search type, \<^verbatim>\<open>searchOrders\<close> binds a parameter the query does not
  have, which the connector reports as an \<^verbatim>\<open>SQLException\<close>: the list is empty.
\<close>

definition admin_query :: "env \<Rightarrow> string \<Rightarrow> string \<Rightarrow> tables \<Rightarrow> ORDERS_row list" where
  "admin_query E searchType keyword t =
     (let pat = ''%'' @ keyword @ ''%'';
          p = (if keyword = [] then (\<lambda>r. True)
               else if searchType = ''orderId'' then (\<lambda>r. sql_like E pat (o_order_id r))
               else (\<lambda>r. sql_like E pat (o_user_id r)))
      in take 100 (order_by_desc o_created_at (filter p (ORDERS t))))"

definition admin_order :: "env \<Rightarrow> ORDERS_row \<Rightarrow> AdminOrderDTO" where
  "admin_order E r =
     \<lparr>AdminOrder_orderId = o_order_id r, AdminOrder_userId = o_user_id r,
      AdminOrder_totalPrice = o_total_price r, AdminOrder_orderStatus = o_order_status r,
      AdminOrder_createdAt = datetime_text E (o_created_at r)\<rparr>"

definition searchOrders :: "env \<Rightarrow> string \<Rightarrow> string \<Rightarrow> AdminOrderDTO list io" where
  "searchOrders E searchType keyword =
     catch_sql (getConnection E (\<lambda>c.
       if keyword \<noteq> [] \<and> searchType \<noteq> ''orderId'' \<and> searchType \<noteq> ''userId'' then
         thenE (prepareStatement E) (bindE (getsE tick) (\<lambda>n. throwE (SQLException n)))
       else
         bindE (executeQuery E c (admin_query E searchType keyword)) (\<lambda>rows.
         retE (map (admin_order E) rows))))
     (retE [])"

definition handleAdminOrderList :: "env \<Rightarrow> sess_ref \<Rightarrow> string \<Rightarrow> unit io" where
  "handleAdminOrderList E s body =
     catchE
       (bindE (parse_dto from_json_ReqAdminOrderListDTO body) (\<lambda>req.
        bindE (searchOrders E (ReqAdminOrderList_searchType req) (ReqAdminOrderList_keyword req)) (\<lambda>orders.
        sendPacket s RES_ADMIN_ORDER_LIST (to_json_ResAdminOrderListDTO
          \<lparr>ResAdminOrderList_status = 200, ResAdminOrderList_orders = orders\<rparr>))))
       (\<lambda>_. sendPacket s RES_ADMIN_ORDER_LIST (to_json_ResAdminOrderListDTO
         \<lparr>ResAdminOrderList_status = 500, ResAdminOrderList_orders = []\<rparr>))"

end
