(* ===== verification/ChatLaws.thy ===== *)
theory ChatLaws
  imports ChatHandler Sample
begin












end
