(* ===== verification/HomeHandlers.thy ===== *)
theory HomeHandlers
  imports OrderHandler
begin

text \<open>
  \<^verbatim>\<open>SystemHandler.cpp\<close> (heartbeat), \<^verbatim>\<open>SalesHandler.cpp\<close> (sales of a store) and \<^verbatim>\<open>CategoryHandler.cpp\<close> (the
  home screen, sent to every new connection) of \<^verbatim>\<open>server/src/handler\<close>.
\<close>

section \<open>\<^verbatim>\<open>SystemHandler\<close>\<close>

definition heartbeat_query :: "tables \<Rightarrow> STORES_row list" where
  "heartbeat_query t = take 10 (order_by_desc s_total_sales (STORES t))"

definition heartbeat_store :: "STORES_row \<Rightarrow> json" where
  "heartbeat_store s = JObj
     [(''storeId'', JInt (s_store_id s)), (''storeName'', JStr (s_store_name s)),
      (''categoryName'', JStr (s_category s)), (''totalSales'', JInt (s_total_sales s)),
      (''rating'', JFloat (s_rating s)), (''deliveryFee'', JInt (s_delivery_fee s)),
      (''minOrderAmount'', JInt (nvl 0 (s_min_order_amount s))),
      (''reviewCount'', JInt (s_review_count s)),
      (''deliveryTimeRange'', JStr (nvl [] (s_delivery_time_range s))),
      (''iconName'', JStr (nvl [] (s_icon_name s)))]"

definition handleHeartbeat :: "env \<Rightarrow> sess_ref \<Rightarrow> string \<Rightarrow> unit io" where
  "handleHeartbeat E s body =
     catchE
       (getConnection E (\<lambda>c.
          bindE (executeQuery E c heartbeat_query) (\<lambda>rows.
          sendPacket s RES_HEARTBEAT (JObj
            [(''status'', JInt 0), (''message'', JStr ''Pong & Refresh Top Stores Only''),
             (''topStores'', JArr (map heartbeat_store rows))]))))
       (\<lambda>_. sendPacket s RES_HEARTBEAT (status_json 1 ''Pong (Data Error)''))"

section \<open>\<^verbatim>\<open>SalesHandler\<close>\<close>

definition handleSalesStat :: "env \<Rightarrow> sess_ref \<Rightarrow> string \<Rightarrow> unit io" where
  "handleSalesStat E s body =
     bindE (liftE (json_parse body)) (\<lambda>req.
     catchE
       (bindE (liftE (j_value get_int req ''storeId'' 0)) (\<lambda>storeId.
        if storeId = 0 then sendPacket s RES_SALES_STAT (status_json 400 msg_no_storeId) else
        getConnection E (\<lambda>c.
          bindE (executeQuery E c (find_store storeId)) (\<lambda>rs.
          sendPacket s RES_SALES_STAT
            (case rs of
               Some st \<Rightarrow> JObj [(''status'', JInt 200), (''message'', JStr msg_query_ok),
                 (''totalSales'', JInt (s_total_sales st))]
             | None \<Rightarrow> status_json 404 msg_store_not_found)))))
       (\<lambda>_. sendPacket s RES_SALES_STAT (status_json 500 msg_internal_error)))"

section \<open>\<^verbatim>\<open>CategoryHandler\<close>\<close>

definition is_shop_category :: "env \<Rightarrow> string \<Rightarrow> bool" where
  "is_shop_category E name \<longleftrightarrow> str_eq E name sql_convenience \<or> str_eq E name sql_mart"

definition food_categories :: "env \<Rightarrow> tables \<Rightarrow> CATEGORIES_row list" where
  "food_categories E t =
     order_by_asc cat_category_id (filter (\<lambda>ct. \<not> is_shop_category E (cat_name ct)) (CATEGORIES t))"

definition shop_brands :: "env \<Rightarrow> tables \<Rightarrow> string list" where
  "shop_brands E t =
     distinct_by (str_eq E)
       (concat (map (\<lambda>s. case s_brand_name s of None \<Rightarrow> [] | Some b \<Rightarrow> [b])
         (filter (\<lambda>s. is_shop_category E (s_category s)) (STORES t))))"

definition handleCategoryRequest :: "env \<Rightarrow> sess_ref \<Rightarrow> string \<Rightarrow> unit io" where
  "handleCategoryRequest E s body =
     catchE
       (getConnection E (\<lambda>c.
          bindE (executeQuery E c (food_categories E)) (\<lambda>food.
          bindE (executeQuery E c (shop_brands E)) (\<lambda>brands.
          bindE (getTopStoresByCategory E) (\<lambda>tops.
          sendPacket s RES_CATEGORY (to_json_MainHomeResDTO
            \<lparr>MainHomeRes_status = 200,
             MainHomeRes_categories = map (\<lambda>ct. \<lparr>CategoryItem_id = cat_category_id ct,
               CategoryItem_name = cat_name ct, CategoryItem_iconPath = nvl [] (cat_icon_name ct)\<rparr>) food,
             MainHomeRes_brandCategories = map (\<lambda>b. \<lparr>BrandCategoryItem_brandName = b\<rparr>) brands,
             MainHomeRes_topStores = tops\<rparr>))))))
       (\<lambda>_. sendPacket s RES_CATEGORY (to_json_MainHomeResDTO
         (default_MainHomeResDTO\<lparr>MainHomeRes_status := 500\<rparr>)))"

end
