(* ===== verification/Dispatcher.thy ===== *)
theory Dispatcher
  imports UserHandler RiderHandler ChatHandler HomeHandlers SearchHandler AddressHandler
    ReviewHandler StoreHandler ThreadPool
begin

text \<open>
  \<^verbatim>\<open>server/src/handler/Dispatcher.cpp\<close>: the table of handlers and \<^verbatim>\<open>dispatch\<close>, which puts a task
  for the thread pool.  A task is the data its closure captures: session, command and body.
  \<^verbatim>\<open>std::unordered_map\<close> keeps the first of two entries with the same key.
\<close>

type_synonym handler = "sess_ref \<Rightarrow> string \<Rightarrow> unit io"
type_synonym task = "sess_ref \<times> CmdID \<times> string"

definition handlerMap :: "env \<Rightarrow> (CmdID \<times> handler) list" where
  "handlerMap E =
     [(REQ_HEARTBEAT, handleHeartbeat E),
      (REQ_SIGNUP, handleSignup E),
      (REQ_LOGIN, handleLogin E),
      (REQ_LOGOUT, handleLogout E),
      (REQ_AUTH_CHECK, handleAuthCheck E),
      (REQ_PHONE_CHECK, handlePhoneCheck E),
      (REQ_BUISNESS_NUM_CHECK, handleBizNumCheck E),
      (REQ_ORDER_LIST, handleOrderList E),
      (REQ_STORE_LIST, handleStoreListRequest E),
      (REQ_STORE_DETAIL, handleStoreDetailReq E),
      (REQ_MENU_LIST, handleMenuListRequest E),
      (REQ_STORE_INFO_UPDATE, handleStoreInfoUpdateReq E),
      (REQ_STORE_STATUS_SET, handleStoreStatusSet E),
      (REQ_MENU_EDIT, handleMenuEdit E),
      (REQ_MENU_SOLD_OUT, handleMenuSoldOut E),
      (REQ_ORDER_REJECT, handleOrderReject E),
      (REQ_CHECKOUT_INFO, handleCheckoutInfo E),
      (REQ_ORDER_CREATE, handleCreateOrder E),
      (REQ_ORDER_ACCEPT, handleOrderAccept E),
      (REQ_MENU_OPTION, handleMenuOption E),
      (REQ_CHANGE_ORDER_STATE, handleChangeOrderState E),
      (REQ_ORDER_REJECT, handleOrderReject E),
      (REQ_ORDER_HISTORY, handleOrderHistory E),
      (REQ_ORDER_HISTORY_SEARCH, handleOrderHistorySearch E),
      (REQ_COOK_TIME_SET, handleCookTimeSet E),
      (REQ_PICKUP, handlePickup E),
      (REQ_ORDER_DETAIL, handleOrderDetail E),
      (REQ_REVIEW_LIST, handleReviewList E),
      (REQ_REVIEW_REPLY, handleReviewReply E),
      (REQ_SALES_STAT, handleSalesStat E),
      (REQ_REVIEW_LIST, handleReviewList E),
      (REQ_MENU_REVIEW_LIST, handleMenuReviewList E),
      (REQ_ADDRESS_SAVE, handleAddressSave E),
      (REQ_ADDRESS_LIST, handleAddressList E),
      (REQ_ADDRESS_DELETE, handleAddressDelete E),
      (REQ_ADDRESS_UPDATE, handleAddressUpdate E),
      (REQ_ADDRESS_DEFAULT, handleAddressDefault E),
      (REQ_RESEARCH_WIDGET, handleSearchWidgetReq E),
      (REQ_RESEARCH_ADD, handleSearchAddReq E),
      (REQ_RESEARCH_DELETE, handleSearchDeleteReq E),
      (REQ_RESEARCH_DEL_ALL, handleSearchDelAllReq E),
      (REQ_SEARCH_STORE, handleSearchStoreReq E),
      (REQ_GRADE_UPDATE, handleGradeUpdate E),
      (REQ_CHAT_CONNECT, handleChatRequest E),
      (REQ_CHAT_SEND, handleChatSend E),
      (REQ_CHAT_CLOSE, handleChatClose E),
      (REQ_RIDER_ORDER_LIST, handleRiderOrderList E),
      (REQ_DELIVERY_COMPLETE, handleDeliveryComplete E),
      (REQ_ADMIN_INIT, handleAdminInit E),
      (REQ_ADMIN_ORDER_LIST, handleAdminOrderList E),
      (RES_REQUEST_OK, handleChatAccept E),
      (REQ_CANCEL, handleCancel E)]"

definition find_handler :: "env \<Rightarrow> CmdID \<Rightarrow> handler option" where
  "find_handler E cmd = map_of (handlerMap E) cmd"

definition dispatch :: "env \<Rightarrow> sess_ref \<Rightarrow> PacketHeader \<Rightarrow> string \<Rightarrow> task ThreadPool \<Rightarrow> task ThreadPool" where
  "dispatch E s h jsonBody p =
     (case find_handler E (cmdId h) of
        Some _ \<Rightarrow> enqueue (s, cmdId h, jsonBody) p
      | None \<Rightarrow> p)"

text \<open>The closure a worker runs: an exception of the handler ends in the log.\<close>

definition run_task :: "env \<Rightarrow> task \<Rightarrow> unit io" where
  "run_task E = (\<lambda>(s, cmd, body).
     case find_handler E cmd of
       Some h \<Rightarrow> catchE (h s body) (\<lambda>_. retE ())
     | None \<Rightarrow> retE ())"

end
