(* ===== verification/Server.thy ===== *)
theory Server
  imports Dispatcher PacketFramer
begin

text \<open>
  \<^verbatim>\<open>server/src/network/ItsServer.cpp\<close> and \<^verbatim>\<open>server/main.cpp\<close>: the event loop accepts connections, reads
  from them and closes them; the workers of the pool run the tasks.  The results of \<^verbatim>\<open>accept\<close>
  and \<^verbatim>\<open>read\<close> are inputs.  A handler runs as one step; the steps of the event loop and of the
  workers interleave in any order.  A handler that would wait for a connection for ever takes
  no step (theory Pool has the interleaving of workers at their database calls), and a frame
  whose declared size makes the framer read outside its buffer (result \<open>Overread\<close> there) is
  treated as the end of the frames of that read.
\<close>

record server =
  wld :: world
  tp :: "task ThreadPool"

section \<open>Accepting, reading, disconnecting\<close>

datatype read_result = ReadBytes string | ReadAgain | ReadError | ReadEof

text \<open>One round of the \<^verbatim>\<open>accept\<close> loop: a session, then the home screen.\<close>

definition accept_client :: "env \<Rightarrow> int \<Rightarrow> server \<Rightarrow> server" where
  "accept_client E fd sv =
     (let w = (wld sv)\<lparr>sm := createSession fd (sm (wld sv))\<rparr>
      in (case getSession (sm w) fd of
            Some r \<Rightarrow> sv\<lparr>wld := snd (catchE (handleCategoryRequest E r []) (\<lambda>_. retE ()) w)\<rparr>
          | None \<Rightarrow> sv\<lparr>wld := w\<rparr>))"

definition acceptNewClient :: "env \<Rightarrow> int list \<Rightarrow> server \<Rightarrow> server" where
  "acceptNewClient E fds sv = fold (accept_client E) fds sv"

definition disconnectClient :: "int \<Rightarrow> server \<Rightarrow> server" where
  "disconnectClient fd sv = sv\<lparr>wld := (wld sv)\<lparr>sm := removeSession fd (sm (wld sv))\<rparr>\<rparr>"

definition dispatch_all :: "env \<Rightarrow> sess_ref \<Rightarrow> (PacketHeader \<times> string) list \<Rightarrow> task ThreadPool \<Rightarrow> task ThreadPool" where
  "dispatch_all E r ps p = fold (\<lambda>(h, b). dispatch E r h b) ps p"

definition receive_bytes :: "env \<Rightarrow> int \<Rightarrow> string \<Rightarrow> server \<Rightarrow> server" where
  "receive_bytes E fd buffer sv =
     (case getSession (sm (wld sv)) fd of
        None \<Rightarrow> sv
      | Some r \<Rightarrow>
          (case onReceiveData (heap (sm (wld sv)) r) buffer of
             (s', ps, _) \<Rightarrow>
               sv\<lparr>wld := (wld sv)\<lparr>sm := upd_session r (\<lambda>_. s') (sm (wld sv))\<rparr>,
                  tp := dispatch_all E r ps (tp sv)\<rparr>))"

fun readFromClient :: "env \<Rightarrow> int \<Rightarrow> read_result list \<Rightarrow> server \<Rightarrow> server" where
  "readFromClient E fd [] sv = sv"
| "readFromClient E fd (ReadBytes b # rs) sv = readFromClient E fd rs (receive_bytes E fd b sv)"
| "readFromClient E fd (ReadAgain # rs) sv = sv"
| "readFromClient E fd (ReadError # rs) sv = disconnectClient fd sv"
| "readFromClient E fd (ReadEof # rs) sv = disconnectClient fd sv"

section \<open>\<^verbatim>\<open>main\<close>\<close>

definition parse_port :: "string option \<Rightarrow> int" where
  "parse_port arg =
     (case arg of
        None \<Rightarrow> 8000
      | Some a \<Rightarrow>
          (case stoi a of
             None \<Rightarrow> 8000
           | Some port \<Rightarrow> if port < 1024 \<or> port > 65535 then 8000 else port))"

definition thread_count :: "int \<Rightarrow> int" where
  "thread_count hw = (if hw \<le> 0 then 4 else hw)"

text \<open>
  The start: a pool of as many connections as workers, two queries whose results are not
  used, then the empty tables of sessions and rooms.  There is no server if a query throws
  (\<^verbatim>\<open>main\<close> ends) or waits for a connection for ever.
\<close>

definition boot_world :: "tables \<Rightarrow> nat \<Rightarrow> world" where
  "boot_world t n =
     \<lparr>committed = t, conns = (\<lambda>_. fresh_conn), pool = [0..<n], sm = init_SessionManager,
      crm = init_ChatRoomManager, sent = [], tick = 0\<rparr>"

definition boot :: "env \<Rightarrow> tables \<Rightarrow> int \<Rightarrow> server option" where
  "boot E t hw =
     (let n = nat (thread_count hw)
      in case bindE (getAllStores E) (\<lambda>_. getMenusByStoreId E 1) (boot_world t n) of
           (Inr _, w) \<Rightarrow> Some \<lparr>wld = w, tp = new_ThreadPool n\<rparr>
         | (Inl _, _) \<Rightarrow> None)"

section \<open>The running server\<close>

inductive srv_step :: "env \<Rightarrow> server \<Rightarrow> server \<Rightarrow> bool" for E where
  srv_accept: "srv_step E sv (acceptNewClient E fds sv)"
| srv_read: "srv_step E sv (readFromClient E fd rs sv)"
| srv_take: "i < length (workers (tp sv)) \<Longrightarrow> workers (tp sv) ! i = Idle \<Longrightarrow>
     pop_task (tp sv) = Some (t, p) \<Longrightarrow>
     srv_step E sv (sv\<lparr>tp := set_worker i (Running t) p\<rparr>)"
| srv_run: "i < length (workers (tp sv)) \<Longrightarrow> workers (tp sv) ! i = Running t \<Longrightarrow>
     fst (run_task E t (wld sv)) \<noteq> Inl Blocked \<Longrightarrow>
     srv_step E sv (sv\<lparr>wld := snd (run_task E t (wld sv)), tp := set_worker i Idle (tp sv)\<rparr>)"

inductive srv_reachable :: "env \<Rightarrow> server \<Rightarrow> bool" for E where
  srv_boot: "boot E t hw = Some sv \<Longrightarrow> srv_reachable E sv"
| srv_next: "srv_reachable E sv \<Longrightarrow> srv_step E sv sv' \<Longrightarrow> srv_reachable E sv'"

end
