(* ===== verification/HandlerFrames.thy ===== *)
theory HandlerFrames
  imports Dispatcher Frames
begin

text \<open>
  The session table and the chat rooms are changed by five handlers only: login, logout, the
  registration of an administrator, and opening and closing a chat.  All other DAO functions and
  handlers leave every component of the world alone that is \<open>neutral\<close>: not the database
  and not its bookkeeping.
\<close>

lemma framed_UserDAO [framed]:
  assumes "neutral g"
  shows "frame g (existsById E b0)" "frame g (existsByPhoneAndRole E b1 c1)" "frame g (insert_role_rows E b2 c2)"
    "frame g (insertUser_tx E b3 c3)" "frame g (insertUser E b4)" "frame g (existsByBizNum E b5)"
    "frame g (getUserGrade E b6)" "frame g (validateLogin E b7 c7 d7)"
    "frame g (updateMembershipGrade E b8 c8 d8)"
  unfolding existsById_def existsByPhoneAndRole_def insert_role_rows_def insertUser_tx_def insertUser_def
    existsByBizNum_def getUserGrade_def validateLogin_def updateMembershipGrade_def
  by (intro framed; simp add: assms neutral_quiet)+

lemma framed_UserHandler [framed]:
  assumes "neutral g"
  shows "frame g (handleSignup E b0 c0)" "frame g (handleAuthCheck E b1 c1)" "frame g (handlePhoneCheck E b2 c2)"
    "frame g (handleBizNumCheck E b3 c3)" "frame g (handleGradeUpdate E b4 c4)"
  unfolding handleSignup_def handleAuthCheck_def handlePhoneCheck_def handleBizNumCheck_def handleGradeUpdate_def
  by (intro framed; simp add: assms neutral_quiet)+

lemma framed_OrderDAO [framed]:
  assumes "neutral g"
  shows "frame g (generateOrderId E)" "frame g (createOrder_tx E b1 c1)" "frame g (createOrder E b2)"
    "frame g (updateOrderStatus E b3 c3)" "frame g (getCustomerIdByOrderId E b4)"
    "frame g (getOrderHistory E b5 c5)" "frame g (getStoreIdByOrderId E b6)"
    "frame g (getDeliveryAddressByOrderId E b7)"
  unfolding generateOrderId_def createOrder_tx_def createOrder_def updateOrderStatus_def getCustomerIdByOrderId_def
    getOrderHistory_def getStoreIdByOrderId_def getDeliveryAddressByOrderId_def
  by (intro framed; simp add: assms neutral_quiet)+

lemma framed_MenuDAO [framed]:
  assumes "neutral g"
  shows "frame g (getOptionGroupsByMenuId E b0)" "frame g (getMenusByStoreId E b1)"
    "frame g (getMenuBasicInfo E b2)" "frame g (getOptionPrice E b3)" "frame g (getMenuBasePrice E b4)"
    "frame g (getMenuOptionsParsed E b5)" "frame g (getMenuName E b6)" "frame g (getOptionName E b7 c7)"
  unfolding getOptionGroupsByMenuId_def getMenusByStoreId_def getMenuBasicInfo_def getOptionPrice_def
    getMenuBasePrice_def getMenuOptionsParsed_def getMenuName_def getOptionName_def
  by (intro framed; simp add: assms neutral_quiet)+

lemma framed_StoreDAO [framed]:
  assumes "neutral g"
  shows "frame g (getTopStoresByCategory E)" "frame g (getStoresByCategory E b1 c1)" "frame g (getAllStores E)"
    "frame g (getAllCategories E)" "frame g (getStoreDetail E b4)" "frame g (dao_executeUpdate E b5)"
    "frame g (getDeliveryFee E b6)" "frame g (getOwnerIdByStoreId E b7)"
  unfolding getTopStoresByCategory_def getStoresByCategory_def getAllStores_def getAllCategories_def
    getStoreDetail_def dao_executeUpdate_def getDeliveryFee_def getOwnerIdByStoreId_def
  by (intro framed; simp add: assms neutral_quiet)+

lemma framed_OrderHandler [framed]:
  assumes "neutral g"
  shows "frame g (notify_user b0 c0)" "frame g (accept_tx E b1 c1)" "frame g (handleOrderAccept E b2 c2)"
    "frame g (handleChangeOrderState E b3 c3)" "frame g (handleOrderList E b4 c4)"
    "frame g (handleOrderHistory E b5 c5)" "frame g (handleOrderHistorySearch E b6 c6)"
    "frame g (item_option_names E b7)" "frame g (item_menu_name E b8)" "frame g (insert_item E b9 c9 d9)"
    "frame g (create_tx E b10 c10 d10 e10)" "frame g (handleCreateOrder E b11 c11)"
    "frame g (handleCookTimeSet E b12 c12)" "frame g (handleDeliveryComplete_order E b13 c13)"
    "frame g (handleCheckoutInfo E b14 c14)" "frame g (handleOrderReject E b15 c15)"
    "frame g (handleCancel E b16 c16)" "frame g (handleOrderDetail E b17 c17)"
  unfolding notify_user_def accept_tx_def handleOrderAccept_def handleChangeOrderState_def handleOrderList_def
    handleOrderHistory_def handleOrderHistorySearch_def item_option_names_def item_menu_name_def
    insert_item_def create_tx_def handleCreateOrder_def handleCookTimeSet_def handleDeliveryComplete_order_def
    handleCheckoutInfo_def handleOrderReject_def handleCancel_def handleOrderDetail_def
  by (intro framed; simp add: assms neutral_quiet)+

lemma framed_RiderHandler [framed]:
  assumes "neutral g"
  shows "frame g (handleRiderOrderList E b0 c0)" "frame g (notify_delivered E b1)"
    "frame g (handleDeliveryComplete E b2 c2)" "frame g (handlePickup E b3 c3)"
  unfolding handleRiderOrderList_def notify_delivered_def handleDeliveryComplete_def handlePickup_def
  by (intro framed; simp add: assms neutral_quiet)+

lemma framed_HomeHandlers [framed]:
  assumes "neutral g"
  shows "frame g (handleHeartbeat E b0 c0)" "frame g (handleSalesStat E b1 c1)"
    "frame g (handleCategoryRequest E b2 c2)"
  unfolding handleHeartbeat_def handleSalesStat_def handleCategoryRequest_def
  by (intro framed; simp add: assms neutral_quiet)+

lemma framed_SearchHandler [framed]:
  assumes "neutral g"
  shows "frame g (getPopularCategories E b0)" "frame g (insertSearchHistory E b1 c1)"
    "frame g (applySearchScore E b2)" "frame g (searchStoresByKeyword E b3)"
    "frame g (deleteRecentSearch E b4 c4)" "frame g (deleteAllRecentSearches E b5)"
    "frame g (getRecentSearches E b6)" "frame g (getCurrentDateTime E)" "frame g (getExpiryDate E)"
    "frame g (getCurrentDate E)" "frame g (handleSearchWidgetReq E b10 c10)"
    "frame g (handleSearchAddReq E b11 c11)" "frame g (handleSearchDeleteReq E b12 c12)"
    "frame g (handleSearchDelAllReq E b13 c13)" "frame g (handleSearchStoreReq E b14 c14)"
  unfolding getPopularCategories_def insertSearchHistory_def applySearchScore_def searchStoresByKeyword_def
    deleteRecentSearch_def deleteAllRecentSearches_def getRecentSearches_def getCurrentDateTime_def
    getExpiryDate_def getCurrentDate_def handleSearchWidgetReq_def handleSearchAddReq_def
    handleSearchDeleteReq_def handleSearchDelAllReq_def handleSearchStoreReq_def
  by (intro framed; simp add: assms neutral_quiet)+

lemma framed_ReviewHandler [framed]:
  assumes "neutral g"
  shows "frame g (handleReviewList E b0 c0)" "frame g (handleReviewReply E b1 c1)"
    "frame g (handleMenuReviewList E b2 c2)"
  unfolding handleReviewList_def handleReviewReply_def handleMenuReviewList_def
  by (intro framed; simp add: assms neutral_quiet)+

lemma framed_StoreHandler [framed]:
  assumes "neutral g"
  shows "frame g (handleStoreListRequest E b0 c0)" "frame g (handleStoreDetailReq E b1 c1)"
    "frame g (store_info_update E b2 c2 d2 e2 f2)" "frame g (handleStoreInfoUpdateReq E b3 c3)"
    "frame g (handleStoreStatusSet E b4 c4)" "frame g (handleMenuListRequest E b5 c5)"
    "frame g (menu_edit E b6 c6 d6 e6)" "frame g (handleMenuEdit E b7 c7)"
    "frame g (handleMenuSoldOut E b8 c8)" "frame g (handleMenuOption E b9 c9)"
  unfolding handleStoreListRequest_def handleStoreDetailReq_def store_info_update_def handleStoreInfoUpdateReq_def
    handleStoreStatusSet_def handleMenuListRequest_def menu_edit_def handleMenuEdit_def handleMenuSoldOut_def
    handleMenuOption_def
  by (intro framed; simp add: assms neutral_quiet)+

lemma framed_AddressHandler [framed]:
  assumes "neutral g"
  shows "frame g (saveAddress_tx E b0 c0)" "frame g (saveAddress E b1)" "frame g (getAddressList E b2)"
    "frame g (deleteAddress E b3 c3)" "frame g (setDefaultAddress E b4 c4)" "frame g (updateAddress E b5)"
    "frame g (push_address_list E b6 c6)" "frame g (handleAddressSave E b7 c7)"
    "frame g (handleAddressList E b8 c8)" "frame g (handleAddressDelete E b9 c9)"
    "frame g (handleAddressUpdate E b10 c10)" "frame g (handleAddressDefault E b11 c11)"
  unfolding saveAddress_tx_def saveAddress_def getAddressList_def deleteAddress_def setDefaultAddress_def
    updateAddress_def push_address_list_def handleAddressSave_def handleAddressList_def
    handleAddressDelete_def handleAddressUpdate_def handleAddressDefault_def
  by (intro framed; simp add: assms neutral_quiet)+

lemma framed_ChatHandler [framed]:
  assumes "neutral g"
  shows "frame g (find_room a0)" "frame g (send_to b1 c1 d1)" "frame g (handleChatRequest E b2 c2)"
    "frame g (handleChatSend E b3 c3)" "frame g (searchOrders E b4 c4)"
    "frame g (handleAdminOrderList E b5 c5)"
  unfolding find_room_def send_to_def handleChatRequest_def handleChatSend_def searchOrders_def
    handleAdminOrderList_def
  by (intro framed; simp add: assms neutral_quiet)+

end
