(* ===== verification/Waiting.thy ===== *)
theory Waiting
  imports Dispatcher Frames Texts
begin

text \<open>
  How many pooled connections a handler needs when it runs alone.  \<open>needs k m\<close>: with at least \<open>k\<close>
  connections in the pool, \<open>m\<close> never waits for ever and returns all connections it takes,
  whichever database calls fail.  Each \<^verbatim>\<open>getConnection\<close> around other code costs one.
\<close>

definition needs :: "nat \<Rightarrow> 'a io \<Rightarrow> bool" where
  "needs k m \<longleftrightarrow> (\<forall>w. k \<le> length (pool w) \<longrightarrow>
     fst (m w) \<noteq> Inl Blocked \<and> length (pool (snd (m w))) = length (pool w))"

named_theorems need_rules

lemma needs_bind [need_rules]: "needs k m \<Longrightarrow> (\<And>x. needs k (f x)) \<Longrightarrow> needs k (bindE m f)"
  by (fastforce simp: needs_def bindE_def split: sum.splits prod.splits)

lemma needs_then [need_rules]: "needs k m \<Longrightarrow> needs k n \<Longrightarrow> needs k (thenE m n)"
  unfolding thenE_def by (rule needs_bind)

lemma needs_catch [need_rules]: "needs k m \<Longrightarrow> (\<And>e. needs k (h e)) \<Longrightarrow> needs k (catchE m h)"
  by (fastforce simp: needs_def catchE_def split: sum.splits prod.splits)

lemma needs_catch_sql [need_rules]:
  assumes "needs k m" "needs k h"
  shows "needs k (catch_sql m h)"
proof -
  have "catch_sql m h w = (case m w of (Inl e, w') \<Rightarrow> if is_sql e then h w' else (Inl e, w') | (Inr x, w') \<Rightarrow> (Inr x, w'))" for w
    by (auto simp: catch_sql_def catchE_def throwE_def split: sum.splits prod.splits)
  then show ?thesis using assms by (fastforce simp: needs_def split: sum.splits prod.splits)
qed

lemma needs_ret [need_rules]: "needs k (retE x)"
  and needs_throw [need_rules]: "e \<noteq> Blocked \<Longrightarrow> needs k (throwE e)"
  and needs_lift [need_rules]: "r \<noteq> Inl Blocked \<Longrightarrow> needs k (liftE r)"
  and needs_gets [need_rules]: "needs k (getsE f)"
  by (auto simp: needs_def io_defs)

lemma needs_parse [need_rules]: "(\<And>j. fj j \<noteq> Inl Blocked) \<Longrightarrow> needs k (parse_dto fj body)"
  unfolding parse_dto_def by (intro needs_lift decode_rules)

lemma needs_now [need_rules]: "needs k (now E)"
  and needs_field [need_rules]: "needs k (session_field fld r)"
  by (auto simp: now_def session_field_def intro: need_rules)

lemma needs_calls [need_rules]: "needs k (executeQuery E c q)" "needs k (executeUpdate E c u)" "needs k (prepareStatement E)"
    "needs k (commit E c)" "needs k (rollback E c)" "needs k (setAutoCommit E c b)"
  by (auto simp: needs_def executeQuery_def executeUpdate_def prepareStatement_def commit_def rollback_def setAutoCommit_def
    db_call_def put_view_def commit_work_def set_conn_def io_defs Let_def split: option.splits)

lemma needs_send [need_rules]: "needs k (sendPacket r cmd j)"
  by (auto simp: needs_def sendPacket_def io_defs split: sum.splits)

lemma needs_branches [need_rules]: "(b \<Longrightarrow> needs k m) \<Longrightarrow> (\<not> b \<Longrightarrow> needs k n) \<Longrightarrow> needs k (if b then m else n)"
    "needs k m \<Longrightarrow> (\<And>x. needs k (f x)) \<Longrightarrow> needs k (case r of None \<Rightarrow> m | Some x \<Rightarrow> f x)"
    "(\<And>x y. needs k (g x y)) \<Longrightarrow> needs k (case p of (x, y) \<Rightarrow> g x y)"
    "(\<And>x. needs k (f x)) \<Longrightarrow> needs k (let x = y in f x)"
    "needs k m' \<Longrightarrow> needs k (whenE b m')"
  by (auto simp: whenE_def needs_ret split: option.splits prod.splits)

lemma needs_map [need_rules]: "(\<And>x. needs k (f x)) \<Longrightarrow> needs k (mapE f xs)"
  by (induction xs) (auto intro: need_rules)

lemma needs_collect [need_rules]: "(\<And>x. needs k (f x)) \<Longrightarrow> needs k (collect f xs)"
  by (induction xs) (auto intro!: need_rules)

lemma needs_sends [need_rules]: "needs k (sendToUser uid cmd j)" "needs k (broadcastToRole ro cmd j)"
proof -
  have "needs k (bindE (sendPacket r cmd j) (\<lambda>_. retE True))" for r by (intro need_rules)
  then show "needs k (sendToUser uid cmd j)" by (auto simp: needs_def sendToUser_def split: option.splits)
  have "needs k (bindE (mapE (\<lambda>r. sendPacket r cmd j) rs) (\<lambda>_. retE ()))" for rs by (intro need_rules)
  then show "needs k (broadcastToRole ro cmd j)" by (simp add: needs_def broadcastToRole_def)
qed

lemma needs_tables [need_rules]: "needs k (sm_do f)" "needs k (crm_do h)"
  by (auto simp: needs_def sm_do_def crm_do_def io_defs split: prod.splits)

lemma needs_getConnection [need_rules]:
  assumes "1 \<le> k" "\<And>c. needs (k - 1) (f c)"
  shows "needs k (getConnection E f)"
  unfolding needs_def
proof (intro allI impI)
  fix w :: world
  assume k: "k \<le> length (pool w)"
  then obtain c cs where w: "pool w = c # cs" using assms(1) by (cases "pool w") auto
  let ?w = "revalidate E c (w\<lparr>pool := cs\<rparr>)"
  have pool: "pool ?w = cs" by (simp add: revalidate_def set_conn_def)
  then have "fst (f c ?w) \<noteq> Inl Blocked \<and> length (pool (snd (f c ?w))) = length cs"
    using assms(2) [of c] k w by (simp add: needs_def)
  then show "fst (getConnection E f w) \<noteq> Inl Blocked \<and> length (pool (snd (getConnection E f w))) = length (pool w)"
    by (auto simp: getConnection_def pool_pop_def pool_push_def w split: prod.splits)
qed

section \<open>Decoding a request never waits\<close>

lemma ebind_blocked: "ebind x f = Inl e \<longleftrightarrow> x = Inl e \<or> (\<exists>v. x = Inr v \<and> f v = Inl e)"
  by (cases x) auto

lemma get_json_not_blocked [decode_rules]: "get_json j \<noteq> Inl Blocked"
  by simp

lemma emap_not_blocked [decode_rules]: "(\<And>x. x \<in> set xs \<Longrightarrow> f x \<noteq> Inl Blocked) \<Longrightarrow> emap f xs \<noteq> Inl Blocked"
  by (induction xs) (auto simp: ebind_blocked)

lemma get_vector_not_blocked [decode_rules]: "(\<And>x. f x \<noteq> Inl Blocked) \<Longrightarrow> get_vector f j \<noteq> Inl Blocked"
  by (auto simp: get_vector_def emap_not_blocked split: json.splits)

lemma choice_not_blocked [decode_rules]: "x \<noteq> Inl Blocked \<Longrightarrow> y \<noteq> Inl Blocked \<Longrightarrow> (if b then x else y) \<noteq> Inl Blocked"
    "(\<And>v. z v \<noteq> Inl Blocked) \<Longrightarrow> (let v = a in z v) \<noteq> Inl Blocked"
  by simp_all

lemma item_not_blocked [decode_rules]: "from_json_OrderItemDTO j \<noteq> Inl Blocked"
  unfolding from_json_OrderItemDTO_def by (intro decode_rules)

lemma options_not_blocked [decode_rules]: "from_json_OptionGroup j \<noteq> Inl Blocked"
  unfolding from_json_OptionGroup_def from_json_OptionItem_def by (intro decode_rules)

lemma requests_not_blocked [decode_rules]:
  "from_json_AuthCheckReqDTO j \<noteq> Inl Blocked" "from_json_BizNumCheckReqDTO j \<noteq> Inl Blocked"
  "from_json_LoginReqDTO j \<noteq> Inl Blocked" "from_json_OrderAcceptReqDTO j \<noteq> Inl Blocked"
  "from_json_OrderCreateReqDTO j \<noteq> Inl Blocked" "from_json_PhoneCheckReqDTO j \<noteq> Inl Blocked"
  "from_json_ReqAddressDefaultDTO j \<noteq> Inl Blocked" "from_json_ReqAddressDeleteDTO j \<noteq> Inl Blocked"
  "from_json_ReqAddressListDTO j \<noteq> Inl Blocked" "from_json_ReqAddressSaveDTO j \<noteq> Inl Blocked"
  "from_json_ReqAddressUpdateDTO j \<noteq> Inl Blocked" "from_json_ReqAdminOrderListDTO j \<noteq> Inl Blocked"
  "from_json_ReqChangeOrderStateDTO j \<noteq> Inl Blocked" "from_json_ReqChatAcceptDTO j \<noteq> Inl Blocked"
  "from_json_ReqChatConnectDTO j \<noteq> Inl Blocked" "from_json_ReqChatSendDTO j \<noteq> Inl Blocked"
  "from_json_ReqCheckoutInfoDTO j \<noteq> Inl Blocked" "from_json_ReqCookTimeSetDTO j \<noteq> Inl Blocked"
  "from_json_ReqDeliveryCompleteDTO j \<noteq> Inl Blocked" "from_json_ReqGradeUpdateDTO j \<noteq> Inl Blocked"
  "from_json_ReqMenuOptionDTO j \<noteq> Inl Blocked" "from_json_ReqOrderHistoryDTO j \<noteq> Inl Blocked"
  "from_json_ReqOrderHistorySearchDTO j \<noteq> Inl Blocked" "from_json_ReqResearchAddDTO j \<noteq> Inl Blocked"
  "from_json_ReqResearchDelAllDTO j \<noteq> Inl Blocked" "from_json_ReqResearchDeleteDTO j \<noteq> Inl Blocked"
  "from_json_ReqResearchWidgetDTO j \<noteq> Inl Blocked" "from_json_ReqSearchStoreDTO j \<noteq> Inl Blocked"
  "from_json_ReqStoreDetailDTO j \<noteq> Inl Blocked" "from_json_SignupReqDTO j \<noteq> Inl Blocked"
  "from_json_StoreListReqDTO j \<noteq> Inl Blocked"
  unfolding from_json_AuthCheckReqDTO_def from_json_BizNumCheckReqDTO_def from_json_LoginReqDTO_def
    from_json_OrderAcceptReqDTO_def from_json_OrderCreateReqDTO_def from_json_PhoneCheckReqDTO_def
    from_json_ReqAddressDefaultDTO_def from_json_ReqAddressDeleteDTO_def from_json_ReqAddressListDTO_def
    from_json_ReqAddressSaveDTO_def from_json_ReqAddressUpdateDTO_def from_json_ReqAdminOrderListDTO_def
    from_json_ReqChangeOrderStateDTO_def from_json_ReqChatAcceptDTO_def from_json_ReqChatConnectDTO_def
    from_json_ReqChatSendDTO_def from_json_ReqCheckoutInfoDTO_def from_json_ReqCookTimeSetDTO_def
    from_json_ReqDeliveryCompleteDTO_def from_json_ReqGradeUpdateDTO_def from_json_ReqMenuOptionDTO_def
    from_json_ReqOrderHistoryDTO_def from_json_ReqOrderHistorySearchDTO_def from_json_ReqResearchAddDTO_def
    from_json_ReqResearchDelAllDTO_def from_json_ReqResearchDeleteDTO_def from_json_ReqResearchWidgetDTO_def
    from_json_ReqSearchStoreDTO_def from_json_ReqStoreDetailDTO_def from_json_SignupReqDTO_def
    from_json_StoreListReqDTO_def
  by (intro decode_rules)+

lemma stoiE_not_blocked [decode_rules]: "stoiE s \<noteq> Inl Blocked"
  by (simp add: stoiE_def split: option.splits)

lemma login_not_blocked [decode_rules]: "login_response j \<noteq> Inl Blocked"
  unfolding login_response_def login_base_def login_owner_def by (intro decode_rules)

lemma menu_input_not_blocked [decode_rules]: "menu_input_of b j \<noteq> Inl Blocked"
proof -
  have "dumped_options j \<noteq> Inl Blocked"
    by (auto simp: dumped_options_def json_not_blocked split: json.splits option.splits)
  then show ?thesis unfolding menu_input_of_def by (intro decode_rules)
qed

lemma change_not_blocked [decode_rules]:
  "(\<And>v. f v \<noteq> Inl Blocked) \<Longrightarrow> change_if req k f \<noteq> Inl Blocked" "str_change g v \<noteq> Inl Blocked"
  by (auto simp: change_if_def str_change_def ebind_blocked get_not_blocked split: json.splits option.splits)

lemma min_order_not_blocked [decode_rules]: "min_order_change v \<noteq> Inl Blocked"
  by (cases v) (simp_all add: change_not_blocked)

lemma changes_not_blocked [decode_rules]: "store_changes j \<noteq> Inl Blocked" "user_changes j \<noteq> Inl Blocked"
    "owner_changes j \<noteq> Inl Blocked"
  by (auto simp: store_changes_def user_changes_def owner_changes_def econcat_def ebind_blocked get_not_blocked
    change_not_blocked min_order_not_blocked)

lemma net_delivery_not_blocked [decode_rules]: "net_delivery_time rs \<noteq> Inl Blocked"
proof -
  have "max_stoi ds n \<noteq> Inl Blocked" for ds n
    by (induction ds arbitrary: n) (auto simp: ebind_blocked stoiE_not_blocked)
  then show ?thesis by (auto simp: net_delivery_time_def Let_def ebind_blocked split: option.splits)
qed

lemma option_name_not_blocked [decode_rules]: "option_name_in oid s \<noteq> Inl Blocked"
proof -
  have item: "find_option oid js \<noteq> Inl Blocked" for js
    by (induction js) (auto simp: ebind_blocked fields_not_blocked get_not_blocked split: if_splits)
  have "find_option_in_groups oid js \<noteq> Inl Blocked" for js
    by (induction js) (auto simp: ebind_blocked fields_not_blocked item split: option.splits)
  then show ?thesis
    by (auto simp: option_name_in_def ebind_blocked json_not_blocked split: json.splits)
qed

section \<open>DAO functions and handlers\<close>

lemma needs_UserDAO_0 [need_rules]:
  "needs k (insert_role_rows E b0 c0)" "needs k (insertUser_tx E b1 c1)"
  unfolding insert_role_rows_def insertUser_tx_def
  by (intro need_rules decode_rules; simp)+

lemma needs_UserDAO_1 [need_rules]:
  assumes "1 \<le> k"
  shows "needs k (existsById E b0)" "needs k (existsByPhoneAndRole E b1 c1)" "needs k (insertUser E b2)"
    "needs k (existsByBizNum E b3)" "needs k (getUserGrade E b4)" "needs k (validateLogin E b5 c5 d5)"
    "needs k (updateMembershipGrade E b6 c6 d6)"
  unfolding existsById_def existsByPhoneAndRole_def insertUser_def existsByBizNum_def getUserGrade_def validateLogin_def
    updateMembershipGrade_def
  by (intro need_rules decode_rules; use assms in simp)+

lemma needs_UserHandler_0 [need_rules]:
  "needs k (handleLogout E b0 c0)"
  unfolding handleLogout_def
  by (intro need_rules decode_rules; simp)+

lemma needs_UserHandler_1 [need_rules]:
  assumes "1 \<le> k"
  shows "needs k (handleSignup E b0 c0)" "needs k (handleLogin E b1 c1)" "needs k (handleAuthCheck E b2 c2)"
    "needs k (handlePhoneCheck E b3 c3)" "needs k (handleBizNumCheck E b4 c4)"
    "needs k (handleGradeUpdate E b5 c5)"
  unfolding handleSignup_def handleLogin_def handleAuthCheck_def handlePhoneCheck_def handleBizNumCheck_def
    handleGradeUpdate_def
  by (intro need_rules decode_rules; use assms in simp)+

lemma needs_OrderDAO_0 [need_rules]:
  "needs k (generateOrderId E)" "needs k (createOrder_tx E b1 c1)"
  unfolding generateOrderId_def createOrder_tx_def
  by (intro need_rules decode_rules; simp)+

lemma needs_OrderDAO_1 [need_rules]:
  assumes "1 \<le> k"
  shows "needs k (createOrder E b0)" "needs k (updateOrderStatus E b1 c1)" "needs k (getCustomerIdByOrderId E b2)"
    "needs k (getOrderHistory E b3 c3)" "needs k (getStoreIdByOrderId E b4)"
    "needs k (getDeliveryAddressByOrderId E b5)"
  unfolding createOrder_def updateOrderStatus_def getCustomerIdByOrderId_def getOrderHistory_def getStoreIdByOrderId_def
    getDeliveryAddressByOrderId_def
  by (intro need_rules decode_rules; use assms in simp)+

lemma needs_MenuDAO_1 [need_rules]:
  assumes "1 \<le> k"
  shows "needs k (getOptionGroupsByMenuId E b0)" "needs k (getMenuBasicInfo E b1)" "needs k (getOptionPrice E b2)"
    "needs k (getMenuBasePrice E b3)" "needs k (getMenuOptionsParsed E b4)" "needs k (getMenuName E b5)"
    "needs k (getOptionName E b6 c6)"
  unfolding getOptionGroupsByMenuId_def getMenuBasicInfo_def getOptionPrice_def getMenuBasePrice_def
    getMenuOptionsParsed_def getMenuName_def getOptionName_def
  by (intro need_rules decode_rules; use assms in simp)+

lemma needs_MenuDAO_2 [need_rules]:
  assumes "2 \<le> k"
  shows "needs k (getMenusByStoreId E b0)"
  unfolding getMenusByStoreId_def
  by (intro need_rules decode_rules; use assms in simp)+

lemma needs_StoreDAO_1 [need_rules]:
  assumes "1 \<le> k"
  shows "needs k (getTopStoresByCategory E)" "needs k (getStoresByCategory E b1 c1)" "needs k (getAllStores E)"
    "needs k (getAllCategories E)" "needs k (getStoreDetail E b4)" "needs k (dao_executeUpdate E b5)"
    "needs k (getDeliveryFee E b6)" "needs k (getOwnerIdByStoreId E b7)"
  unfolding getTopStoresByCategory_def getStoresByCategory_def getAllStores_def getAllCategories_def getStoreDetail_def
    dao_executeUpdate_def getDeliveryFee_def getOwnerIdByStoreId_def
  by (intro need_rules decode_rules; use assms in simp)+

lemma needs_OrderHandler_0 [need_rules]:
  "needs k (notify_user b0 c0)" "needs k (accept_tx E b1 c1)"
  unfolding notify_user_def accept_tx_def
  by (intro need_rules decode_rules; simp)+

lemma needs_OrderHandler_1 [need_rules]:
  assumes "1 \<le> k"
  shows "needs k (handleOrderList E b0 c0)" "needs k (handleOrderHistory E b1 c1)"
    "needs k (handleOrderHistorySearch E b2 c2)" "needs k (item_option_names E b3)" "needs k (item_menu_name E b4)"
    "needs k (insert_item E b5 c5 d5)" "needs k (create_tx E b6 c6 d6 e6)" "needs k (handleCheckoutInfo E b7 c7)"
    "needs k (handleOrderDetail E b8 c8)"
  unfolding handleOrderList_def handleOrderHistory_def handleOrderHistorySearch_def item_option_names_def
    item_menu_name_def insert_item_def create_tx_def handleCheckoutInfo_def handleOrderDetail_def
  by (intro need_rules decode_rules; use assms in simp)+

lemma needs_OrderHandler_2 [need_rules]:
  assumes "2 \<le> k"
  shows "needs k (handleOrderAccept E b0 c0)" "needs k (handleChangeOrderState E b1 c1)"
    "needs k (handleCreateOrder E b2 c2)" "needs k (handleCookTimeSet E b3 c3)"
    "needs k (handleDeliveryComplete_order E b4 c4)" "needs k (handleOrderReject E b5 c5)"
    "needs k (handleCancel E b6 c6)"
  unfolding handleOrderAccept_def handleChangeOrderState_def handleCreateOrder_def handleCookTimeSet_def
    handleDeliveryComplete_order_def handleOrderReject_def handleCancel_def
  by (intro need_rules decode_rules; use assms in simp)+

lemma needs_RiderHandler_1 [need_rules]:
  assumes "1 \<le> k"
  shows "needs k (handleRiderOrderList E b0 c0)" "needs k (notify_delivered E b1)"
  unfolding handleRiderOrderList_def notify_delivered_def
  by (intro need_rules decode_rules; use assms in simp)+

lemma needs_RiderHandler_2 [need_rules]:
  assumes "2 \<le> k"
  shows "needs k (handleDeliveryComplete E b0 c0)" "needs k (handlePickup E b1 c1)"
  unfolding handleDeliveryComplete_def handlePickup_def
  by (intro need_rules decode_rules; use assms in simp)+

lemma needs_HomeHandlers_1 [need_rules]:
  assumes "1 \<le> k"
  shows "needs k (handleHeartbeat E b0 c0)" "needs k (handleSalesStat E b1 c1)"
  unfolding handleHeartbeat_def handleSalesStat_def
  by (intro need_rules decode_rules; use assms in simp)+

lemma needs_HomeHandlers_2 [need_rules]:
  assumes "2 \<le> k"
  shows "needs k (handleCategoryRequest E b0 c0)"
  unfolding handleCategoryRequest_def
  by (intro need_rules decode_rules; use assms in simp)+

lemma needs_SearchHandler_0 [need_rules]:
  "needs k (getCurrentDateTime E)" "needs k (getExpiryDate E)" "needs k (getCurrentDate E)"
  unfolding getCurrentDateTime_def getExpiryDate_def getCurrentDate_def
  by (intro need_rules decode_rules; simp)+

lemma needs_SearchHandler_1 [need_rules]:
  assumes "1 \<le> k"
  shows "needs k (getPopularCategories E b0)" "needs k (insertSearchHistory E b1 c1)" "needs k (applySearchScore E b2)"
    "needs k (searchStoresByKeyword E b3)" "needs k (deleteRecentSearch E b4 c4)"
    "needs k (deleteAllRecentSearches E b5)" "needs k (getRecentSearches E b6)"
    "needs k (handleSearchWidgetReq E b7 c7)" "needs k (handleSearchAddReq E b8 c8)"
    "needs k (handleSearchDeleteReq E b9 c9)" "needs k (handleSearchDelAllReq E b10 c10)"
    "needs k (handleSearchStoreReq E b11 c11)"
  unfolding getPopularCategories_def insertSearchHistory_def applySearchScore_def searchStoresByKeyword_def
    deleteRecentSearch_def deleteAllRecentSearches_def getRecentSearches_def handleSearchWidgetReq_def
    handleSearchAddReq_def handleSearchDeleteReq_def handleSearchDelAllReq_def handleSearchStoreReq_def
  by (intro need_rules decode_rules; use assms in simp)+

lemma needs_ReviewHandler_1 [need_rules]:
  assumes "1 \<le> k"
  shows "needs k (handleReviewList E b0 c0)" "needs k (handleReviewReply E b1 c1)"
    "needs k (handleMenuReviewList E b2 c2)"
  unfolding handleReviewList_def handleReviewReply_def handleMenuReviewList_def
  by (intro need_rules decode_rules; use assms in simp)+

lemma needs_StoreHandler_0 [need_rules]:
  "needs k (menu_edit E b0 c0 d0 e0)"
  unfolding menu_edit_def
  by (intro need_rules decode_rules; simp)+

lemma needs_StoreHandler_1 [need_rules]:
  assumes "1 \<le> k"
  shows "needs k (handleStoreListRequest E b0 c0)" "needs k (handleStoreDetailReq E b1 c1)"
    "needs k (store_info_update E b2 c2 d2 e2 f2)" "needs k (handleStoreInfoUpdateReq E b3 c3)"
    "needs k (handleStoreStatusSet E b4 c4)" "needs k (handleMenuListRequest E b5 c5)"
    "needs k (handleMenuEdit E b6 c6)" "needs k (handleMenuSoldOut E b7 c7)" "needs k (handleMenuOption E b8 c8)"
  unfolding handleStoreListRequest_def handleStoreDetailReq_def store_info_update_def handleStoreInfoUpdateReq_def
    handleStoreStatusSet_def handleMenuListRequest_def handleMenuEdit_def handleMenuSoldOut_def
    handleMenuOption_def
  by (intro need_rules decode_rules; use assms in simp)+

lemma needs_AddressHandler_0 [need_rules]:
  "needs k (saveAddress_tx E b0 c0)"
  unfolding saveAddress_tx_def
  by (intro need_rules decode_rules; simp)+

lemma needs_AddressHandler_1 [need_rules]:
  assumes "1 \<le> k"
  shows "needs k (saveAddress E b0)" "needs k (getAddressList E b1)" "needs k (deleteAddress E b2 c2)"
    "needs k (setDefaultAddress E b3 c3)" "needs k (updateAddress E b4)" "needs k (push_address_list E b5 c5)"
    "needs k (handleAddressSave E b6 c6)" "needs k (handleAddressList E b7 c7)"
    "needs k (handleAddressDelete E b8 c8)" "needs k (handleAddressUpdate E b9 c9)"
    "needs k (handleAddressDefault E b10 c10)"
  unfolding saveAddress_def getAddressList_def deleteAddress_def setDefaultAddress_def updateAddress_def
    push_address_list_def handleAddressSave_def handleAddressList_def handleAddressDelete_def
    handleAddressUpdate_def handleAddressDefault_def
  by (intro need_rules decode_rules; use assms in simp)+

lemma needs_ChatHandler_0 [need_rules]:
  "needs k (find_room a0)" "needs k (send_to b1 c1 d1)" "needs k (handleChatRequest E b2 c2)"
    "needs k (handleChatAccept E b3 c3)" "needs k (handleChatSend E b4 c4)" "needs k (handleChatClose E b5 c5)"
    "needs k (handleAdminInit E b6 c6)"
  unfolding find_room_def send_to_def handleChatRequest_def handleChatAccept_def handleChatSend_def handleChatClose_def
    handleAdminInit_def
  by (intro need_rules decode_rules; simp)+

lemma needs_ChatHandler_1 [need_rules]:
  assumes "1 \<le> k"
  shows "needs k (searchOrders E b0 c0)" "needs k (handleAdminOrderList E b1 c1)"
  unfolding searchOrders_def handleAdminOrderList_def
  by (intro need_rules decode_rules; use assms in simp)+

section \<open>The table of handlers and the start\<close>

text \<open>The commands whose handlers hold a connection while they take a second one.\<close>

definition two_connections :: "CmdID list" where
  "two_connections = [REQ_ORDER_REJECT, REQ_ORDER_CREATE, REQ_ORDER_ACCEPT, REQ_CHANGE_ORDER_STATE, REQ_COOK_TIME_SET,
     REQ_PICKUP, REQ_DELIVERY_COMPLETE, REQ_CANCEL]"

lemma handlers_need:
  "\<forall>(cmd, h)\<in>set (handlerMap E). needs (if cmd \<in> set two_connections then 2 else 1) (h s body)"
  unfolding handlerMap_def two_connections_def by (simp add: need_rules)

end
