(* ===== verification/ServerLaws.thy ===== *)
theory ServerLaws
  imports Server HandlerFrames Waiting NetworkLaws Sample
begin

text \<open>
  Properties of the whole server: an invariant of all reachable states, the receive path as a
  refinement of a machine that gets whole packets, and the start.
\<close>

section \<open>Handlers keep the tables consistent\<close>

definition tables_ok :: "nat \<Rightarrow> world \<Rightarrow> bool" where
  "tables_ok n w \<longleftrightarrow> sm_inv (sm w) \<and> crm_inv (crm w) \<and> next_ref (sm w) = n"

definition safe :: "nat \<Rightarrow> 'a io \<Rightarrow> bool" where
  "safe n m \<longleftrightarrow> (\<forall>w. tables_ok n w \<longrightarrow> tables_ok n (snd (m w)))"

named_theorems safe_rules

lemma safe_bind [safe_rules]: "safe n m \<Longrightarrow> (\<And>x. safe n (f x)) \<Longrightarrow> safe n (bindE m f)"
  by (fastforce simp: safe_def bindE_def split: sum.splits prod.splits)

lemma safe_then [safe_rules]: "safe n m \<Longrightarrow> safe n m' \<Longrightarrow> safe n (thenE m m')"
  unfolding thenE_def by (rule safe_bind)


lemma safe_branches [safe_rules]: "safe n m \<Longrightarrow> safe n m' \<Longrightarrow> safe n (if b then m else m')"
    "safe n m \<Longrightarrow> (\<And>x. safe n (f x)) \<Longrightarrow> safe n (case r of None \<Rightarrow> m | Some x \<Rightarrow> f x)"
    "(\<And>x y. safe n (g x y)) \<Longrightarrow> safe n (case p of (x, y) \<Rightarrow> g x y)"
  by (simp_all split: option.splits prod.splits)




lemma safe_sm_do [safe_rules]:
  "(\<And>m. sm_inv m \<Longrightarrow> next_ref m = n \<Longrightarrow> sm_inv (f m) \<and> next_ref (f m) = n) \<Longrightarrow> safe n (sm_do f)"
  by (simp add: safe_def sm_do_def tables_ok_def io_defs)

lemma safe_crm_do [safe_rules]: "(\<And>m. crm_inv m \<Longrightarrow> crm_inv (snd (f m))) \<Longrightarrow> safe n (crm_do f)"
  by (auto simp: safe_def crm_do_def tables_ok_def split: prod.splits) (metis snd_conv)







section \<open>The invariant\<close>













section \<open>Every step keeps it\<close>











section \<open>Reading refines the delivery of packets\<close>

text \<open>The abstract machine: whole packets arrive, and those with a known command become tasks.\<close>

definition packet_tasks :: "env \<Rightarrow> sess_ref \<Rightarrow> (PacketHeader \<times> string) list \<Rightarrow> task list" where
  "packet_tasks E r ps = [(r, cmdId h, b). (h, b) \<leftarrow> ps, find_handler E (cmdId h) \<noteq> None]"

definition deliver :: "env \<Rightarrow> sess_ref \<Rightarrow> (PacketHeader \<times> string) list \<Rightarrow> server \<Rightarrow> server" where
  "deliver E r ps sv = sv\<lparr>tp := (tp sv)\<lparr>tasks := tasks (tp sv) @ packet_tasks E r ps,
     enqueued := enqueued (tp sv) @ packet_tasks E r ps\<rparr>\<rparr>"

lemma dispatch_all_tasks:
  "dispatch_all E r ps p = p\<lparr>tasks := tasks p @ packet_tasks E r ps, enqueued := enqueued p @ packet_tasks E r ps\<rparr>"
proof (induction ps arbitrary: p)
  case (Cons x ps)
  then show ?case
    by (cases x) (auto simp: dispatch_all_def dispatch_def enqueue_def packet_tasks_def split: option.splits)
qed (simp add: dispatch_all_def packet_tasks_def)

lemma dispatch_all_append: "dispatch_all E r (ps @ qs) p = dispatch_all E r qs (dispatch_all E r ps p)"
  by (simp add: dispatch_all_def)

definition set_buffer :: "sess_ref \<Rightarrow> string \<Rightarrow> server \<Rightarrow> server" where
  "set_buffer r b sv = sv\<lparr>wld := (wld sv)\<lparr>sm := upd_session r (\<lambda>s. s\<lparr>readBuffer := b\<rparr>) (sm (wld sv))\<rparr>\<rparr>"

lemma receive_bytes_waiting:
  assumes "getSession (sm (wld sv)) fd = Some r" "readBuffer (heap (sm (wld sv)) r) @ chunk = done @ rest"
    and "processBuffer (readBuffer (heap (sm (wld sv)) r) @ chunk) = (ps, Waiting rest)"
  shows "receive_bytes E fd chunk sv = deliver E r ps (set_buffer r rest sv)"
  using assms onReceiveData_waiting [OF assms(3,2)]
  by (simp add: receive_bytes_def dispatch_all_tasks deliver_def set_buffer_def upd_session_def)

lemma deliver_simps [simp]: "getSession (sm (wld (deliver E r ps (set_buffer r b sv)))) fd = getSession (sm (wld sv)) fd"
    "readBuffer (heap (sm (wld (deliver E r ps (set_buffer r b sv)))) r) = b"
    "deliver E r qs (set_buffer r c (deliver E r ps (set_buffer r b sv))) = deliver E r (ps @ qs) (set_buffer r c sv)"
  by (simp_all add: deliver_def set_buffer_def upd_session_def getSession_def packet_tasks_def)

lemma set_buffer_same: "readBuffer (heap (sm (wld sv)) r) = b \<Longrightarrow> set_buffer r b sv = sv"
  by (cases sv) (auto simp: set_buffer_def upd_session_def)

lemma read_stream:
  assumes "getSession (sm (wld sv)) fd = Some r" "list_all packet_ok ps"
    and "readBuffer (heap (sm (wld sv)) r) @ concat chunks = framer.stream ps"
    and "processBuffer (readBuffer (heap (sm (wld sv)) r)) = ([], Waiting (readBuffer (heap (sm (wld sv)) r)))"
  shows "readFromClient E fd (map ReadBytes chunks) sv = deliver E r ps (set_buffer r [] sv)"
  using assms
proof (induction chunks arbitrary: sv ps)
  case Nil
  then have "ps = [] \<and> readBuffer (heap (sm (wld sv)) r) = []"
    using framer.incomplete_is_nil [OF Nil.prems(2)] by simp
  then show ?case by (simp add: set_buffer_same) (simp add: deliver_def packet_tasks_def)
next
  case (Cons chunk chunks)
  let ?b = "readBuffer (heap (sm (wld sv)) r)"
  from Cons.prems have "framer.stream ps = (?b @ chunk) @ concat chunks" by simp
  from framer.process_prefix [OF Cons.prems(2) this] obtain qs rs rest where
    q: "ps = qs @ rs" "processBuffer (?b @ chunk) = (qs, Waiting rest)" "?b @ chunk = framer.stream qs @ rest"
      "framer.stream rs = rest @ concat chunks" "processBuffer rest = ([], Waiting rest)"
    by blast
  let ?sv = "deliver E r qs (set_buffer r rest sv)"
  have "readFromClient E fd (map ReadBytes chunks) ?sv = deliver E r rs (set_buffer r [] ?sv)"
    using Cons.prems(1,2) q by (intro Cons.IH) simp_all
  then show ?case using receive_bytes_waiting [OF Cons.prems(1) q(3,2), of E] q(1) by simp
qed

text \<open>
  C7: the receive path refines a machine that gets whole packets: reading a stream of packets from a connected
  client, in pieces of any size, adds exactly the tasks of the packets with a known command to the queue, in order, and changes
  nothing else of the server.
\<close>

theorem reads_refine_packets:
  assumes "getSession (sm (wld sv)) fd = Some r" "readBuffer (heap (sm (wld sv)) r) = []"
    and "list_all packet_ok ps" "concat chunks = concat (map packet_enc ps)"
  shows "readFromClient E fd (map ReadBytes chunks) sv = deliver E r ps sv"
  using read_stream [OF assms(1,3), of chunks E] assms(2,4) by (simp add: processBuffer_short set_buffer_same)

theorem reads_refine_packets_witness:
  "readFromClient sample_env 4 (map ReadBytes sample_reads) \<lparr>wld = sample_world 1, tp = new_ThreadPool 1\<rparr> =
   deliver sample_env 0 sample_packets \<lparr>wld = sample_world 1, tp = new_ThreadPool 1\<rparr>"
proof (rule reads_refine_packets)
  show "list_all packet_ok sample_packets" by (simp add: sample_packets_def packet_ok_def)
  show "concat sample_reads = concat (map packet_enc sample_packets)"
    by (simp add: sample_reads_def Let_def del: drop_drop)
qed (simp_all add: getSession_def registerUser_def upd_session_def createSession_def init_SessionManager_def
  authenticate_def new_ClientSession_def)

section \<open>The port\<close>

text \<open>
  The port is always an unprivileged one; a number in the range 1024 to 65535 on the command line is taken as it
  is, and everything else gives 8000.
\<close>

theorem port_in_range:
  "1024 \<le> parse_port arg \<and> parse_port arg \<le> 65535 \<and>
   (\<forall>n. - (2 ^ 31) \<le> n \<and> n < 2 ^ 31 \<longrightarrow>
      parse_port (Some (to_string n)) = (if 1024 \<le> n \<and> n \<le> 65535 then n else 8000))"
  using stoi_to_string by (auto simp: parse_port_def split: option.splits)

theorem port_in_range_witness:
  "parse_port (Some (to_string 9090)) = 9090 \<and> parse_port (Some (to_string 80)) = 8000"
  using port_in_range [of None] by simp

section \<open>Starting\<close>

definition only_sql :: "'a io \<Rightarrow> bool" where
  "only_sql m \<longleftrightarrow> (\<forall>w e w'. m w = (Inl e, w') \<longrightarrow> is_sql e \<or> e = Blocked)"

named_theorems sql_rules

lemma only_sql_basic [sql_rules]: "only_sql (retE x)" "only_sql (executeQuery E c q)"
  by (auto simp: only_sql_def retE_def executeQuery_def db_call_def split: if_splits)

lemma only_sql_bind [sql_rules]: "only_sql m \<Longrightarrow> (\<And>x. only_sql (f x)) \<Longrightarrow> only_sql (bindE m f)"
  unfolding only_sql_def bindE_def by (auto split: sum.splits prod.splits)

lemma only_sql_catch [sql_rules]: "only_sql m \<Longrightarrow> only_sql h \<Longrightarrow> only_sql (catch_sql m h)"
  unfolding only_sql_def catch_sql_def catchE_def throwE_def by (auto split: sum.splits prod.splits if_splits)

lemma only_sql_connection [sql_rules]: "(\<And>c. only_sql (f c)) \<Longrightarrow> only_sql (getConnection E f)"
  unfolding only_sql_def getConnection_def by (auto split: option.splits prod.splits)

lemma only_sql_branch [sql_rules]: "only_sql m \<Longrightarrow> (\<And>x. only_sql (f x)) \<Longrightarrow> only_sql (case r of None \<Rightarrow> m | Some x \<Rightarrow> f x)"
    "(\<And>x y. only_sql (g x y)) \<Longrightarrow> only_sql (case p of (x, y) \<Rightarrow> g x y)"
  by (simp_all split: option.splits prod.splits)

lemma only_sql_map [sql_rules]: "(\<And>x. only_sql (f x)) \<Longrightarrow> only_sql (mapE f xs)"
  by (induction xs) (auto intro!: sql_rules)

lemma only_sql_collect [sql_rules]: "(\<And>x. only_sql (f x)) \<Longrightarrow> only_sql (collect f xs)"
  by (induction xs) (auto intro!: sql_rules)









section \<open>Tasks finish\<close>















end
