(* ===== verification/Spec2Isabelle.thy ===== *)
theory Spec2Isabelle
  imports NetworkLaws JsonLaws UserLaws OrderLaws AddressLaws StoreLaws ChatLaws ServerLaws
begin

text \<open>
  \<^bold>\<open>A model of the Its Bedalyo food-delivery server.\<close>

  The program is a TCP server (\<^verbatim>\<open>src/server\<close>) for customers, store owners, riders and administrators.  Its parts:
  an event loop (\<^verbatim>\<open>network/ItsServer\<close>) accepts connections and reads bytes; \<^verbatim>\<open>network/PacketFramer\<close> cuts the byte
  stream of a session into packets; \<^verbatim>\<open>handler/Dispatcher\<close> makes a task of each packet for the workers of
  \<^verbatim>\<open>thread/ThreadPool\<close>; a task runs one handler of \<^verbatim>\<open>handler/\<close>, which parses the JSON body into a DTO of \<^verbatim>\<open>src/dto\<close>,
  works on the MariaDB database through the DAOs of \<^verbatim>\<open>database/\<close> with a connection of the pool \<^verbatim>\<open>database/DbManager\<close>, and
  sends packets to sessions found in \<^verbatim>\<open>session/SessionManager\<close> or to the members of a room of
  \<^verbatim>\<open>session/ChatRoomManager\<close>.

  \<^bold>\<open>Theories and sources.\<close>
  \<^item> \<open>Prelude\<close>: bytes, machine integers, \<^verbatim>\<open>std::to_string\<close> and \<^verbatim>\<open>std::stoi\<close>, association lists as \<^verbatim>\<open>std::unordered_map\<close>.
  \<^item> \<open>Protocol\<close> (\<^verbatim>\<open>include/Global_protocol.h\<close>), \<open>ClientSession\<close>, \<open>PacketFramer\<close>: header layout, byte order, the parser loop
    at 32 bits, the write loop.
  \<^item> \<open>Registry\<close>: the contract of keyed tables, a locale, interpreted by \<open>SessionManager\<close> and \<open>ChatRoomManager\<close>.
  \<^item> \<open>Fifo\<close>: the contract of queues, a locale, with \<^verbatim>\<open>thread/SafeQueue.h\<close>; interpreted there, by \<open>ThreadPool\<close> (task queue) and by
    \<open>World\<close> (connection queue).  \<open>ThreadPool\<close>: workers and shutdown as a step relation.  \<open>Pool\<close>: several workers that take and
    return connections.
  \<^item> The JSON library, \<^verbatim>\<open>include/json.hpp\<close>, as far as the program uses it.  \<open>Json\<close>: values, accessors, conversions.
    \<open>JsonObject\<close>: objects as maps in the order of their keys.  \<open>Binary64\<close>: doubles and \<^verbatim>\<open>strtod\<close>.  \<open>JsonLexer\<close>: \<^verbatim>\<open>lexer::scan\<close> and its
    parts.  \<open>JsonParser\<close>: \<^verbatim>\<open>sax_parse_internal\<close> with the events of \<^verbatim>\<open>json_sax_dom_parser\<close>.  \<open>Grisu\<close>: \<^verbatim>\<open>dtoa_impl\<close> on 64-bit words.
    \<open>JsonDump\<close>: \<^verbatim>\<open>serializer::dump\<close> with its UTF-8 automaton and its buffers.
  \<^item> \<open>Utf8\<close>, \<open>BinaryRounding\<close>, \<open>GrisuDigits\<close>, \<open>GrisuBounds\<close>, \<open>GrisuPowers\<close>, \<open>GrisuCorrect\<close>, \<open>NumberText\<close>, \<open>JsonRoundtrip\<close>: the proofs about the library:
    both UTF-8 checkers agree; rounding to nearest; the digits, boundaries and powers of ten of Grisu2; texts of
    numbers; texts of values.  \<open>Codecs\<close>: the contract of a message type, a locale, interpreted by every struct that a handler reads or
    sends.
  \<^item> \<open>Dto_Account\<close>, \<open>Dto_Order\<close>, \<open>Dto_Chat\<close>, \<open>Dto_Store\<close>, \<open>Dto_Misc\<close>: every struct of
    \<^verbatim>\<open>src/dto\<close> as a record with its default and both conversions; \<open>Messages\<close>: the texts of replies, as UTF-8 bytes.
  \<^item> \<open>Tables\<close>: the rows of \<^verbatim>\<open>mariadb.txt\<close> that a statement mentions.  A statement is a function on \<open>tables\<close>; an update returns
    the count of matched rows, or nothing when a key forbids it.
  \<^item> \<open>World\<close>: the state of a handler (committed data, connections with their transactions, pool, session table, rooms, packets
    sent, number of database calls made) and its effects, as a state monad with exceptions.
  \<^item> \<open>UserDAO\<close>, \<open>UserHandler\<close>, \<open>OrderDAO\<close>, \<open>OrderHandler\<close>, \<open>RiderHandler\<close>, \<open>StoreDAO\<close>, \<open>MenuDAO\<close>, \<open>StoreHandler\<close> (with
    \<^verbatim>\<open>MenuHandler\<close>), \<open>ReviewHandler\<close>, \<open>AddressHandler\<close>, \<open>SearchHandler\<close>, \<open>ChatHandler\<close> (with \<^verbatim>\<open>AdminHandler\<close>), \<open>HomeHandlers\<close>
    (\<^verbatim>\<open>CategoryHandler\<close>, \<^verbatim>\<open>SystemHandler\<close>, \<^verbatim>\<open>SalesHandler\<close>): one definition per DAO function and per handler, under its name.
  \<^item> \<open>Dispatcher\<close>, \<open>Server\<close>: the handler table, \<^verbatim>\<open>dispatch\<close>, the event loop, start-up, and the interleaving of the loop with the
    workers as a step relation.
  \<^item> \<open>Frames\<close>, \<open>HandlerFrames\<close>, \<open>Waiting\<close>, \<open>Transactions\<close>, \<open>Texts\<close>, \<open>Smooth\<close>, \<open>Sample\<close>: the proof library.  What an action and
    what each handler leaves alone; how many connections each handler needs; Hoare rules for code that may fail at any database
    call; texts of the program that are UTF-8; runs without failures; concrete data for the witnesses.

  \<^bold>\<open>What is shown.\<close>
  \<^item> \<open>NetworkLaws\<close>: the packets delivered do not depend on how the stream is cut into reads; a packet that is built is parsed back;
    what happens on a wrong signature, on a size that wraps, and when a write stops early; session table, broadcasts and rooms;
    tasks run once and in order, and all of them before shutdown; how many connections let all handlers finish, and how
    two handlers with one connection each wait for ever.
  \<^item> \<open>JsonLaws\<close>: dumping and parsing are inverse for all values of 64-bit integers, doubles and UTF-8 strings; parsed values are
    well-formed; when each direction throws; Grisu2's text of a double is read back as that double; the serializer accepts the
    strings that the lexer can produce, and stays within its buffer; an order sent by a client arrives unchanged.
  \<^item> \<open>UserLaws\<close>: signing up and changing the grade are all or nothing for every schedule of database failures, keys stay unique, login
    registers a session only for matching credentials, and a new account can log in.
  \<^item> \<open>OrderLaws\<close>: accepting and creating an order are all or nothing, an order is accepted from status 0 only, what the other
    handlers do to the status, delivery time and fees.
  \<^item> \<open>StoreLaws\<close>: a change an owner makes touches one store only; hiding the search history.  \<open>ChatLaws\<close>: a chat from its
    acceptance to its end.
  \<^item> \<open>ServerLaws\<close>: an invariant of all reachable states of the running server; the receive path refines the delivery of whole
    packets; with two or more workers the server starts and a handler that runs without interference comes to its end; the
    port.
  \<^item> \<open>AddressLaws\<close>: at most one default address per user, saving is all or nothing, a default address is never deleted.

  \<^bold>\<open>Parameters.\<close>  What is not code of the repository is the record \<open>env\<close>, an argument of all actions: which database calls fail (by their number), which pooled connections have died, the collation and \<^verbatim>\<open>LIKE\<close> of the
  server, the clock, \<^verbatim>\<open>rand()\<close>, and the value of an \<^verbatim>\<open>int\<close> that is never assigned.  Theorems about failures hold for every
  such record; those about runs without failures assume \<open>smooth\<close>.  All loops of the program that the model
  has are recursions with a termination proof, but one: the loop of Grisu2 over the digits of a fraction has a bound of 20
  rounds, and \<open>fraction_digits_spec\<close> shows that it always ends within them.

  \<^bold>\<open>Simplifications.\<close>  A double is the rational number it stands for: the two zeros are one number, so \<^verbatim>\<open>-0.0\<close> is written without a
  sign.  An exception of the JSON library is its number; its text, which names the place in the input, is left out and a parameter where
  the program sends it.  Preparing and executing a statement is one call, and a call that fails has had no effect.  Rows
  come in storage order where a query does not order them.  A handler runs as one step; waiting for a connection for ever is the
  result \<open>Blocked\<close>, and \<open>Pool\<close> treats the interleaving of workers at their connections.

  \<^bold>\<open>Not modelled.\<close>  Console output (\<^verbatim>\<open>util/Logger.h\<close>); socket options and epoll registration; the parts of the JSON library
  that the program does not use (other input formats, pointers, patches, iterators); the MariaDB connector, a third-party
  library; \<^verbatim>\<open>UserDAO::checkLogin\<close>, which nothing calls; \<^verbatim>\<open>service/OrderService\<close>, which is empty; the build outputs.
\<close>

end
